(* ===== verification/JsPrelude.thy ===== *)
theory JsPrelude
  imports Main "HOL-Library.AList"
begin

text \<open>
  What every component of the model shares: strings as sequences of UTF-16 code units, the
  slicing operations of JavaScript arrays, and the two interfaces the components are clients
  of. \<open>bounded_log\<close> is the contract of a log that keeps only its newest entries (the event
  store, the breadcrumb trail, the import log); \<open>ordered_map\<close> is the contract of the
  insertion-ordered \<^verbatim>\<open>Map\<close> of JavaScript, and \<open>keyed_fold\<close> that of a loop which groups a
  stream of events in such a map.
\<close>

section \<open>Strings\<close>

text \<open>
  A JavaScript string is a sequence of 16-bit code units; it is a list of natural numbers
  here. \<open>str\<close> turns an ASCII literal into one; text outside ASCII is written as its code
  units.
\<close>

type_synonym ustr = "nat list"

definition str :: "string \<Rightarrow> ustr" where
  "str s = map of_char s"

lemma str_Nil [simp]: "str [] = []"
  by (simp add: str_def)

lemma str_eq_Nil [simp]: "str s = [] \<longleftrightarrow> s = []" "[] = str s \<longleftrightarrow> s = []"
  by (auto simp: str_def)

lemma str_inject [simp]: "str s = str t \<longleftrightarrow> s = t"
  unfolding str_def by (rule inj_map_eq_map) (simp add: inj_def)

lemma str_append: "str (s @ t) = str s @ str t"
  by (simp add: str_def)

lemma length_str [simp]: "length (str s) = length s"
  by (simp add: str_def)

section \<open>Array slicing\<close>

text \<open>
  \<^verbatim>\<open>xs.slice(s)\<close> with a possibly negative start and \<^verbatim>\<open>xs.slice(0, e)\<close> with a
  non-negative end.
\<close>

definition slice_from :: "int \<Rightarrow> 'a list \<Rightarrow> 'a list" where
  "slice_from s xs =
     (let n = int (length xs);
          k = (if s < 0 then max (n + s) 0 else min s n)
      in drop (nat k) xs)"

definition take_last :: "nat \<Rightarrow> 'a list \<Rightarrow> 'a list" where
  "take_last n xs = drop (length xs - n) xs"

lemma slice_from_neg: "0 < n \<Longrightarrow> slice_from (- int n) xs = take_last n xs"
  by (simp add: slice_from_def take_last_def Let_def nat_diff_distrib' max_def)

lemma slice_from_zero [simp]: "slice_from 0 xs = xs"
  by (simp add: slice_from_def)

lemma length_take_last [simp]: "length (take_last n xs) = min n (length xs)"
  by (simp add: take_last_def)

lemma take_last_all [simp]: "length xs \<le> n \<Longrightarrow> take_last n xs = xs"
  by (simp add: take_last_def)

lemma take_last_append_take_last:
  "take_last n (take_last n xs @ ys) = take_last n (xs @ ys)"
  by (cases "n \<le> length xs") (simp_all add: take_last_def drop_append add.commute)

lemma take_last_snoc: "0 < n \<Longrightarrow> take_last n (xs @ [x]) = take_last (n - 1) xs @ [x]"
  by (cases n) (simp_all add: take_last_def)

lemma rev_take_last: "rev (take_last n xs) = take n (rev xs)"
  by (cases "n \<le> length xs") (simp_all add: take_last_def rev_drop)

lemma take_last_suffix: "\<exists>ys. xs = ys @ take_last n xs"
  by (metis append_take_drop_id take_last_def)

lemma set_take_last: "set (take_last n xs) \<subseteq> set xs"
  by (simp add: take_last_def set_drop_subset)

section \<open>The contract of a bounded log\<close>

text \<open>
  A store \<open>'s\<close> whose entries are the newest \<open>cap\<close> of everything pushed to it. \<open>live\<close> is
  the condition under which a push is recorded at all (the breadcrumb trail can be switched
  off).
\<close>

locale bounded_log =
  fixes push :: "'a \<Rightarrow> 's \<Rightarrow> 's"
    and entries :: "'s \<Rightarrow> 'a list"
    and cap :: "'s \<Rightarrow> nat"
    and live :: "'s \<Rightarrow> bool"
  assumes entries_push: "live s \<Longrightarrow> entries (push x s) = take_last (cap s) (entries s @ [x])"
    and entries_dead: "\<not> live s \<Longrightarrow> entries (push x s) = entries s"
    and cap_push: "cap (push x s) = cap s"
    and live_push: "live (push x s) = live s"
begin

lemma cap_fold: "cap (fold push xs s) = cap s"
  by (induction xs arbitrary: s) (simp_all add: cap_push)

lemma live_fold: "live (fold push xs s) = live s"
  by (induction xs arbitrary: s) (simp_all add: live_push)

lemma entries_fold:
  "live s \<Longrightarrow> length (entries s) \<le> cap s \<Longrightarrow>
     entries (fold push xs s) = take_last (cap s) (entries s @ xs)"
proof (induction xs arbitrary: s)
  case Nil
  then show ?case by simp
next
  case (Cons x xs)
  have "entries (fold push xs (push x s)) = take_last (cap s) (entries (push x s) @ xs)"
    using Cons.prems by (subst Cons.IH) (simp_all add: entries_push cap_push live_push)
  also have "\<dots> = take_last (cap s) (entries s @ x # xs)"
    using Cons.prems(1) by (simp add: entries_push take_last_append_take_last)
  finally show ?case by simp
qed

lemma entries_fold_dead: "\<not> live s \<Longrightarrow> entries (fold push xs s) = entries s"
  by (induction xs arbitrary: s) (simp_all add: entries_dead live_push)

lemma length_bound:
  "length (entries s) \<le> cap s \<Longrightarrow> length (entries (fold push xs s)) \<le> cap s"
  by (cases "live s") (simp_all add: entries_fold entries_fold_dead)

end

section \<open>The contract of an insertion-ordered map\<close>

locale ordered_map =
  fixes empty :: 'm
    and get :: "'m \<Rightarrow> 'k \<Rightarrow> 'v option"
    and put :: "'k \<Rightarrow> 'v \<Rightarrow> 'm \<Rightarrow> 'm"
    and keys :: "'m \<Rightarrow> 'k list"
  assumes get_empty: "get empty k = None"
    and get_put: "get (put k v m) k' = (if k' = k then Some v else get m k')"
    and put_same: "get m k = Some v \<Longrightarrow> put k v m = m"
    and keys_empty: "keys empty = []"
    and keys_put: "keys (put k v m) = (if get m k = None then keys m @ [k] else keys m)"
    and keys_get: "k \<in> set (keys m) \<longleftrightarrow> get m k \<noteq> None"
begin

lemma distinct_put: "distinct (keys m) \<Longrightarrow> distinct (keys (put k v m))"
  by (auto simp: keys_put keys_get)

end

text \<open>The first occurrences of the keys of a stream, in order.\<close>

fun first_keys :: "'k list \<Rightarrow> 'k list \<Rightarrow> 'k list" where
  "first_keys seen [] = seen"
| "first_keys seen (k # ks) =
     (if k \<in> set seen then first_keys seen ks else first_keys (seen @ [k]) ks)"

lemma set_first_keys: "set (first_keys seen ks) = set seen \<union> set ks"
  by (induction seen ks rule: first_keys.induct) auto

lemma distinct_first_keys: "distinct seen \<Longrightarrow> distinct (first_keys seen ks)"
  by (induction seen ks rule: first_keys.induct) auto

text \<open>
  A loop over a stream of events that looks a key up, computes a new value from the old one
  and the event, and stores it: every event either has no key and is skipped, or updates the
  entry of its key only.
\<close>

locale keyed_fold = ordered_map empty get put keys
  for empty :: 'm
    and get :: "'m \<Rightarrow> 'k \<Rightarrow> 'v option"
    and put :: "'k \<Rightarrow> 'v \<Rightarrow> 'm \<Rightarrow> 'm"
    and keys :: "'m \<Rightarrow> 'k list" +
  fixes step :: "'e \<Rightarrow> 'm \<Rightarrow> 'm"
    and key :: "'e \<Rightarrow> 'k option"
    and upd :: "'v option \<Rightarrow> 'e \<Rightarrow> 'v"
  assumes step_skip: "key e = None \<Longrightarrow> step e m = m"
    and step_key: "key e = Some k \<Longrightarrow> step e m = put k (upd (get m k) e) m"
begin

lemma get_step:
  "get (step e m) k = (if key e = Some k then Some (upd (get m k) e) else get m k)"
  by (cases "key e") (auto simp: step_skip step_key get_put)

lemma keys_step:
  "keys (step e m) = first_keys (keys m) (case key e of None \<Rightarrow> [] | Some k \<Rightarrow> [k])"
  by (cases "key e") (auto simp: step_skip step_key keys_put keys_get)

lemma get_fold_from:
  "get (fold step es m) k =
     fold (\<lambda>e v. Some (upd v e)) (filter (\<lambda>e. key e = Some k) es) (get m k)"
  by (induction es arbitrary: m) (simp_all add: get_step)

lemma first_keys_append: "first_keys (first_keys seen xs) ys = first_keys seen (xs @ ys)"
  by (induction seen xs rule: first_keys.induct) simp_all

lemma keys_fold_from: "keys (fold step es m) = first_keys (keys m) (List.map_filter key es)"
proof (induction es arbitrary: m)
  case Nil
  then show ?case by simp
next
  case (Cons e es)
  then show ?case
    by (cases "key e") (simp_all add: keys_step first_keys_append [symmetric] map_filter_simps)
qed

text \<open>The two facts the clients use: what a key ends up with, and the order of the keys.\<close>

lemma get_fold:
  "get (fold step es empty) k =
     fold (\<lambda>e v. Some (upd v e)) (filter (\<lambda>e. key e = Some k) es) None"
  by (simp add: get_fold_from get_empty)

lemma keys_fold: "keys (fold step es empty) = first_keys [] (List.map_filter key es)"
  by (simp add: keys_fold_from keys_empty)

lemma distinct_keys_fold: "distinct (keys (fold step es empty))"
  by (simp add: keys_fold distinct_first_keys)

lemma key_present: "k \<in> set (keys (fold step es empty)) \<longleftrightarrow> (\<exists>e \<in> set es. key e = Some k)"
  by (force simp: keys_fold set_first_keys map_filter_def image_iff)

end

section \<open>Association lists implement the map\<close>

text \<open>
  \<^verbatim>\<open>Map.prototype.set\<close> overwrites the value of a present key in place and appends an absent
  one, which is what \<open>AList.update\<close> does.
\<close>

lemma alist_update_same: "map_of m k = Some v \<Longrightarrow> AList.update k v m = m"
  by (induction m) (auto split: if_splits)

lemma alist_keys_update:
  "map fst (AList.update k v m) =
     (if map_of m k = None then map fst m @ [k] else map fst m)"
  by (induction m) (auto split: if_splits)

lemma map_snd_map_of:
  "distinct (map fst m) \<Longrightarrow> map snd m = map (\<lambda>k. the (map_of m k)) (map fst m)"
proof (induction m)
  case Nil
  then show ?case by simp
next
  case (Cons p m)
  then have "map snd m = map (\<lambda>k. the (map_of m k)) (map fst m)" by simp
  also have "\<dots> = map (\<lambda>k. the (map_of (p # m) k)) (map fst m)"
    using Cons.prems by (intro map_cong) (auto simp: image_iff)
  finally show ?case by (cases p) simp
qed

interpretation alist: ordered_map "[]" map_of AList.update "map fst"
  by unfold_locales
    (auto simp: AList.update_conv' alist_update_same alist_keys_update map_of_eq_None_iff)

section \<open>The contract of a batching reporter\<close>

text \<open>
  A reporter queues what it is given, arms a timer when something is queued, and hands the whole
  queue over as one batch when the timer fires or a flush is forced. \<open>make\<close> is the report built
  from an input in a state, \<open>accepts\<close> says whether inputs are taken at all, and \<open>other\<close> are the
  operations that touch neither the queue nor the timer.
\<close>

datatype ('i, 'o) action = Submit 'i | Fire | Force | Other 'o

text \<open>
  A run over a sequence of actions returns the final state and the batches handed over, oldest
  first. A timer that is not armed does not fire.
\<close>

fun run_batches ::
  "('i \<Rightarrow> 's \<Rightarrow> 's) \<Rightarrow> ('s \<Rightarrow> 's \<times> 'r list) \<Rightarrow> ('s \<Rightarrow> 's \<times> 'r list) \<Rightarrow> ('o \<Rightarrow> 's \<Rightarrow> 's) \<Rightarrow>
   ('s \<Rightarrow> bool) \<Rightarrow> ('i, 'o) action list \<Rightarrow> 's \<Rightarrow> 's \<times> 'r list list"
where
  "run_batches submit fire force other armed [] s = (s, [])"
| "run_batches submit fire force other armed (a # as) s =
     (let (s1, b) = (case a of
              Submit i \<Rightarrow> (submit i s, [])
            | Fire \<Rightarrow> if armed s then fire s else (s, [])
            | Force \<Rightarrow> force s
            | Other x \<Rightarrow> (other x s, []));
          (s2, bs) = run_batches submit fire force other armed as s1
      in (s2, if b = [] then bs else b # bs))"

text \<open>The reports accepted in the course of such a run.\<close>

fun run_submitted ::
  "('s \<Rightarrow> bool) \<Rightarrow> ('s \<Rightarrow> 'i \<Rightarrow> 'r) \<Rightarrow> ('i \<Rightarrow> 's \<Rightarrow> 's) \<Rightarrow> ('s \<Rightarrow> 's \<times> 'r list) \<Rightarrow>
   ('s \<Rightarrow> 's \<times> 'r list) \<Rightarrow> ('o \<Rightarrow> 's \<Rightarrow> 's) \<Rightarrow> ('s \<Rightarrow> bool) \<Rightarrow> ('i, 'o) action list \<Rightarrow> 's \<Rightarrow> 'r list"
where
  "run_submitted accepts make submit fire force other armed [] s = []"
| "run_submitted accepts make submit fire force other armed (a # as) s =
     (case a of
        Submit i \<Rightarrow> (if accepts s then [make s i] else []) @
          run_submitted accepts make submit fire force other armed as (submit i s)
      | Fire \<Rightarrow> run_submitted accepts make submit fire force other armed as
          (if armed s then fst (fire s) else s)
      | Force \<Rightarrow> run_submitted accepts make submit fire force other armed as (fst (force s))
      | Other x \<Rightarrow> run_submitted accepts make submit fire force other armed as (other x s))"

locale batch_reporter =
  fixes pending :: "'s \<Rightarrow> 'r list"
    and armed :: "'s \<Rightarrow> bool"
    and accepts :: "'s \<Rightarrow> bool"
    and make :: "'s \<Rightarrow> 'i \<Rightarrow> 'r"
    and submit :: "'i \<Rightarrow> 's \<Rightarrow> 's"
    and fire :: "'s \<Rightarrow> 's \<times> 'r list"
    and force :: "'s \<Rightarrow> 's \<times> 'r list"
    and other :: "'o \<Rightarrow> 's \<Rightarrow> 's"
  assumes pending_submit:
      "pending (submit i s) = pending s @ (if accepts s then [make s i] else [])"
    and armed_submit: "armed (submit i s) \<longleftrightarrow> armed s \<or> accepts s"
    and fire_batch: "snd (fire s) = pending s" and fire_pending: "pending (fst (fire s)) = []"
    and fire_armed: "\<not> armed (fst (fire s))"
    and force_batch: "snd (force s) = pending s" and force_pending: "pending (fst (force s)) = []"
    and force_armed: "\<not> armed (fst (force s))"
    and other_pending: "pending (other x s) = pending s" and other_armed: "armed (other x s) = armed s"
begin

text \<open>Nothing is lost, repeated or reordered.\<close>

lemma run_delivers:
  "run_batches submit fire force other armed as s = (s', bs) \<Longrightarrow>
     concat bs @ pending s' =
       pending s @ run_submitted accepts make submit fire force other armed as s"
proof (induction as arbitrary: s bs)
  case Nil
  then show ?case by simp
next
  case (Cons a as)
  then show ?case
    by (cases a)
      (force simp: pending_submit fire_batch fire_pending force_batch force_pending other_pending
        split_beta Let_def split: if_splits)+
qed

text \<open>A queued report is never stranded without a timer to send it.\<close>

lemma run_armed:
  "(pending s \<noteq> [] \<Longrightarrow> armed s) \<Longrightarrow> run_batches submit fire force other armed as s = (s', bs) \<Longrightarrow>
     pending s' \<noteq> [] \<Longrightarrow> armed s'"
proof (induction as arbitrary: s bs)
  case Nil
  then show ?case by simp
next
  case (Cons a as)
  obtain s1 b where s1: "(case a of Submit i \<Rightarrow> (submit i s, [])
      | Fire \<Rightarrow> if armed s then fire s else (s, []) | Force \<Rightarrow> force s
      | Other x \<Rightarrow> (other x s, [])) = (s1, b)" by fastforce
  then have s1': "s1 = (case a of Submit i \<Rightarrow> submit i s
      | Fire \<Rightarrow> if armed s then fst (fire s) else s | Force \<Rightarrow> fst (force s)
      | Other x \<Rightarrow> other x s)" by (cases a) (auto split: if_splits)
  have inv: "pending s1 \<noteq> [] \<Longrightarrow> armed s1"
    using Cons.prems(1)
    by (cases a) (auto simp: s1' pending_submit armed_submit fire_pending force_pending
        other_pending other_armed split: if_splits)
  obtain bs1 where "run_batches submit fire force other armed as s1 = (s', bs1)"
    using Cons.prems(2) s1 by (cases "run_batches submit fire force other armed as s1")
      (auto simp: Let_def)
  with Cons.IH inv Cons.prems(3) show ?case by blast
qed

end

end
