(* ===== verification/JsValues.thy ===== *)
theory JsValues
  imports Complex_Main JsPrelude
begin

text \<open>
  The dynamically typed values the program receives from JSON payloads and the conversions it
  applies to them: \<^verbatim>\<open>Number(v)\<close>, \<^verbatim>\<open>String(v)\<close>, \<^verbatim>\<open>v ?? d\<close>, truthiness, property access
  and sorting with a numeric comparator. Numbers are exact rationals with \<^verbatim>\<open>NaN\<close> and the two
  infinities: rounding to 53 bits is not modelled, which is exact for the integers below
  \<open>2 ^ 53\<close> that identifiers, counters and timestamps are. A number of magnitude \<open>10 ^ 21\<close> or
  more prints without the exponent JavaScript would use. Case folding and trimming treat the
  letters of ASCII and all the white space of the language.
\<close>

section \<open>Numbers\<close>

datatype jsnum = Fin rat | PInf | NInf | NaN

abbreviation jsint :: "int \<Rightarrow> jsnum" where
  "jsint i \<equiv> Fin (of_int i)"

fun num_sub :: "jsnum \<Rightarrow> jsnum \<Rightarrow> jsnum" where
  "num_sub (Fin a) (Fin b) = Fin (a - b)"
| "num_sub NaN _ = NaN"
| "num_sub _ NaN = NaN"
| "num_sub PInf PInf = NaN"
| "num_sub NInf NInf = NaN"
| "num_sub PInf _ = PInf"
| "num_sub NInf _ = NInf"
| "num_sub _ PInf = NInf"
| "num_sub _ NInf = PInf"

fun num_lt :: "jsnum \<Rightarrow> jsnum \<Rightarrow> bool" where
  "num_lt (Fin a) (Fin b) = (a < b)"
| "num_lt NaN _ = False"
| "num_lt _ NaN = False"
| "num_lt PInf _ = False"
| "num_lt _ NInf = False"
| "num_lt NInf _ = True"
| "num_lt _ PInf = True"

abbreviation num_pos :: "jsnum \<Rightarrow> bool" where
  "num_pos n \<equiv> num_lt (Fin 0) n"

definition num_truthy :: "jsnum \<Rightarrow> bool" where
  "num_truthy n = (case n of Fin q \<Rightarrow> q \<noteq> 0 | NaN \<Rightarrow> False | _ \<Rightarrow> True)"

lemma num_truthy_simps [simp]:
  "num_truthy (Fin q) \<longleftrightarrow> q \<noteq> 0" "num_truthy PInf" "num_truthy NInf" "\<not> num_truthy NaN"
  by (simp_all add: num_truthy_def)

section \<open>Decimal digits\<close>

fun nat_str :: "nat \<Rightarrow> ustr" where
  "nat_str n = (if n < 10 then [48 + n] else nat_str (n div 10) @ [48 + n mod 10])"

declare nat_str.simps [simp del]

definition dec_value :: "ustr \<Rightarrow> nat" where
  "dec_value s = foldl (\<lambda>n c. 10 * n + (c - 48)) 0 s"

definition is_digit :: "nat \<Rightarrow> bool" where
  "is_digit c \<longleftrightarrow> 48 \<le> c \<and> c \<le> 57"

lemma dec_value_nat_str [simp]: "dec_value (nat_str n) = n"
proof (induction n rule: nat_str.induct)
  case (1 n)
  then show ?case
    by (subst nat_str.simps) (auto simp: dec_value_def)
qed

lemma nat_str_inject [simp]: "nat_str m = nat_str n \<longleftrightarrow> m = n"
  by (metis dec_value_nat_str)

lemma nat_str_digits: "c \<in> set (nat_str n) \<Longrightarrow> is_digit c"
proof (induction n arbitrary: c rule: nat_str.induct)
  case (1 n)
  show ?case
  proof (cases "n < 10")
    case True
    with "1.prems" show ?thesis by (subst (asm) nat_str.simps) (simp add: is_digit_def)
  next
    case False
    with "1.prems" have "c \<in> set (nat_str (n div 10)) \<or> c = 48 + n mod 10"
      by (subst (asm) nat_str.simps) auto
    moreover have "n mod 10 < 10" by simp
    ultimately show ?thesis using "1.IH" [OF False] by (auto simp: is_digit_def)
  qed
qed

lemma nat_str_nonempty [simp]: "nat_str n \<noteq> []"
  by (subst nat_str.simps) simp

definition int_str :: "int \<Rightarrow> ustr" where
  "int_str i = (if i < 0 then 45 # nat_str (nat (- i)) else nat_str (nat i))"

lemma int_str_of_nat [simp]: "int_str (int n) = nat_str n"
  by (simp add: int_str_def)

lemma int_str_inject [simp]: "int_str i = int_str j \<longleftrightarrow> i = j"
proof -
  have no_minus: "45 # xs \<noteq> nat_str n" for xs n
  proof
    assume "45 # xs = nat_str n"
    then have "is_digit 45" by (metis list.set_intros(1) nat_str_digits)
    then show False by (simp add: is_digit_def)
  qed
  then show ?thesis
    using no_minus [THEN not_sym] by (auto simp: int_str_def)
qed

fun frac_digits :: "nat \<Rightarrow> rat \<Rightarrow> ustr" where
  "frac_digits 0 q = []"
| "frac_digits (Suc n) q =
     (if q = 0 then []
      else (48 + nat \<lfloor>10 * q\<rfloor>) # frac_digits n (10 * q - of_int \<lfloor>10 * q\<rfloor>))"

definition num_str :: "jsnum \<Rightarrow> ustr" where
  "num_str n = (case n of
     NaN \<Rightarrow> str ''NaN''
   | PInf \<Rightarrow> str ''Infinity''
   | NInf \<Rightarrow> str ''-Infinity''
   | Fin q \<Rightarrow>
       if q = of_int \<lfloor>q\<rfloor> then int_str \<lfloor>q\<rfloor>
       else (if q < 0 then [45] else []) @ nat_str (nat \<lfloor>\<bar>q\<bar>\<rfloor>) @ [46]
              @ frac_digits 20 (\<bar>q\<bar> - of_int \<lfloor>\<bar>q\<bar>\<rfloor>))"

lemma num_str_int [simp]: "num_str (jsint i) = int_str i"
  by (simp add: num_str_def)

section \<open>White space, case folding, search\<close>

definition is_space :: "nat \<Rightarrow> bool" where
  "is_space c \<longleftrightarrow> (9 \<le> c \<and> c \<le> 13) \<or> c = 32 \<or> c = 160 \<or> c = 0x1680
     \<or> (0x2000 \<le> c \<and> c \<le> 0x200A) \<or> c = 0x2028 \<or> c = 0x2029 \<or> c = 0x202F
     \<or> c = 0x205F \<or> c = 0x3000 \<or> c = 0xFEFF"

definition trim :: "ustr \<Rightarrow> ustr" where
  "trim s = rev (dropWhile is_space (rev (dropWhile is_space s)))"

definition to_lower :: "ustr \<Rightarrow> ustr" where
  "to_lower s = map (\<lambda>c. if 65 \<le> c \<and> c \<le> 90 then c + 32 else c) s"

fun starts_with :: "ustr \<Rightarrow> ustr \<Rightarrow> bool" where
  "starts_with [] s = True"
| "starts_with (p # ps) [] = False"
| "starts_with (p # ps) (c # cs) = (p = c \<and> starts_with ps cs)"

fun str_includes :: "ustr \<Rightarrow> ustr \<Rightarrow> bool" where
  "str_includes p [] = (p = [])"
| "str_includes p (c # cs) = (starts_with p (c # cs) \<or> str_includes p cs)"

lemma starts_with_iff: "starts_with p s \<longleftrightarrow> (\<exists>r. s = p @ r)"
  by (induction p s rule: starts_with.induct) auto

lemma str_includes_iff: "str_includes p s \<longleftrightarrow> (\<exists>l r. s = l @ p @ r)"
proof (induction s)
  case Nil
  then show ?case by simp
next
  case (Cons c cs)
  have "(\<exists>l r. c # cs = l @ p @ r) \<longleftrightarrow> (\<exists>r. c # cs = p @ r) \<or> (\<exists>l r. cs = l @ p @ r)"
    by (auto simp: Cons_eq_append_conv)
  with Cons.IH show ?case by (simp add: starts_with_iff)
qed

lemma dropWhile_id: "(s = [] \<or> \<not> P (hd s)) \<Longrightarrow> dropWhile P s = s"
  by (cases s) auto

lemma trim_trim [simp]: "trim (trim s) = trim s"
proof -
  have inner: "dropWhile is_space (rev (dropWhile is_space (rev t))) =
      rev (dropWhile is_space (rev t))" if t: "t = dropWhile is_space s" for t
  proof (rule dropWhile_id)
    let ?u = "rev (dropWhile is_space (rev t))"
    have "\<exists>w. t = ?u @ w"
      by (metis rev_append rev_rev_ident takeWhile_dropWhile_id)
    then obtain w where w: "t = ?u @ w" ..
    show "?u = [] \<or> \<not> is_space (hd ?u)"
    proof (cases "?u = []")
      case False
      then have "hd ?u = hd t" "t \<noteq> []" using w by (metis hd_append2, auto)
      then show ?thesis using t hd_dropWhile [of is_space s] by metis
    qed simp
  qed
  show ?thesis by (simp add: trim_def inner)
qed

section \<open>Number of a string\<close>

text \<open>
  The grammar of a numeric string: optional white space around a hexadecimal, octal or binary
  literal, a signed decimal literal or a signed \<^verbatim>\<open>Infinity\<close>; the empty string is 0.
\<close>

definition exponent_of :: "ustr \<Rightarrow> int option" where
  "exponent_of s = (case s of
     [] \<Rightarrow> Some 0
   | c # r \<Rightarrow>
       if c = 101 \<or> c = 69 then
         (let sgn = (if starts_with (str ''-'') r then -1 else 1);
              ds = (if starts_with (str ''-'') r \<or> starts_with (str ''+'') r then tl r else r)
          in if ds \<noteq> [] \<and> list_all is_digit ds then Some (sgn * int (dec_value ds)) else None)
       else None)"

definition scale10 :: "rat \<Rightarrow> int \<Rightarrow> rat" where
  "scale10 q e = (if 0 \<le> e then q * 10 ^ nat e else q / 10 ^ nat (- e))"

definition unsigned_decimal :: "ustr \<Rightarrow> rat option" where
  "unsigned_decimal s =
     (let i = takeWhile is_digit s; r = dropWhile is_digit s;
          dot = starts_with (str ''.'') r;
          f = (if dot then takeWhile is_digit (tl r) else []);
          t = (if dot then dropWhile is_digit (tl r) else r)
      in if i = [] \<and> f = [] then None
         else map_option
                (\<lambda>e. scale10 (of_nat (dec_value i) + of_nat (dec_value f) / 10 ^ length f) e)
                (exponent_of t))"

definition digit_in :: "nat \<Rightarrow> nat \<Rightarrow> nat option" where
  "digit_in base c =
     (let d = (if is_digit c then c - 48
               else if 97 \<le> c \<and> c \<le> 122 then c - 87
               else if 65 \<le> c \<and> c \<le> 90 then c - 55 else base)
      in if d < base then Some d else None)"

definition radix_value :: "nat \<Rightarrow> ustr \<Rightarrow> nat option" where
  "radix_value base s =
     (if s = [] then None
      else foldl (\<lambda>acc c. case (acc, digit_in base c) of
                    (Some n, Some d) \<Rightarrow> Some (base * n + d) | _ \<Rightarrow> None) (Some 0) s)"

definition number_of_str :: "ustr \<Rightarrow> jsnum" where
  "number_of_str s =
     (let t = trim s;
          radix = (\<lambda>b ds. case radix_value b ds of Some n \<Rightarrow> Fin (of_nat n) | None \<Rightarrow> NaN);
          unsigned = (\<lambda>neg u.
             if u = str ''Infinity'' then (if neg then NInf else PInf)
             else case unsigned_decimal u of
                    Some q \<Rightarrow> Fin (if neg then - q else q) | None \<Rightarrow> NaN);
          prefixed = (\<lambda>p. starts_with (str p) t)
      in if t = [] then Fin 0
         else if prefixed ''0x'' \<or> prefixed ''0X'' then radix 16 (drop 2 t)
         else if prefixed ''0o'' \<or> prefixed ''0O'' then radix 8 (drop 2 t)
         else if prefixed ''0b'' \<or> prefixed ''0B'' then radix 2 (drop 2 t)
         else if prefixed ''-'' then unsigned True (tl t)
         else if prefixed ''+'' then unsigned False (tl t)
         else unsigned False t)"

section \<open>Values\<close>

datatype jsval =
    JUndef
  | JNull
  | JBool bool
  | JNum jsnum
  | JStr ustr
  | JArr "jsval list"
  | JObj "(ustr \<times> jsval) list"

fun join :: "ustr \<Rightarrow> ustr list \<Rightarrow> ustr" where
  "join sep [] = []"
| "join sep [s] = s"
| "join sep (s # t # ss) = s @ sep @ join sep (t # ss)"

fun to_str :: "jsval \<Rightarrow> ustr" where
  "to_str JUndef = str ''undefined''"
| "to_str JNull = str ''null''"
| "to_str (JBool b) = (if b then str ''true'' else str ''false'')"
| "to_str (JNum n) = num_str n"
| "to_str (JStr s) = s"
| "to_str (JArr vs) =
     join (str '','') (map (\<lambda>v. case v of JUndef \<Rightarrow> [] | JNull \<Rightarrow> [] | _ \<Rightarrow> to_str v) vs)"
| "to_str (JObj _) = str ''[object Object]''"

fun to_num :: "jsval \<Rightarrow> jsnum" where
  "to_num JUndef = NaN"
| "to_num JNull = Fin 0"
| "to_num (JBool b) = Fin (if b then 1 else 0)"
| "to_num (JNum n) = n"
| "to_num (JStr s) = number_of_str s"
| "to_num (JArr vs) = number_of_str (to_str (JArr vs))"
| "to_num (JObj _) = NaN"

definition truthy :: "jsval \<Rightarrow> bool" where
  "truthy v = (case v of
     JUndef \<Rightarrow> False | JNull \<Rightarrow> False | JBool b \<Rightarrow> b | JNum n \<Rightarrow> num_truthy n
   | JStr s \<Rightarrow> s \<noteq> [] | JArr _ \<Rightarrow> True | JObj _ \<Rightarrow> True)"

text \<open>\<^verbatim>\<open>v ?? d\<close>, and the value of a field of a plain object (absent: \<^verbatim>\<open>undefined\<close>).\<close>

definition coalesce :: "jsval \<Rightarrow> jsval \<Rightarrow> jsval" where
  "coalesce v d = (case v of JUndef \<Rightarrow> d | JNull \<Rightarrow> d | _ \<Rightarrow> v)"

definition field :: "(ustr \<times> jsval) list \<Rightarrow> string \<Rightarrow> jsval" where
  "field obj k = (case map_of obj (str k) of Some v \<Rightarrow> v | None \<Rightarrow> JUndef)"

lemma coalesce_simps [simp]:
  "coalesce JUndef d = d" "coalesce JNull d = d" "coalesce (JBool b) d = JBool b"
  "coalesce (JNum n) d = JNum n" "coalesce (JStr s) d = JStr s"
  "coalesce (JArr vs) d = JArr vs" "coalesce (JObj fs) d = JObj fs"
  by (simp_all add: coalesce_def)

lemma truthy_simps [simp]:
  "\<not> truthy JUndef" "\<not> truthy JNull" "truthy (JBool b) \<longleftrightarrow> b"
  "truthy (JNum n) \<longleftrightarrow> num_truthy n" "truthy (JStr s) \<longleftrightarrow> s \<noteq> []"
  "truthy (JArr vs)" "truthy (JObj fs)"
  by (simp_all add: truthy_def)

text \<open>\<^verbatim>\<open>Number(v ?? 0)\<close> and \<^verbatim>\<open>String(v ?? '')\<close>, the two conversions of every view.\<close>

definition num_or_0 :: "jsval \<Rightarrow> jsnum" where
  "num_or_0 v = to_num (coalesce v (JNum (Fin 0)))"

definition str_or_empty :: "jsval \<Rightarrow> ustr" where
  "str_or_empty v = to_str (coalesce v (JStr []))"

lemma num_or_0_simps [simp]:
  "num_or_0 JUndef = Fin 0" "num_or_0 JNull = Fin 0" "num_or_0 (JNum n) = n"
  "num_or_0 (JStr s) = number_of_str s"
  by (simp_all add: num_or_0_def)

lemma str_or_empty_simps [simp]:
  "str_or_empty JUndef = []" "str_or_empty JNull = []" "str_or_empty (JStr s) = s"
  by (simp_all add: str_or_empty_def)

section \<open>Sorting with a numeric comparator\<close>

text \<open>
  \<^verbatim>\<open>xs.sort((a, b) => key(a) - key(b))\<close>: the sort is stable, and a comparator result of
  \<^verbatim>\<open>NaN\<close> counts as 0. The language leaves the order open when the comparator is
  inconsistent, which a \<^verbatim>\<open>NaN\<close> key can make it; the facts below exclude such keys.
\<close>

definition key_after :: "('a \<Rightarrow> jsnum) \<Rightarrow> 'a \<Rightarrow> 'a \<Rightarrow> bool" where
  "key_after key a b \<longleftrightarrow> num_pos (num_sub (key a) (key b))"

fun insert_by :: "('a \<Rightarrow> jsnum) \<Rightarrow> 'a \<Rightarrow> 'a list \<Rightarrow> 'a list" where
  "insert_by key x [] = [x]"
| "insert_by key x (y # ys) =
     (if key_after key x y then y # insert_by key x ys else x # y # ys)"

definition sort_by_num :: "('a \<Rightarrow> jsnum) \<Rightarrow> 'a list \<Rightarrow> 'a list" where
  "sort_by_num key xs = foldr (insert_by key) xs []"

lemma set_insert_by [simp]: "set (insert_by key x ys) = insert x (set ys)"
  by (induction ys) auto

lemma length_insert_by [simp]: "length (insert_by key x ys) = Suc (length ys)"
  by (induction ys) auto

lemma set_sort_by_num [simp]: "set (sort_by_num key xs) = set xs"
  by (induction xs) (simp_all add: sort_by_num_def)

lemma length_sort_by_num [simp]: "length (sort_by_num key xs) = length xs"
  by (induction xs) (simp_all add: sort_by_num_def)

lemma distinct_insert_by:
  "distinct (map f (insert_by key x ys)) \<longleftrightarrow> f x \<notin> f ` set ys \<and> distinct (map f ys)"
  by (induction ys) auto

lemma distinct_sort_by_num [simp]:
  "distinct (map f (sort_by_num key xs)) \<longleftrightarrow> distinct (map f xs)"
proof (induction xs)
  case Nil
  then show ?case by (simp add: sort_by_num_def)
next
  case (Cons x xs)
  have "sort_by_num key (x # xs) = insert_by key x (sort_by_num key xs)"
    by (simp add: sort_by_num_def)
  with Cons.IH show ?case by (simp add: distinct_insert_by)
qed

definition num_le :: "jsnum \<Rightarrow> jsnum \<Rightarrow> bool" where
  "num_le a b \<longleftrightarrow> a = b \<or> num_lt a b"

lemma not_after_le: "key a \<noteq> NaN \<Longrightarrow> key b \<noteq> NaN \<Longrightarrow> \<not> key_after key a b \<Longrightarrow> num_le (key a) (key b)"
  by (cases "key a"; cases "key b") (auto simp: key_after_def num_le_def)

lemma after_le: "key_after key a b \<Longrightarrow> num_le (key b) (key a)"
  by (cases "key a"; cases "key b") (auto simp: key_after_def num_le_def)

lemma num_le_trans: "num_le a b \<Longrightarrow> num_le b c \<Longrightarrow> num_le a c"
  by (cases a; cases b; cases c) (auto simp: num_le_def)

lemma sorted_insert_by:
  assumes "\<forall>y \<in> insert x (set ys). key y \<noteq> NaN"
    and "sorted_wrt num_le (map key ys)"
  shows "sorted_wrt num_le (map key (insert_by key x ys))"
  using assms
proof (induction ys)
  case Nil
  then show ?case by simp
next
  case (Cons y ys)
  show ?case
  proof (cases "key_after key x y")
    case True
    with Cons show ?thesis by (auto dest: after_le)
  next
    case False
    with Cons.prems have "num_le (key x) (key y)" by (auto intro: not_after_le)
    with False Cons.prems show ?thesis by (auto intro: num_le_trans)
  qed
qed

lemma sorted_sort_by_num:
  "\<forall>x \<in> set xs. key x \<noteq> NaN \<Longrightarrow> sorted_wrt num_le (map key (sort_by_num key xs))"
proof (induction xs)
  case Nil
  then show ?case by (simp add: sort_by_num_def)
next
  case (Cons x xs)
  have "sort_by_num key (x # xs) = insert_by key x (sort_by_num key xs)"
    by (simp add: sort_by_num_def)
  with Cons show ?case by (simp add: sorted_insert_by)
qed

end
