(* ===== verification/Stores.thy ===== *)
theory Stores
  imports JsValues
begin

text \<open>
  The two zustand stores: \<^verbatim>\<open>stores/eventStore.ts\<close>, which keeps the newest 1000 probe events,
  and \<^verbatim>\<open>stores/pgStore.ts\<close>, the connection state. The record of a probe event is the
  interface \<^verbatim>\<open>ProbeEvent\<close> of \<^verbatim>\<open>types/events.ts\<close>; its payload is an unconstrained object.
\<close>

section \<open>Probe events\<close>

record probe_event =
  ev_type :: ustr
  ev_timestamp :: jsnum
  ev_pid :: jsnum
  ev_seq :: jsnum
  ev_data :: "(ustr \<times> jsval) list"

section \<open>The event store\<close>

record 'e event_store =
  events :: "'e list"

definition MAX_EVENTS :: int where
  "MAX_EVENTS = 1000"

definition add_event :: "'e \<Rightarrow> 'e event_store \<Rightarrow> 'e event_store" where
  "add_event event state = state\<lparr>events := slice_from (- MAX_EVENTS + 1) (events state) @ [event]\<rparr>"

definition clear_events :: "'e event_store \<Rightarrow> 'e event_store" where
  "clear_events state = state\<lparr>events := []\<rparr>"

definition set_events :: "'e list \<Rightarrow> 'e event_store \<Rightarrow> 'e event_store" where
  "set_events es state = state\<lparr>events := slice_from (- MAX_EVENTS) es\<rparr>"

definition empty_event_store :: "'e event_store" where
  "empty_event_store = \<lparr>events = []\<rparr>"

lemma events_add_event: "events (add_event e st) = take_last 1000 (events st @ [e])"
  using slice_from_neg [of 999 "events st"]
  by (simp add: add_event_def MAX_EVENTS_def take_last_snoc)

lemma events_set_events [simp]: "events (set_events es st) = take_last 1000 es"
  using slice_from_neg [of 1000 es] by (simp add: set_events_def MAX_EVENTS_def)

interpretation event_log: bounded_log add_event events "\<lambda>_. 1000" "\<lambda>_. True"
  by unfold_locales (simp_all add: events_add_event)

text \<open>
  C21. Whatever list the event store is set to and however many events the socket then adds,
  it holds exactly the newest 1000 of them, in arrival order.
\<close>

theorem event_store_keeps_newest:
  "events (fold add_event es (set_events xs st)) = take_last 1000 (xs @ es)"
proof -
  have "events (fold add_event es (set_events xs st)) =
      take_last 1000 (events (set_events xs st) @ es)"
    by (rule event_log.entries_fold) simp_all
  then show ?thesis by (simp add: take_last_append_take_last)
qed

section \<open>The connection store\<close>

record pg_config =
  cfg_host :: ustr
  cfg_port :: int
  cfg_user :: ustr
  cfg_database :: ustr

record pg_state =
  pg_connected :: bool
  pg_version :: ustr
  pg_dataDir :: ustr
  pg_conf :: pg_config
  pg_activeNodeId :: "ustr option"

definition init_pg_state :: pg_state where
  "init_pg_state = \<lparr>pg_connected = False, pg_version = [], pg_dataDir = [],
     pg_conf = \<lparr>cfg_host = str ''pgv-postgres'', cfg_port = 5432,
               cfg_user = str ''postgres'', cfg_database = str ''postgres''\<rparr>,
     pg_activeNodeId = None\<rparr>"

definition setConnected :: "bool \<Rightarrow> pg_state \<Rightarrow> pg_state" where
  "setConnected v s = s\<lparr>pg_connected := v\<rparr>"

definition setVersion :: "ustr \<Rightarrow> pg_state \<Rightarrow> pg_state" where
  "setVersion v s = s\<lparr>pg_version := v\<rparr>"

definition setDataDir :: "ustr \<Rightarrow> pg_state \<Rightarrow> pg_state" where
  "setDataDir v s = s\<lparr>pg_dataDir := v\<rparr>"

definition setConfig :: "pg_config \<Rightarrow> pg_state \<Rightarrow> pg_state" where
  "setConfig c s = s\<lparr>pg_conf := c\<rparr>"

definition setActiveNodeId :: "ustr option \<Rightarrow> pg_state \<Rightarrow> pg_state" where
  "setActiveNodeId i s = s\<lparr>pg_activeNodeId := i\<rparr>"

end
