(* ===== verification/VisualizationData.thy ===== *)
theory VisualizationData
  imports Stores
begin

text \<open>
  \<^verbatim>\<open>hooks/useVisualizationData.ts\<close>: the views derived from the event stream. Buffer cells are
  a loop over the events that groups the \<^verbatim>\<open>buffer_pin\<close> events by buffer in a \<^verbatim>\<open>Map\<close> (an
  interpretation of \<open>keyed_fold\<close>), transactions are the \<^verbatim>\<open>xact_state\<close> events, and the write
  pipeline is a fixed list of ten stages lit by the newest event of each kind. Names that a
  JavaScript object inherits (\<^verbatim>\<open>constructor\<close> and its kin) are not looked up in
  \<open>transactionStateMap\<close>.
\<close>

section \<open>Event kinds\<close>

definition asWalEvent :: "probe_event \<Rightarrow> probe_event option" where
  "asWalEvent e = (if ev_type e = str ''wal_insert'' then Some e else None)"

definition asBufferEvent :: "probe_event \<Rightarrow> probe_event option" where
  "asBufferEvent e = (if ev_type e = str ''buffer_pin'' then Some e else None)"

definition asXactEvent :: "probe_event \<Rightarrow> probe_event option" where
  "asXactEvent e = (if ev_type e = str ''xact_state'' then Some e else None)"

definition asHeartbeatEvent :: "probe_event \<Rightarrow> probe_event option" where
  "asHeartbeatEvent e = (if ev_type e = str ''heartbeat'' then Some e else None)"

section \<open>Buffer cells\<close>

record buffer_cell =
  bc_id :: jsnum
  bc_hit_count :: nat
  bc_is_dirty :: bool
  bc_is_pinned :: bool
  bc_relfilenode :: jsnum

definition buffer_key :: "probe_event \<Rightarrow> jsnum" where
  "buffer_key e = num_or_0 (field (ev_data e) ''buffer_id'')"

definition buffer_update :: "buffer_cell option \<Rightarrow> probe_event \<Rightarrow> buffer_cell" where
  "buffer_update current e =
     \<lparr>bc_id = buffer_key e,
      bc_hit_count = (case current of Some c \<Rightarrow> bc_hit_count c | None \<Rightarrow> 0) + 1,
      bc_is_dirty = (case current of Some c \<Rightarrow> bc_is_dirty c | None \<Rightarrow> False),
      bc_is_pinned = True,
      bc_relfilenode =
        num_or_0 (coalesce (field (ev_data e) ''relfilenode'')
          (case current of Some c \<Rightarrow> JNum (bc_relfilenode c) | None \<Rightarrow> JUndef))\<rparr>"

definition buffer_step ::
  "probe_event \<Rightarrow> (jsnum \<times> buffer_cell) list \<Rightarrow> (jsnum \<times> buffer_cell) list" where
  "buffer_step event aggregate =
     (case asBufferEvent event of
        None \<Rightarrow> aggregate
      | Some bufferEvent \<Rightarrow>
          (let bufferID = buffer_key bufferEvent;
               current = map_of aggregate bufferID
           in AList.update bufferID (buffer_update current bufferEvent) aggregate))"

definition buildBufferCells :: "probe_event list \<Rightarrow> buffer_cell list" where
  "buildBufferCells evs = sort_by_num bc_id (map snd (fold buffer_step evs []))"

definition buffer_event_key :: "probe_event \<Rightarrow> jsnum option" where
  "buffer_event_key e = map_option buffer_key (asBufferEvent e)"

interpretation cells: keyed_fold "[]" map_of AList.update "map fst"
  buffer_step buffer_event_key buffer_update
  by unfold_locales
    (auto simp: buffer_step_def buffer_event_key_def asBufferEvent_def Let_def split: if_splits)

text \<open>
  What the cell of a buffer says, as a function of the events of that buffer alone: the number
  of pins, and the file node of the last event that named one.
\<close>

definition named_relfilenode :: "probe_event list \<Rightarrow> jsnum" where
  "named_relfilenode evs =
     fold (\<lambda>e r. num_or_0 (coalesce (field (ev_data e) ''relfilenode'') (JNum r))) evs (Fin 0)"

definition cell_of :: "probe_event list \<Rightarrow> jsnum \<Rightarrow> buffer_cell" where
  "cell_of evs k =
     (let pins = filter (\<lambda>e. buffer_event_key e = Some k) evs
      in \<lparr>bc_id = k, bc_hit_count = length pins, bc_is_dirty = False, bc_is_pinned = True,
          bc_relfilenode = named_relfilenode pins\<rparr>)"

lemma buffer_event_key_Some: "buffer_event_key e = Some k \<Longrightarrow> buffer_key e = k"
  by (auto simp: buffer_event_key_def asBufferEvent_def split: if_splits)

lemma buffer_update_fold:
  assumes "pins \<noteq> []" and "\<forall>e \<in> set pins. buffer_key e = k"
  shows "fold (\<lambda>e v. Some (buffer_update v e)) pins None =
     Some \<lparr>bc_id = k, bc_hit_count = length pins, bc_is_dirty = False, bc_is_pinned = True,
           bc_relfilenode = named_relfilenode pins\<rparr>"
  using assms
proof (induction pins rule: rev_nonempty_induct)
  case (single e)
  then show ?case
    by (simp add: buffer_update_def named_relfilenode_def num_or_0_def coalesce_def
        split: jsval.split)
next
  case (snoc e es)
  then show ?case
    by (simp add: buffer_update_def named_relfilenode_def num_or_0_def)
qed

lemma map_of_cells:
  assumes "k \<in> set (map fst (fold buffer_step evs []))"
  shows "map_of (fold buffer_step evs []) k = Some (cell_of evs k)"
proof -
  let ?pins = "filter (\<lambda>e. buffer_event_key e = Some k) evs"
  have "?pins \<noteq> []"
    using assms by (auto simp: cells.key_present filter_empty_conv simp del: set_map)
  then have "fold (\<lambda>e v. Some (buffer_update v e)) ?pins None = Some (cell_of evs k)"
    by (subst buffer_update_fold [of _ k]) (auto simp: cell_of_def Let_def buffer_event_key_Some)
  then show ?thesis by (simp add: cells.get_fold)
qed

lemma cells_by_key:
  "map snd (fold buffer_step evs []) =
     map (cell_of evs) (first_keys [] (List.map_filter buffer_event_key evs))"
proof -
  let ?m = "fold buffer_step evs []"
  have "map snd ?m = map (\<lambda>k. the (map_of ?m k)) (map fst ?m)"
    by (rule map_snd_map_of) (rule cells.distinct_keys_fold)
  also have "\<dots> = map (cell_of evs) (map fst ?m)"
    by (rule map_cong [OF refl]) (simp add: map_of_cells del: set_map)
  finally show ?thesis by (simp only: cells.keys_fold)
qed

text \<open>
  C17. The cells of the buffer view are, in order of buffer number, one cell per buffer that
  occurs in a \<^verbatim>\<open>buffer_pin\<close> event, and the cell counts exactly the pins of that buffer.
\<close>

theorem buffer_cells_reference:
  "buildBufferCells evs =
     sort_by_num bc_id (map (cell_of evs) (first_keys [] (List.map_filter buffer_event_key evs)))"
  by (simp only: buildBufferCells_def cells_by_key)

text \<open>
  The cells have pairwise different buffer numbers and are in ascending order of buffer
  number, when no event carries a buffer number that is not a number.
\<close>

lemma buffer_cells_sorted_distinct:
  assumes "\<forall>e \<in> set evs. buffer_event_key e \<noteq> Some NaN"
  shows "sorted_wrt num_le (map bc_id (buildBufferCells evs))
    \<and> distinct (map bc_id (buildBufferCells evs))"
proof -
  let ?ks = "first_keys [] (List.map_filter buffer_event_key evs)"
  have id: "bc_id (cell_of evs k) = k" for k by (simp add: cell_of_def Let_def)
  have "NaN \<notin> set ?ks"
    using assms by (force simp: set_first_keys map_filter_def)
  then have "sorted_wrt num_le (map bc_id (buildBufferCells evs))"
    unfolding buildBufferCells_def cells_by_key
    by (intro sorted_sort_by_num) (auto simp: id)
  moreover have "map bc_id (map (cell_of evs) ?ks) = ?ks"
    by (simp add: id map_idI)
  then have "distinct (map bc_id (buildBufferCells evs))"
    unfolding buildBufferCells_def cells_by_key
    by (simp only: distinct_sort_by_num distinct_first_keys [of "[]", simplified])
  ultimately show ?thesis ..
qed

section \<open>Transactions\<close>

datatype xact_status = Idle | Started | In_progress | Commit | Abort

record transaction_state =
  tx_xid :: jsnum
  tx_vxid :: ustr
  tx_state :: xact_status
  tx_start_time_us :: "jsnum option"
  tx_end_time_us :: "jsnum option"
  tx_lsn :: "ustr option"

definition transactionStateMap :: "(ustr \<times> xact_status) list" where
  "transactionStateMap =
     [(str ''begin'', Started), (str ''commit'', Commit), (str ''abort'', Abort)]"

definition transaction_of :: "probe_event \<Rightarrow> transaction_state" where
  "transaction_of e =
     (let d = ev_data e in
      \<lparr>tx_xid = num_or_0 (field d ''xid''),
       tx_vxid = str_or_empty (field d ''vxid''),
       tx_state = (case map_of transactionStateMap (str_or_empty (field d ''state'')) of
                     Some st \<Rightarrow> st | None \<Rightarrow> In_progress),
       tx_start_time_us = Some (ev_timestamp e),
       tx_end_time_us = Some (ev_timestamp e),
       tx_lsn = (case field d ''lsn'' of JStr s \<Rightarrow> Some s | _ \<Rightarrow> None)\<rparr>)"

definition buildTransactionStates :: "probe_event list \<Rightarrow> transaction_state list" where
  "buildTransactionStates evs = map transaction_of (List.map_filter asXactEvent evs)"

section \<open>The write pipeline\<close>

datatype stage_status = Pending | Active | Done | Error

record pipeline_stage =
  st_id :: ustr
  st_name :: ustr
  st_label :: ustr
  st_duration_us :: int
  st_start_us :: int
  st_end_us :: int
  st_status :: stage_status
  st_details :: "(ustr \<times> jsval) list"
  st_color :: ustr

definition pending_stage :: "ustr \<Rightarrow> ustr \<Rightarrow> ustr \<Rightarrow> ustr \<Rightarrow> pipeline_stage" where
  "pending_stage i n l c =
     \<lparr>st_id = i, st_name = n, st_label = l, st_duration_us = 0, st_start_us = 0, st_end_us = 0,
      st_status = Pending, st_details = [], st_color = c\<rparr>"

definition WRITE_STAGE_TEMPLATE :: "pipeline_stage list" where
  "WRITE_STAGE_TEMPLATE =
    [pending_stage (str ''parse'') (str ''Parser'')
       (str ''SQL '' @ [0x89E3, 0x6790]) (str ''#58a6ff''),
     pending_stage (str ''bind'') (str ''Binder'')
       ([0x53C2, 0x6570, 0x7ED1, 0x5B9A]) (str ''#bc8cff''),
     pending_stage (str ''plan'') (str ''Planner'')
       ([0x6267, 0x884C, 0x8BA1, 0x5212]) (str ''#d29922''),
     pending_stage (str ''exec_start'') (str ''ExecutorStart'')
       ([0x6267, 0x884C, 0x5668, 0x542F, 0x52A8]) (str ''#3fb950''),
     pending_stage (str ''tuple_form'') (str ''heap_form_tuple'')
       ([0x5143, 0x7EC4, 0x6784, 0x5EFA]) (str ''#f0883e''),
     pending_stage (str ''buf_alloc'') (str ''BufferAlloc'')
       (str ''Buffer '' @ [0x5206, 0x914D]) (str ''#f85149''),
     pending_stage (str ''wal_insert'') (str ''XLogInsert'')
       (str ''WAL '' @ [0x5199, 0x5165]) (str ''#ff7b72''),
     pending_stage (str ''page_modify'') (str ''PageAddItem'')
       ([0x6570, 0x636E, 0x9875, 0x4FEE, 0x6539]) (str ''#a371f7''),
     pending_stage (str ''clog_update'') (str ''TransactionLogUpdate'')
       (str ''CLOG '' @ [0x66F4, 0x65B0]) (str ''#7ee787''),
     pending_stage (str ''commit'') (str ''Commit'')
       ([0x63D0, 0x4EA4, 0x5B8C, 0x6210]) (str ''#39d353'')]"

text \<open>\<^verbatim>\<open>[...events].reverse().find(as)\<close>: the newest event of a kind.\<close>

definition latest :: "(probe_event \<Rightarrow> probe_event option) \<Rightarrow> probe_event list \<Rightarrow> probe_event option" where
  "latest as evs = List.find (\<lambda>e. as e \<noteq> None) (rev evs)"

definition num_detail :: "(ustr \<times> jsval) list \<Rightarrow> string \<Rightarrow> ustr \<times> jsval" where
  "num_detail d k = (str k, JNum (num_or_0 (field d k)))"

definition str_detail :: "(ustr \<times> jsval) list \<Rightarrow> string \<Rightarrow> ustr \<times> jsval" where
  "str_detail d k = (str k, JStr (str_or_empty (field d k)))"

definition write_stage ::
  "probe_event option \<Rightarrow> probe_event option \<Rightarrow> probe_event option \<Rightarrow> pipeline_stage \<Rightarrow> pipeline_stage"
where
  "write_stage latestWal latestBuffer latestXact stage =
     (if st_id stage = str ''exec_start'' then
        (if latestWal \<noteq> None \<or> latestBuffer \<noteq> None \<or> latestXact \<noteq> None
         then stage\<lparr>st_status := Done,
                st_details := [(str ''source'', JStr (str ''runtime event stream''))]\<rparr>
         else stage)
      else if st_id stage = str ''buf_alloc'' then
        (case latestBuffer of
           Some b \<Rightarrow> stage\<lparr>st_status := Done,
             st_details := [num_detail (ev_data b) ''buffer_id'',
               num_detail (ev_data b) ''relfilenode'', num_detail (ev_data b) ''block_num'']\<rparr>
         | None \<Rightarrow> stage)
      else if st_id stage = str ''wal_insert'' then
        (case latestWal of
           Some w \<Rightarrow> stage\<lparr>st_status := Done,
             st_details := [str_detail (ev_data w) ''xlog_ptr'',
               str_detail (ev_data w) ''rmgr_name'', str_detail (ev_data w) ''operation'',
               num_detail (ev_data w) ''xid'', num_detail (ev_data w) ''record_len'',
               str_detail (ev_data w) ''source'']\<rparr>
         | None \<Rightarrow> stage)
      else if st_id stage = str ''clog_update'' \<or> st_id stage = str ''commit'' then
        (case latestXact of
           Some x \<Rightarrow>
             if field (ev_data x) ''state'' = JStr (str ''commit'') then
               stage\<lparr>st_status := Done,
                 st_details := [num_detail (ev_data x) ''xid'', str_detail (ev_data x) ''state'',
                   str_detail (ev_data x) ''lsn'']\<rparr>
             else if field (ev_data x) ''state'' = JStr (str ''abort'') then
               stage\<lparr>st_status := Error,
                 st_details := [num_detail (ev_data x) ''xid'', str_detail (ev_data x) ''state'']\<rparr>
             else stage
         | None \<Rightarrow> stage)
      else stage)"

definition buildWriteStages :: "probe_event list \<Rightarrow> pipeline_stage list option" where
  "buildWriteStages evs =
     (let latestWal = latest asWalEvent evs;
          latestBuffer = latest asBufferEvent evs;
          latestXact = latest asXactEvent evs
      in if latestWal = None \<and> latestBuffer = None \<and> latestXact = None then None
         else Some (map (write_stage latestWal latestBuffer latestXact) WRITE_STAGE_TEMPLATE))"

text \<open>The verdict of the newest transaction event on the last two stages.\<close>

definition commit_status :: "probe_event option \<Rightarrow> stage_status" where
  "commit_status x =
     (case x of None \<Rightarrow> Pending
      | Some e \<Rightarrow>
          if field (ev_data e) ''state'' = JStr (str ''commit'') then Done
          else if field (ev_data e) ''state'' = JStr (str ''abort'') then Error else Pending)"

text \<open>
  The pipeline view is absent exactly when no WAL, buffer or transaction event was seen;
  otherwise it always has the ten stages of the template in order, the executor start is done,
  the buffer and the WAL stage are done when an event of their kind was seen, the CLOG and the
  commit stage follow the newest transaction event (done on commit, failed on abort), and the
  five other stages stay pending.
\<close>

lemma write_stages_status:
  "map_option (map (\<lambda>s. (st_id s, st_status s))) (buildWriteStages evs) =
     (let wal = latest asWalEvent evs; buf = latest asBufferEvent evs;
          xact = latest asXactEvent evs
      in if wal = None \<and> buf = None \<and> xact = None then None
         else Some [(str ''parse'', Pending), (str ''bind'', Pending), (str ''plan'', Pending),
           (str ''exec_start'', Done), (str ''tuple_form'', Pending),
           (str ''buf_alloc'', if buf = None then Pending else Done),
           (str ''wal_insert'', if wal = None then Pending else Done),
           (str ''page_modify'', Pending), (str ''clog_update'', commit_status xact),
           (str ''commit'', commit_status xact)])"
  by (simp add: buildWriteStages_def WRITE_STAGE_TEMPLATE_def pending_stage_def write_stage_def
      commit_status_def Let_def split: option.split)

section \<open>The hook\<close>

record visualization_data =
  vd_buffers :: "buffer_cell list"
  vd_collectorMode :: ustr
  vd_eventCount :: nat
  vd_lastEventType :: ustr
  vd_transactions :: "transaction_state list"
  vd_writeStages :: "pipeline_stage list option"

definition useVisualizationData :: "probe_event event_store \<Rightarrow> visualization_data" where
  "useVisualizationData store =
     (let deferredEvents = events store;
          heartbeat = latest asHeartbeatEvent deferredEvents
      in \<lparr>vd_buffers = buildBufferCells deferredEvents,
          vd_collectorMode =
            (case heartbeat of
               Some h \<Rightarrow> (case field (ev_data h) ''mode'' of JStr m \<Rightarrow> m | _ \<Rightarrow> str ''unknown'')
             | None \<Rightarrow> str ''unknown''),
          vd_eventCount = length deferredEvents,
          vd_lastEventType =
            (if deferredEvents = [] then [] else ev_type (last deferredEvents)),
          vd_transactions = buildTransactionStates deferredEvents,
          vd_writeStages = buildWriteStages deferredEvents\<rparr>)"

end
