(* ===== verification/MemoryStructs.thy ===== *)
theory MemoryStructs
  imports VisualizationData
begin

text \<open>
  \<^verbatim>\<open>components/memory/MemoryStructView.tsx\<close>: the PGPROC, PGXACT and buffer descriptor tables,
  built from a backend snapshot when there is one and from the event stream otherwise. The
  three builders over events are interpretations of \<open>keyed_fold\<close>. A snapshot row is the
  \<^verbatim>\<open>Record<string, string>\<close> of the source.
\<close>

section \<open>Snapshot rows\<close>

type_synonym row = "(ustr \<times> ustr) list"

definition col :: "row \<Rightarrow> string \<Rightarrow> ustr option" where
  "col r k = map_of r (str k)"

definition col_num :: "row \<Rightarrow> string \<Rightarrow> jsnum \<Rightarrow> jsnum" where
  "col_num r k d = (case col r k of Some s \<Rightarrow> number_of_str s | None \<Rightarrow> d)"

section \<open>Entries\<close>

record pgproc_entry =
  pe_pid :: jsnum
  pe_xid :: jsnum
  pe_vxid :: ustr
  pe_state :: xact_status
  pe_database :: jsnum
  pe_lastEventTs :: jsnum
  pe_waitEvent :: ustr

record pgxact_entry =
  xe_xid :: jsnum
  xe_state :: xact_status
  xe_xmin :: jsnum
  xe_commitTs :: jsnum

record buffer_desc_entry =
  bd_bufferId :: jsnum
  bd_isDirty :: bool
  bd_isPinned :: bool
  bd_hitCount :: nat
  bd_relfilenode :: jsnum
  bd_blockNum :: jsnum

definition xactStateMap :: "(ustr \<times> xact_status) list" where
  "xactStateMap =
     [(str ''begin'', Started), (str ''commit'', Commit), (str ''abort'', Abort),
      (str ''savepoint'', In_progress), (str ''release'', In_progress),
      (str ''rollback_to'', In_progress)]"

definition toXactState :: "ustr \<Rightarrow> xact_status" where
  "toXactState raw = (case map_of xactStateMap raw of Some st \<Rightarrow> st | None \<Rightarrow> Idle)"

section \<open>From a snapshot\<close>

definition buildProcFromSnapshot :: "row list \<Rightarrow> pgproc_entry list" where
  "buildProcFromSnapshot backends =
     filter (\<lambda>x. num_pos (pe_pid x))
       (map (\<lambda>b. \<lparr>pe_pid = col_num b ''pid'' (Fin 0),
                  pe_xid = col_num b ''backend_xid'' (Fin 0),
                  pe_vxid = [],
                  pe_state = (if num_pos (col_num b ''backend_xid'' (Fin 0))
                              then In_progress else Idle),
                  pe_database = col_num b ''datid'' (Fin 0),
                  pe_lastEventTs = Fin 0,
                  pe_waitEvent = (case col b ''wait_event'' of Some s \<Rightarrow> s | None \<Rightarrow> [])\<rparr>)
            backends)"

fun buildXactFromSnapshot :: "row list \<Rightarrow> pgxact_entry list" where
  "buildXactFromSnapshot [] = []"
| "buildXactFromSnapshot (b # bs) =
     (let xid = col_num b ''backend_xid'' (Fin 0)
      in if \<not> num_truthy xid then buildXactFromSnapshot bs
         else \<lparr>xe_xid = xid, xe_state = In_progress, xe_xmin = col_num b ''backend_xmin'' xid,
               xe_commitTs = Fin 0\<rparr> # buildXactFromSnapshot bs)"

section \<open>From the event stream\<close>

text \<open>\<^verbatim>\<open>if (!prev || evt.timestamp > prev.timestamp) set\<close>: the newest event of a key wins.\<close>

definition newer :: "probe_event option \<Rightarrow> probe_event \<Rightarrow> probe_event" where
  "newer prev evt =
     (case prev of
        None \<Rightarrow> evt
      | Some p \<Rightarrow> if num_lt (ev_timestamp p) (ev_timestamp evt) then evt else p)"

definition keep_newer ::
  "jsnum \<Rightarrow> probe_event \<Rightarrow> (jsnum \<times> probe_event) list \<Rightarrow> (jsnum \<times> probe_event) list" where
  "keep_newer k evt m =
     (case map_of m k of
        None \<Rightarrow> AList.update k evt m
      | Some prev \<Rightarrow>
          if num_lt (ev_timestamp prev) (ev_timestamp evt) then AList.update k evt m else m)"

definition proc_step ::
  "probe_event \<Rightarrow> (jsnum \<times> probe_event) list \<Rightarrow> (jsnum \<times> probe_event) list" where
  "proc_step evt latestByPid =
     (if ev_type evt \<noteq> str ''xact_state'' then latestByPid
      else keep_newer (ev_pid evt) evt latestByPid)"

definition proc_of :: "jsnum \<times> probe_event \<Rightarrow> pgproc_entry" where
  "proc_of p = (case p of (pid, evt) \<Rightarrow>
     \<lparr>pe_pid = pid,
      pe_xid = num_or_0 (field (ev_data evt) ''xid''),
      pe_vxid = str_or_empty (field (ev_data evt) ''vxid''),
      pe_state = toXactState (str_or_empty (field (ev_data evt) ''state'')),
      pe_database = Fin 0,
      pe_lastEventTs = ev_timestamp evt,
      pe_waitEvent = []\<rparr>)"

definition buildProcFromEvents :: "probe_event list \<Rightarrow> pgproc_entry list" where
  "buildProcFromEvents evs = map proc_of (fold proc_step evs [])"

definition xact_step ::
  "probe_event \<Rightarrow> (jsnum \<times> probe_event) list \<Rightarrow> (jsnum \<times> probe_event) list" where
  "xact_step evt latestByXid =
     (if ev_type evt \<noteq> str ''xact_state'' then latestByXid
      else (let xid = num_or_0 (field (ev_data evt) ''xid'')
            in if \<not> num_truthy xid then latestByXid else keep_newer xid evt latestByXid))"

definition xact_of :: "jsnum \<times> probe_event \<Rightarrow> pgxact_entry" where
  "xact_of p = (case p of (xid, evt) \<Rightarrow>
     \<lparr>xe_xid = xid,
      xe_state = toXactState (str_or_empty (field (ev_data evt) ''state'')),
      xe_xmin = xid,
      xe_commitTs = (if field (ev_data evt) ''state'' = JStr (str ''commit'')
                     then ev_timestamp evt else Fin 0)\<rparr>)"

definition buildXactFromEvents :: "probe_event list \<Rightarrow> pgxact_entry list" where
  "buildXactFromEvents evs = map xact_of (fold xact_step evs [])"

definition desc_update :: "buffer_desc_entry option \<Rightarrow> probe_event \<Rightarrow> buffer_desc_entry" where
  "desc_update prev evt =
     (let d = ev_data evt;
          p = (case prev of Some p \<Rightarrow> p
               | None \<Rightarrow> \<lparr>bd_bufferId = num_or_0 (field d ''buffer_id''), bd_isDirty = False,
                   bd_isPinned = False, bd_hitCount = 0,
                   bd_relfilenode = num_or_0 (field d ''relfilenode''),
                   bd_blockNum = num_or_0 (field d ''block_num'')\<rparr>)
      in p\<lparr>bd_isPinned := True, bd_hitCount := bd_hitCount p + 1\<rparr>)"

definition desc_step ::
  "probe_event \<Rightarrow> (jsnum \<times> buffer_desc_entry) list \<Rightarrow> (jsnum \<times> buffer_desc_entry) list" where
  "desc_step evt m =
     (if ev_type evt \<noteq> str ''buffer_pin'' then m
      else (let i = num_or_0 (field (ev_data evt) ''buffer_id'')
            in if \<not> num_truthy i then m
               else AList.update i (desc_update (map_of m i) evt) m))"

definition buildBufferDescEntries :: "probe_event list \<Rightarrow> buffer_desc_entry list" where
  "buildBufferDescEntries evs =
     sort_by_num bd_bufferId (map snd (fold desc_step evs []))"

section \<open>The tables as grouped folds\<close>

definition proc_key :: "probe_event \<Rightarrow> jsnum option" where
  "proc_key e = (if ev_type e = str ''xact_state'' then Some (ev_pid e) else None)"

definition xact_key :: "probe_event \<Rightarrow> jsnum option" where
  "xact_key e =
     (if ev_type e = str ''xact_state'' \<and> num_truthy (num_or_0 (field (ev_data e) ''xid''))
      then Some (num_or_0 (field (ev_data e) ''xid'')) else None)"

definition desc_key :: "probe_event \<Rightarrow> jsnum option" where
  "desc_key e =
     (if ev_type e = str ''buffer_pin'' \<and> num_truthy (num_or_0 (field (ev_data e) ''buffer_id''))
      then Some (num_or_0 (field (ev_data e) ''buffer_id'')) else None)"

lemma keep_newer_put: "keep_newer k evt m = AList.update k (newer (map_of m k) evt) m"
  by (auto simp: keep_newer_def newer_def alist_update_same split: option.split)

interpretation procs: keyed_fold "[]" map_of AList.update "map fst" proc_step proc_key newer
  by unfold_locales (auto simp: proc_step_def proc_key_def keep_newer_put split: if_splits)

interpretation xacts: keyed_fold "[]" map_of AList.update "map fst" xact_step xact_key newer
  by unfold_locales
    (auto simp: xact_step_def xact_key_def keep_newer_put Let_def split: if_splits)

interpretation descs: keyed_fold "[]" map_of AList.update "map fst" desc_step desc_key desc_update
  by unfold_locales (auto simp: desc_step_def desc_key_def Let_def split: if_splits)

lemma num_lt_trans: "num_lt a b \<Longrightarrow> num_lt b c \<Longrightarrow> num_lt a c"
  by (cases a; cases b; cases c) auto

lemma num_lt_irrefl [simp]: "\<not> num_lt a a"
  by (cases a) auto

lemma fold_newer:
  assumes "es \<noteq> []"
  obtains e where "fold (\<lambda>e v. Some (newer v e)) es None = Some e" "e \<in> set es"
    "\<forall>e' \<in> set es. \<not> num_lt (ev_timestamp e) (ev_timestamp e')"
proof -
  have "\<exists>e \<in> set es. fold (\<lambda>e v. Some (newer v e)) es None = Some e \<and>
      (\<forall>e' \<in> set es. \<not> num_lt (ev_timestamp e) (ev_timestamp e'))"
    using assms
  proof (induction es rule: rev_nonempty_induct)
    case (single e)
    then show ?case by (simp add: newer_def)
  next
    case (snoc x es)
    then obtain e where e: "e \<in> set es" "fold (\<lambda>e v. Some (newer v e)) es None = Some e"
      "\<forall>e' \<in> set es. \<not> num_lt (ev_timestamp e) (ev_timestamp e')" by blast
    show ?case
    proof (cases "num_lt (ev_timestamp e) (ev_timestamp x)")
      case True
      with e show ?thesis by (auto simp: newer_def dest: num_lt_trans)
    next
      case False
      with e show ?thesis by (auto simp: newer_def)
    qed
  qed
  with that show thesis by blast
qed

lemma proc_table_entry:
  assumes "(k, e) \<in> set (fold proc_step evs [])"
  shows "e \<in> set evs \<and> proc_key e = Some k
    \<and> (\<forall>e' \<in> set evs. proc_key e' = Some k \<longrightarrow> \<not> num_lt (ev_timestamp e) (ev_timestamp e'))"
proof -
  let ?es = "filter (\<lambda>e. proc_key e = Some k) evs"
  have m: "map_of (fold proc_step evs []) k = Some e"
    using assms procs.distinct_keys_fold by (simp only: map_of_eq_Some_iff)
  then have "?es \<noteq> []" by (auto simp: procs.get_fold)
  then obtain e1 where "fold (\<lambda>e v. Some (newer v e)) ?es None = Some e1" "e1 \<in> set ?es"
    "\<forall>e' \<in> set ?es. \<not> num_lt (ev_timestamp e1) (ev_timestamp e')"
    by (rule fold_newer)
  with m show ?thesis by (auto simp: procs.get_fold)
qed

text \<open>
  Every row of the process table built from events shows a transaction event of its
  process than which no event of the same process is newer.
\<close>

lemma proc_rows_newest:
  assumes "r \<in> set (buildProcFromEvents evs)"
  shows "\<exists>e \<in> set evs. proc_key e = Some (pe_pid r) \<and> r = proc_of (pe_pid r, e)
    \<and> (\<forall>e' \<in> set evs. proc_key e' = Some (pe_pid r) \<longrightarrow>
         \<not> num_lt (ev_timestamp e) (ev_timestamp e'))"
proof -
  obtain k e where ke: "(k, e) \<in> set (fold proc_step evs [])" "r = proc_of (k, e)"
    using assms by (auto simp: buildProcFromEvents_def)
  then have k: "pe_pid r = k" by (simp add: proc_of_def)
  show ?thesis
    unfolding k using ke(2) proc_table_entry [OF ke(1)] by (intro bexI [of _ e]) simp_all
qed

definition sample_xact :: "int \<Rightarrow> int \<Rightarrow> string \<Rightarrow> probe_event" where
  "sample_xact pid ts st =
     \<lparr>ev_type = str ''xact_state'', ev_timestamp = jsint ts, ev_pid = jsint pid, ev_seq = Fin 0,
      ev_data = [(str ''xid'', JNum (Fin 7)), (str ''state'', JStr (str st))]\<rparr>"

section \<open>The two buffer views agree\<close>

lemma desc_key_buffer_key:
  "desc_key e = Some k \<longleftrightarrow> num_truthy k \<and> buffer_event_key e = Some k"
  by (auto simp: desc_key_def buffer_event_key_def asBufferEvent_def buffer_key_def)

definition desc_of :: "probe_event list \<Rightarrow> jsnum \<Rightarrow> buffer_desc_entry" where
  "desc_of evs k =
     (let pins = filter (\<lambda>e. desc_key e = Some k) evs
      in \<lparr>bd_bufferId = k, bd_isDirty = False, bd_isPinned = True, bd_hitCount = length pins,
          bd_relfilenode = num_or_0 (field (ev_data (hd pins)) ''relfilenode''),
          bd_blockNum = num_or_0 (field (ev_data (hd pins)) ''block_num'')\<rparr>)"

lemma desc_update_fold:
  assumes "pins \<noteq> []" and "\<forall>e \<in> set pins. num_or_0 (field (ev_data e) ''buffer_id'') = k"
  shows "fold (\<lambda>e v. Some (desc_update v e)) pins None =
     Some \<lparr>bd_bufferId = k, bd_isDirty = False, bd_isPinned = True, bd_hitCount = length pins,
           bd_relfilenode = num_or_0 (field (ev_data (hd pins)) ''relfilenode''),
           bd_blockNum = num_or_0 (field (ev_data (hd pins)) ''block_num'')\<rparr>"
  using assms
  by (induction pins rule: rev_nonempty_induct) (simp_all add: desc_update_def Let_def)

lemma map_of_descs:
  assumes "k \<in> set (map fst (fold desc_step evs []))"
  shows "map_of (fold desc_step evs []) k = Some (desc_of evs k)"
proof -
  let ?pins = "filter (\<lambda>e. desc_key e = Some k) evs"
  have "?pins \<noteq> []"
    using assms by (auto simp: descs.key_present filter_empty_conv simp del: set_map)
  then have "fold (\<lambda>e v. Some (desc_update v e)) ?pins None = Some (desc_of evs k)"
    by (subst desc_update_fold [of _ k]) (auto simp: desc_of_def Let_def desc_key_def split: if_splits)
  then show ?thesis by (simp add: descs.get_fold)
qed

lemma set_desc_entries:
  "set (buildBufferDescEntries evs) = desc_of evs ` {k. \<exists>e \<in> set evs. desc_key e = Some k}"
proof -
  let ?m = "fold desc_step evs []"
  have "map snd ?m = map (\<lambda>k. the (map_of ?m k)) (map fst ?m)"
    by (rule map_snd_map_of) (rule descs.distinct_keys_fold)
  also have "\<dots> = map (desc_of evs) (map fst ?m)"
    by (rule map_cong [OF refl]) (simp add: map_of_descs del: set_map)
  finally have "set (buildBufferDescEntries evs) = desc_of evs ` set (map fst ?m)"
    by (simp only: buildBufferDescEntries_def set_sort_by_num set_map)
  also have "set (map fst ?m) = {k. \<exists>e \<in> set evs. desc_key e = Some k}"
    using descs.key_present [of _ evs] by blast
  finally show ?thesis .
qed

lemma set_buffer_cells:
  "set (buildBufferCells evs) = cell_of evs ` {k. \<exists>e \<in> set evs. buffer_event_key e = Some k}"
  by (auto simp: buildBufferCells_def cells_by_key set_first_keys map_filter_def image_iff
      Bex_def) force+

text \<open>
  The descriptor table and the heat map agree on which buffers were pinned and how often:
  the (number, hit count) pairs of the descriptor table are those of the heat map for the
  buffers whose number is not zero or \<^verbatim>\<open>NaN\<close>, which the descriptor table leaves out.
\<close>

lemma buffer_views_agree:
  "(\<lambda>d. (bd_bufferId d, bd_hitCount d)) ` set (buildBufferDescEntries evs) =
   {p \<in> (\<lambda>c. (bc_id c, bc_hit_count c)) ` set (buildBufferCells evs). num_truthy (fst p)}"
proof -
  have same: "filter (\<lambda>e. desc_key e = Some k) evs = filter (\<lambda>e. buffer_event_key e = Some k) evs"
    if "num_truthy k" for k
    using that by (intro filter_cong) (auto simp: desc_key_buffer_key)
  have "(\<lambda>d. (bd_bufferId d, bd_hitCount d)) ` set (buildBufferDescEntries evs) =
      {(k, length (filter (\<lambda>e. buffer_event_key e = Some k) evs)) |k.
         num_truthy k \<and> (\<exists>e \<in> set evs. buffer_event_key e = Some k)}"
    by (auto simp: set_desc_entries image_iff desc_of_def Let_def desc_key_buffer_key same
        cong: conj_cong)
  also have "\<dots> = {p \<in> (\<lambda>c. (bc_id c, bc_hit_count c)) ` set (buildBufferCells evs).
      num_truthy (fst p)}"
    by (auto simp: set_buffer_cells cell_of_def Let_def image_iff)
  finally show ?thesis .
qed

section \<open>The view\<close>

record memory_view =
  mv_procs :: "pgproc_entry list"
  mv_xacts :: "pgxact_entry list"
  mv_bufs :: "buffer_desc_entry list"
  mv_hasData :: bool

definition memoryStructView :: "row list option \<Rightarrow> probe_event list \<Rightarrow> memory_view" where
  "memoryStructView snapshotBackends evs =
     (let backends = (case snapshotBackends of Some b \<Rightarrow> b | None \<Rightarrow> []);
          procFromSnapshot = buildProcFromSnapshot backends;
          procs = (if procFromSnapshot \<noteq> [] then procFromSnapshot else buildProcFromEvents evs);
          xactFromSnapshot = buildXactFromSnapshot backends;
          xacts = (if xactFromSnapshot \<noteq> [] then xactFromSnapshot else buildXactFromEvents evs);
          bufs = buildBufferDescEntries evs
      in \<lparr>mv_procs = procs, mv_xacts = xacts, mv_bufs = bufs,
          mv_hasData = (procs \<noteq> [] \<or> xacts \<noteq> [] \<or> bufs \<noteq> [])\<rparr>)"

end
