(* ===== verification/LockGraph.thy ===== *)
theory LockGraph
  imports MemoryStructs
begin

text \<open>
  The lock wait graph: \<^verbatim>\<open>buildLockGraphFromSnapshot\<close> and \<^verbatim>\<open>buildTransactionsFromSnapshot\<close> of
  \<^verbatim>\<open>App.tsx\<close>, and \<^verbatim>\<open>detectCycle\<close> of \<^verbatim>\<open>components/lock/LockGraphView.tsx\<close>. The depth-first
  search shares its visited set and its list of cycles between calls, so both are passed
  through; it terminates because the path it carries only grows by nodes not yet on it.
\<close>

section \<open>The graph of a snapshot\<close>

datatype lock_node_type = Backend | Lock

record lock_node =
  ln_id :: ustr
  ln_pid :: jsnum
  ln_label :: ustr
  ln_type :: lock_node_type

record lock_edge =
  le_source :: ustr
  le_target :: ustr
  le_wait_time_us :: int
  le_mode :: ustr

definition col_or :: "row \<Rightarrow> string \<Rightarrow> ustr \<Rightarrow> ustr" where
  "col_or r k d = (case col r k of Some s \<Rightarrow> s | None \<Rightarrow> d)"

definition backend_node :: "row \<Rightarrow> lock_node" where
  "backend_node b =
     (let pid = col_num b ''pid'' (Fin 0)
      in \<lparr>ln_id = str ''pid-'' @ num_str pid, ln_pid = pid,
          ln_label = str ''PID '' @ num_str pid, ln_type = Backend\<rparr>)"

definition backendByPID :: "row list \<Rightarrow> (ustr \<times> lock_node) list" where
  "backendByPID backends =
     fold (\<lambda>b m. AList.update (num_str (ln_pid (backend_node b))) (backend_node b) m) backends []"

definition lock_key :: "row \<Rightarrow> ustr" where
  "lock_key l =
     join (str ''|'') [col_or l ''locktype'' [], col_or l ''relation'' [],
       col_or l ''virtualxid'' [], col_or l ''transactionid'' [], col_or l ''mode'' []]"

text \<open>\<^verbatim>\<open>l.relation || l.transactionid || l.virtualxid || '-'\<close>\<close>

definition lock_object :: "row \<Rightarrow> ustr" where
  "lock_object l =
     (if col_or l ''relation'' [] \<noteq> [] then col_or l ''relation'' []
      else if col_or l ''transactionid'' [] \<noteq> [] then col_or l ''transactionid'' []
      else if col_or l ''virtualxid'' [] \<noteq> [] then col_or l ''virtualxid'' []
      else str ''-'')"

record lock_graph =
  lg_nodes :: "lock_node list"
  lg_edges :: "lock_edge list"
  lg_byKey :: "(ustr \<times> lock_node) list"

definition ensure_lock_node :: "row \<Rightarrow> lock_graph \<Rightarrow> lock_graph" where
  "ensure_lock_node l g =
     (if map_of (lg_byKey g) (lock_key l) = None then
        (let ln = \<lparr>ln_id = str ''lock-'' @ nat_str (length (lg_byKey g) + 1), ln_pid = Fin 0,
                   ln_label = col_or l ''locktype'' (str ''lock'') @ str '':'' @ lock_object l,
                   ln_type = Lock\<rparr>
         in g\<lparr>lg_byKey := AList.update (lock_key l) ln (lg_byKey g),
              lg_nodes := lg_nodes g @ [ln]\<rparr>)
      else g)"

definition lock_step :: "(ustr \<times> lock_node) list \<Rightarrow> row \<Rightarrow> lock_graph \<Rightarrow> lock_graph" where
  "lock_step byPid l g0 =
     (let g = ensure_lock_node l g0
      in case (map_of byPid (col_or l ''pid'' []), map_of (lg_byKey g) (lock_key l)) of
           (Some backendNode, Some lockNode) \<Rightarrow>
             g\<lparr>lg_edges := lg_edges g @
                 [\<lparr>le_source = ln_id backendNode, le_target = ln_id lockNode,
                   le_wait_time_us = (if col l ''granted'' = Some (str ''false'') then 100000 else 0),
                   le_mode = col_or l ''mode'' (str ''unknown'')\<rparr>]\<rparr>
         | _ \<Rightarrow> g)"

definition buildLockGraphFromSnapshot :: "row list \<Rightarrow> row list \<Rightarrow> lock_graph" where
  "buildLockGraphFromSnapshot backends locks =
     fold (lock_step (backendByPID backends)) locks
       \<lparr>lg_nodes = map backend_node backends, lg_edges = [], lg_byKey = []\<rparr>"

section \<open>The transactions of a snapshot\<close>

definition snapshot_state :: "row \<Rightarrow> xact_status" where
  "snapshot_state b =
     (let stateText = to_lower (col_or b ''state'' [])
      in if str_includes (str ''idle'') stateText then Idle
         else if str_includes (str ''active'') stateText then In_progress else Started)"

definition buildTransactionsFromSnapshot :: "row list \<Rightarrow> jsnum \<Rightarrow> transaction_state list" where
  "buildTransactionsFromSnapshot backends currentXid =
     filter (\<lambda>t. num_pos (tx_xid t))
       (map (\<lambda>b.
          (let own = col_num b ''backend_xid'' (Fin 0)
           in \<lparr>tx_xid = (if num_truthy own then own
                         else if num_truthy currentXid then currentXid else Fin 0),
               tx_vxid = col_or b ''backend_xmin'' [],
               tx_state = snapshot_state b,
               tx_start_time_us = None, tx_end_time_us = None, tx_lsn = None\<rparr>)) backends)"

section \<open>Cycle detection\<close>

definition adjacency :: "'n list \<Rightarrow> ('n \<times> 'n) list \<Rightarrow> ('n \<times> 'n list) list" where
  "adjacency nodes links =
     fold (\<lambda>(src, tgt) adj.
         case map_of adj src of Some ts \<Rightarrow> AList.update src (ts @ [tgt]) adj | None \<Rightarrow> adj)
       links (fold (\<lambda>n adj. AList.update n [] adj) nodes [])"

definition successors :: "('n \<times> 'n list) list \<Rightarrow> 'n \<Rightarrow> 'n list" where
  "successors adj n = (case map_of adj n of Some ts \<Rightarrow> ts | None \<Rightarrow> [])"

fun index_of :: "'n \<Rightarrow> 'n list \<Rightarrow> nat" where
  "index_of x [] = 0"
| "index_of x (y # ys) = (if x = y then 0 else Suc (index_of x ys))"

function dfs ::
  "('n \<times> 'n list) list \<Rightarrow> 'n \<Rightarrow> 'n list \<Rightarrow> 'n list \<times> 'n list list \<Rightarrow> 'n list \<times> 'n list list"
where
  "dfs adj node path (visited, cycles) =
     (if node \<in> set path then
        (let cycle = drop (index_of node path) path
         in (visited, if 2 \<le> length cycle then cycles @ [cycle] else cycles))
      else if node \<in> set visited then (visited, cycles)
      else fold (\<lambda>nxt. dfs adj nxt (path @ [node])) (successors adj node)
             (node # visited, cycles))"
  by pat_completeness auto
termination
proof (relation "measure (\<lambda>(adj, node, path, st). card (fst ` set adj - set path))")
  fix adj :: "('n \<times> 'n list) list" and node path visited cycles nxt st
  assume new: "node \<notin> set path" and "nxt \<in> set (successors adj node)"
  then have "node \<in> fst ` set adj"
    by (cases "map_of adj node") (auto simp: successors_def intro: rev_image_eqI [OF map_of_SomeD])
  with new have "fst ` set adj - set (path @ [node]) \<subset> fst ` set adj - set path" by auto
  then have "card (fst ` set adj - set (path @ [node])) < card (fst ` set adj - set path)"
    by (intro psubset_card_mono) simp_all
  then show "((adj, nxt, path @ [node], st), adj, node, path, visited, cycles)
      \<in> measure (\<lambda>(adj, node, path, st). card (fst ` set adj - set path))"
    by simp
qed simp

declare dfs.simps [simp del]

definition detectCycle :: "'n list \<Rightarrow> ('n \<times> 'n) list \<Rightarrow> 'n list list" where
  "detectCycle nodes links =
     (let adj = adjacency nodes links
      in fold (\<lambda>n cycles. snd (dfs adj n [] ([], cycles))) nodes [])"

definition lockGraphCycles :: "lock_graph \<Rightarrow> ustr list list" where
  "lockGraphCycles g =
     detectCycle (map ln_id (lg_nodes g)) (map (\<lambda>e. (le_source e, le_target e)) (lg_edges g))"

section \<open>The adjacency map\<close>

definition wait_edges :: "'n list \<Rightarrow> ('n \<times> 'n) list \<Rightarrow> ('n \<times> 'n) set" where
  "wait_edges nodes links = {(u, v). u \<in> set nodes \<and> (u, v) \<in> set links}"

lemma map_of_empty_lists:
  "map_of (fold (\<lambda>n adj. AList.update n [] adj) nodes m) u =
     (if u \<in> set nodes then Some [] else map_of m u)"
  by (induction nodes arbitrary: m) (auto simp: AList.update_conv')

lemma map_of_add_links:
  "map_of (fold (\<lambda>(src, tgt) adj.
         case map_of adj src of Some ts \<Rightarrow> AList.update src (ts @ [tgt]) adj | None \<Rightarrow> adj)
       links adj) u =
     map_option (\<lambda>ts. ts @ map snd (filter (\<lambda>l. fst l = u) links)) (map_of adj u)"
  by (induction links arbitrary: adj)
    (auto simp: AList.update_conv' option.map_comp option.map_ident split: option.split)

lemma set_successors_adjacency:
  "set (successors (adjacency nodes links) u) = {v. (u, v) \<in> wait_edges nodes links}"
  by (auto simp: successors_def adjacency_def map_of_add_links map_of_empty_lists wait_edges_def
      image_iff)

section \<open>Every reported cycle is one\<close>

definition is_cycle :: "('n \<times> 'n) set \<Rightarrow> 'n list \<Rightarrow> bool" where
  "is_cycle E c \<longleftrightarrow> 2 \<le> length c \<and> distinct c \<and> successively (\<lambda>u v. (u, v) \<in> E) (c @ [hd c])"

lemma drop_index_of: "x \<in> set xs \<Longrightarrow> \<exists>ys. drop (index_of x xs) xs = x # ys"
  by (induction xs) auto

lemma successively_drop: "successively P xs \<Longrightarrow> successively P (drop n xs)"
  by (induction xs arbitrary: n) (auto simp: drop_Cons' successively_Cons)

lemma index_of_less: "x \<in> set xs \<Longrightarrow> index_of x xs < length xs"
  by (induction xs) auto

lemma fold_invariant: "(\<And>x s. x \<in> set xs \<Longrightarrow> I s \<Longrightarrow> I (f x s)) \<Longrightarrow> I s \<Longrightarrow> I (fold f xs s)"
  by (induction xs arbitrary: s) auto

lemma dfs_sound:
  assumes "\<And>u. set (successors adj u) = {v. (u, v) \<in> E}"
    and "distinct path" and "successively (\<lambda>u v. (u, v) \<in> E) (path @ [node])"
    and "\<forall>c \<in> set (snd st). is_cycle E c"
  shows "\<forall>c \<in> set (snd (dfs adj node path st)). is_cycle E c"
  using assms
proof (induction adj node path st rule: dfs.induct)
  case (1 adj node path visited cycles)
  consider (on_path) "node \<in> set path" | (seen) "node \<notin> set path" "node \<in> set visited"
    | (fresh) "node \<notin> set path" "node \<notin> set visited" by blast
  then show ?case
  proof cases
    case on_path
    let ?c = "drop (index_of node path) path"
    obtain ys where c: "?c = node # ys" using drop_index_of [OF on_path] ..
    have "?c @ [node] = drop (index_of node path) (path @ [node])"
      using index_of_less [OF on_path] by simp
    then have "successively (\<lambda>u v. (u, v) \<in> E) (?c @ [node])"
      using "1.prems"(3) successively_drop by metis
    with c "1.prems"(2) have "2 \<le> length ?c \<Longrightarrow> is_cycle E ?c"
      by (simp add: is_cycle_def)
        (metis distinct_drop distinct.simps(2) list.sel(1) append_Cons)
    with on_path "1.prems"(4) show ?thesis
      by (subst dfs.simps) (auto simp: Let_def)
  next
    case seen
    with "1.prems"(4) show ?thesis by (subst dfs.simps) simp
  next
    case fresh
    have "\<forall>c \<in> set (snd (fold (\<lambda>nxt. dfs adj nxt (path @ [node])) (successors adj node)
        (node # visited, cycles))). is_cycle E c"
    proof (rule fold_invariant)
      fix nxt :: 'a and st :: "'a list \<times> 'a list list"
      assume nxt: "nxt \<in> set (successors adj node)"
        and st: "\<forall>c \<in> set (snd st). is_cycle E c"
      have "distinct (path @ [node])" using fresh "1.prems"(2) by simp
      moreover have "successively (\<lambda>u v. (u, v) \<in> E) ((path @ [node]) @ [nxt])"
        using "1.prems"(3) nxt "1.prems"(1) by (simp add: successively_append_iff)
      ultimately show "\<forall>c \<in> set (snd (dfs adj nxt (path @ [node]) st)). is_cycle E c"
        using "1.IH" [OF fresh nxt "1.prems"(1)] st by blast
    qed (use "1.prems"(4) in simp)
    with fresh show ?thesis by (subst dfs.simps) simp
  qed
qed

section \<open>A search without a report has seen no cycle\<close>

text \<open>
  Nodes that are visited and no longer on the path are finished. As long as nothing is
  reported, the finished nodes are closed under the edges and every edge between different
  finished nodes descends in a rank.
\<close>

definition ranked :: "('n \<Rightarrow> 'n list) \<Rightarrow> 'n set \<Rightarrow> bool" where
  "ranked S F \<longleftrightarrow> (\<exists>rank :: 'n \<Rightarrow> nat. \<exists>N. (\<forall>u \<in> F. rank u < N) \<and>
     (\<forall>u \<in> F. \<forall>w \<in> set (S u). w \<noteq> u \<longrightarrow> w \<in> F \<and> rank w < rank u))"

lemma ranked_empty [simp]: "ranked S {}"
  by (simp add: ranked_def)

lemma ranked_insert:
  assumes "ranked S F" and "x \<notin> F" and "set (S x) \<subseteq> insert x F"
  shows "ranked S (insert x F)"
proof -
  obtain rank :: "'a \<Rightarrow> nat" and N where r: "\<forall>u \<in> F. rank u < N"
    "\<forall>u \<in> F. \<forall>w \<in> set (S u). w \<noteq> u \<longrightarrow> w \<in> F \<and> rank w < rank u"
    using assms(1) by (auto simp: ranked_def)
  let ?rank = "rank(x := N)"
  have "\<forall>u \<in> insert x F. ?rank u < Suc N" using r(1) assms(2) by auto
  moreover have "\<forall>u \<in> insert x F. \<forall>w \<in> set (S u). w \<noteq> u \<longrightarrow>
      w \<in> insert x F \<and> ?rank w < ?rank u"
    using r assms(2,3) by fastforce
  ultimately show ?thesis unfolding ranked_def by blast
qed

lemma fold_length_mono:
  assumes "\<And>x s. x \<in> set xs \<Longrightarrow> (m :: 's \<Rightarrow> nat) s \<le> m (f x s)"
  shows "m s \<le> m (fold f xs s)"
  using assms by (induction xs arbitrary: s) (auto intro: order_trans)

lemma dfs_cycles_mono: "length (snd st) \<le> length (snd (dfs adj node path st))"
proof (induction adj node path st rule: dfs.induct)
  case (1 adj node path visited cycles)
  show ?case
  proof (cases "node \<in> set path \<or> node \<in> set visited")
    case True
    then show ?thesis by (subst dfs.simps) (auto simp: Let_def)
  next
    case False
    then have "length (snd (node # visited, cycles)) \<le> length (snd (fold
        (\<lambda>nxt. dfs adj nxt (path @ [node])) (successors adj node) (node # visited, cycles)))"
      using "1.IH" by (intro fold_length_mono [where m = "\<lambda>s. length (snd s)"]) auto
    with False show ?thesis by (subst dfs.simps) simp
  qed
qed

text \<open>What a call guarantees when it reports nothing.\<close>

definition quiet ::
  "('n \<Rightarrow> 'n list) \<Rightarrow> 'n list \<Rightarrow> 'n \<Rightarrow> 'n list \<times> 'n list list \<Rightarrow> 'n list \<times> 'n list list \<Rightarrow> bool"
where
  "quiet S path node st st' \<longleftrightarrow>
     (length (snd st') = length (snd st) \<longrightarrow> set path \<subseteq> set (fst st) \<longrightarrow>
      ranked S (set (fst st) - set path) \<longrightarrow>
        set (fst st) \<subseteq> set (fst st') \<and> ranked S (set (fst st') - set path) \<and>
        (node \<in> set (fst st') - set path \<or> (path \<noteq> [] \<and> node = last path)))"

lemma fold_quiet:
  assumes "\<And>x s. x \<in> set xs \<Longrightarrow> quiet S path x s (f x s)"
    and "\<And>x s. length (snd s) \<le> length (snd (f x s))"
    and "length (snd (fold f xs st)) = length (snd st)"
    and "set path \<subseteq> set (fst st)" and "ranked S (set (fst st) - set path)" and "path \<noteq> []"
  shows "set (fst st) \<subseteq> set (fst (fold f xs st))
    \<and> ranked S (set (fst (fold f xs st)) - set path)
    \<and> set xs \<subseteq> insert (last path) (set (fst (fold f xs st)) - set path)"
  using assms
proof (induction xs arbitrary: st)
  case Nil
  then show ?case by simp
next
  case (Cons x xs)
  let ?st = "f x st"
  have "length (snd ?st) \<le> length (snd (fold f xs ?st))"
    using Cons.prems(2) by (rule fold_length_mono [where m = "\<lambda>s. length (snd s)"])
  with Cons.prems(2,3) have len: "length (snd ?st) = length (snd st)"
    "length (snd (fold f xs ?st)) = length (snd ?st)"
    by (metis fold_simps(2) le_antisym)+
  have step: "set (fst st) \<subseteq> set (fst ?st)" "ranked S (set (fst ?st) - set path)"
    "x \<in> set (fst ?st) - set path \<or> x = last path"
    using Cons.prems(1) [of x st] Cons.prems(4,5) len(1) by (auto simp: quiet_def)
  have "set (fst ?st) \<subseteq> set (fst (fold f xs ?st))
    \<and> ranked S (set (fst (fold f xs ?st)) - set path)
    \<and> set xs \<subseteq> insert (last path) (set (fst (fold f xs ?st)) - set path)"
    using Cons.prems(1,2,4,6) step(1,2) len(2) by (intro Cons.IH) auto
  with step show ?case by auto
qed

lemma dfs_quiet: "distinct path \<Longrightarrow> quiet (successors adj) path node st (dfs adj node path st)"
proof (induction adj node path st rule: dfs.induct)
  case (1 adj node path visited cycles)
  let ?S = "successors adj"
  consider (on_path) "node \<in> set path" | (seen) "node \<notin> set path" "node \<in> set visited"
    | (fresh) "node \<notin> set path" "node \<notin> set visited" by blast
  then show ?case
  proof cases
    case on_path
    obtain ys where c: "drop (index_of node path) path = node # ys"
      using drop_index_of [OF on_path] ..
    then have "ys = [] \<Longrightarrow> node = last path"
      by (metis append_take_drop_id last_snoc)
    with on_path c show ?thesis
      by (subst dfs.simps) (cases ys, auto simp: quiet_def Let_def)
  next
    case seen
    then show ?thesis by (subst dfs.simps) (simp add: quiet_def)
  next
    case fresh
    let ?p = "path @ [node]" and ?f = "\<lambda>nxt. dfs adj nxt (path @ [node])"
    let ?r = "fold ?f (?S node) (node # visited, cycles)"
    have eq: "dfs adj node path (visited, cycles) = ?r"
      using fresh by (subst dfs.simps) simp
    have IH: "quiet ?S ?p x s (?f x s)" if "x \<in> set (?S node)" for x s
      using "1.IH" [OF fresh that] "1.prems" fresh(1) by simp
    show ?thesis
      unfolding eq quiet_def
    proof (intro impI)
      assume len: "length (snd ?r) = length (snd (visited, cycles))"
        and sub: "set path \<subseteq> set (fst (visited, cycles))"
        and rk: "ranked ?S (set (fst (visited, cycles)) - set path)"
      have same: "set (node # visited) - set ?p = set visited - set path"
        using fresh by auto
      have "set (fst (node # visited, cycles)) \<subseteq> set (fst ?r)
          \<and> ranked ?S (set (fst ?r) - set ?p)
          \<and> set (?S node) \<subseteq> insert (last ?p) (set (fst ?r) - set ?p)"
      proof (rule fold_quiet)
        show "length (snd ?r) = length (snd (node # visited, cycles))" using len by simp
        show "set ?p \<subseteq> set (fst (node # visited, cycles))" using sub by auto
        show "ranked ?S (set (fst (node # visited, cycles)) - set ?p)"
          using rk same by (simp only: fst_conv)
      qed (simp_all add: IH dfs_cycles_mono)
      then have "set (node # visited) \<subseteq> set (fst ?r) \<and> ranked ?S (set (fst ?r) - set ?p)
          \<and> set (?S node) \<subseteq> insert node (set (fst ?r) - set ?p)" by simp
      moreover from this fresh have "set (fst ?r) - set path = insert node (set (fst ?r) - set ?p)"
        by auto
      ultimately show "set (fst (visited, cycles)) \<subseteq> set (fst ?r) \<and>
          ranked ?S (set (fst ?r) - set path) \<and>
          (node \<in> set (fst ?r) - set path \<or> path \<noteq> [] \<and> node = last path)"
        by (auto intro: ranked_insert)
    qed
  qed
qed

section \<open>Detection is exact\<close>

lemma detectCycle_fold_length:
  "length cs \<le> length (fold (\<lambda>n cycles. snd (dfs adj n [] ([], cycles))) ns cs)"
  using dfs_cycles_mono [of "([], _)"] by (intro fold_length_mono [where m = length]) auto

lemma detectCycle_fold_quiet:
  "fold (\<lambda>n cycles. snd (dfs adj n [] ([], cycles))) ns [] = [] \<Longrightarrow> n \<in> set ns \<Longrightarrow>
     snd (dfs adj n [] ([], [])) = []"
proof (induction ns)
  case Nil
  then show ?case by simp
next
  case (Cons m ns)
  have "length (snd (dfs adj m [] ([], []))) = 0"
    using detectCycle_fold_length [of "snd (dfs adj m [] ([], []))" adj ns] Cons.prems(1) by simp
  then have "snd (dfs adj m [] ([], [])) = []" by simp
  with Cons show ?case by auto
qed

lemma ranked_no_loop:
  assumes "ranked S F" and "(n, m) \<in> ({(u, v). v \<in> set (S u)} - Id)\<^sup>+" and "n \<in> F"
  shows "m \<noteq> n"
proof -
  obtain rank :: "'a \<Rightarrow> nat" and N where r:
    "\<forall>u \<in> F. \<forall>w \<in> set (S u). w \<noteq> u \<longrightarrow> w \<in> F \<and> rank w < rank u"
    using assms(1) by (auto simp: ranked_def)
  from assms(2) have "m \<in> F \<and> rank m < rank n"
  proof (induction rule: trancl_induct)
    case (base y)
    with r assms(3) show ?case by auto
  next
    case (step y z)
    with r have "z \<in> F \<and> rank z < rank y" by auto
    with step.IH show ?case by (auto intro: less_trans)
  qed
  then show ?thesis by auto
qed

lemma cycle_not_acyclic:
  assumes "is_cycle E c"
  shows "\<not> acyclic (E - Id)"
proof -
  obtain a b cs where c: "c = a # b # cs" and ab: "a \<noteq> b"
    using assms by (auto simp: is_cycle_def numeral_2_eq_2 Suc_le_length_iff)
  have path: "successively (\<lambda>u v. (u, v) \<in> E) (x # xs @ [y]) \<Longrightarrow> (x, y) \<in> E\<^sup>*" for x xs y
    by (induction xs arbitrary: x) (auto intro: converse_rtrancl_into_rtrancl)
  have "(a, b) \<in> E" and "successively (\<lambda>u v. (u, v) \<in> E) (b # cs @ [a])"
    using assms c by (simp_all add: is_cycle_def)
  with path have "(a, b) \<in> E - Id" and "(b, a) \<in> E\<^sup>*" using ab by auto
  then have "(a, a) \<in> (E - Id)\<^sup>+"
    by (metis rtrancl_into_trancl2 rtrancl_r_diff_Id)
  then show ?thesis by (auto simp: acyclic_def)
qed

lemma detectCycle_sound: "c \<in> set (detectCycle nodes links) \<Longrightarrow> is_cycle (wait_edges nodes links) c"
proof -
  let ?adj = "adjacency nodes links"
  have "\<forall>c \<in> set (fold (\<lambda>n cycles. snd (dfs ?adj n [] ([], cycles))) nodes []).
      is_cycle (wait_edges nodes links) c"
  proof (rule fold_invariant)
    fix n cs assume "\<forall>c \<in> set cs. is_cycle (wait_edges nodes links) c"
    then show "\<forall>c \<in> set (snd (dfs ?adj n [] ([], cs))). is_cycle (wait_edges nodes links) c"
      by (intro dfs_sound) (simp_all add: set_successors_adjacency)
  qed simp
  then show "c \<in> set (detectCycle nodes links) \<Longrightarrow> ?thesis"
    by (simp add: detectCycle_def Let_def)
qed

lemma detectCycle_empty_iff:
  "detectCycle nodes links = [] \<longleftrightarrow> acyclic (wait_edges nodes links - Id)"
proof
  assume none: "detectCycle nodes links = []"
  let ?adj = "adjacency nodes links"
  let ?S = "successors ?adj"
  have E: "wait_edges nodes links = {(u, v). v \<in> set (?S u)}"
    by (auto simp: set_successors_adjacency)
  show "acyclic (wait_edges nodes links - Id)"
  proof (rule acyclicI, rule allI, rule notI)
    fix n assume loop: "(n, n) \<in> (wait_edges nodes links - Id)\<^sup>+"
    then obtain v where "(n, v) \<in> wait_edges nodes links" by (auto dest: tranclD)
    then have "n \<in> set nodes" by (simp add: wait_edges_def)
    with none have "snd (dfs ?adj n [] ([], [])) = []"
      by (auto simp: detectCycle_def Let_def intro: detectCycle_fold_quiet)
    with dfs_quiet [of "[]" ?adj n "([], [])"]
    have "ranked ?S (set (fst (dfs ?adj n [] ([], []))))" "n \<in> set (fst (dfs ?adj n [] ([], [])))"
      by (auto simp: quiet_def)
    with loop show False unfolding E by (blast dest: ranked_no_loop)
  qed
next
  assume "acyclic (wait_edges nodes links - Id)"
  then have "c \<notin> set (detectCycle nodes links)" for c
    using detectCycle_sound cycle_not_acyclic by blast
  then show "detectCycle nodes links = []" by (cases "detectCycle nodes links") auto
qed

text \<open>
  C8. The deadlock search reports nothing exactly when the wait graph, self-loops aside, has no
  cycle: it neither misses a cycle nor invents one.
\<close>

theorem detectCycle_exact:
  "detectCycle nodes links = [] \<longleftrightarrow> acyclic (wait_edges nodes links - Id)"
  by (rule detectCycle_empty_iff)

text \<open>
  Every reported cycle is a list of at least two different nodes in which each waits for the
  next and the last for the first.
\<close>

lemma detectCycle_reports_cycles:
  "\<forall>c \<in> set (detectCycle nodes links). is_cycle (wait_edges nodes links) c"
  using detectCycle_sound by blast

text \<open>
  The view prints the number of reported cycles as the number of deadlocks. One deadlock between
  two backends is reported once from each of its nodes.
\<close>

lemma two_party_deadlock_reported_twice:
  "detectCycle [1, 2 :: nat] [(1, 2), (2, 1)] = [[1, 2], [2, 1]]"
  by (simp add: detectCycle_def adjacency_def successors_def dfs.simps Let_def)

section \<open>The graph of a snapshot never has a cycle\<close>

definition edge_from_backend :: "lock_edge \<Rightarrow> bool" where
  "edge_from_backend e \<longleftrightarrow>
     (\<exists>p. le_source e = str ''pid-'' @ p) \<and> (\<exists>k. le_target e = str ''lock-'' @ k)"

definition backend_ids :: "(ustr \<times> lock_node) list \<Rightarrow> bool" where
  "backend_ids m \<longleftrightarrow> (\<forall>(k, n) \<in> set m. \<exists>p. ln_id n = str ''pid-'' @ p)"

lemma in_alist_update: "p \<in> set (AList.update k v m) \<Longrightarrow> p = (k, v) \<or> p \<in> set m"
  by (induction m) (auto split: if_splits)

lemma backend_ids_byPID: "backend_ids (backendByPID backends)"
  unfolding backendByPID_def
proof (rule fold_invariant)
  fix b m assume "backend_ids m"
  then show "backend_ids (AList.update (num_str (ln_pid (backend_node b))) (backend_node b) m)"
    by (auto simp: backend_ids_def backend_node_def Let_def dest!: in_alist_update)
qed (simp add: backend_ids_def)

definition lock_ids :: "lock_graph \<Rightarrow> bool" where
  "lock_ids g \<longleftrightarrow> (\<forall>(k, n) \<in> set (lg_byKey g). \<exists>i. ln_id n = str ''lock-'' @ i)
     \<and> (\<forall>e \<in> set (lg_edges g). edge_from_backend e)"

lemma lock_ids_ensure: "lock_ids g \<Longrightarrow> lock_ids (ensure_lock_node l g)"
  by (auto simp: ensure_lock_node_def lock_ids_def Let_def dest!: in_alist_update)

lemma lock_ids_step:
  assumes "backend_ids m" and "lock_ids g"
  shows "lock_ids (lock_step m l g)"
  using lock_ids_ensure [OF assms(2), of l] assms(1)
  by (auto simp: lock_step_def Let_def lock_ids_def edge_from_backend_def backend_ids_def
      split: option.split dest!: map_of_SomeD)

lemma snapshot_edges_from_backends:
  "e \<in> set (lg_edges (buildLockGraphFromSnapshot backends locks)) \<Longrightarrow> edge_from_backend e"
proof -
  have "lock_ids (buildLockGraphFromSnapshot backends locks)"
    unfolding buildLockGraphFromSnapshot_def
    by (rule fold_invariant) (simp_all add: lock_ids_step backend_ids_byPID, simp add: lock_ids_def)
  then show "e \<in> set (lg_edges (buildLockGraphFromSnapshot backends locks)) \<Longrightarrow> ?thesis"
    by (simp add: lock_ids_def)
qed

lemma no_two_step_acyclic: "(\<And>u v w. (u, v) \<in> r \<Longrightarrow> (v, w) \<notin> r) \<Longrightarrow> acyclic r"
proof (rule acyclicI, rule allI, rule notI)
  fix x assume r: "\<And>u v w. (u, v) \<in> r \<Longrightarrow> (v, w) \<notin> r" and x: "(x, x) \<in> r\<^sup>+"
  obtain y where "(x, y) \<in> r" using x by (auto dest: tranclD)
  moreover obtain z where "(z, x) \<in> r" using x by (auto dest: tranclD2)
  ultimately show False using r by blast
qed

text \<open>
  C32. Whatever the snapshot says, the lock graph built from it contains no cycle that the
  deadlock search could report: its edges only lead from a backend to a lock, never from a lock
  to the backend that holds it, so a deadlock of the database is never shown.
\<close>

theorem snapshot_deadlock_never_reported:
  "lockGraphCycles (buildLockGraphFromSnapshot backends locks) = []"
proof -
  let ?g = "buildLockGraphFromSnapshot backends locks"
  let ?nodes = "map ln_id (lg_nodes ?g)"
  let ?links = "map (\<lambda>e. (le_source e, le_target e)) (lg_edges ?g)"
  have "acyclic (wait_edges ?nodes ?links - Id)"
  proof (rule no_two_step_acyclic)
    fix u v w assume "(u, v) \<in> wait_edges ?nodes ?links - Id"
    then obtain k where "v = str ''lock-'' @ k"
      by (auto simp: wait_edges_def edge_from_backend_def dest!: snapshot_edges_from_backends)
    then have "\<not> (\<exists>p. v = str ''pid-'' @ p)" by (simp add: str_def)
    then show "(v, w) \<notin> wait_edges ?nodes ?links - Id"
      by (auto simp: wait_edges_def edge_from_backend_def dest!: snapshot_edges_from_backends)
  qed
  then have "detectCycle ?nodes ?links = []" by (simp add: detectCycle_empty_iff)
  then show ?thesis by (simp add: lockGraphCycles_def)
qed

end
