(* ===== verification/JsJson.thy ===== *)
theory JsJson
  imports JsValues
begin

text \<open>
  \<^verbatim>\<open>JSON.parse\<close> and \<^verbatim>\<open>JSON.stringify\<close>, the two built-in functions through which every
  payload of the program passes. The parser is the grammar of RFC 8259 over code units; a
  failed parse is \<open>None\<close>, the \<^verbatim>\<open>SyntaxError\<close> of the source. Its recursion is bounded by a
  fuel of twice the length of the text and one, and \<open>json_parse_fuel\<close> shows that no larger
  fuel changes a result.
  Of a repeated member name the last value wins. The printer omits the members of an object that
  are \<^verbatim>\<open>undefined\<close> and escapes lone surrogates.
\<close>

section \<open>Tokens\<close>

definition is_json_ws :: "nat \<Rightarrow> bool" where
  "is_json_ws c \<longleftrightarrow> c = 32 \<or> c = 9 \<or> c = 10 \<or> c = 13"

definition skip_ws :: "ustr \<Rightarrow> ustr" where
  "skip_ws s = dropWhile is_json_ws s"

definition strip :: "string \<Rightarrow> ustr \<Rightarrow> ustr option" where
  "strip p s = (if starts_with (str p) s then Some (drop (length p) s) else None)"

definition hex4 :: "ustr \<Rightarrow> nat option" where
  "hex4 ds = (if length ds = 4 then radix_value 16 ds else None)"

definition escape_value :: "nat \<Rightarrow> nat option" where
  "escape_value e =
     (if e = 34 \<or> e = 92 \<or> e = 47 then Some e
      else if e = 98 then Some 8 else if e = 102 then Some 12
      else if e = 110 then Some 10 else if e = 114 then Some 13
      else if e = 116 then Some 9 else None)"

text \<open>The characters of a string literal after its opening quote.\<close>

function parse_chars :: "ustr \<Rightarrow> (ustr \<times> ustr) option" where
  "parse_chars [] = None"
| "parse_chars (c # r) =
     (if c = 34 then Some ([], r)
      else if c < 32 then None
      else if c = 92 then
        (case r of
           [] \<Rightarrow> None
         | e # r' \<Rightarrow>
             if e = 117 then
               (case hex4 (take 4 r') of
                  None \<Rightarrow> None
                | Some h \<Rightarrow> map_option (\<lambda>(cs, t). (h # cs, t)) (parse_chars (drop 4 r')))
             else
               (case escape_value e of
                  None \<Rightarrow> None
                | Some h \<Rightarrow> map_option (\<lambda>(cs, t). (h # cs, t)) (parse_chars r')))
      else map_option (\<lambda>(cs, t). (c # cs, t)) (parse_chars r))"
  by pat_completeness auto
termination
  by (relation "measure length") auto

text \<open>A number literal: the value and what follows it.\<close>

definition parse_number :: "ustr \<Rightarrow> (rat \<times> ustr) option" where
  "parse_number s =
     (let neg = starts_with (str ''-'') s;
          b = (if neg then tl s else s);
          i = takeWhile is_digit b; r = dropWhile is_digit b;
          dot = starts_with (str ''.'') r;
          f = (if dot then takeWhile is_digit (tl r) else []);
          r2 = (if dot then dropWhile is_digit (tl r) else r);
          ex = starts_with (str ''e'') r2 \<or> starts_with (str ''E'') r2;
          x = tl r2;
          xneg = starts_with (str ''-'') x;
          xs = (if xneg \<or> starts_with (str ''+'') x then tl x else x);
          d = (if ex then takeWhile is_digit xs else []);
          rest = (if ex then dropWhile is_digit xs else r2);
          m = of_nat (dec_value i) + of_nat (dec_value f) / 10 ^ length f;
          q = scale10 m (if xneg then - int (dec_value d) else int (dec_value d))
      in if i = [] \<or> (1 < length i \<and> hd i = 48) \<or> (dot \<and> f = []) \<or> (ex \<and> d = []) then None
         else Some (if neg then - q else q, rest))"

section \<open>Values\<close>

fun parse_value :: "nat \<Rightarrow> ustr \<Rightarrow> (jsval \<times> ustr) option"
  and parse_elems :: "nat \<Rightarrow> ustr \<Rightarrow> (jsval list \<times> ustr) option"
  and parse_members :: "nat \<Rightarrow> ustr \<Rightarrow> ((ustr \<times> jsval) list \<times> ustr) option" where
  "parse_value 0 s = None"
| "parse_value (Suc n) s =
     (case skip_ws s of
        [] \<Rightarrow> None
      | c # r \<Rightarrow>
          if c = 34 then map_option (\<lambda>(cs, t). (JStr cs, t)) (parse_chars r)
          else if c = 91 then
            (case strip '']'' (skip_ws r) of
               Some t \<Rightarrow> Some (JArr [], t)
             | None \<Rightarrow> map_option (\<lambda>(vs, t). (JArr vs, t)) (parse_elems n r))
          else if c = 123 then
            (case strip ''}'' (skip_ws r) of
               Some t \<Rightarrow> Some (JObj [], t)
             | None \<Rightarrow>
                 map_option (\<lambda>(ms, t). (JObj (fold (\<lambda>(k, v). AList.update k v) ms []), t))
                   (parse_members n r))
          else
            (case strip ''true'' (c # r) of Some t \<Rightarrow> Some (JBool True, t) | None \<Rightarrow>
            (case strip ''false'' (c # r) of Some t \<Rightarrow> Some (JBool False, t) | None \<Rightarrow>
            (case strip ''null'' (c # r) of Some t \<Rightarrow> Some (JNull, t) | None \<Rightarrow>
               map_option (\<lambda>(q, t). (JNum (Fin q), t)) (parse_number (c # r))))))"
| "parse_elems 0 s = None"
| "parse_elems (Suc n) s =
     (case parse_value n s of
        None \<Rightarrow> None
      | Some (v, r) \<Rightarrow>
          (case strip '','' (skip_ws r) of
             Some t \<Rightarrow> map_option (\<lambda>(vs, u). (v # vs, u)) (parse_elems n t)
           | None \<Rightarrow> map_option (\<lambda>t. ([v], t)) (strip '']'' (skip_ws r))))"
| "parse_members 0 s = None"
| "parse_members (Suc n) s =
     (case strip [CHR 0x22] (skip_ws s) of
        None \<Rightarrow> None
      | Some r \<Rightarrow>
          (case parse_chars r of
             None \<Rightarrow> None
           | Some (k, r1) \<Rightarrow>
               (case strip '':'' (skip_ws r1) of
                  None \<Rightarrow> None
                | Some r2 \<Rightarrow>
                    (case parse_value n r2 of
                       None \<Rightarrow> None
                     | Some (v, r3) \<Rightarrow>
                         (case strip '','' (skip_ws r3) of
                            Some t \<Rightarrow>
                              map_option (\<lambda>(ms, u). ((k, v) # ms, u)) (parse_members n t)
                          | None \<Rightarrow>
                              map_option (\<lambda>t. ([(k, v)], t)) (strip ''}'' (skip_ws r3)))))))"

definition json_parse :: "ustr \<Rightarrow> jsval option" where
  "json_parse s =
     (case parse_value (Suc (2 * length s)) s of
        Some (v, r) \<Rightarrow> if skip_ws r = [] then Some v else None
      | None \<Rightarrow> None)"

section \<open>The fuel is enough\<close>

lemma length_skip_ws: "length (skip_ws s) \<le> length s"
  by (simp add: skip_ws_def length_dropWhile_le)

lemma strip_length: "strip p s = Some t \<Longrightarrow> length t + length p \<le> length s"
  by (auto simp: strip_def starts_with_iff split: if_splits)

lemma strip_less: "strip p s = Some t \<Longrightarrow> p \<noteq> [] \<Longrightarrow> length t < length s"
  using strip_length [of p s t] by (cases p) auto

lemma strip_ws_less: "strip p (skip_ws s) = Some t \<Longrightarrow> p \<noteq> [] \<Longrightarrow> length t < length s"
  using strip_less [of p "skip_ws s" t] length_skip_ws [of s] by simp

lemma parse_chars_length: "parse_chars s = Some (cs, t) \<Longrightarrow> length t < length s"
  by (induction s arbitrary: cs t rule: parse_chars.induct)
    (fastforce split: if_splits list.splits option.splits)+

lemma parse_number_length: "parse_number s = Some (q, t) \<Longrightarrow> length t < length s"
proof -
  have le: "length (dropWhile is_digit xs) \<le> length xs" for xs
    by (rule length_dropWhile_le)
  have drop_tl: "length (dropWhile is_digit (tl xs)) \<le> length xs"
    "length (dropWhile is_digit (tl (tl xs))) \<le> length xs" for xs
    using le [of "tl xs"] le [of "tl (tl xs)"] by simp_all
  have lt: "takeWhile is_digit xs \<noteq> [] \<Longrightarrow> length (dropWhile is_digit xs) < length xs" for xs
    using takeWhile_dropWhile_id [of is_digit xs, THEN arg_cong [where f = length]]
    by (cases "takeWhile is_digit xs") auto
  let ?b = "if starts_with (str ''-'') s then tl s else s"
  let ?r = "dropWhile is_digit ?b"
  have chain: "length (dropWhile is_digit (tl xs)) \<le> length xs" for xs
    by (rule drop_tl)
  assume "parse_number s = Some (q, t)"
  then have ne: "takeWhile is_digit ?b \<noteq> []"
    and t: "length t \<le> length ?r"
    by (auto simp: parse_number_def Let_def le chain drop_tl split: if_splits
        intro: order_trans [OF drop_tl(1)] order_trans [OF drop_tl(2)] order_trans [OF le])
  from t lt [OF ne] have "length t < length ?b" by linarith
  also have "\<dots> \<le> length s" by simp
  finally show ?thesis .
qed

lemma parse_length:
  "parse_value n s = Some (v, t) \<Longrightarrow> length t < length s"
  "parse_elems n s = Some (vs, t) \<Longrightarrow> length t < length s"
  "parse_members n s = Some (ms, t) \<Longrightarrow> length t < length s"
proof (induction n s and n s and n s arbitrary: v t and vs t and ms t
    rule: parse_value_parse_elems_parse_members.induct)
  case (2 n s)
  have ws: "length (skip_ws s) \<le> length s" by (rule length_skip_ws)
  obtain c r where cr: "skip_ws s = c # r"
    using "2.prems" by (cases "skip_ws s") auto
  have "length t < length (c # r)"
    using "2.prems" "2.IH"(1,2) [OF cr] cr
    by (fastforce split: if_splits option.splits
        dest: strip_ws_less strip_less parse_chars_length parse_number_length)
  with ws cr show ?case by simp
next
  case (4 n s)
  show ?case
    using "4.prems" "4.IH"
    by (fastforce split: option.splits dest: strip_ws_less)
next
  case (6 n s)
  show ?case
    using "6.prems" "6.IH"
    by (fastforce split: option.splits dest: strip_ws_less parse_chars_length)
qed simp_all

lemma parse_fuel_Suc:
  "2 * length s < n \<Longrightarrow> parse_value (Suc n) s = parse_value n s"
  "2 * length s + 1 < n \<Longrightarrow> parse_elems (Suc n) s = parse_elems n s"
  "2 * length s + 1 < n \<Longrightarrow> parse_members (Suc n) s = parse_members n s"
proof (induction n s and n s and n s rule: parse_value_parse_elems_parse_members.induct)
  case (2 n s)
  show ?case
  proof (cases "skip_ws s")
    case Nil
    then show ?thesis by simp
  next
    case (Cons c r)
    then have "length r < length s" using length_skip_ws [of s] by simp
    with "2.prems" have "2 * length r + 1 < n" by simp
    with "2.IH" [OF Cons] Cons show ?thesis by (simp split: option.split)
  qed
next
  case (4 n s)
  have IH: "parse_value (Suc n) s = parse_value n s"
    using "4.IH"(1) "4.prems" by simp
  have IHe: "parse_elems (Suc n) t = parse_elems n t"
    if v: "parse_value n s = Some (v, r)" and t: "strip '','' (skip_ws r) = Some t" for v r t
  proof -
    from strip_ws_less [OF t] parse_length(1) [OF v] "4.prems" have "2 * length t + 1 < n"
      by simp
    with "4.IH"(2) [OF v refl t] show ?thesis by simp
  qed
  show ?case
    by (subst (1 2) parse_elems.simps(2), subst IH) (auto simp: IHe simp del: parse_elems.simps(2)
        split: option.splits)
next
  case (6 n s)
  show ?case
  proof (cases "strip [CHR 0x22] (skip_ws s)")
    case None
    then show ?thesis by simp
  next
    case (Some r)
    note s1 = this
    show ?thesis
    proof (cases "parse_chars r")
      case None
      with s1 show ?thesis by simp
    next
      case (Some kr)
      then obtain k r1 where k: "parse_chars r = Some (k, r1)" by (cases kr) auto
      show ?thesis
      proof (cases "strip '':'' (skip_ws r1)")
        case None
        with s1 k show ?thesis by simp
      next
        case (Some r2)
        have r2: "length r2 < length s"
          using strip_ws_less [OF s1] parse_chars_length [OF k] strip_ws_less [OF Some] by simp
        then have IH: "parse_value (Suc n) r2 = parse_value n r2"
          using "6.IH"(1) [OF s1 k refl Some] "6.prems" by simp
        have IHe: "parse_members (Suc n) t = parse_members n t"
          if v: "parse_value n r2 = Some (v, r3)" and t: "strip '','' (skip_ws r3) = Some t"
          for v r3 t
        proof -
          from strip_ws_less [OF t] parse_length(1) [OF v] r2 "6.prems"
          have "2 * length t + 1 < n" by simp
          with "6.IH"(2) [OF s1 k refl Some v refl t] show ?thesis by simp
        qed
        show ?thesis
          by (subst (1 2) parse_members.simps(2))
            (auto simp: s1 k Some IH IHe
              simp del: parse_members.simps(2) parse_value.simps(2) split: option.splits)
      qed
    qed
  qed
qed simp_all

lemma json_parse_fuel:
  "2 * length s < n \<Longrightarrow>
     (case parse_value n s of
        Some (v, r) \<Rightarrow> if skip_ws r = [] then Some v else None | None \<Rightarrow> None) = json_parse s"
proof (induction n)
  case 0
  then show ?case by simp
next
  case (Suc n)
  show ?case
  proof (cases "2 * length s < n")
    case True
    with Suc.IH show ?thesis by (simp only: parse_fuel_Suc(1) [OF True])
  next
    case False
    with Suc.prems have "n = 2 * length s" by simp
    then show ?thesis by (simp only: json_parse_def)
  qed
qed

section \<open>Printing\<close>

definition hex_digit :: "nat \<Rightarrow> nat" where
  "hex_digit d = (if d < 10 then 48 + d else 87 + d)"

definition unicode_escape :: "nat \<Rightarrow> ustr" where
  "unicode_escape c = [92, 117, hex_digit (c div 4096), hex_digit (c div 256 mod 16),
     hex_digit (c div 16 mod 16), hex_digit (c mod 16)]"

definition escape_char :: "nat \<Rightarrow> ustr" where
  "escape_char c =
     (if c = 34 then [92, 34] else if c = 92 then [92, 92]
      else if c = 8 then [92, 98] else if c = 12 then [92, 102]
      else if c = 10 then [92, 110] else if c = 13 then [92, 114]
      else if c = 9 then [92, 116]
      else if c < 32 then unicode_escape c
      else [c])"

text \<open>
  A surrogate that is not half of a pair is escaped, every other unit above the controls is printed
  as it is.
\<close>

definition is_high :: "nat \<Rightarrow> bool" where "is_high c \<longleftrightarrow> 0xD800 \<le> c \<and> c < 0xDC00"
definition is_low :: "nat \<Rightarrow> bool" where "is_low c \<longleftrightarrow> 0xDC00 \<le> c \<and> c < 0xE000"

definition print_unit :: "nat \<Rightarrow> ustr" where
  "print_unit c = (if is_high c \<or> is_low c then unicode_escape c else escape_char c)"

fun quote_chars :: "ustr \<Rightarrow> ustr" where
  "quote_chars [] = []"
| "quote_chars [c] = print_unit c"
| "quote_chars (c # d # r) =
     (if is_high c \<and> is_low d then c # d # quote_chars r else print_unit c @ quote_chars (d # r))"

definition quote :: "ustr \<Rightarrow> ustr" where
  "quote s = [34] @ quote_chars s @ [34]"

fun json_stringify :: "jsval \<Rightarrow> ustr" where
  "json_stringify JUndef = str ''null''"
| "json_stringify JNull = str ''null''"
| "json_stringify (JBool b) = (if b then str ''true'' else str ''false'')"
| "json_stringify (JNum n) = (case n of Fin q \<Rightarrow> num_str n | _ \<Rightarrow> str ''null'')"
| "json_stringify (JStr s) = quote s"
| "json_stringify (JArr vs) = [91] @ join (str '','') (map json_stringify vs) @ [93]"
| "json_stringify (JObj fs) =
     [123] @ join (str '','')
       (map (\<lambda>(k, v). quote k @ [58] @ json_stringify v)
          (filter (\<lambda>(k, v). v \<noteq> JUndef) fs)) @ [125]"

end
