(* ===== verification/ErrorReporter.thy ===== *)
theory ErrorReporter
  imports JsJson
begin

text \<open>
  \<^verbatim>\<open>lib/errorReporter.ts\<close>: the breadcrumb trail and the queue of error reports. The module
  variables \<^verbatim>\<open>queue\<close>, \<^verbatim>\<open>breadcrumbs\<close>, \<^verbatim>\<open>flushTimer\<close>, \<^verbatim>\<open>installedListeners\<close> and
  \<^verbatim>\<open>activeConfig\<close> are the fields of one state record; \<open>flushTimer\<close> holds the delay of the
  pending timer, if there is one. \<open>flush\<close> hands over the batch that is posted; the post itself,
  whose failures are swallowed, is in \<open>WebVitals\<close>. The clock, the page address and the stack of
  a freshly made \<^verbatim>\<open>Error\<close> are arguments.
\<close>

section \<open>State\<close>

datatype crumb_type = CLog | CClick | CNav | CWs | CFetch

datatype crumb_level = LInfo | LWarn | LError

record breadcrumb =
  cr_type :: crumb_type
  cr_level :: "crumb_level option"
  cr_message :: ustr
  cr_timestamp :: int
  cr_data :: "(ustr \<times> jsval) list option"

text \<open>A breadcrumb without its time stamp, the argument of \<^verbatim>\<open>addBreadcrumb\<close>.\<close>

record crumb_input =
  ci_type :: crumb_type
  ci_level :: "crumb_level option"
  ci_message :: ustr
  ci_data :: "(ustr \<times> jsval) list option"

datatype report_source = Uncaught | Unhandledrejection | Boundary | Manual

record error_report =
  rp_message :: ustr
  rp_name :: ustr
  rp_stack :: "ustr option"
  rp_source :: report_source
  rp_url :: "ustr option"
  rp_breadcrumbs :: "breadcrumb list"
  rp_context :: "(ustr \<times> jsval) list option"
  rp_capturedAt :: int

record reporter_config =
  rc_endpoint :: ustr
  rc_maxBreadcrumbs :: int
  rc_enabled :: bool

record reporter_options =
  ro_endpoint :: "ustr option"
  ro_maxBreadcrumbs :: "int option"
  ro_enabled :: "bool option"

record reporter =
  er_queue :: "error_report list"
  er_breadcrumbs :: "breadcrumb list"
  er_flushTimer :: "int option"
  er_installedListeners :: bool
  er_config :: reporter_config

definition DEFAULT_ENDPOINT :: ustr where
  "DEFAULT_ENDPOINT = str ''/api/telemetry/errors''"

definition DEFAULT_MAX_BREADCRUMBS :: int where
  "DEFAULT_MAX_BREADCRUMBS = 50"

definition default_reporter_config :: reporter_config where
  "default_reporter_config =
     \<lparr>rc_endpoint = DEFAULT_ENDPOINT, rc_maxBreadcrumbs = DEFAULT_MAX_BREADCRUMBS,
      rc_enabled = True\<rparr>"

definition init_reporter :: reporter where
  "init_reporter = \<lparr>er_queue = [], er_breadcrumbs = [], er_flushTimer = None,
     er_installedListeners = False, er_config = default_reporter_config\<rparr>"

section \<open>Breadcrumbs\<close>

definition getBreadcrumbs :: "reporter \<Rightarrow> breadcrumb list" where
  "getBreadcrumbs s = er_breadcrumbs s"

definition addBreadcrumb :: "int \<Rightarrow> crumb_input \<Rightarrow> reporter \<Rightarrow> reporter" where
  "addBreadcrumb now b s =
     (if \<not> rc_enabled (er_config s) then s
      else
        (let entry = \<lparr>cr_type = ci_type b, cr_level = ci_level b, cr_message = ci_message b,
               cr_timestamp = now, cr_data = ci_data b\<rparr>;
             bs = er_breadcrumbs s @ [entry];
             mx = rc_maxBreadcrumbs (er_config s)
         in s\<lparr>er_breadcrumbs :=
               (if mx < int (length bs) then drop (nat (int (length bs) - mx)) bs else bs)\<rparr>))"

definition crumb_at :: "int \<times> crumb_input \<Rightarrow> breadcrumb" where
  "crumb_at p = (case p of (now, b) \<Rightarrow>
     \<lparr>cr_type = ci_type b, cr_level = ci_level b, cr_message = ci_message b,
      cr_timestamp = now, cr_data = ci_data b\<rparr>)"

definition crumb_cap :: "reporter \<Rightarrow> nat" where
  "crumb_cap s = nat (rc_maxBreadcrumbs (er_config s))"

definition push_crumb :: "breadcrumb \<Rightarrow> reporter \<Rightarrow> reporter" where
  "push_crumb e =
     addBreadcrumb (cr_timestamp e)
       \<lparr>ci_type = cr_type e, ci_level = cr_level e, ci_message = cr_message e, ci_data = cr_data e\<rparr>"

lemma addBreadcrumb_push: "addBreadcrumb now b s = push_crumb (crumb_at (now, b)) s"
  by (simp add: push_crumb_def crumb_at_def addBreadcrumb_def Let_def)

lemma er_breadcrumbs_push:
  "rc_enabled (er_config s) \<Longrightarrow>
     er_breadcrumbs (push_crumb e s) = take_last (crumb_cap s) (er_breadcrumbs s @ [e])"
  by (cases e, cases "0 \<le> rc_maxBreadcrumbs (er_config s)")
    (auto simp: push_crumb_def addBreadcrumb_def crumb_cap_def take_last_def Let_def
      nat_diff_distrib' nat_add_distrib)

lemma push_crumb_frame [simp]:
  "er_config (push_crumb e s) = er_config s" "er_queue (push_crumb e s) = er_queue s"
  "er_flushTimer (push_crumb e s) = er_flushTimer s"
  "er_installedListeners (push_crumb e s) = er_installedListeners s"
  by (simp_all add: push_crumb_def addBreadcrumb_def Let_def)

interpretation crumb_log: bounded_log push_crumb er_breadcrumbs crumb_cap "\<lambda>s. rc_enabled (er_config s)"
  by unfold_locales
    (simp_all add: er_breadcrumbs_push crumb_cap_def, simp add: push_crumb_def addBreadcrumb_def)

text \<open>
  While reporting is enabled the breadcrumb trail is exactly the newest
  \<^verbatim>\<open>maxBreadcrumbs\<close> of the crumbs left so far, in order, provided it respected the limit
  before.
\<close>

lemma breadcrumb_trail_keeps_newest:
  assumes "rc_enabled (er_config s)"
    and "int (length (er_breadcrumbs s)) \<le> rc_maxBreadcrumbs (er_config s)"
  shows "getBreadcrumbs (fold (\<lambda>(now, b). addBreadcrumb now b) bs s) =
    take_last (nat (rc_maxBreadcrumbs (er_config s))) (getBreadcrumbs s @ map crumb_at bs)"
proof -
  have "fold (\<lambda>(now, b). addBreadcrumb now b) bs s = fold push_crumb (map crumb_at bs) s"
    by (induction bs arbitrary: s) (auto simp: addBreadcrumb_push)
  moreover have "length (er_breadcrumbs s) \<le> crumb_cap s"
    using assms(2) by (simp add: crumb_cap_def)
  ultimately show ?thesis
    using crumb_log.entries_fold [OF assms(1)]
    by (simp add: getBreadcrumbs_def crumb_cap_def)
qed

definition sample_crumb :: "string \<Rightarrow> crumb_input" where
  "sample_crumb m = \<lparr>ci_type = CLog, ci_level = None, ci_message = str m, ci_data = None\<rparr>"

section \<open>Error reports\<close>

text \<open>
  What was thrown: an \<^verbatim>\<open>Error\<close> with its name, message and stack, or any other value, of which
  the reporter makes an \<^verbatim>\<open>Error\<close>.
\<close>

datatype thrown = ThrownError ustr ustr "ustr option" | ThrownValue jsval

record report_env =
  re_now :: int
  re_href :: "ustr option"
  re_freshStack :: "ustr option"

record report_input =
  ri_error :: thrown
  ri_source :: "report_source option"
  ri_context :: "(ustr \<times> jsval) list option"

definition as_error :: "report_env \<Rightarrow> thrown \<Rightarrow> ustr \<times> ustr \<times> ustr option" where
  "as_error env t = (case t of
     ThrownError n m st \<Rightarrow> (n, m, st)
   | ThrownValue v \<Rightarrow> (str ''Error'', to_str v, re_freshStack env))"

definition make_report :: "reporter \<Rightarrow> report_env \<times> report_input \<Rightarrow> error_report" where
  "make_report s p = (case p of (env, i) \<Rightarrow>
     (case as_error env (ri_error i) of (n, m, st) \<Rightarrow>
        \<lparr>rp_message = m, rp_name = n, rp_stack = st,
         rp_source = (case ri_source i of Some src \<Rightarrow> src | None \<Rightarrow> Manual),
         rp_url = re_href env, rp_breadcrumbs = er_breadcrumbs s, rp_context = ri_context i,
         rp_capturedAt = re_now env\<rparr>))"

definition scheduleFlush :: "reporter \<Rightarrow> reporter" where
  "scheduleFlush s =
     (if er_flushTimer s \<noteq> None then s else s\<lparr>er_flushTimer := Some 1000\<rparr>)"

definition reportError :: "report_env \<times> report_input \<Rightarrow> reporter \<Rightarrow> reporter" where
  "reportError i s =
     (if \<not> rc_enabled (er_config s) then s
      else scheduleFlush (s\<lparr>er_queue := er_queue s @ [make_report s i]\<rparr>))"

definition configureErrorReporter :: "reporter_options \<Rightarrow> reporter \<Rightarrow> reporter" where
  "configureErrorReporter c s =
     s\<lparr>er_config :=
        \<lparr>rc_endpoint = (case ro_endpoint c of Some e \<Rightarrow> e | None \<Rightarrow> DEFAULT_ENDPOINT),
         rc_maxBreadcrumbs =
           (case ro_maxBreadcrumbs c of Some n \<Rightarrow> n | None \<Rightarrow> DEFAULT_MAX_BREADCRUMBS),
         rc_enabled = (case ro_enabled c of Some b \<Rightarrow> b | None \<Rightarrow> True)\<rparr>\<rparr>"

text \<open>
  \<open>flush\<close> empties the queue before the post starts and returns the batch to be posted; the
  timer callback first forgets its own handle, \<open>flushNow\<close> cancels a pending timer.
\<close>

definition flush :: "reporter \<Rightarrow> reporter \<times> error_report list" where
  "flush s = (if er_queue s = [] then (s, []) else (s\<lparr>er_queue := []\<rparr>, er_queue s))"

definition timer_callback :: "reporter \<Rightarrow> reporter \<times> error_report list" where
  "timer_callback s = flush (s\<lparr>er_flushTimer := None\<rparr>)"

definition flushNow :: "reporter \<Rightarrow> reporter \<times> error_report list" where
  "flushNow s = flush (if er_flushTimer s \<noteq> None then s\<lparr>er_flushTimer := None\<rparr> else s)"

definition resetErrorReporterForTests :: "reporter \<Rightarrow> reporter" where
  "resetErrorReporterForTests s = s\<lparr>er_queue := [], er_breadcrumbs := [], er_flushTimer := None,
     er_config := default_reporter_config, er_installedListeners := False\<rparr>"

section \<open>Global listeners\<close>

datatype window_event =
    ErrorEvent "thrown option" ustr ustr int int \<comment> \<open>error, message, filename, lineno, colno\<close>
  | RejectionEvent thrown
  | BoundaryEvent thrown jsval

text \<open>
  Installing is a no-op when already installed or outside a browser; the flag tells whether the
  returned function is the one that uninstalls.
\<close>

definition installGlobalErrorHandlers :: "bool \<Rightarrow> reporter \<Rightarrow> reporter \<times> bool" where
  "installGlobalErrorHandlers has_window s =
     (if er_installedListeners s \<or> \<not> has_window then (s, False)
      else (s\<lparr>er_installedListeners := True\<rparr>, True))"

definition uninstall_handlers :: "reporter \<Rightarrow> reporter" where
  "uninstall_handlers s = s\<lparr>er_installedListeners := False\<rparr>"

definition event_input :: "window_event \<Rightarrow> ustr option \<Rightarrow> report_input" where
  "event_input e fresh = (case e of
     ErrorEvent err msg file line column \<Rightarrow>
       \<lparr>ri_error = (case err of Some t \<Rightarrow> t | None \<Rightarrow> ThrownError (str ''Error'') msg fresh),
        ri_source = Some Uncaught,
        ri_context = Some [(str ''filename'', JStr file), (str ''lineno'', JNum (jsint line)),
          (str ''colno'', JNum (jsint column))]\<rparr>
   | RejectionEvent reason \<Rightarrow>
       \<lparr>ri_error = reason, ri_source = Some Unhandledrejection, ri_context = None\<rparr>
   | BoundaryEvent err info \<Rightarrow>
       \<lparr>ri_error = err, ri_source = Some Boundary, ri_context = Some [(str ''info'', info)]\<rparr>)"

text \<open>The boundary listener of \<^verbatim>\<open>main.tsx\<close> is always there, the other two when installed.\<close>

definition dispatch_event :: "report_env \<Rightarrow> window_event \<Rightarrow> reporter \<Rightarrow> reporter" where
  "dispatch_event env e s =
     (if er_installedListeners s \<or> (case e of BoundaryEvent _ _ \<Rightarrow> True | _ \<Rightarrow> False)
      then reportError (env, event_input e (re_freshStack env)) s else s)"

section \<open>No report is lost\<close>

text \<open>What else may happen between reports: a breadcrumb, a new configuration, an installation.\<close>

datatype reporter_op = Crumb int crumb_input | Configure reporter_options | Install bool | Uninstall

definition reporter_other :: "reporter_op \<Rightarrow> reporter \<Rightarrow> reporter" where
  "reporter_other x s = (case x of
     Crumb now b \<Rightarrow> addBreadcrumb now b s
   | Configure c \<Rightarrow> configureErrorReporter c s
   | Install w \<Rightarrow> fst (installGlobalErrorHandlers w s)
   | Uninstall \<Rightarrow> uninstall_handlers s)"

interpretation reports: batch_reporter er_queue "\<lambda>s. er_flushTimer s \<noteq> None"
  "\<lambda>s. rc_enabled (er_config s)" make_report reportError timer_callback flushNow reporter_other
  by unfold_locales
    (auto simp: reportError_def scheduleFlush_def timer_callback_def flushNow_def flush_def
      reporter_other_def addBreadcrumb_push configureErrorReporter_def
      installGlobalErrorHandlers_def uninstall_handlers_def split: reporter_op.split)

abbreviation reporter_run ::
  "(report_env \<times> report_input, reporter_op) action list \<Rightarrow> reporter \<Rightarrow> reporter \<times> error_report list list"
where
  "reporter_run \<equiv> run_batches reportError timer_callback flushNow reporter_other
     (\<lambda>s. er_flushTimer s \<noteq> None)"

abbreviation reporter_accepted ::
  "(report_env \<times> report_input, reporter_op) action list \<Rightarrow> reporter \<Rightarrow> error_report list"
where
  "reporter_accepted \<equiv> run_submitted (\<lambda>s. rc_enabled (er_config s)) make_report
     reportError timer_callback flushNow reporter_other (\<lambda>s. er_flushTimer s \<noteq> None)"

text \<open>
  C11. In every interleaving of reports, timer callbacks, forced flushes, breadcrumbs and
  reconfigurations, the batches handed to the network followed by what is still queued are the
  reports accepted, each exactly once and in order.
\<close>

theorem reports_delivered_exactly_once:
  "concat (snd (reporter_run acts s)) @ er_queue (fst (reporter_run acts s)) =
     er_queue s @ reporter_accepted acts s"
  by (rule reports.run_delivers [OF prod.collapse [symmetric]])

text \<open>
  A queued report always has an armed flush timer: from a state where that holds, no
  sequence of operations can leave a report behind that no timer will send.
\<close>

lemma queued_report_has_timer:
  assumes "er_queue s \<noteq> [] \<Longrightarrow> er_flushTimer s \<noteq> None"
    and "er_queue (fst (reporter_run acts s)) \<noteq> []"
  shows "er_flushTimer (fst (reporter_run acts s)) \<noteq> None"
  by (rule reports.run_armed [OF assms(1) prod.collapse [symmetric] assms(2)])

definition sample_env :: report_env where
  "sample_env = \<lparr>re_now = 5, re_href = None, re_freshStack = None\<rparr>"

definition sample_input :: report_input where
  "sample_input = \<lparr>ri_error = ThrownValue (JStr (str ''boom'')), ri_source = None, ri_context = None\<rparr>"

end
