(* ===== verification/ApiClient.thy ===== *)
theory ApiClient
  imports ErrorReporter
begin

text \<open>
  \<^verbatim>\<open>lib/api.ts\<close>: the wrapper around \<^verbatim>\<open>fetch\<close> that every request of the frontend goes
  through. A call of \<open>request\<close> is a sequence of effects (timers, breadcrumbs, fetches, waits) and
  a result. The browser is the record \<open>world\<close>: what \<^verbatim>\<open>fetch\<close> answers to each attempt, the random
  numbers, the request ids and the state of the caller's abort signal; the development assumes
  nothing of it beyond what a statement says.
\<close>

section \<open>Configuration and requests\<close>

record api_client_options =
  ao_baseUrl :: ustr
  ao_defaultTimeoutMs :: "int option"
  ao_maxRetries :: "int option"
  ao_baseBackoffMs :: "int option"
  ao_maxBackoffMs :: "int option"

record api_config =
  ac_defaultTimeoutMs :: int
  ac_maxRetries :: int
  ac_baseBackoffMs :: int
  ac_maxBackoffMs :: int
  ac_baseUrl :: ustr

datatype http_method = GET | POST | PUT | DELETE | PATCH | HEAD

fun method_name :: "http_method \<Rightarrow> ustr" where
  "method_name GET = str ''GET''"
| "method_name POST = str ''POST''"
| "method_name PUT = str ''PUT''"
| "method_name DELETE = str ''DELETE''"
| "method_name PATCH = str ''PATCH''"
| "method_name HEAD = str ''HEAD''"

text \<open>An absent field is \<^verbatim>\<open>None\<close>, an absent body \<open>JUndef\<close>; \<open>ro_signal\<close> tells whether a signal is passed.\<close>

record request_options =
  rq_method :: "http_method option"
  rq_body :: jsval
  rq_timeoutMs :: "int option"
  rq_retry :: "bool option"
  rq_maxRetries :: "int option"
  rq_headers :: "(ustr \<times> ustr) list"
  rq_signal :: bool

record api_error =
  ae_message :: ustr
  ae_status :: int
  ae_url :: ustr
  ae_method :: ustr
  ae_requestId :: "ustr option"

definition isRetryable :: "api_error \<Rightarrow> bool" where
  "isRetryable e \<longleftrightarrow>
     ae_status e = 0 \<or> ae_status e = 408 \<or> ae_status e = 429 \<or>
     500 \<le> ae_status e \<and> ae_status e < 600"

definition DEFAULT_TIMEOUT_MS :: int where "DEFAULT_TIMEOUT_MS = 15000"
definition DEFAULT_MAX_RETRIES :: int where "DEFAULT_MAX_RETRIES = 3"
definition DEFAULT_BASE_BACKOFF_MS :: int where "DEFAULT_BASE_BACKOFF_MS = 250"
definition DEFAULT_MAX_BACKOFF_MS :: int where "DEFAULT_MAX_BACKOFF_MS = 4000"

lemmas api_defaults = DEFAULT_TIMEOUT_MS_def DEFAULT_MAX_RETRIES_def DEFAULT_BASE_BACKOFF_MS_def
  DEFAULT_MAX_BACKOFF_MS_def

definition strip_slashes :: "ustr \<Rightarrow> ustr" where
  "strip_slashes s = rev (dropWhile (\<lambda>c. c = 47) (rev s))"

definition or_default :: "'a option \<Rightarrow> 'a \<Rightarrow> 'a" where
  "or_default x d = (case x of Some v \<Rightarrow> v | None \<Rightarrow> d)"

lemma or_default_simps [simp]: "or_default (Some v) d = v" "or_default None d = d"
  by (simp_all add: or_default_def)

definition createApiClient :: "api_client_options \<Rightarrow> api_config" where
  "createApiClient opts =
     \<lparr>ac_defaultTimeoutMs = or_default (ao_defaultTimeoutMs opts) DEFAULT_TIMEOUT_MS,
      ac_maxRetries = or_default (ao_maxRetries opts) DEFAULT_MAX_RETRIES,
      ac_baseBackoffMs = or_default (ao_baseBackoffMs opts) DEFAULT_BASE_BACKOFF_MS,
      ac_maxBackoffMs = or_default (ao_maxBackoffMs opts) DEFAULT_MAX_BACKOFF_MS,
      ac_baseUrl = strip_slashes (ao_baseUrl opts)\<rparr>"

section \<open>Helpers\<close>

definition is_absolute_url :: "ustr \<Rightarrow> bool" where
  "is_absolute_url p \<longleftrightarrow>
     starts_with (str ''http://'') (to_lower p) \<or> starts_with (str ''https://'') (to_lower p)"

definition joinUrl :: "ustr \<Rightarrow> ustr \<Rightarrow> ustr" where
  "joinUrl base path =
     (if is_absolute_url path then path
      else base @ (if starts_with (str ''/'') path then path else str ''/'' @ path))"

text \<open>
  The random number is drawn from the half-open unit interval; the delay is a whole number of
  milliseconds.
\<close>

definition backoff :: "rat \<Rightarrow> nat \<Rightarrow> int \<Rightarrow> int \<Rightarrow> int" where
  "backoff rnd attempt base cap = \<lfloor>rnd * of_int (min cap (base * 2 ^ attempt))\<rfloor>"

text \<open>The value \<^verbatim>\<open>fetch\<close> (or reading the body) rejected with.\<close>

datatype fetch_failure = AbortFailure | ErrorFailure ustr | ValueFailure jsval

definition describeNetworkError :: "fetch_failure \<Rightarrow> ustr" where
  "describeNetworkError e = (case e of
     AbortFailure \<Rightarrow> str ''Request aborted (timeout or caller cancellation)''
   | ErrorFailure m \<Rightarrow> m
   | ValueFailure v \<Rightarrow> to_str v)"

fun first_text_field :: "string list \<Rightarrow> (ustr \<times> jsval) list \<Rightarrow> ustr option" where
  "first_text_field [] fs = None"
| "first_text_field (k # ks) fs = (case field fs k of
     JStr t \<Rightarrow> if t \<noteq> [] then Some t else first_text_field ks fs
   | _ \<Rightarrow> first_text_field ks fs)"

definition extractMessage :: "jsval \<Rightarrow> nat \<Rightarrow> ustr \<Rightarrow> ustr" where
  "extractMessage parsed status text =
     (case (case parsed of
              JObj fs \<Rightarrow> first_text_field [''error'', ''message'', ''detail''] fs
            | _ \<Rightarrow> None) of
        Some m \<Rightarrow> m
      | None \<Rightarrow>
          if text \<noteq> [] \<and> length text < 500 then nat_str status @ str '': '' @ text
          else str ''HTTP '' @ nat_str status)"

text \<open>The page's id factory: \<^verbatim>\<open>crypto.randomUUID\<close> if there is one, else digits of a random number.\<close>

definition defaultRequestIdFactory :: "ustr option \<Rightarrow> ustr \<Rightarrow> ustr" where
  "defaultRequestIdFactory uuid random36 = (case uuid of
     Some u \<Rightarrow> u | None \<Rightarrow> str ''req-'' @ take 10 (drop 2 random36))"

text \<open>The lazily made client of the whole page.\<close>

definition getDefaultApiClient ::
  "ustr option \<Rightarrow> api_config option \<Rightarrow> api_config option \<times> api_config"
where
  "getDefaultApiClient env_base client = (case client of
     Some c \<Rightarrow> (client, c)
   | None \<Rightarrow>
       (let c = createApiClient \<lparr>ao_baseUrl = or_default env_base [], ao_defaultTimeoutMs = None,
                  ao_maxRetries = None, ao_baseBackoffMs = None, ao_maxBackoffMs = None\<rparr>
        in (Some c, c)))"

section \<open>One fetch\<close>

record fetch_request =
  fr_url :: ustr
  fr_method :: http_method
  fr_headers :: "(ustr \<times> ustr) list"
  fr_body :: "ustr option"
  fr_aborted :: bool \<comment> \<open>the signal was aborted before the call\<close>

text \<open>What the browser answers: status, body text and final address, or a rejection.\<close>

datatype reply = Responded nat ustr ustr | Rejected fetch_failure

datatype fetch_outcome =
    OkOutcome nat ustr ustr \<comment> \<open>status, body text, address\<close>
  | HttpError nat ustr
  | NetworkError fetch_failure

definition response_ok :: "nat \<Rightarrow> bool" where
  "response_ok status \<longleftrightarrow> 200 \<le> status \<and> status \<le> 299"

definition runFetch :: "reply \<Rightarrow> fetch_outcome" where
  "runFetch r = (case r of
     Responded status text url \<Rightarrow>
       (if response_ok status then OkOutcome status text url else HttpError status text)
   | Rejected e \<Rightarrow> NetworkError e)"

text \<open>The text of the exception \<^verbatim>\<open>JSON.parse\<close> raises is left to the engine.\<close>

definition parseBody :: "(ustr \<Rightarrow> ustr) \<Rightarrow> nat \<Rightarrow> ustr \<Rightarrow> ustr \<Rightarrow> api_error + jsval" where
  "parseBody syntax_message status text url =
     (if status = 204 \<or> text = [] then Inr JUndef
      else case json_parse text of
        Some v \<Rightarrow> Inr v
      | None \<Rightarrow> Inl
          \<lparr>ae_message = str ''api: response was not valid JSON: '' @ syntax_message text,
           ae_status = int status, ae_url = url, ae_method = [], ae_requestId = None\<rparr>)"

section \<open>The retry loop\<close>

record world =
  w_fetch :: "nat \<Rightarrow> fetch_request \<Rightarrow> reply"
  w_random :: "nat \<Rightarrow> rat"
  w_requestId :: "nat \<Rightarrow> ustr"
  w_syntaxMessage :: "ustr \<Rightarrow> ustr"
  w_abortedBefore :: "nat \<Rightarrow> bool" \<comment> \<open>the caller's signal, before and after attempt \<open>n\<close>\<close>
  w_abortedAfter :: "nat \<Rightarrow> bool"

record retry_info =
  ri_attempt :: nat
  ri_url :: ustr
  ri_method :: http_method
  ri_status :: int
  ri_delayMs :: int
  ri_retryError :: ustr

datatype api_effect =
    SetTimer int
  | AbortNow
  | ListenAbort
  | LeaveCrumb crumb_input
  | Fetch fetch_request
  | ClearTimer
  | OnRetry retry_info
  | Sleep int

text \<open>What a call rejects with: an \<^verbatim>\<open>ApiError\<close>, or the plain \<^verbatim>\<open>Error\<close> of the last line.\<close>

datatype api_failure = ApiFailure api_error | LoopExited

definition loop_exited_message :: ustr where
  "loop_exited_message = str ''api: retry loop exited without throwing''"

definition method_of :: "request_options \<Rightarrow> http_method" where
  "method_of opts = or_default (rq_method opts) GET"

definition max_retries :: "api_config \<Rightarrow> request_options \<Rightarrow> int" where
  "max_retries cfg opts = or_default (rq_maxRetries opts) (ac_maxRetries cfg)"

definition retry_enabled :: "request_options \<Rightarrow> bool" where
  "retry_enabled opts \<longleftrightarrow> rq_retry opts \<noteq> Some False"

definition request_headers :: "ustr \<Rightarrow> request_options \<Rightarrow> (ustr \<times> ustr) list" where
  "request_headers rid opts =
     (let hs = fold (\<lambda>(k, v). AList.update k v) (rq_headers opts)
                 [(str ''Accept'', str ''application/json''), (str ''X-Request-Id'', rid)]
      in if rq_body opts = JUndef then hs
         else case map_of hs (str ''Content-Type'') of
                Some _ \<Rightarrow> hs
              | None \<Rightarrow> AList.update (str ''Content-Type'') (str ''application/json'') hs)"

definition request_body :: "request_options \<Rightarrow> ustr option" where
  "request_body opts = (case rq_body opts of
     JUndef \<Rightarrow> None | JStr s \<Rightarrow> Some s | v \<Rightarrow> Some (json_stringify v))"

definition attempt_request :: "world \<Rightarrow> api_config \<Rightarrow> ustr \<Rightarrow> request_options \<Rightarrow> nat \<Rightarrow> fetch_request"
where
  "attempt_request w cfg path opts n =
     \<lparr>fr_url = joinUrl (ac_baseUrl cfg) path, fr_method = method_of opts,
      fr_headers = request_headers (w_requestId w n) opts, fr_body = request_body opts,
      fr_aborted = (rq_signal opts \<and> w_abortedBefore w n)\<rparr>"

definition attempt_crumb :: "world \<Rightarrow> api_config \<Rightarrow> ustr \<Rightarrow> request_options \<Rightarrow> nat \<Rightarrow> crumb_input"
where
  "attempt_crumb w cfg path opts n =
     \<lparr>ci_type = CFetch, ci_level = None,
      ci_message = method_name (method_of opts) @ str '' '' @ path @ str '' (attempt '' @
        nat_str (n + 1) @ str '')'',
      ci_data = Some [(str ''requestId'', JStr (w_requestId w n)),
        (str ''attempt'', JNum (jsint (int n + 1))),
        (str ''method'', JStr (method_name (method_of opts))),
        (str ''url'', JStr (joinUrl (ac_baseUrl cfg) path))]\<rparr>"

text \<open>The body of an iteration up to the cleared timer.\<close>

definition start_attempt :: "world \<Rightarrow> api_config \<Rightarrow> ustr \<Rightarrow> request_options \<Rightarrow> nat \<Rightarrow> api_effect list"
where
  "start_attempt w cfg path opts n =
     [SetTimer (or_default (rq_timeoutMs opts) (ac_defaultTimeoutMs cfg))] @
     (if rq_signal opts then (if w_abortedBefore w n then [AbortNow] else [ListenAbort]) else []) @
     [LeaveCrumb (attempt_crumb w cfg path opts n), Fetch (attempt_request w cfg path opts n),
      ClearTimer]"

definition attempt_outcome :: "world \<Rightarrow> api_config \<Rightarrow> ustr \<Rightarrow> request_options \<Rightarrow> nat \<Rightarrow> fetch_outcome"
where
  "attempt_outcome w cfg path opts n = runFetch (w_fetch w n (attempt_request w cfg path opts n))"

definition caller_aborted :: "world \<Rightarrow> request_options \<Rightarrow> nat \<Rightarrow> bool" where
  "caller_aborted w opts n \<longleftrightarrow> rq_signal opts \<and> w_abortedAfter w n"

definition outcome_error ::
  "world \<Rightarrow> api_config \<Rightarrow> ustr \<Rightarrow> request_options \<Rightarrow> nat \<Rightarrow> fetch_outcome \<Rightarrow> api_error"
where
  "outcome_error w cfg path opts n oc =
     (let mk = (\<lambda>m st. \<lparr>ae_message = m, ae_status = st, ae_url = joinUrl (ac_baseUrl cfg) path,
                  ae_method = method_name (method_of opts), ae_requestId = Some (w_requestId w n)\<rparr>)
      in case oc of
           HttpError status text \<Rightarrow>
             (let parsed = (if text = [] then JUndef
                            else case json_parse text of Some v \<Rightarrow> v | None \<Rightarrow> JUndef)
              in mk (extractMessage parsed status text) (int status))
         | NetworkError e \<Rightarrow> mk (describeNetworkError e) 0
         | OkOutcome _ _ _ \<Rightarrow> mk [] 0)"

definition will_retry ::
  "world \<Rightarrow> api_config \<Rightarrow> ustr \<Rightarrow> request_options \<Rightarrow> nat \<Rightarrow> fetch_outcome \<Rightarrow> bool"
where
  "will_retry w cfg path opts n oc \<longleftrightarrow>
     (case oc of
        OkOutcome _ _ _ \<Rightarrow> False
      | HttpError _ _ \<Rightarrow> retry_enabled opts \<and> int n < max_retries cfg opts \<and>
          isRetryable (outcome_error w cfg path opts n oc)
      | NetworkError _ \<Rightarrow> retry_enabled opts \<and> int n < max_retries cfg opts \<and>
          \<not> caller_aborted w opts n)"

definition failure_crumb ::
  "world \<Rightarrow> api_config \<Rightarrow> ustr \<Rightarrow> request_options \<Rightarrow> nat \<Rightarrow> fetch_outcome \<Rightarrow> crumb_input"
where
  "failure_crumb w cfg path opts n oc =
     (let head = method_name (method_of opts) @ str '' '' @ path;
          err = outcome_error w cfg path opts n oc;
          rid = (str ''requestId'', JStr (w_requestId w n));
          url = (str ''url'', JStr (joinUrl (ac_baseUrl cfg) path));
          aborted = caller_aborted w opts n
      in case oc of
           NetworkError _ \<Rightarrow>
             \<lparr>ci_type = CFetch, ci_level = Some (if aborted then LInfo else LError),
              ci_message = (if aborted then head @ str '' aborted''
                            else head @ str '' network error: '' @ ae_message err),
              ci_data = Some [rid, url, (str ''aborted'', JBool aborted)]\<rparr>
         | _ \<Rightarrow>
             \<lparr>ci_type = CFetch, ci_level = Some LError,
              ci_message = head @ str '' failed: '' @ int_str (ae_status err) @ str '' '' @
                ae_message err,
              ci_data = Some [rid, (str ''status'', JNum (jsint (ae_status err))), url]\<rparr>)"

definition retry_effects ::
  "world \<Rightarrow> api_config \<Rightarrow> ustr \<Rightarrow> request_options \<Rightarrow> nat \<Rightarrow> api_error \<Rightarrow> api_effect list"
where
  "retry_effects w cfg path opts n err =
     (let d = backoff (w_random w n) n (ac_baseBackoffMs cfg) (ac_maxBackoffMs cfg)
      in [OnRetry \<lparr>ri_attempt = n + 1, ri_url = joinUrl (ac_baseUrl cfg) path,
            ri_method = method_of opts, ri_status = ae_status err, ri_delayMs = d,
            ri_retryError = ae_message err\<rparr>, Sleep d])"

function request_loop ::
  "world \<Rightarrow> api_config \<Rightarrow> ustr \<Rightarrow> request_options \<Rightarrow> nat \<Rightarrow> api_error option \<Rightarrow>
   api_effect list \<times> (api_failure + jsval)"
where
  "request_loop w cfg path opts n lastError =
     (if int n \<le> max_retries cfg opts then
        (let pre = start_attempt w cfg path opts n;
             oc = attempt_outcome w cfg path opts n;
             err = outcome_error w cfg path opts n oc
         in case oc of
              OkOutcome status text url \<Rightarrow>
                (pre, map_sum ApiFailure id (parseBody (w_syntaxMessage w) status text url))
            | _ \<Rightarrow>
                if \<not> will_retry w cfg path opts n oc then
                  (pre @ [LeaveCrumb (failure_crumb w cfg path opts n oc)], Inl (ApiFailure err))
                else
                  (let (es, r) = request_loop w cfg path opts (Suc n) (Some err)
                   in (pre @ retry_effects w cfg path opts n err @ es, r)))
      else ([], Inl (case lastError of Some e \<Rightarrow> ApiFailure e | None \<Rightarrow> LoopExited)))"
  by pat_completeness auto
termination
  by (relation "measure (\<lambda>(w, cfg, path, opts, n, e). nat (max_retries cfg opts + 1 - int n))") auto

declare request_loop.simps [simp del]

definition request ::
  "world \<Rightarrow> api_config \<Rightarrow> ustr \<Rightarrow> request_options \<Rightarrow> api_effect list \<times> (api_failure + jsval)"
where
  "request w cfg path opts = request_loop w cfg path opts 0 None"

definition no_options :: request_options where
  "no_options = \<lparr>rq_method = None, rq_body = JUndef, rq_timeoutMs = None, rq_retry = None,
     rq_maxRetries = None, rq_headers = [], rq_signal = False\<rparr>"

definition api_get ::
  "world \<Rightarrow> api_config \<Rightarrow> ustr \<Rightarrow> request_options \<Rightarrow> api_effect list \<times> (api_failure + jsval)"
where
  "api_get w cfg path opts = request w cfg path (opts\<lparr>rq_method := Some GET\<rparr>)"

definition api_post ::
  "world \<Rightarrow> api_config \<Rightarrow> ustr \<Rightarrow> jsval \<Rightarrow> request_options \<Rightarrow> api_effect list \<times> (api_failure + jsval)"
where
  "api_post w cfg path body opts = request w cfg path (opts\<lparr>rq_method := Some POST, rq_body := body\<rparr>)"

definition api_put ::
  "world \<Rightarrow> api_config \<Rightarrow> ustr \<Rightarrow> jsval \<Rightarrow> request_options \<Rightarrow> api_effect list \<times> (api_failure + jsval)"
where
  "api_put w cfg path body opts = request w cfg path (opts\<lparr>rq_method := Some PUT, rq_body := body\<rparr>)"

definition api_delete ::
  "world \<Rightarrow> api_config \<Rightarrow> ustr \<Rightarrow> request_options \<Rightarrow> api_effect list \<times> (api_failure + jsval)"
where
  "api_delete w cfg path opts = request w cfg path (opts\<lparr>rq_method := Some DELETE\<rparr>)"

section \<open>What a call amounts to\<close>

text \<open>
  The specification does not loop: attempt \<open>k\<close> has a result of its own, some attempts are
  retried, and a call is the first attempt that is not.
\<close>

definition retried :: "world \<Rightarrow> api_config \<Rightarrow> ustr \<Rightarrow> request_options \<Rightarrow> nat \<Rightarrow> bool" where
  "retried w cfg path opts k = will_retry w cfg path opts k (attempt_outcome w cfg path opts k)"

definition attempt_error :: "world \<Rightarrow> api_config \<Rightarrow> ustr \<Rightarrow> request_options \<Rightarrow> nat \<Rightarrow> api_error" where
  "attempt_error w cfg path opts k =
     outcome_error w cfg path opts k (attempt_outcome w cfg path opts k)"

definition attempt_result ::
  "world \<Rightarrow> api_config \<Rightarrow> ustr \<Rightarrow> request_options \<Rightarrow> nat \<Rightarrow> api_failure + jsval"
where
  "attempt_result w cfg path opts k = (case attempt_outcome w cfg path opts k of
     OkOutcome status text url \<Rightarrow>
       map_sum ApiFailure id (parseBody (w_syntaxMessage w) status text url)
   | _ \<Rightarrow> Inl (ApiFailure (attempt_error w cfg path opts k)))"

definition final_effects ::
  "world \<Rightarrow> api_config \<Rightarrow> ustr \<Rightarrow> request_options \<Rightarrow> nat \<Rightarrow> api_effect list"
where
  "final_effects w cfg path opts k = start_attempt w cfg path opts k @
     (case attempt_outcome w cfg path opts k of
        OkOutcome _ _ _ \<Rightarrow> []
      | oc \<Rightarrow> [LeaveCrumb (failure_crumb w cfg path opts k oc)])"

definition retried_effects ::
  "world \<Rightarrow> api_config \<Rightarrow> ustr \<Rightarrow> request_options \<Rightarrow> nat \<Rightarrow> api_effect list"
where
  "retried_effects w cfg path opts k = start_attempt w cfg path opts k @
     retry_effects w cfg path opts k (attempt_error w cfg path opts k)"

definition call_effects ::
  "world \<Rightarrow> api_config \<Rightarrow> ustr \<Rightarrow> request_options \<Rightarrow> nat \<Rightarrow> nat \<Rightarrow> api_effect list"
where
  "call_effects w cfg path opts n k =
     concat (map (retried_effects w cfg path opts) [n..<k]) @ final_effects w cfg path opts k"

lemma call_effects_Suc:
  "n < k \<Longrightarrow> call_effects w cfg path opts n k =
     retried_effects w cfg path opts n @ call_effects w cfg path opts (Suc n) k"
  by (simp add: call_effects_def upt_conv_Cons)

lemma retried_less: "retried w cfg path opts k \<Longrightarrow> int k < max_retries cfg opts"
  by (auto simp: retried_def will_retry_def split: fetch_outcome.splits)

lemma request_loop_retried:
  assumes "retried w cfg path opts n"
  shows "request_loop w cfg path opts n e =
    (let (es, r) = request_loop w cfg path opts (Suc n) (Some (attempt_error w cfg path opts n))
     in (retried_effects w cfg path opts n @ es, r))"
  using assms retried_less [OF assms]
  by (subst request_loop.simps)
    (auto simp: retried_def retried_effects_def attempt_error_def will_retry_def Let_def
      split: fetch_outcome.splits prod.splits)

lemma request_loop_final:
  assumes "int n \<le> max_retries cfg opts" and "\<not> retried w cfg path opts n"
  shows "request_loop w cfg path opts n e =
    (final_effects w cfg path opts n, attempt_result w cfg path opts n)"
  using assms
  by (subst request_loop.simps)
    (auto simp: retried_def attempt_result_def final_effects_def attempt_error_def Let_def
      split: fetch_outcome.splits)

lemma request_loop_first_final:
  "int n \<le> max_retries cfg opts \<Longrightarrow> \<exists>k \<ge> n. int k \<le> max_retries cfg opts \<and>
     (\<forall>i. n \<le> i \<and> i < k \<longrightarrow> retried w cfg path opts i) \<and> \<not> retried w cfg path opts k \<and>
     request_loop w cfg path opts n e =
       (call_effects w cfg path opts n k, attempt_result w cfg path opts k)"
proof (induction "nat (max_retries cfg opts - int n)" arbitrary: n e)
  case 0
  then have "\<not> retried w cfg path opts n" by (auto dest: retried_less)
  with 0 show ?case by (intro exI [of _ n]) (auto simp: request_loop_final call_effects_def)
next
  case (Suc d)
  show ?case
  proof (cases "retried w cfg path opts n")
    case False
    with Suc.prems show ?thesis
      by (intro exI [of _ n]) (auto simp: request_loop_final call_effects_def)
  next
    case True
    from Suc.hyps(2) have "d = nat (max_retries cfg opts - int (Suc n))" by simp
    moreover from retried_less [OF True] have "int (Suc n) \<le> max_retries cfg opts" by simp
    ultimately obtain k where k: "Suc n \<le> k" "int k \<le> max_retries cfg opts"
      "\<forall>i. Suc n \<le> i \<and> i < k \<longrightarrow> retried w cfg path opts i" "\<not> retried w cfg path opts k"
      "request_loop w cfg path opts (Suc n) (Some (attempt_error w cfg path opts n)) =
        (call_effects w cfg path opts (Suc n) k, attempt_result w cfg path opts k)"
      using Suc.hyps(1) by blast
    have "\<forall>i. n \<le> i \<and> i < k \<longrightarrow> retried w cfg path opts i"
      using k(3) True by (metis le_antisym not_less_eq_eq)
    with k show ?thesis
      by (intro exI [of _ k])
        (simp add: request_loop_retried [OF True] call_effects_Suc)
  qed
qed

lemma request_first_final:
  assumes "0 \<le> max_retries cfg opts"
  obtains k where "int k \<le> max_retries cfg opts" "\<forall>i < k. retried w cfg path opts i"
    "\<not> retried w cfg path opts k"
    "request w cfg path opts = (call_effects w cfg path opts 0 k, attempt_result w cfg path opts k)"
  using request_loop_first_final [of 0 cfg opts w path None] assms by (auto simp: request_def)

text \<open>Counting effects.\<close>

definition fetches :: "api_effect list \<Rightarrow> nat" where
  "fetches es = length (filter (\<lambda>e. case e of Fetch _ \<Rightarrow> True | _ \<Rightarrow> False) es)"

fun sleeps :: "api_effect list \<Rightarrow> int list" where
  "sleeps [] = []"
| "sleeps (e # es) = (case e of Sleep d \<Rightarrow> d # sleeps es | _ \<Rightarrow> sleeps es)"

lemma fetches_append [simp]: "fetches (xs @ ys) = fetches xs + fetches ys"
  by (simp add: fetches_def)

lemma sleeps_append [simp]: "sleeps (xs @ ys) = sleeps xs @ sleeps ys"
  by (induction xs) (auto split: api_effect.split)

lemma fetches_start [simp]: "fetches (start_attempt w cfg path opts n) = 1"
  by (simp add: fetches_def start_attempt_def)

lemma sleeps_start [simp]: "sleeps (start_attempt w cfg path opts n) = []"
  by (simp add: start_attempt_def)

lemma fetches_final [simp]: "fetches (final_effects w cfg path opts n) = 1"
  by (simp add: final_effects_def split: fetch_outcome.split) (simp add: fetches_def)

lemma sleeps_final [simp]: "sleeps (final_effects w cfg path opts n) = []"
  by (simp add: final_effects_def split: fetch_outcome.split)

lemma fetches_retried [simp]: "fetches (retried_effects w cfg path opts n) = 1"
  by (simp add: retried_effects_def retry_effects_def Let_def) (simp add: fetches_def)

lemma sleeps_retried [simp]:
  "sleeps (retried_effects w cfg path opts n) =
     [backoff (w_random w n) n (ac_baseBackoffMs cfg) (ac_maxBackoffMs cfg)]"
  by (simp add: retried_effects_def retry_effects_def Let_def)

lemma fetches_concat: "fetches (concat xss) = sum_list (map fetches xss)"
  by (induction xss) (simp_all, simp add: fetches_def)

lemma sleeps_concat: "sleeps (concat xss) = concat (map sleeps xss)"
  by (induction xss) simp_all

lemma fetches_call [simp]: "fetches (call_effects w cfg path opts 0 k) = Suc k"
  by (simp add: call_effects_def fetches_concat comp_def sum_list_triv)

lemma sleeps_call [simp]:
  "sleeps (call_effects w cfg path opts 0 k) =
     map (\<lambda>n. backoff (w_random w n) n (ac_baseBackoffMs cfg) (ac_maxBackoffMs cfg)) [0..<k]"
  by (simp add: call_effects_def sleeps_concat comp_def)

lemma backoff_bounds:
  assumes "0 \<le> rnd" "rnd < 1" "0 \<le> base" "0 \<le> cap"
  shows "0 \<le> backoff rnd n base cap" and "backoff rnd n base cap \<le> cap"
proof -
  have e: "0 \<le> min cap (base * 2 ^ n)" using assms by simp
  then have "0 \<le> rnd * rat_of_int (min cap (base * 2 ^ n))"
    using assms(1) by (intro mult_nonneg_nonneg) (simp_all only: of_int_0_le_iff)
  then show "0 \<le> backoff rnd n base cap" by (simp add: backoff_def)
  have "rnd * rat_of_int (min cap (base * 2 ^ n)) \<le> 1 * rat_of_int (min cap (base * 2 ^ n))"
    using assms(2) e by (intro mult_right_mono) (simp_all only: of_int_0_le_iff less_imp_le)
  also have "\<dots> \<le> rat_of_int cap" by simp
  finally show "backoff rnd n base cap \<le> cap"
    by (simp add: backoff_def floor_le_iff)
qed

section \<open>Properties\<close>

text \<open>
  C10. A call behaves as its first attempt that is not to be retried: all earlier attempts are
  transient failures, none is past the limit, the effects are those of exactly these attempts
  in order with a wait between two of them, and the result is that of the last one.
\<close>

theorem request_is_first_final_attempt:
  assumes "0 \<le> max_retries cfg opts"
  shows "\<exists>k. int k \<le> max_retries cfg opts \<and> (\<forall>i < k. retried w cfg path opts i) \<and>
    \<not> retried w cfg path opts k \<and>
    request w cfg path opts =
      (concat (map (retried_effects w cfg path opts) [0..<k]) @ final_effects w cfg path opts k,
       attempt_result w cfg path opts k)"
  using request_first_final [OF assms] unfolding call_effects_def by metis

text \<open>A backend that answers 503 twice and then a JSON body.\<close>

definition flaky_world :: world where
  "flaky_world = \<lparr>w_fetch = (\<lambda>n _. if n < 2 then Responded 503 (str ''busy'') []
       else Responded 200 (str ''7'') []),
     w_random = (\<lambda>n. 1 / 2), w_requestId = (\<lambda>n. str ''id''), w_syntaxMessage = (\<lambda>_. []),
     w_abortedBefore = (\<lambda>_. False), w_abortedAfter = (\<lambda>_. False)\<rparr>"

definition sample_client :: api_config where
  "sample_client = snd (getDefaultApiClient (Some (str ''http://h/'')) None)"

lemma flaky_retries:
  "max_retries sample_client no_options = 3" "retry_enabled no_options" "rq_signal no_options = False"
  by (simp_all add: sample_client_def getDefaultApiClient_def createApiClient_def max_retries_def
      no_options_def retry_enabled_def api_defaults Let_def)

lemma flaky_retried: "retried flaky_world sample_client p no_options k \<longleftrightarrow> k < 2"
  by (simp add: retried_def will_retry_def attempt_outcome_def runFetch_def flaky_world_def
      response_ok_def outcome_error_def isRetryable_def flaky_retries Let_def)

theorem request_is_first_final_attempt_witness:
  "request flaky_world sample_client (str ''/x'') no_options =
     (concat (map (retried_effects flaky_world sample_client (str ''/x'') no_options) [0..<2]) @
        final_effects flaky_world sample_client (str ''/x'') no_options 2,
      attempt_result flaky_world sample_client (str ''/x'') no_options 2)"
proof -
  have "0 \<le> max_retries sample_client no_options" by (simp add: flaky_retries)
  then obtain k where k: "\<forall>i < k. i < 2" "\<not> k < 2"
    "request flaky_world sample_client (str ''/x'') no_options =
      (concat (map (retried_effects flaky_world sample_client (str ''/x'') no_options) [0..<k]) @
        final_effects flaky_world sample_client (str ''/x'') no_options k,
      attempt_result flaky_world sample_client (str ''/x'') no_options k)"
    using request_is_first_final_attempt [of sample_client no_options flaky_world "str ''/x''"]
    unfolding flaky_retried by blast
  have "k = 2" using k(1,2) by (metis less_irrefl linorder_neqE_nat)
  with k(3) show ?thesis by simp
qed

text \<open>
  C24. The number of fetches of a call: none if the retry limit is negative, exactly one if the
  caller switched retries off, and never more than the limit plus one.
\<close>

theorem request_fetch_count:
  "fetches (fst (request w cfg path opts)) \<le> nat (max_retries cfg opts + 1) \<and>
   (fetches (fst (request w cfg path opts)) = 0 \<longleftrightarrow> max_retries cfg opts < 0) \<and>
   (rq_retry opts = Some False \<longrightarrow>
      fetches (fst (request w cfg path opts)) = (if max_retries cfg opts < 0 then 0 else 1))"
proof (cases "max_retries cfg opts < 0")
  case True
  then have "request w cfg path opts = ([], Inl LoopExited)"
    by (simp add: request_def request_loop.simps)
  with True show ?thesis by (simp add: fetches_def)
next
  case False
  then have max: "0 \<le> max_retries cfg opts" by simp
  obtain k where k: "int k \<le> max_retries cfg opts" "\<forall>i < k. retried w cfg path opts i"
    "request w cfg path opts = (call_effects w cfg path opts 0 k, attempt_result w cfg path opts k)"
    using request_first_final [OF max] by metis
  have "k = 0" if "rq_retry opts = Some False"
  proof -
    from that have "\<not> retried w cfg path opts 0"
      by (simp add: retried_def will_retry_def retry_enabled_def split: fetch_outcome.split)
    with k(2) show ?thesis by auto
  qed
  with False k show ?thesis by auto
qed

theorem request_fetch_count_witness:
  "fetches (fst (request flaky_world sample_client (str ''/x'')
     (no_options\<lparr>rq_retry := Some False\<rparr>))) = 1"
  using request_fetch_count [of flaky_world sample_client "str ''/x''"
      "no_options\<lparr>rq_retry := Some False\<rparr>"]
  by (simp add: max_retries_def no_options_def sample_client_def getDefaultApiClient_def
      createApiClient_def api_defaults Let_def)

text \<open>
  The loop never falls through to its last line while the retry limit is not negative; with
  a negative limit nothing is fetched at all and the plain \<^verbatim>\<open>Error\<close> is what the caller gets.
\<close>

lemma request_falls_through_iff:
  "snd (request w cfg path opts) = Inl LoopExited \<longleftrightarrow> max_retries cfg opts < 0"
proof (cases "max_retries cfg opts < 0")
  case True
  then show ?thesis by (simp add: request_def request_loop.simps)
next
  case False
  then have "0 \<le> max_retries cfg opts" by simp
  then obtain k where
    "request w cfg path opts = (call_effects w cfg path opts 0 k, attempt_result w cfg path opts k)"
    using request_first_final by metis
  moreover have "attempt_result w cfg path opts k \<noteq> Inl LoopExited"
    by (auto simp: attempt_result_def parseBody_def split: fetch_outcome.splits option.splits)
  ultimately show ?thesis using False by simp
qed

text \<open>
  However the backend answers and whatever the random numbers are, the waits of a call lie
  between 0 and the cap, and together they take at most the cap for each allowed retry.
\<close>

lemma request_wait_bounded:
  assumes "\<And>n. 0 \<le> w_random w n \<and> w_random w n < 1"
    and "0 \<le> ac_baseBackoffMs cfg" "0 \<le> ac_maxBackoffMs cfg" "0 \<le> max_retries cfg opts"
  shows "(\<forall>d \<in> set (sleeps (fst (request w cfg path opts))). 0 \<le> d \<and> d \<le> ac_maxBackoffMs cfg) \<and>
    sum_list (sleeps (fst (request w cfg path opts))) \<le> max_retries cfg opts * ac_maxBackoffMs cfg"
proof -
  let ?b = "\<lambda>n. backoff (w_random w n) n (ac_baseBackoffMs cfg) (ac_maxBackoffMs cfg)"
  have b: "0 \<le> ?b n" "?b n \<le> ac_maxBackoffMs cfg" for n
    using backoff_bounds assms(1-3) by blast+
  obtain k where k: "int k \<le> max_retries cfg opts"
    "sleeps (fst (request w cfg path opts)) = map ?b [0..<k]"
    using request_first_final [OF assms(4)] by (metis fst_conv sleeps_call)
  have "sum_list (map ?b [0..<k]) \<le> sum_list (map (\<lambda>_. ac_maxBackoffMs cfg) [0..<k])"
    by (intro sum_list_mono) (simp add: b)
  also have "\<dots> = int k * ac_maxBackoffMs cfg" by (simp add: sum_list_triv)
  also have "\<dots> \<le> max_retries cfg opts * ac_maxBackoffMs cfg"
    using k(1) assms(3) by (rule mult_right_mono)
  finally show ?thesis using b k(2) by auto
qed

text \<open>
  A response whose status is neither transient nor a success ends the call at once: one
  fetch, no wait, and an error that carries the status, the address, the method and the
  request id.
\<close>

lemma definitive_status_fails_at_once:
  assumes "0 \<le> max_retries cfg opts"
    and "w_fetch w 0 (attempt_request w cfg path opts 0) = Responded status text url"
    and "300 \<le> status" "status < 500" "status \<noteq> 408" "status \<noteq> 429"
  shows "fetches (fst (request w cfg path opts)) = 1 \<and> sleeps (fst (request w cfg path opts)) = [] \<and>
    (\<exists>e. snd (request w cfg path opts) = Inl (ApiFailure e) \<and> ae_status e = int status \<and>
       ae_url e = joinUrl (ac_baseUrl cfg) path \<and> ae_method e = method_name (method_of opts) \<and>
       ae_requestId e = Some (w_requestId w 0))"
proof -
  have oc: "attempt_outcome w cfg path opts 0 = HttpError status text"
    using assms(2,3) by (simp add: attempt_outcome_def runFetch_def response_ok_def)
  then have "\<not> retried w cfg path opts 0"
    using assms(3-6)
    by (simp add: retried_def will_retry_def outcome_error_def isRetryable_def Let_def)
  then show ?thesis
    using assms(1) oc
    by (simp add: request_def request_loop_final attempt_result_def attempt_error_def
        outcome_error_def Let_def)
qed

text \<open>
  The error of a body that is not JSON keeps an empty method: nobody fills it in, whatever the
  comment at its construction says.
\<close>

lemma bad_json_keeps_empty_method:
  assumes "0 \<le> max_retries cfg opts"
    and "w_fetch w 0 (attempt_request w cfg path opts 0) = Responded 200 text url"
    and "text \<noteq> []" "json_parse text = None"
  shows "\<exists>e. snd (request w cfg path opts) = Inl (ApiFailure e) \<and> ae_method e = [] \<and>
    ae_requestId e = None"
proof -
  have oc: "attempt_outcome w cfg path opts 0 = OkOutcome 200 text url"
    using assms(2) by (simp add: attempt_outcome_def runFetch_def response_ok_def)
  then have "\<not> retried w cfg path opts 0" by (simp add: retried_def will_retry_def)
  then show ?thesis
    using assms oc
    by (simp add: request_def request_loop_final attempt_result_def parseBody_def)
qed

lemma strip_slashes_end: "strip_slashes s \<noteq> [] \<Longrightarrow> last (strip_slashes s) \<noteq> 47"
  using hd_dropWhile [of "\<lambda>c. c = 47" "rev s"] by (simp add: strip_slashes_def last_rev)

lemma strip_slashes_only: "\<exists>n. s = strip_slashes s @ replicate n 47"
proof -
  have t: "takeWhile (\<lambda>c. c = 47) t = replicate (length (takeWhile (\<lambda>c. c = 47) t)) 47" for t
    by (induction t) auto
  let ?n = "length (takeWhile (\<lambda>c. c = 47) (rev s))"
  have "s = rev (takeWhile (\<lambda>c. c = 47) (rev s) @ dropWhile (\<lambda>c. c = 47) (rev s))"
    by (simp only: takeWhile_dropWhile_id rev_rev_ident)
  also have "\<dots> = strip_slashes s @ rev (takeWhile (\<lambda>c. c = 47) (rev s))"
    by (simp only: strip_slashes_def rev_append)
  also have "rev (takeWhile (\<lambda>c. c = 47) (rev s)) = replicate ?n 47"
    by (metis t rev_replicate)
  finally show ?thesis ..
qed

lemma starts_with_slash: "starts_with (str ''/'') p \<Longrightarrow> p = 47 # tl p"
  by (cases p) (auto simp: str_def)

text \<open>
  A relative path is appended to the client's base address with exactly one slash between
  the two, whether or not the path starts with one and however many slashes the base address
  was configured with; an absolute address is used as it is.
\<close>

lemma client_url_composition:
  "joinUrl (ac_baseUrl (createApiClient opts)) path =
     (if is_absolute_url path then path
      else strip_slashes (ao_baseUrl opts) @ 47 #
        (if starts_with (str ''/'') path then tl path else path)) \<and>
   (strip_slashes (ao_baseUrl opts) = [] \<or> last (strip_slashes (ao_baseUrl opts)) \<noteq> 47) \<and>
   (\<exists>n. ao_baseUrl opts = strip_slashes (ao_baseUrl opts) @ replicate n 47)"
  using starts_with_slash [of path] strip_slashes_end strip_slashes_only
  by (auto simp: joinUrl_def createApiClient_def str_def)

end
