(* ===== verification/WebVitals.thy ===== *)
theory WebVitals
  imports ApiClient
begin

text \<open>
  \<^verbatim>\<open>lib/webVitals.ts\<close>: rating and batching of the page's performance samples, and what both
  telemetry modules have in common, the post of a batch whose failure is swallowed. The state
  record holds the module variables and \<open>vt_clsValue\<close>, the variable captured by the layout-shift
  observer. The performance API of the browser is the argument of \<open>installWebVitals\<close> and of the
  observer callbacks.
\<close>

section \<open>State\<close>

datatype vital_name = LCP | FID | CLS | INP | TTFB

datatype rating = Good | NeedsImprovement | Poor

record vital_sample =
  vs_name :: vital_name
  vs_value :: jsnum
  vs_rating :: rating
  vs_id :: ustr
  vs_navigationType :: "ustr option"

record vital_config =
  vc_endpoint :: ustr
  vc_enabled :: bool
  vc_flushDelayMs :: int

record vital_options =
  vo_endpoint :: "ustr option"
  vo_enabled :: "bool option"
  vo_flushDelayMs :: "int option"

record vitals =
  vt_samples :: "vital_sample list"
  vt_flushTimer :: "int option"
  vt_observersInstalled :: bool
  vt_config :: vital_config
  vt_clsValue :: jsnum

definition VITALS_ENDPOINT :: ustr where
  "VITALS_ENDPOINT = str ''/api/telemetry/vitals''"

definition DEFAULT_FLUSH_DELAY :: int where
  "DEFAULT_FLUSH_DELAY = 5000"

fun THRESHOLDS :: "vital_name \<Rightarrow> rat \<times> rat" where
  "THRESHOLDS LCP = (2500, 4000)"
| "THRESHOLDS FID = (100, 300)"
| "THRESHOLDS CLS = (1 / 10, 1 / 4)"
| "THRESHOLDS INP = (200, 500)"
| "THRESHOLDS TTFB = (800, 1800)"

definition default_vital_config :: vital_config where
  "default_vital_config = \<lparr>vc_endpoint = VITALS_ENDPOINT, vc_enabled = True,
     vc_flushDelayMs = DEFAULT_FLUSH_DELAY\<rparr>"

definition init_vitals :: vitals where
  "init_vitals = \<lparr>vt_samples = [], vt_flushTimer = None, vt_observersInstalled = False,
     vt_config = default_vital_config, vt_clsValue = Fin 0\<rparr>"

section \<open>Operations\<close>

definition rate :: "vital_name \<Rightarrow> jsnum \<Rightarrow> rating" where
  "rate name v = (case THRESHOLDS name of (good, poor) \<Rightarrow>
     if num_le v (Fin good) then Good
     else if num_le v (Fin poor) then NeedsImprovement
     else Poor)"

record vital_input =
  vi_name :: vital_name
  vi_value :: jsnum
  vi_id :: ustr
  vi_navigationType :: "ustr option"

definition make_sample :: "vitals \<Rightarrow> vital_input \<Rightarrow> vital_sample" where
  "make_sample s i = \<lparr>vs_name = vi_name i, vs_value = vi_value i,
     vs_rating = rate (vi_name i) (vi_value i), vs_id = vi_id i,
     vs_navigationType = vi_navigationType i\<rparr>"

definition scheduleVitalFlush :: "vitals \<Rightarrow> vitals" where
  "scheduleVitalFlush s =
     (if vt_flushTimer s \<noteq> None then s
      else s\<lparr>vt_flushTimer := Some (vc_flushDelayMs (vt_config s))\<rparr>)"

definition record_vital :: "vital_input \<Rightarrow> vitals \<Rightarrow> vitals" where
  "record_vital i s =
     (if \<not> vc_enabled (vt_config s) then s
      else scheduleVitalFlush (s\<lparr>vt_samples := vt_samples s @ [make_sample s i]\<rparr>))"

definition doFlush :: "vitals \<Rightarrow> vitals \<times> vital_sample list" where
  "doFlush s = (if vt_samples s = [] then (s, []) else (s\<lparr>vt_samples := []\<rparr>, vt_samples s))"

definition vital_timer_callback :: "vitals \<Rightarrow> vitals \<times> vital_sample list" where
  "vital_timer_callback s = doFlush (s\<lparr>vt_flushTimer := None\<rparr>)"

definition flushVitals :: "vitals \<Rightarrow> vitals \<times> vital_sample list" where
  "flushVitals s = doFlush (if vt_flushTimer s \<noteq> None then s\<lparr>vt_flushTimer := None\<rparr> else s)"

definition configureVitalReporter :: "vital_options \<Rightarrow> vitals \<Rightarrow> vitals" where
  "configureVitalReporter c s = s\<lparr>vt_config :=
     \<lparr>vc_endpoint = or_default (vo_endpoint c) VITALS_ENDPOINT,
      vc_enabled = or_default (vo_enabled c) True,
      vc_flushDelayMs = or_default (vo_flushDelayMs c) DEFAULT_FLUSH_DELAY\<rparr>\<rparr>"

definition resetVitalReporterForTests :: "vitals \<Rightarrow> vitals" where
  "resetVitalReporterForTests s = s\<lparr>vt_samples := [], vt_flushTimer := None,
     vt_config := default_vital_config, vt_observersInstalled := False\<rparr>"

section \<open>Observers\<close>

fun num_add :: "jsnum \<Rightarrow> jsnum \<Rightarrow> jsnum" where
  "num_add (Fin a) (Fin b) = Fin (a + b)"
| "num_add NaN _ = NaN"
| "num_add _ NaN = NaN"
| "num_add PInf NInf = NaN"
| "num_add NInf PInf = NaN"
| "num_add PInf _ = PInf"
| "num_add _ PInf = PInf"
| "num_add NInf _ = NInf"
| "num_add _ NInf = NInf"

record lcp_entry =
  le_startTime :: jsnum
  le_id :: "ustr option"

record input_entry =
  ie_processingStart :: "jsnum option"
  ie_startTime :: jsnum
  ie_duration :: jsnum
  ie_entryType :: "ustr option"

record shift_entry =
  se_hadRecentInput :: bool
  se_value :: jsnum

definition lcp_callback :: "lcp_entry list \<Rightarrow> vitals \<Rightarrow> vitals" where
  "lcp_callback es s =
     (if es = [] then s
      else record_vital \<lparr>vi_name = LCP, vi_value = le_startTime (last es),
             vi_id = or_default (le_id (last es)) [], vi_navigationType = None\<rparr> s)"

definition fid_entry :: "input_entry \<Rightarrow> vitals \<Rightarrow> vitals" where
  "fid_entry e s = (case ie_processingStart e of
     None \<Rightarrow> s
   | Some p \<Rightarrow>
       record_vital \<lparr>vi_name = INP, vi_value = ie_duration e,
         vi_id = or_default (ie_entryType e) [], vi_navigationType = None\<rparr>
        (record_vital \<lparr>vi_name = FID, vi_value = num_sub p (ie_startTime e),
           vi_id = or_default (ie_entryType e) [], vi_navigationType = None\<rparr> s))"

definition fid_callback :: "input_entry list \<Rightarrow> vitals \<Rightarrow> vitals" where
  "fid_callback es s = fold fid_entry es s"

definition cls_callback :: "shift_entry list \<Rightarrow> vitals \<Rightarrow> vitals" where
  "cls_callback es s =
     (let v = fold (\<lambda>e v. if \<not> se_hadRecentInput e then num_add v (se_value e) else v) es
                (vt_clsValue s)
      in record_vital \<lparr>vi_name = CLS, vi_value = v, vi_id = [], vi_navigationType = None\<rparr>
           (s\<lparr>vt_clsValue := v\<rparr>))"

record navigation_entry =
  nv_responseStart :: jsnum
  nv_requestStart :: jsnum
  nv_name :: ustr
  nv_type :: ustr

text \<open>
  \<open>installWebVitals\<close> starts from what the browser offers: a window, a navigation entry if the
  timing API works and has one, the observer constructor, and whether observing the three entry
  types succeeds. It returns the observers connected; none if there was nothing to install.
\<close>

record performance_api =
  pa_window :: bool
  pa_navigation :: "navigation_entry option"
  pa_observer :: bool
  pa_lcp :: bool
  pa_fid :: bool
  pa_cls :: bool

definition installWebVitals :: "performance_api \<Rightarrow> vitals \<Rightarrow> vitals \<times> vital_name list" where
  "installWebVitals p s =
     (if vt_observersInstalled s \<or> \<not> pa_window p then (s, [])
      else
        (let s1 = s\<lparr>vt_observersInstalled := True\<rparr>;
             s2 = (case pa_navigation p of
                     None \<Rightarrow> s1
                   | Some nv \<Rightarrow> record_vital \<lparr>vi_name = TTFB,
                       vi_value = num_sub (nv_responseStart nv) (nv_requestStart nv),
                       vi_id = nv_name nv, vi_navigationType = Some (nv_type nv)\<rparr> s1)
         in if \<not> pa_observer p then (s2, [])
            else (s2\<lparr>vt_clsValue := Fin 0\<rparr>,
              (if pa_lcp p then [LCP] else []) @ (if pa_fid p then [FID] else []) @
              (if pa_cls p then [CLS] else []))))"

definition uninstall_vitals :: "vitals \<Rightarrow> vitals" where
  "uninstall_vitals s = s\<lparr>vt_observersInstalled := False\<rparr>"

section \<open>The contract of a batching reporter\<close>

datatype vital_op = ConfigureVitals vital_options | UninstallVitals

definition vital_other :: "vital_op \<Rightarrow> vitals \<Rightarrow> vitals" where
  "vital_other x s = (case x of
     ConfigureVitals c \<Rightarrow> configureVitalReporter c s | UninstallVitals \<Rightarrow> uninstall_vitals s)"

interpretation vitals: batch_reporter vt_samples "\<lambda>s. vt_flushTimer s \<noteq> None"
  "\<lambda>s. vc_enabled (vt_config s)" make_sample record_vital vital_timer_callback flushVitals vital_other
  by unfold_locales
    (auto simp: record_vital_def scheduleVitalFlush_def vital_timer_callback_def flushVitals_def
      doFlush_def vital_other_def configureVitalReporter_def uninstall_vitals_def
      split: vital_op.split)

abbreviation vitals_run ::
  "(vital_input, vital_op) action list \<Rightarrow> vitals \<Rightarrow> vitals \<times> vital_sample list list"
where
  "vitals_run \<equiv> run_batches record_vital vital_timer_callback flushVitals vital_other
     (\<lambda>s. vt_flushTimer s \<noteq> None)"

abbreviation vitals_accepted ::
  "(vital_input, vital_op) action list \<Rightarrow> vitals \<Rightarrow> vital_sample list"
where
  "vitals_accepted \<equiv> run_submitted (\<lambda>s. vc_enabled (vt_config s)) make_sample
     record_vital vital_timer_callback flushVitals vital_other (\<lambda>s. vt_flushTimer s \<noteq> None)"

text \<open>
  C28. In every interleaving of samples, timer callbacks, forced flushes and reconfigurations
  the batches handed to the network, followed by what is still queued, are the accepted samples,
  each once and in order; and if samples are still queued, a flush timer is armed, provided
  that was so at the start.
\<close>

theorem vitals_delivered_exactly_once:
  assumes "vt_samples s \<noteq> [] \<Longrightarrow> vt_flushTimer s \<noteq> None"
  shows "concat (snd (vitals_run acts s)) @ vt_samples (fst (vitals_run acts s)) =
      vt_samples s @ vitals_accepted acts s \<and>
    (vt_samples (fst (vitals_run acts s)) \<noteq> [] \<longrightarrow> vt_flushTimer (fst (vitals_run acts s)) \<noteq> None)"
  using vitals.run_delivers [OF prod.collapse [symmetric]]
    vitals.run_armed [OF assms prod.collapse [symmetric]] by blast

definition sample_vital :: vital_input where
  "sample_vital = \<lparr>vi_name = LCP, vi_value = jsint 3000, vi_id = [], vi_navigationType = None\<rparr>"

theorem vitals_delivered_exactly_once_witness:
  "concat (snd (vitals_run [Submit sample_vital, Fire, Submit sample_vital] init_vitals)) @
     vt_samples (fst (vitals_run [Submit sample_vital, Fire, Submit sample_vital] init_vitals)) =
   vitals_accepted [Submit sample_vital, Fire, Submit sample_vital] init_vitals"
  using vitals_delivered_exactly_once [of init_vitals "[Submit sample_vital, Fire, Submit sample_vital]"]
  by (simp add: init_vitals_def)

definition cls_total :: "jsnum \<Rightarrow> shift_entry list \<Rightarrow> jsnum" where
  "cls_total = foldl (\<lambda>v e. if se_hadRecentInput e then v else num_add v (se_value e))"

lemma record_vital_frame [simp]:
  "vt_config (record_vital i s) = vt_config s" "vt_clsValue (record_vital i s) = vt_clsValue s"
  "vt_observersInstalled (record_vital i s) = vt_observersInstalled s"
  by (simp_all add: record_vital_def scheduleVitalFlush_def)

lemma cls_callback_eq:
  "cls_callback es s =
     record_vital \<lparr>vi_name = CLS, vi_value = cls_total (vt_clsValue s) es, vi_id = [],
       vi_navigationType = None\<rparr> (s\<lparr>vt_clsValue := cls_total (vt_clsValue s) es\<rparr>)"
proof -
  have "fold (\<lambda>e v. if \<not> se_hadRecentInput e then num_add v (se_value e) else v) es v =
      cls_total v es" for v
    by (induction es arbitrary: v) (simp_all add: cls_total_def)
  then show ?thesis by (simp add: cls_callback_def Let_def)
qed

text \<open>
  A layout-shift sample reports the running total: after any sequence of observer
  callbacks the captured total is the sum of all shifts without recent input, and each callback
  queues a sample with the total so far.
\<close>

lemma cls_samples_are_running_totals:
  assumes "vc_enabled (vt_config s)"
  shows "vt_clsValue (fold cls_callback batches s) = cls_total (vt_clsValue s) (concat batches) \<and>
    map vs_value (vt_samples (fold cls_callback batches s)) =
      map vs_value (vt_samples s) @
      map (\<lambda>n. cls_total (vt_clsValue s) (concat (take (Suc n) batches))) [0..<length batches]"
  using assms
proof (induction batches arbitrary: s)
  case Nil
  then show ?case by (simp add: cls_total_def)
next
  case (Cons b batches)
  have t: "cls_total (cls_total v xs) ys = cls_total v (xs @ ys)" for v xs ys
    by (simp add: cls_total_def)
  have "vt_samples (cls_callback b s) = vt_samples s @
      [make_sample s \<lparr>vi_name = CLS, vi_value = cls_total (vt_clsValue s) b, vi_id = [],
        vi_navigationType = None\<rparr>]"
    using Cons.prems
    by (simp add: cls_callback_eq record_vital_def scheduleVitalFlush_def make_sample_def)
  moreover have "vt_clsValue (cls_callback b s) = cls_total (vt_clsValue s) b"
    "vc_enabled (vt_config (cls_callback b s))"
    using Cons.prems by (simp_all add: cls_callback_eq)
  ultimately show ?case
    using Cons.IH [of "cls_callback b s"]
    by (simp add: t make_sample_def upt_conv_Cons map_Suc_upt [symmetric] comp_def
        del: upt_Suc)
qed

section \<open>Posting a batch\<close>

text \<open>Absent optional fields are \<^verbatim>\<open>undefined\<close>, which the encoder drops.\<close>

definition opt_str :: "ustr option \<Rightarrow> jsval" where
  "opt_str x = (case x of Some s \<Rightarrow> JStr s | None \<Rightarrow> JUndef)"

definition opt_obj :: "(ustr \<times> jsval) list option \<Rightarrow> jsval" where
  "opt_obj x = (case x of Some fs \<Rightarrow> JObj fs | None \<Rightarrow> JUndef)"

definition vital_text :: "vital_name \<Rightarrow> ustr" where
  "vital_text n = (case n of LCP \<Rightarrow> str ''LCP'' | FID \<Rightarrow> str ''FID'' | CLS \<Rightarrow> str ''CLS''
     | INP \<Rightarrow> str ''INP'' | TTFB \<Rightarrow> str ''TTFB'')"

definition rating_text :: "rating \<Rightarrow> ustr" where
  "rating_text r = (case r of Good \<Rightarrow> str ''good'' | NeedsImprovement \<Rightarrow> str ''needs-improvement''
     | Poor \<Rightarrow> str ''poor'')"

definition sample_json :: "vital_sample \<Rightarrow> jsval" where
  "sample_json v = JObj [(str ''name'', JStr (vital_text (vs_name v))),
     (str ''value'', JNum (vs_value v)), (str ''rating'', JStr (rating_text (vs_rating v))),
     (str ''id'', JStr (vs_id v)), (str ''navigationType'', opt_str (vs_navigationType v))]"

definition crumb_type_text :: "crumb_type \<Rightarrow> ustr" where
  "crumb_type_text t = (case t of CLog \<Rightarrow> str ''log'' | CClick \<Rightarrow> str ''click''
     | CNav \<Rightarrow> str ''nav'' | CWs \<Rightarrow> str ''ws'' | CFetch \<Rightarrow> str ''fetch'')"

definition crumb_level_text :: "crumb_level \<Rightarrow> ustr" where
  "crumb_level_text l =
     (case l of LInfo \<Rightarrow> str ''info'' | LWarn \<Rightarrow> str ''warn'' | LError \<Rightarrow> str ''error'')"

definition source_text :: "report_source \<Rightarrow> ustr" where
  "source_text r = (case r of Uncaught \<Rightarrow> str ''uncaught''
     | Unhandledrejection \<Rightarrow> str ''unhandledrejection'' | Boundary \<Rightarrow> str ''boundary''
     | Manual \<Rightarrow> str ''manual'')"

definition crumb_json :: "breadcrumb \<Rightarrow> jsval" where
  "crumb_json b = JObj [(str ''type'', JStr (crumb_type_text (cr_type b))),
     (str ''level'', opt_str (map_option crumb_level_text (cr_level b))),
     (str ''message'', JStr (cr_message b)), (str ''data'', opt_obj (cr_data b)),
     (str ''timestamp'', JNum (jsint (cr_timestamp b)))]"

definition report_json :: "error_report \<Rightarrow> jsval" where
  "report_json r = JObj [(str ''message'', JStr (rp_message r)), (str ''name'', JStr (rp_name r)),
     (str ''stack'', opt_str (rp_stack r)), (str ''source'', JStr (source_text (rp_source r))),
     (str ''url'', opt_str (rp_url r)),
     (str ''breadcrumbs'', JArr (map crumb_json (rp_breadcrumbs r))),
     (str ''context'', opt_obj (rp_context r)),
     (str ''capturedAt'', JNum (jsint (rp_capturedAt r)))]"

text \<open>
  The tail of both flush functions: nothing is posted for an empty batch; otherwise one post with
  retries off and a short timeout, whose result, an error included, is thrown away.
\<close>

definition telemetry_options :: request_options where
  "telemetry_options = no_options\<lparr>rq_retry := Some False, rq_timeoutMs := Some 3000\<rparr>"

definition post_batch ::
  "world \<Rightarrow> api_config \<Rightarrow> ustr \<Rightarrow> string \<Rightarrow> jsval list \<Rightarrow> api_effect list"
where
  "post_batch w cfg endpoint key batch =
     (if batch = [] then []
      else fst (api_post w cfg endpoint (JObj [(str key, JArr batch)]) telemetry_options))"

definition post_reports :: "world \<Rightarrow> api_config \<Rightarrow> reporter \<Rightarrow> error_report list \<Rightarrow> api_effect list"
where
  "post_reports w cfg s batch =
     post_batch w cfg (rc_endpoint (er_config s)) ''reports'' (map report_json batch)"

definition post_samples :: "world \<Rightarrow> api_config \<Rightarrow> vitals \<Rightarrow> vital_sample list \<Rightarrow> api_effect list"
where
  "post_samples w cfg s batch =
     post_batch w cfg (vc_endpoint (vt_config s)) ''samples'' (map sample_json batch)"

lemma api_post_once:
  assumes "0 \<le> max_retries cfg opts" "rq_retry opts = Some False"
  shows "request w cfg path opts = (final_effects w cfg path opts 0, attempt_result w cfg path opts 0)"
proof -
  have "\<not> retried w cfg path opts 0"
    using assms(2) by (simp add: retried_def will_retry_def retry_enabled_def split: fetch_outcome.split)
  with assms(1) show ?thesis by (simp add: request_def request_loop_final)
qed

definition posted_body :: "api_effect list \<Rightarrow> (http_method \<times> ustr \<times> ustr option) list" where
  "posted_body es = List.map_filter (\<lambda>e. case e of
     Fetch r \<Rightarrow> Some (fr_method r, fr_url r, fr_body r) | _ \<Rightarrow> None) es"

lemma posted_body_final:
  "posted_body (final_effects w cfg path opts n) =
     [(method_of opts, joinUrl (ac_baseUrl cfg) path, request_body opts)]"
  by (simp add: posted_body_def final_effects_def start_attempt_def attempt_request_def
      map_filter_simps split: fetch_outcome.split)

lemma posted_body_batch:
  "batch \<noteq> [] \<Longrightarrow> posted_body (post_batch w (snd (getDefaultApiClient base None)) endpoint key batch) =
     [(POST, joinUrl (strip_slashes (or_default base [])) endpoint,
       Some (json_stringify (JObj [(str key, JArr batch)])))]"
  by (simp add: post_batch_def api_post_def api_post_once posted_body_final telemetry_options_def
      no_options_def max_retries_def getDefaultApiClient_def createApiClient_def api_defaults
      method_of_def request_body_def Let_def)

text \<open>
  C29. Whatever the network does, telemetry sent through the page's default client costs one
  single POST per batch, to the configured endpoint and with the whole batch in its body, and
  none for an empty batch.
\<close>

theorem telemetry_posts_once:
  "posted_body (post_reports w (snd (getDefaultApiClient base None)) s reports) =
     (if reports = [] then []
      else [(POST, joinUrl (strip_slashes (or_default base [])) (rc_endpoint (er_config s)),
        Some (json_stringify (JObj [(str ''reports'', JArr (map report_json reports))])))]) \<and>
   posted_body (post_samples w (snd (getDefaultApiClient base None)) v samples) =
     (if samples = [] then []
      else [(POST, joinUrl (strip_slashes (or_default base [])) (vc_endpoint (vt_config v)),
        Some (json_stringify (JObj [(str ''samples'', JArr (map sample_json samples))])))])"
  by (auto simp: post_reports_def post_samples_def posted_body_batch)
    (simp_all add: post_batch_def posted_body_def map_filter_simps)

end
