(* ===== verification/JsonText.thy ===== *)
theory JsonText
  imports JsJson
begin

text \<open>
  \<^verbatim>\<open>JSON.parse(JSON.stringify(v))\<close> is \<^verbatim>\<open>v\<close> again, for the values the program exchanges: whole
  numbers, arbitrary strings, and objects with different names and no undefined members.
\<close>

section \<open>Strings\<close>

lemma digit_in_hex: "d < 16 \<Longrightarrow> digit_in 16 (hex_digit d) = Some d"
  by (auto simp: digit_in_def hex_digit_def is_digit_def)

lemma hex4_digits:
  assumes "a < 16" "b < 16" "c < 16" "d < 16"
  shows "hex4 [hex_digit a, hex_digit b, hex_digit c, hex_digit d] =
    Some (16 * (16 * (16 * a + b) + c) + d)"
  using assms by (simp add: hex4_def radix_value_def digit_in_hex)

lemma hex4_unit:
  assumes "c < 65536"
  shows "hex4 [hex_digit (c div 4096), hex_digit (c div 256 mod 16), hex_digit (c div 16 mod 16),
    hex_digit (c mod 16)] = Some c"
proof -
  have "c div 4096 < 16" using assms by simp
  moreover have "16 * (16 * (16 * (c div 4096) + c div 256 mod 16) + c div 16 mod 16) + c mod 16 = c"
  proof -
    have "c div 256 = c div 16 div 16" "c div 4096 = c div 16 div 16 div 16"
      by (simp_all add: div_mult2_eq [symmetric])
    then show ?thesis by (simp add: mult_div_mod_eq)
  qed
  ultimately show ?thesis by (simp add: hex4_digits)
qed

abbreviation prepend :: "nat \<Rightarrow> (ustr \<times> ustr) option \<Rightarrow> (ustr \<times> ustr) option" where
  "prepend c \<equiv> map_option (\<lambda>(cs, t). (c # cs, t))"

lemma parse_unicode_escape:
  "c < 65536 \<Longrightarrow> parse_chars (unicode_escape c @ t) = prepend c (parse_chars t)"
  by (simp add: unicode_escape_def hex4_unit)

lemma parse_escape_char: "parse_chars (escape_char c @ t) = prepend c (parse_chars t)"
  by (cases "c = 34 \<or> c = 92 \<or> c = 8 \<or> c = 12 \<or> c = 10 \<or> c = 13 \<or> c = 9 \<or> 32 \<le> c")
    (auto simp: escape_char_def escape_value_def parse_unicode_escape)

lemma parse_print_unit: "parse_chars (print_unit c @ t) = prepend c (parse_chars t)"
  by (auto simp: print_unit_def is_high_def is_low_def parse_unicode_escape parse_escape_char)

lemma parse_quote_chars: "parse_chars (quote_chars s @ 34 # t) = Some (s, t)"
proof (induction s rule: quote_chars.induct)
  case 1
  then show ?case by simp
next
  case (2 c)
  then show ?case by (simp add: parse_print_unit)
next
  case (3 c d r)
  then show ?case
    by (cases "is_high c \<and> is_low d") (auto simp: parse_print_unit is_high_def is_low_def)
qed

section \<open>Numbers\<close>

lemma nat_str_hd: "1 < length (nat_str n) \<Longrightarrow> hd (nat_str n) \<noteq> 48"
proof (induction n rule: nat_str.induct)
  case (1 n)
  show ?case
  proof (cases "n < 10")
    case True
    with "1.prems" show ?thesis by (subst (asm) nat_str.simps) simp
  next
    case False
    have "hd (nat_str n) = hd (nat_str (n div 10))"
      using False by (subst nat_str.simps) simp
    moreover have "hd (nat_str (n div 10)) \<noteq> 48"
    proof (cases "1 < length (nat_str (n div 10))")
      case True
      with "1.IH" False show ?thesis by simp
    next
      case short: False
      have "n div 10 < 10"
      proof (rule ccontr)
        assume "\<not> n div 10 < 10"
        then have "length (nat_str (n div 10)) = Suc (length (nat_str (n div 10 div 10)))"
          by (subst nat_str.simps) simp
        with short show False by (cases "nat_str (n div 10 div 10)") auto
      qed
      then have "nat_str (n div 10) = [48 + n div 10]" by (subst nat_str.simps) simp
      with False show ?thesis by simp
    qed
    ultimately show ?thesis by simp
  qed
qed

text \<open>What may follow a number.\<close>

definition delimited :: "ustr \<Rightarrow> bool" where
  "delimited t \<longleftrightarrow> (case t of [] \<Rightarrow> True | c # r \<Rightarrow> c = 44 \<or> c = 93 \<or> c = 125)"

lemma take_digits:
  assumes "list_all is_digit ds" "delimited t"
  shows "takeWhile is_digit (ds @ t) = ds" "dropWhile is_digit (ds @ t) = t"
proof -
  have "takeWhile is_digit t = [] \<and> dropWhile is_digit t = t"
    using assms(2) by (cases t) (auto simp: delimited_def is_digit_def)
  then show "takeWhile is_digit (ds @ t) = ds" "dropWhile is_digit (ds @ t) = t"
    using assms(1) by (simp_all add: takeWhile_append2 dropWhile_append2 list_all_iff)
qed

lemma not_exponent: "delimited t \<Longrightarrow> \<not> starts_with (str ''.'') t \<and> \<not> starts_with (str ''e'') t \<and>
    \<not> starts_with (str ''E'') t"
  by (cases t) (auto simp: delimited_def str_def)

lemma nat_str_no_minus: "\<not> starts_with (str ''-'') (nat_str n @ t)"
proof -
  have "is_digit (hd (nat_str n))" by (rule nat_str_digits [of _ n]) simp
  then show ?thesis by (cases "nat_str n") (auto simp: str_def is_digit_def)
qed

lemma parse_number_int:
  assumes "delimited t"
  shows "parse_number (int_str i @ t) = Some (of_int i, t)"
proof -
  have digits: "list_all is_digit (nat_str n)" for n by (simp add: list_all_iff nat_str_digits)
  note facts = take_digits [OF digits assms] not_exponent [OF assms] nat_str_no_minus nat_str_hd
  show ?thesis
  proof (cases "i < 0")
    case True
    then have "int_str i = 45 # nat_str (nat (- i))" by (simp add: int_str_def)
    with True facts show ?thesis
      by (simp add: parse_number_def str_def scale10_def dec_value_def [of "[]"] Let_def)
  next
    case False
    then have "int_str i = nat_str (nat i)" by (simp add: int_str_def)
    with False facts show ?thesis
      by (simp add: parse_number_def scale10_def dec_value_def [of "[]"] Let_def)
  qed
qed

section \<open>Values\<close>

text \<open>
  The bound on numbers is that of the printer of the language, which goes over to an exponent
  at \<open>10 ^ 21\<close>.
\<close>

fun json_ok :: "jsval \<Rightarrow> bool" where
  "json_ok JUndef = False"
| "json_ok JNull = True"
| "json_ok (JBool b) = True"
| "json_ok (JNum n) = (case n of Fin q \<Rightarrow> q = of_int \<lfloor>q\<rfloor> \<and> \<bar>q\<bar> < 10 ^ 21 | _ \<Rightarrow> False)"
| "json_ok (JStr s) = True"
| "json_ok (JArr vs) = (\<forall>v \<in> set vs. json_ok v)"
| "json_ok (JObj fs) = (distinct (map fst fs) \<and> (\<forall>p \<in> set fs. json_ok (snd p)))"

lemma json_ok_int: "\<bar>i\<bar> < 10 ^ 21 \<Longrightarrow> json_ok (JNum (jsint i))"
proof -
  assume "\<bar>i\<bar> < 10 ^ 21"
  then have "\<bar>of_int i :: rat\<bar> < of_int (10 ^ 21)" by (simp only: of_int_abs [symmetric] of_int_less_iff)
  then show ?thesis by simp
qed

lemma json_ok_members: "json_ok (JObj fs) \<Longrightarrow> filter (\<lambda>(k, v). v \<noteq> JUndef) fs = fs"
  by (rule filter_True) auto

text \<open>A printed value starts with a character that is neither white space nor closes a list.\<close>

lemma print_starts:
  assumes "json_ok v"
  obtains c t where "json_stringify v = c # t" "\<not> is_json_ws c" "c \<noteq> 93" "c \<noteq> 125"
proof -
  have "\<exists>c t. json_stringify v = c # t \<and> \<not> is_json_ws c \<and> c \<noteq> 93 \<and> c \<noteq> 125"
  proof (cases v)
    case (JNum n)
    with assms obtain i where i: "n = jsint i" by (cases n) auto
    have "is_digit (hd (nat_str m))" for m by (rule nat_str_digits [of _ m]) simp
    then have "\<exists>c t. int_str i = c # t \<and> (c = 45 \<or> is_digit c)"
      by (cases "nat_str (nat i)"; metis int_str_def list.sel(1) nat_str_nonempty)
    with JNum i show ?thesis by (auto simp: is_json_ws_def is_digit_def)
  qed (use assms in \<open>auto simp: is_json_ws_def str_def quote_def\<close>)
  with that show ?thesis by blast
qed

lemma skip_ws_print: "json_ok v \<Longrightarrow> skip_ws (json_stringify v @ t) = json_stringify v @ t"
  by (erule print_starts) (simp add: skip_ws_def)

lemma update_new: "k \<notin> fst ` set al \<Longrightarrow> AList.update k v al = al @ [(k, v)]"
  by (induction al) auto

lemma fold_update_distinct:
  "distinct (map fst (acc @ ms)) \<Longrightarrow> fold (\<lambda>(k, v). AList.update k v) ms acc = acc @ ms"
proof (induction ms arbitrary: acc)
  case (Cons m ms)
  then have "AList.update (fst m) (snd m) acc = acc @ [m]" by (simp add: update_new)
  with Cons show ?case by (simp add: split_beta)
qed simp

definition reads_back :: "jsval \<Rightarrow> bool" where
  "reads_back v \<longleftrightarrow> (\<forall>t. delimited t \<longrightarrow>
     eventually (\<lambda>n. parse_value n (json_stringify v @ t) = Some (v, t)) sequentially)"

lemma eventually_fuel: "eventually (\<lambda>n. P (Suc n)) sequentially \<Longrightarrow> eventually P sequentially"
  by (simp only: eventually_sequentially_Suc)

lemma delimited_simps [simp]: "delimited []" "delimited (44 # t)" "delimited (93 # t)" "delimited (125 # t)"
  by (simp_all add: delimited_def)

lemma strip_units [simp]:
  "strip '','' (44 # t) = Some t" "strip '','' (93 # t) = None" "strip '','' (125 # t) = None"
  "strip '']'' (93 # t) = Some t" "strip ''}'' (125 # t) = Some t" "strip '':'' (58 # t) = Some t"
  "strip [CHR 0x22] (34 # t) = Some t"
  by (simp_all add: strip_def str_def)

lemma skip_ws_units [simp]:
  "skip_ws (44 # t) = 44 # t" "skip_ws (93 # t) = 93 # t" "skip_ws (125 # t) = 125 # t"
  "skip_ws (58 # t) = 58 # t" "skip_ws (34 # t) = 34 # t" "skip_ws [] = []"
  by (simp_all add: skip_ws_def is_json_ws_def)

lemma reads_backI:
  assumes "\<And>n t. delimited t \<Longrightarrow> parse_value (Suc n) (json_stringify v @ t) = Some (v, t)"
  shows "reads_back v"
  unfolding reads_back_def
proof (intro allI impI)
  fix t
  assume "delimited t"
  then have "eventually (\<lambda>n. parse_value (Suc n) (json_stringify v @ t) = Some (v, t)) sequentially"
    using assms by (intro always_eventually allI)
  then show "eventually (\<lambda>n. parse_value n (json_stringify v @ t) = Some (v, t)) sequentially"
    by (rule eventually_fuel)
qed

abbreviation commas :: "ustr list \<Rightarrow> ustr" where "commas \<equiv> join (str '','')"

lemma commas_Cons: "ss \<noteq> [] \<Longrightarrow> commas (s # ss) = s @ 44 # commas ss"
  by (cases ss) (simp_all add: str_def)

lemma parse_elems_last:
  "parse_value n s = Some (v, 93 # t) \<Longrightarrow> parse_elems (Suc n) s = Some ([v], t)"
  by simp

lemma parse_elems_next:
  "parse_value n s = Some (v, 44 # r) \<Longrightarrow> parse_elems n r = Some (vs, t) \<Longrightarrow>
     parse_elems (Suc n) s = Some (v # vs, t)"
  by simp

lemma parse_elems_print:
  assumes "vs \<noteq> []" "\<And>v. v \<in> set vs \<Longrightarrow> reads_back v"
  shows "eventually (\<lambda>n. parse_elems n (commas (map json_stringify vs) @ 93 # t) = Some (vs, t)) sequentially"
  using assms
proof (induction vs rule: list_nonempty_induct)
  case (single v)
  then have "eventually (\<lambda>n. parse_value n (json_stringify v @ 93 # t) = Some (v, 93 # t)) sequentially"
    by (simp add: reads_back_def)
  then have "eventually (\<lambda>n. parse_elems (Suc n) (json_stringify v @ 93 # t) = Some ([v], t)) sequentially"
    by eventually_elim (rule parse_elems_last)
  then show ?case by - (rule eventually_fuel, simp only: list.map join.simps)
next
  case (cons v vs)
  let ?r = "commas (map json_stringify vs) @ 93 # t"
  have "eventually (\<lambda>n. parse_value n (json_stringify v @ 44 # ?r) = Some (v, 44 # ?r)) sequentially"
    using cons.prems by (simp add: reads_back_def)
  moreover have "eventually (\<lambda>n. parse_elems n ?r = Some (vs, t)) sequentially"
    using cons by simp
  ultimately have "eventually (\<lambda>n. parse_elems (Suc n) (json_stringify v @ 44 # ?r) = Some (v # vs, t)) sequentially"
    by eventually_elim (rule parse_elems_next)
  then show ?case
    by - (rule eventually_fuel, simp only: list.map commas_Cons map_is_Nil_conv cons.hyps append.assoc
        append_Cons not_False_eq_True)
qed

abbreviation member_text :: "ustr \<times> jsval \<Rightarrow> ustr" where
  "member_text \<equiv> \<lambda>(k, v). quote k @ [58] @ json_stringify v"

lemma parse_members_last:
  "parse_value n r = Some (v, 125 # t) \<Longrightarrow>
     parse_members (Suc n) (quote k @ 58 # r) = Some ([(k, v)], t)"
  by (simp add: quote_def parse_quote_chars)

lemma parse_members_next:
  "parse_value n r = Some (v, 44 # u) \<Longrightarrow> parse_members n u = Some (ms, t) \<Longrightarrow>
     parse_members (Suc n) (quote k @ 58 # r) = Some ((k, v) # ms, t)"
  by (simp add: quote_def parse_quote_chars)

lemma parse_members_print:
  assumes "fs \<noteq> []" "\<And>p. p \<in> set fs \<Longrightarrow> reads_back (snd p)"
  shows "eventually (\<lambda>n. parse_members n (commas (map member_text fs) @ 125 # t) = Some (fs, t)) sequentially"
  using assms
proof (induction fs rule: list_nonempty_induct)
  case (single p)
  obtain k v where p: "p = (k, v)" by (cases p)
  with single have "eventually (\<lambda>n. parse_value n (json_stringify v @ 125 # t) = Some (v, 125 # t)) sequentially"
    by (simp add: reads_back_def)
  then have "eventually (\<lambda>n. parse_members (Suc n) (quote k @ 58 # json_stringify v @ 125 # t) =
      Some ([p], t)) sequentially"
    unfolding p by eventually_elim (rule parse_members_last)
  then show ?case
    by - (rule eventually_fuel, simp only: p list.map join.simps prod.case append.assoc append_Cons append_Nil)
next
  case (cons p fs)
  let ?u = "commas (map member_text fs) @ 125 # t"
  obtain k v where p: "p = (k, v)" by (cases p)
  have v: "reads_back v" using cons.prems [of p] p by simp
  have "eventually (\<lambda>n. parse_value n (json_stringify v @ 44 # ?u) = Some (v, 44 # ?u)) sequentially"
    using v by (simp add: reads_back_def)
  moreover have "eventually (\<lambda>n. parse_members n ?u = Some (fs, t)) sequentially"
    using cons by simp
  ultimately have "eventually (\<lambda>n. parse_members (Suc n) (quote k @ 58 # json_stringify v @ 44 # ?u) =
      Some (p # fs, t)) sequentially"
    unfolding p by eventually_elim (rule parse_members_next)
  then show ?case
    by - (rule eventually_fuel, simp only: p list.map commas_Cons map_is_Nil_conv cons.hyps prod.case
        append.assoc append_Cons append_Nil not_False_eq_True)
qed

lemma digit_starts_number:
  assumes "is_digit c \<or> c = 45"
  shows "parse_value (Suc n) (c # r) = map_option (\<lambda>(q, t). (JNum (Fin q), t)) (parse_number (c # r))"
  using assms by (auto simp: skip_ws_def is_json_ws_def is_digit_def strip_def str_def)

lemma int_str_starts: obtains c r where "int_str i = c # r" "is_digit c \<or> c = 45"
proof -
  have "is_digit (hd (nat_str m))" for m by (rule nat_str_digits [of _ m]) simp
  then have "is_digit (hd (int_str i)) \<or> hd (int_str i) = 45" "int_str i \<noteq> []"
    by (simp_all add: int_str_def)
  with that show ?thesis by (cases "int_str i") auto
qed

lemma reads_back_int: "reads_back (JNum (jsint i))"
proof -
  obtain c r where i: "int_str i = c # r" "is_digit c \<or> c = 45" by (rule int_str_starts)
  have "parse_value (Suc n) (int_str i @ t) = Some (JNum (jsint i), t)" if "delimited t" for n t
    using digit_starts_number [OF i(2), of n "r @ t"] parse_number_int [OF that, of i] by (simp add: i(1))
  then show ?thesis by (intro reads_backI) (simp only: json_stringify.simps num_str_int jsnum.case)
qed

lemma reads_back_array:
  assumes "json_ok (JArr vs)" "\<And>v. v \<in> set vs \<Longrightarrow> reads_back v"
  shows "reads_back (JArr vs)"
proof (cases "vs = []")
  case True
  then show ?thesis
    by (intro reads_backI) (simp add: skip_ws_def is_json_ws_def str_def strip_def)
next
  case False
  then obtain v vs' where vs: "vs = v # vs'" by (cases vs) auto
  with assms(1) have "json_ok v" by simp
  then obtain c u where v: "json_stringify v = c # u" "\<not> is_json_ws c" "c \<noteq> 93" by (rule print_starts)
  have start: "\<exists>w. commas (map json_stringify vs) @ 93 # t = c # w" for t
    by (cases vs') (simp_all add: vs v str_def)
  have step: "parse_value (Suc n) (json_stringify (JArr vs) @ t) = Some (JArr vs, t)"
    if "parse_elems n (commas (map json_stringify vs) @ 93 # t) = Some (vs, t)" for n t
  proof -
    obtain w where w: "commas (map json_stringify vs) @ 93 # t = c # w" using start by blast
    with v have "strip '']'' (skip_ws (c # w)) = None" by (simp add: skip_ws_def strip_def str_def)
    moreover have "json_stringify (JArr vs) @ t = 91 # c # w" using w by simp
    ultimately show ?thesis
      using that by (simp add: w skip_ws_def [of "91 # c # w"] is_json_ws_def)
  qed
  have "eventually (\<lambda>n. parse_value (Suc n) (json_stringify (JArr vs) @ t) = Some (JArr vs, t)) sequentially" for t
  proof -
    have "eventually (\<lambda>n. parse_elems n (commas (map json_stringify vs) @ 93 # t) = Some (vs, t)) sequentially"
      by (rule parse_elems_print) (use False assms(2) in simp_all)
    then show ?thesis by eventually_elim (rule step)
  qed
  then show ?thesis unfolding reads_back_def by (blast intro: eventually_fuel)
qed

lemma reads_back_object:
  assumes "json_ok (JObj fs)" "\<And>p. p \<in> set fs \<Longrightarrow> reads_back (snd p)"
  shows "reads_back (JObj fs)"
proof (cases "fs = []")
  case True
  then show ?thesis
    by (intro reads_backI) (simp add: skip_ws_def is_json_ws_def str_def strip_def)
next
  case False
  have print: "json_stringify (JObj fs) @ t = 123 # commas (map member_text fs) @ 125 # t" for t
    using json_ok_members [OF assms(1)] by simp
  have start: "\<exists>w. commas (map member_text fs) @ 125 # t = 34 # w" for t
    using False by (cases fs; cases "tl fs") (auto simp: quote_def str_def split_beta)
  have step: "parse_value (Suc n) (json_stringify (JObj fs) @ t) = Some (JObj fs, t)"
    if "parse_members n (commas (map member_text fs) @ 125 # t) = Some (fs, t)" for n t
  proof -
    obtain w where w: "commas (map member_text fs) @ 125 # t = 34 # w" using start by blast
    moreover have "strip ''}'' (skip_ws (34 # w)) = None" by (simp add: strip_def str_def)
    moreover have "fold (\<lambda>(k, v). AList.update k v) fs [] = fs"
      using fold_update_distinct [of "[]" fs] assms(1) by simp
    ultimately show ?thesis
      using that by (simp only: print w) (simp add: skip_ws_def [of "123 # 34 # w"] is_json_ws_def)
  qed
  have "eventually (\<lambda>n. parse_value (Suc n) (json_stringify (JObj fs) @ t) = Some (JObj fs, t)) sequentially" for t
  proof -
    have "eventually (\<lambda>n. parse_members n (commas (map member_text fs) @ 125 # t) = Some (fs, t)) sequentially"
      by (rule parse_members_print) (use False assms(2) in simp_all)
    then show ?thesis by eventually_elim (rule step)
  qed
  then show ?thesis unfolding reads_back_def by (blast intro: eventually_fuel)
qed

lemma reads_back_all: "json_ok v \<Longrightarrow> reads_back v"
proof (induction v rule: json_ok.induct)
  case (4 n)
  then obtain i where "n = jsint i" by (cases n) auto
  then show ?case using reads_back_int by simp
next
  case (5 s)
  show ?case by (intro reads_backI) (simp add: skip_ws_def is_json_ws_def quote_def parse_quote_chars)
next
  case (6 vs)
  then show ?case by (intro reads_back_array) simp_all
next
  case (7 fs)
  then show ?case by (intro reads_back_object) simp_all
qed (auto intro!: reads_backI simp: skip_ws_def is_json_ws_def str_def strip_def)

text \<open>What was printed is read back.\<close>

lemma json_parse_stringify [simp]:
  assumes "json_ok v"
  shows "json_parse (json_stringify v) = Some v"
proof -
  let ?s = "json_stringify v"
  have "eventually (\<lambda>n. parse_value n (?s @ []) = Some (v, [])) sequentially"
    using reads_back_all [OF assms] delimited_simps(1) unfolding reads_back_def by blast
  then obtain N where "\<forall>n \<ge> N. parse_value n ?s = Some (v, [])"
    by (auto simp: eventually_sequentially)
  then have "parse_value (max N (Suc (2 * length ?s))) ?s = Some (v, [])" by simp
  with json_parse_fuel [of ?s "max N (Suc (2 * length ?s))"] show ?thesis by simp
qed

section \<open>What is lost in printing\<close>

text \<open>
  Members that are \<^verbatim>\<open>undefined\<close> are omitted; everywhere else \<^verbatim>\<open>undefined\<close> and the numbers that
  are not finite become \<^verbatim>\<open>null\<close>.
\<close>

fun pruned :: "jsval \<Rightarrow> jsval" where
  "pruned JUndef = JNull"
| "pruned JNull = JNull"
| "pruned (JBool b) = JBool b"
| "pruned (JNum n) = (case n of Fin q \<Rightarrow> JNum n | _ \<Rightarrow> JNull)"
| "pruned (JStr s) = JStr s"
| "pruned (JArr vs) = JArr (map pruned vs)"
| "pruned (JObj fs) = JObj (map (\<lambda>p. (fst p, pruned (snd p))) (filter (\<lambda>p. snd p \<noteq> JUndef) fs))"

lemma pruned_defined [simp]: "pruned v \<noteq> JUndef"
  by (cases v rule: pruned.cases) (auto split: jsnum.split)

lemma stringify_pruned [simp]: "json_stringify (pruned v) = json_stringify v"
proof (induction v rule: pruned.induct)
  case (6 vs)
  then have "map (json_stringify \<circ> pruned) vs = map json_stringify vs" by simp
  then show ?case by (simp del: map_map add: map_map [symmetric])
next
  case (7 fs)
  let ?gs = "filter (\<lambda>p. snd p \<noteq> JUndef) fs"
  have "map (member_text \<circ> (\<lambda>p. (fst p, pruned (snd p)))) ?gs = map member_text ?gs"
    using 7 by (simp add: split_beta)
  moreover have "filter (\<lambda>(k, v). v \<noteq> JUndef) (map (\<lambda>p. (fst p, pruned (snd p))) ?gs) =
      map (\<lambda>p. (fst p, pruned (snd p))) ?gs"
    by (rule filter_True) auto
  moreover have "filter (\<lambda>(k, v). v \<noteq> JUndef) fs = ?gs" by (rule filter_cong) auto
  ultimately show ?case by (simp only: pruned.simps json_stringify.simps map_map)
qed (auto split: jsnum.split)

lemma json_parse_pruned:
  assumes "json_ok (pruned v)"
  shows "json_parse (json_stringify v) = Some (pruned v)"
  using json_parse_stringify [OF assms] by simp

end
