(* ===== verification/WebSocketHook.thy ===== *)
theory WebSocketHook
  imports JsonText ApiClient Stores
begin

text \<open>
  \<^verbatim>\<open>hooks/useWebSocket.ts\<close>: the connection hook as a state machine. The refs and the React
  state of the hook are fields of one record, together with what the browser keeps for it: the
  ready state of every socket made so far (a socket is its index) and the pending timers. Each
  handler is a function from the state to the state and the effects it has outside the hook;
  \<open>ws_enabled\<close> says when the browser may call it. The handlers are those of the first render, so
  that the configuration is fixed.
\<close>

section \<open>Configuration\<close>

record ws_options =
  wo_url :: "ustr option"
  wo_maxBackoffMs :: "int option"
  wo_baseBackoffMs :: "int option"
  wo_maxReconnectAttempts :: "int option"
  wo_heartbeatMs :: "int option"
  wo_staleAfterMs :: "int option"

record ws_config =
  wc_url :: ustr
  wc_baseBackoffMs :: int
  wc_maxBackoffMs :: int
  wc_maxReconnectAttempts :: int
  wc_heartbeatMs :: int
  wc_staleAfterMs :: int

text \<open>The page's protocol and host, absent outside a browser.\<close>

definition defaultWsUrl :: "(ustr \<times> ustr) option \<Rightarrow> ustr" where
  "defaultWsUrl location = (case location of
     None \<Rightarrow> str ''ws://localhost:3000/ws''
   | Some (protocol, host) \<Rightarrow>
       (if protocol = str ''https:'' then str ''wss'' else str ''ws'') @ str ''://'' @ host @ str ''/ws'')"

definition ws_cfg :: "(ustr \<times> ustr) option \<Rightarrow> ws_options \<Rightarrow> ws_config" where
  "ws_cfg location options =
     \<lparr>wc_url = (case wo_url options of Some u \<Rightarrow> u | None \<Rightarrow> defaultWsUrl location),
      wc_baseBackoffMs = or_default (wo_baseBackoffMs options) 500,
      wc_maxBackoffMs = or_default (wo_maxBackoffMs options) 30000,
      wc_maxReconnectAttempts = or_default (wo_maxReconnectAttempts options) 0,
      wc_heartbeatMs = or_default (wo_heartbeatMs options) 25000,
      wc_staleAfterMs = or_default (wo_staleAfterMs options) 90000\<rparr>"

definition backoffDelay :: "rat \<Rightarrow> nat \<Rightarrow> int \<Rightarrow> int \<Rightarrow> int" where
  "backoffDelay rnd attempt base cap = \<lfloor>rnd * of_int (min cap (base * 2 ^ attempt))\<rfloor>"

section \<open>State\<close>

datatype ready_state = RS_CONNECTING | RS_OPEN | RS_CLOSING | RS_CLOSED

datatype timer_kind = ReconnectTimer | HeartbeatTimer | StaleTimer

record pending_timer =
  tm_handle :: nat
  tm_kind :: timer_kind
  tm_delay :: int

datatype ws_status = Idle | Connecting | Open | Reconnecting | Closed

record ws_state =
  sk_ready :: "ready_state list"
  sk_timers :: "pending_timer list"
  sk_nextHandle :: nat
  wsRef :: "nat option"
  reconnectTimerRef :: "nat option"
  heartbeatTimerRef :: "nat option"
  staleTimerRef :: "nat option"
  attemptsRef :: nat
  shouldReconnectRef :: bool
  lastMessageAtRef :: int
  ws_status :: ws_status
  lastError :: "ustr option"

definition init_ws :: ws_state where
  "init_ws = \<lparr>sk_ready = [], sk_timers = [], sk_nextHandle = 1, wsRef = None,
     reconnectTimerRef = None, heartbeatTimerRef = None, staleTimerRef = None, attemptsRef = 0,
     shouldReconnectRef = True, lastMessageAtRef = 0, ws_status = Idle, lastError = None\<rparr>"

text \<open>
  What the surroundings contribute to a step: the time, a random number, the message of the
  exception if the \<^verbatim>\<open>WebSocket\<close> constructor throws, and likewise for \<^verbatim>\<open>send\<close>.
\<close>

record ws_env =
  we_now :: int
  we_random :: rat
  we_construct :: "ustr option"
  we_sendError :: "ustr option"

datatype ws_effect =
    WsCrumb crumb_input
  | NewSocket ustr
  | CloseSocket nat int ustr
  | SendFrame nat ustr
  | AddEvent jsval
  | OnOpen
  | OnClose int ustr bool
  | OnError ustr
  | OnReconnectFailed nat

section \<open>Timers\<close>

definition set_timer :: "timer_kind \<Rightarrow> int \<Rightarrow> ws_state \<Rightarrow> ws_state" where
  "set_timer k d s =
     s\<lparr>sk_timers := sk_timers s @ [\<lparr>tm_handle = sk_nextHandle s, tm_kind = k, tm_delay = d\<rparr>],
       sk_nextHandle := Suc (sk_nextHandle s)\<rparr>"

definition clear_timer :: "nat option \<Rightarrow> ws_state \<Rightarrow> ws_state" where
  "clear_timer h s = (case h of
     None \<Rightarrow> s | Some n \<Rightarrow> s\<lparr>sk_timers := filter (\<lambda>t. tm_handle t \<noteq> n) (sk_timers s)\<rparr>)"

definition clearTimers :: "ws_state \<Rightarrow> ws_state" where
  "clearTimers s =
     (let s1 = (clear_timer (reconnectTimerRef s) s)\<lparr>reconnectTimerRef := None\<rparr>;
          s2 = (clear_timer (heartbeatTimerRef s1) s1)\<lparr>heartbeatTimerRef := None\<rparr>
      in (clear_timer (staleTimerRef s2) s2)\<lparr>staleTimerRef := None\<rparr>)"

definition armStaleTimer :: "ws_config \<Rightarrow> ws_state \<Rightarrow> ws_state" where
  "armStaleTimer cfg s =
     (if wc_staleAfterMs cfg \<le> 0 then s
      else
        (let s1 = clear_timer (staleTimerRef s) s
         in set_timer StaleTimer (wc_staleAfterMs cfg) (s1\<lparr>staleTimerRef := Some (sk_nextHandle s1)\<rparr>)))"

definition ready_of :: "ws_state \<Rightarrow> nat \<Rightarrow> ready_state option" where
  "ready_of s i = (if i < length (sk_ready s) then Some (sk_ready s ! i) else None)"

text \<open>\<^verbatim>\<open>ws.close(code, reason)\<close>: nothing happens to a socket that is closing or closed already.\<close>

definition close_socket :: "nat \<Rightarrow> int \<Rightarrow> ustr \<Rightarrow> ws_state \<Rightarrow> ws_state \<times> ws_effect list" where
  "close_socket i code reason s =
     (if ready_of s i = Some RS_CONNECTING \<or> ready_of s i = Some RS_OPEN
      then (s\<lparr>sk_ready := (sk_ready s)[i := RS_CLOSING]\<rparr>, [CloseSocket i code reason])
      else (s, []))"

definition stale_callback :: "ws_state \<Rightarrow> ws_state \<times> ws_effect list" where
  "stale_callback s = (case wsRef s of
     None \<Rightarrow> (s, []) | Some i \<Rightarrow> close_socket i 4000 (str ''stale'') s)"

definition heartbeat_payload :: ustr where
  "heartbeat_payload = json_stringify (JObj [(str ''type'', JStr (str ''ping''))])"

definition heartbeat_callback :: "ws_env \<Rightarrow> ws_state \<Rightarrow> ws_state \<times> ws_effect list" where
  "heartbeat_callback env s = (case wsRef s of
     None \<Rightarrow> (s, [])
   | Some i \<Rightarrow>
       if ready_of s i = Some RS_OPEN \<and> we_sendError env = None
       then (s, [SendFrame i heartbeat_payload]) else (s, []))"

section \<open>Connecting and disconnecting\<close>

definition scheduleReconnect :: "ws_config \<Rightarrow> ws_env \<Rightarrow> ws_state \<Rightarrow> ws_state" where
  "scheduleReconnect cfg env s =
     (if \<not> shouldReconnectRef s then s
      else
        (let s1 = s\<lparr>attemptsRef := attemptsRef s + 1\<rparr>;
             d = backoffDelay (we_random env) (attemptsRef s1 - 1) (wc_baseBackoffMs cfg)
                   (wc_maxBackoffMs cfg)
         in set_timer ReconnectTimer d (s1\<lparr>reconnectTimerRef := Some (sk_nextHandle s1)\<rparr>)))"

definition connect :: "ws_config \<Rightarrow> ws_env \<Rightarrow> ws_state \<Rightarrow> ws_state \<times> ws_effect list" where
  "connect cfg env s =
     (let s0 = s\<lparr>shouldReconnectRef := True\<rparr>
      in if (case wsRef s0 of
               None \<Rightarrow> False
             | Some i \<Rightarrow> ready_of s0 i = Some RS_OPEN \<or> ready_of s0 i = Some RS_CONNECTING)
         then (s0, [])
         else
           (let s1 = s0\<lparr>ws_status := (if ws_status s0 = Open then Reconnecting else Connecting),
                        lastError := None\<rparr>
            in case we_construct env of
                 Some m \<Rightarrow>
                   (scheduleReconnect cfg env
                      (s1\<lparr>lastError := Some (str ''WebSocket construction failed: '' @ m)\<rparr>), [])
               | None \<Rightarrow>
                   (s1\<lparr>sk_ready := sk_ready s1 @ [RS_CONNECTING], wsRef := Some (length (sk_ready s1)),
                      lastMessageAtRef := we_now env\<rparr>, [NewSocket (wc_url cfg)])))"

definition disconnect :: "ws_state \<Rightarrow> ws_state \<times> ws_effect list" where
  "disconnect s =
     (let s1 = (clearTimers (s\<lparr>shouldReconnectRef := False\<rparr>))\<lparr>ws_status := Closed, lastError := None\<rparr>
      in case wsRef s1 of
           None \<Rightarrow> (s1, [])
         | Some i \<Rightarrow>
             (let (s2, es) = close_socket i 1000 (str ''client disconnect'') s1
              in (s2\<lparr>wsRef := None\<rparr>, es)))"

definition ws_send :: "ws_env \<Rightarrow> jsval \<Rightarrow> ws_state \<Rightarrow> ws_state \<times> ws_effect list" where
  "ws_send env d s = (case wsRef s of
     None \<Rightarrow> (s, [])
   | Some i \<Rightarrow>
       if ready_of s i = Some RS_OPEN then
         (case we_sendError env of
            Some m \<Rightarrow> (s\<lparr>lastError := Some (str ''send failed: '' @ m)\<rparr>, [])
          | None \<Rightarrow> (s, [SendFrame i (case d of JStr t \<Rightarrow> t
            | JUndef \<Rightarrow> str ''undefined'' | _ \<Rightarrow> json_stringify d)]))
       else (s, []))"

section \<open>Socket handlers\<close>

definition ws_url_field :: "ws_config \<Rightarrow> ustr \<times> jsval" where
  "ws_url_field cfg = (str ''url'', JStr (wc_url cfg))"

definition ws_attempts_field :: "ws_state \<Rightarrow> ustr \<times> jsval" where
  "ws_attempts_field s = (str ''attempts'', JNum (jsint (int (attemptsRef s))))"

definition onopen :: "ws_config \<Rightarrow> ws_state \<Rightarrow> ws_state \<times> ws_effect list" where
  "onopen cfg s =
     (let crumb = \<lparr>ci_type = CWs, ci_level = None,
            ci_message = str ''WebSocket open: '' @ wc_url cfg,
            ci_data = Some [ws_url_field cfg, ws_attempts_field s]\<rparr>;
          s1 = s\<lparr>attemptsRef := 0, ws_status := Open, lastError := None\<rparr>;
          s2 = (if 0 < wc_heartbeatMs cfg
                then set_timer HeartbeatTimer (wc_heartbeatMs cfg)
                       (s1\<lparr>heartbeatTimerRef := Some (sk_nextHandle s1)\<rparr>)
                else s1)
      in (armStaleTimer cfg s2, [WsCrumb crumb, OnOpen]))"

definition is_ping :: "jsval \<Rightarrow> bool" where
  "is_ping v = (case v of JObj fs \<Rightarrow> field fs ''type'' = JStr (str ''ping'') | _ \<Rightarrow> False)"

definition onmessage :: "ws_config \<Rightarrow> ws_env \<Rightarrow> ustr \<Rightarrow> ws_state \<Rightarrow> ws_state \<times> ws_effect list" where
  "onmessage cfg env d s =
     (let s1 = armStaleTimer cfg (s\<lparr>lastMessageAtRef := we_now env\<rparr>)
      in case json_parse d of
           None \<Rightarrow> (s1, [])
         | Some v \<Rightarrow> (s1, if is_ping v then [] else [AddEvent v]))"

definition onclose ::
  "ws_config \<Rightarrow> ws_env \<Rightarrow> int \<Rightarrow> ustr \<Rightarrow> bool \<Rightarrow> ws_state \<Rightarrow> ws_state \<times> ws_effect list"
where
  "onclose cfg env code reason wasClean s =
     (let atCap = (0 < wc_maxReconnectAttempts cfg \<and>
            wc_maxReconnectAttempts cfg \<le> int (attemptsRef s));
          crumb = \<lparr>ci_type = CWs,
            ci_level = Some (if atCap \<and> \<not> wasClean then LError else LInfo),
            ci_message =
              (if atCap then
                 str ''WebSocket gave up after '' @ nat_str (attemptsRef s) @ str '' attempts: '' @
                   wc_url cfg @ str '' (code='' @ int_str code @ str '')''
               else
                 str ''WebSocket closed: '' @ wc_url cfg @ str '' (code='' @ int_str code @
                   str '', clean='' @ to_str (JBool wasClean) @ str '')''),
            ci_data = Some [ws_url_field cfg, (str ''code'', JNum (jsint code)),
              (str ''reason'', JStr reason), (str ''wasClean'', JBool wasClean),
              ws_attempts_field s, (str ''atCap'', JBool atCap)]\<rparr>;
          es = [WsCrumb crumb, OnClose code reason wasClean];
          s1 = clearTimers (s\<lparr>wsRef := None\<rparr>)
      in if \<not> shouldReconnectRef s1 \<or> atCap then
           (s1\<lparr>ws_status := Closed\<rparr>,
            es @ (if atCap then [OnReconnectFailed (attemptsRef s1)] else []))
         else (scheduleReconnect cfg env (s1\<lparr>ws_status := Reconnecting\<rparr>), es))"

definition onerror :: "ws_config \<Rightarrow> ws_state \<Rightarrow> ws_state \<times> ws_effect list" where
  "onerror cfg s =
     (let msg = str ''WebSocket connection error'';
          crumb = \<lparr>ci_type = CWs, ci_level = Some LError,
            ci_message = str ''WebSocket error: '' @ wc_url cfg,
            ci_data = Some [ws_url_field cfg, ws_attempts_field s]\<rparr>
      in (s\<lparr>lastError := Some msg\<rparr>, [WsCrumb crumb, OnError msg]))"

section \<open>The mount effect\<close>

definition mount_effect :: "ws_config \<Rightarrow> ws_env \<Rightarrow> ws_state \<Rightarrow> ws_state \<times> ws_effect list" where
  "mount_effect cfg env s = connect cfg env (s\<lparr>shouldReconnectRef := True, attemptsRef := 0\<rparr>)"

definition unmount_effect :: "ws_state \<Rightarrow> ws_state \<times> ws_effect list" where
  "unmount_effect s = disconnect s"

section \<open>Steps\<close>

text \<open>
  \<open>SocketClosed i failed code reason clean\<close> is the task in which the browser marks a socket as
  closed, fires \<^verbatim>\<open>error\<close> if the connection failed, and then \<^verbatim>\<open>close\<close>. A fired timeout is gone
  from the pending timers, an interval stays.
\<close>

datatype ws_action =
    SocketOpened nat
  | SocketMessage nat ustr
  | SocketClosed nat bool int ustr bool
  | TimerFired pending_timer
  | CallConnect
  | CallDisconnect
  | CallSend jsval
  | Mount
  | Unmount

definition ws_enabled :: "ws_action \<Rightarrow> ws_state \<Rightarrow> bool" where
  "ws_enabled a s = (case a of
     SocketOpened i \<Rightarrow> ready_of s i = Some RS_CONNECTING
   | SocketMessage i d \<Rightarrow> ready_of s i = Some RS_OPEN
   | SocketClosed i failed code reason clean \<Rightarrow>
       i < length (sk_ready s) \<and> sk_ready s ! i \<noteq> RS_CLOSED
   | TimerFired t \<Rightarrow> t \<in> set (sk_timers s)
   | _ \<Rightarrow> True)"

definition ws_apply ::
  "ws_config \<Rightarrow> ws_env \<Rightarrow> ws_action \<Rightarrow> ws_state \<Rightarrow> ws_state \<times> ws_effect list"
where
  "ws_apply cfg env a s = (case a of
     SocketOpened i \<Rightarrow> onopen cfg (s\<lparr>sk_ready := (sk_ready s)[i := RS_OPEN]\<rparr>)
   | SocketMessage i d \<Rightarrow> onmessage cfg env d s
   | SocketClosed i failed code reason clean \<Rightarrow>
       (let s1 = s\<lparr>sk_ready := (sk_ready s)[i := RS_CLOSED]\<rparr>;
            (s2, es1) = (if failed then onerror cfg s1 else (s1, []));
            (s3, es2) = onclose cfg env code reason clean s2
        in (s3, es1 @ es2))
   | TimerFired t \<Rightarrow>
       (case tm_kind t of
          HeartbeatTimer \<Rightarrow> heartbeat_callback env s
        | StaleTimer \<Rightarrow> stale_callback (clear_timer (Some (tm_handle t)) s)
        | ReconnectTimer \<Rightarrow> connect cfg env (clear_timer (Some (tm_handle t)) s))
   | CallConnect \<Rightarrow> connect cfg env s
   | CallDisconnect \<Rightarrow> disconnect s
   | CallSend d \<Rightarrow> ws_send env d s
   | Mount \<Rightarrow> mount_effect cfg env s
   | Unmount \<Rightarrow> unmount_effect s)"

inductive ws_steps ::
  "ws_config \<Rightarrow> (ws_state \<Rightarrow> ws_env \<Rightarrow> ws_action \<Rightarrow> bool) \<Rightarrow> ws_state \<Rightarrow> ws_state \<Rightarrow> bool"
  for cfg :: ws_config and may :: "ws_state \<Rightarrow> ws_env \<Rightarrow> ws_action \<Rightarrow> bool" and s :: ws_state
where
  here: "ws_steps cfg may s s"
| more: "ws_steps cfg may s s1 \<Longrightarrow> may s1 env a \<Longrightarrow> ws_enabled a s1 \<Longrightarrow>
    ws_steps cfg may s (fst (ws_apply cfg env a s1))"

text \<open>A given run, for concrete examples.\<close>

fun ws_run :: "ws_config \<Rightarrow> (ws_env \<times> ws_action) list \<Rightarrow> ws_state \<Rightarrow> ws_state option" where
  "ws_run cfg [] s = Some s"
| "ws_run cfg ((env, a) # as) s =
     (if ws_enabled a s then ws_run cfg as (fst (ws_apply cfg env a s)) else None)"

lemma ws_steps_trans:
  "ws_steps cfg may s1 s2 \<Longrightarrow> ws_steps cfg may s s1 \<Longrightarrow> ws_steps cfg may s s2"
  by (induction rule: ws_steps.induct) (auto intro: ws_steps.more)

lemma ws_run_steps:
  "ws_run cfg as s = Some s' \<Longrightarrow> (\<And>s env a. (env, a) \<in> set as \<Longrightarrow> may s env a) \<Longrightarrow>
     ws_steps cfg may s s'"
proof (induction cfg as s rule: ws_run.induct)
  case (1 cfg s)
  then show ?case by (simp add: ws_steps.here)
next
  case (2 cfg env a as s)
  then have en: "ws_enabled a s" by (simp split: if_splits)
  with 2 have "ws_steps cfg may (fst (ws_apply cfg env a s)) s'" by simp
  moreover have "ws_steps cfg may s (fst (ws_apply cfg env a s))"
    using en "2.prems"(2) by (intro ws_steps.more ws_steps.here) simp_all
  ultimately show ?case by (rule ws_steps_trans)
qed

section \<open>The phases of a connection\<close>

text \<open>
  What the hook promises: it dials, is up, drains a socket it has closed as stale, waits for the
  reconnect timer, has given up, or is stopped. \<open>phase_step\<close> is the abstract machine.
\<close>

datatype phase = Dialing | Up | Draining | Waiting | GaveUp | Stopped

inductive phase_step :: "phase \<Rightarrow> phase \<Rightarrow> bool" where
  stay: "phase_step p p"
| opened: "phase_step Dialing Up"
| stale: "phase_step Up Draining"
| lost: "p \<in> {Dialing, Up, Draining} \<Longrightarrow> phase_step p Waiting"
| capped: "p \<in> {Dialing, Up, Draining} \<Longrightarrow> phase_step p GaveUp"
| redial: "phase_step Waiting Dialing"
| stop: "phase_step p Stopped"

inductive_cases phase_step_stopped: "phase_step Stopped p"

definition timer_ref :: "timer_kind \<Rightarrow> ws_state \<Rightarrow> nat option" where
  "timer_ref k s = (case k of ReconnectTimer \<Rightarrow> reconnectTimerRef s
     | HeartbeatTimer \<Rightarrow> heartbeatTimerRef s | StaleTimer \<Rightarrow> staleTimerRef s)"

definition unclosed :: "ready_state list \<Rightarrow> nat set" where
  "unclosed rs = {i. i < length rs \<and> rs ! i \<noteq> RS_CLOSED}"

definition live :: "ready_state list \<Rightarrow> nat set" where
  "live rs = {i. i < length rs \<and> (rs ! i = RS_CONNECTING \<or> rs ! i = RS_OPEN)}"

definition socket_timers_ok :: "ws_state \<Rightarrow> bool" where
  "socket_timers_ok s \<longleftrightarrow> (\<forall>t \<in> set (sk_timers s).
     tm_kind t \<noteq> ReconnectTimer \<and> timer_ref (tm_kind t) s = Some (tm_handle t))"

definition in_phase :: "phase \<Rightarrow> ws_state \<Rightarrow> bool" where
  "in_phase p s = (case p of
     Dialing \<Rightarrow> shouldReconnectRef s \<and> sk_timers s = [] \<and> ws_status s = Connecting \<and>
       (\<exists>i. wsRef s = Some i \<and> unclosed (sk_ready s) = {i} \<and> sk_ready s ! i = RS_CONNECTING)
   | Up \<Rightarrow> shouldReconnectRef s \<and> socket_timers_ok s \<and> ws_status s = Open \<and>
       (\<exists>i. wsRef s = Some i \<and> unclosed (sk_ready s) = {i} \<and> sk_ready s ! i = RS_OPEN)
   | Draining \<Rightarrow> shouldReconnectRef s \<and> socket_timers_ok s \<and> ws_status s = Open \<and>
       (\<exists>i. wsRef s = Some i \<and> unclosed (sk_ready s) = {i} \<and> sk_ready s ! i = RS_CLOSING)
   | Waiting \<Rightarrow> shouldReconnectRef s \<and> wsRef s = None \<and> unclosed (sk_ready s) = {} \<and>
       (ws_status s = Connecting \<or> ws_status s = Reconnecting) \<and>
       (\<exists>t. sk_timers s = [t] \<and> tm_kind t = ReconnectTimer \<and>
          reconnectTimerRef s = Some (tm_handle t))
   | GaveUp \<Rightarrow> shouldReconnectRef s \<and> wsRef s = None \<and> unclosed (sk_ready s) = {} \<and>
       sk_timers s = [] \<and> ws_status s = Closed
   | Stopped \<Rightarrow> \<not> shouldReconnectRef s \<and> wsRef s = None \<and> live (sk_ready s) = {} \<and>
       sk_timers s = [] \<and> ws_status s = Closed)"

lemmas in_phase_simps = in_phase_def phase.simps

lemma live_subset: "live rs \<subseteq> unclosed rs"
  by (auto simp: live_def unclosed_def)

lemma unclosed_update:
  "i < length rs \<Longrightarrow>
     unclosed (rs[i := r]) = (if r = RS_CLOSED then unclosed rs - {i} else insert i (unclosed rs))"
  by (auto simp: unclosed_def nth_list_update)

lemma unclosed_new: "unclosed (rs @ [RS_CONNECTING]) = insert (length rs) (unclosed rs)"
  by (auto simp: unclosed_def nth_append)

lemma live_update:
  "i < length rs \<Longrightarrow> live (rs[i := r]) =
     (if r = RS_CONNECTING \<or> r = RS_OPEN then insert i (live rs) else live rs - {i})"
  by (auto simp: live_def nth_list_update)

lemma unclosed_mem: "i \<in> unclosed rs \<longleftrightarrow> i < length rs \<and> rs ! i \<noteq> RS_CLOSED"
  by (simp add: unclosed_def)

lemma ready_of_Some: "ready_of s i = Some r \<longleftrightarrow> i < length (sk_ready s) \<and> sk_ready s ! i = r"
  by (auto simp: ready_of_def)

lemma clearTimers_all:
  assumes "\<forall>t \<in> set (sk_timers s). timer_ref (tm_kind t) s = Some (tm_handle t)"
  shows "clearTimers s = s\<lparr>sk_timers := [], reconnectTimerRef := None, heartbeatTimerRef := None,
    staleTimerRef := None\<rparr>"
proof -
  let ?keep = "\<lambda>h t. case h of None \<Rightarrow> True | Some n \<Rightarrow> tm_handle t \<noteq> n"
  have c: "clear_timer h u = u\<lparr>sk_timers := filter (?keep h) (sk_timers u)\<rparr>" for h u
    by (cases h) (simp_all add: clear_timer_def)
  have "\<not> (?keep (reconnectTimerRef s) t \<and> ?keep (heartbeatTimerRef s) t \<and>
      ?keep (staleTimerRef s) t)" if "t \<in> set (sk_timers s)" for t
    using assms [rule_format, OF that] by (cases "tm_kind t") (auto simp: timer_ref_def)
  then have "filter (?keep (staleTimerRef s)) (filter (?keep (heartbeatTimerRef s))
      (filter (?keep (reconnectTimerRef s)) (sk_timers s))) = []"
    unfolding filter_filter filter_empty_conv by blast
  then show ?thesis by (simp add: clearTimers_def c Let_def)
qed

lemma socket_timers_clear:
  "socket_timers_ok s \<Longrightarrow> \<forall>t \<in> set (sk_timers s). timer_ref (tm_kind t) s = Some (tm_handle t)"
  by (simp add: socket_timers_ok_def)

text \<open>Whatever the phase, the timers pending are exactly those the refs know of.\<close>

lemma in_phase_timers:
  "in_phase p s \<Longrightarrow> \<forall>t \<in> set (sk_timers s). timer_ref (tm_kind t) s = Some (tm_handle t)"
  by (cases p) (auto simp: in_phase_def socket_timers_ok_def timer_ref_def)

lemma armStaleTimer_frame [simp]:
  "sk_ready (armStaleTimer cfg s) = sk_ready s" "wsRef (armStaleTimer cfg s) = wsRef s"
  "shouldReconnectRef (armStaleTimer cfg s) = shouldReconnectRef s"
  "ws_status (armStaleTimer cfg s) = ws_status s" "attemptsRef (armStaleTimer cfg s) = attemptsRef s"
  by (cases "staleTimerRef s"; simp add: armStaleTimer_def clear_timer_def set_timer_def Let_def)+

lemma armStaleTimer_ok: "socket_timers_ok s \<Longrightarrow> socket_timers_ok (armStaleTimer cfg s)"
  by (cases "staleTimerRef s")
    (auto simp: armStaleTimer_def clear_timer_def set_timer_def socket_timers_ok_def timer_ref_def
      Let_def split: timer_kind.splits)

section \<open>Every step of the app is a step of the phase machine\<close>

text \<open>
  What can happen once the hook is mounted: everything but a second mount, and a call of
  \<open>connect\<close> only while a socket is connecting or open. The page itself leaves \<open>connect\<close> to
  the mount effect and to the reconnect timer; the section on mounting twice shows what other
  calls lead to.
\<close>

definition app_action :: "ws_state \<Rightarrow> ws_env \<Rightarrow> ws_action \<Rightarrow> bool" where
  "app_action s env a \<longleftrightarrow> (case a of
     Mount \<Rightarrow> False | CallConnect \<Rightarrow> live (sk_ready s) \<noteq> {} | _ \<Rightarrow> True)"

lemma scheduleReconnect_phase:
  assumes "shouldReconnectRef s" "wsRef s = None" "unclosed (sk_ready s) = {}" "sk_timers s = []"
    "ws_status s = Connecting \<or> ws_status s = Reconnecting"
  shows "in_phase Waiting (scheduleReconnect cfg env s)"
  using assms by (simp add: scheduleReconnect_def set_timer_def in_phase_def Let_def)

lemma connect_phase:
  assumes "wsRef s = None" "unclosed (sk_ready s) = {}" "sk_timers s = []" "ws_status s \<noteq> Open"
  shows "in_phase (if we_construct env = None then Dialing else Waiting) (fst (connect cfg env s))"
proof (cases "we_construct env")
  case None
  with assms show ?thesis by (simp add: connect_def Let_def in_phase_def unclosed_new)
next
  case (Some m)
  have "in_phase Waiting (scheduleReconnect cfg env
      (s\<lparr>shouldReconnectRef := True, ws_status := Connecting,
         lastError := Some (str ''WebSocket construction failed: '' @ m)\<rparr>))"
    using assms by (intro scheduleReconnect_phase) simp_all
  with Some assms show ?thesis by (simp add: connect_def Let_def)
qed

lemma disconnect_phase:
  assumes "in_phase p s"
  shows "in_phase Stopped (fst (disconnect s))"
proof -
  have c: "clearTimers (s\<lparr>shouldReconnectRef := False\<rparr>) = s\<lparr>shouldReconnectRef := False,
      sk_timers := [], reconnectTimerRef := None, heartbeatTimerRef := None, staleTimerRef := None\<rparr>"
    using in_phase_timers [OF assms] by (subst clearTimers_all) (auto simp: timer_ref_def
        cong: timer_kind.case_cong)
  have "(\<exists>i. wsRef s = Some i \<and> unclosed (sk_ready s) = {i}) \<or>
      wsRef s = None \<and> live (sk_ready s) = {}"
    using assms live_subset [of "sk_ready s"] by (cases p) (auto simp: in_phase_def)
  then show ?thesis
  proof
    assume "\<exists>i. wsRef s = Some i \<and> unclosed (sk_ready s) = {i}"
    then obtain i where i: "wsRef s = Some i" "unclosed (sk_ready s) = {i}" by blast
    then have len: "i < length (sk_ready s)" by (metis insertI1 unclosed_mem)
    have l: "live (sk_ready s) \<subseteq> {i}" using live_subset i(2) by blast
    show ?thesis
      using i(1) len l
      by (auto simp: disconnect_def c close_socket_def ready_of_Some in_phase_def live_update Let_def
          split_beta) (auto simp: live_def)
  next
    assume "wsRef s = None \<and> live (sk_ready s) = {}"
    then show ?thesis by (simp add: disconnect_def c in_phase_def Let_def)
  qed
qed

lemma onclose_phase:
  assumes "shouldReconnectRef s" "unclosed (sk_ready s) = {}"
    and "\<forall>t \<in> set (sk_timers s). timer_ref (tm_kind t) s = Some (tm_handle t)"
  shows "in_phase Waiting (fst (onclose cfg env code reason clean s)) \<or>
    in_phase GaveUp (fst (onclose cfg env code reason clean s))"
proof -
  have c: "clearTimers (s\<lparr>wsRef := None\<rparr>) = s\<lparr>wsRef := None, sk_timers := [],
      reconnectTimerRef := None, heartbeatTimerRef := None, staleTimerRef := None\<rparr>"
    using assms(3) by (subst clearTimers_all) (auto simp: timer_ref_def cong: timer_kind.case_cong)
  show ?thesis
  proof (cases "0 < wc_maxReconnectAttempts cfg \<and>
      wc_maxReconnectAttempts cfg \<le> int (attemptsRef s)")
    case True
    with assms show ?thesis by (simp add: onclose_def c Let_def in_phase_def)
  next
    case False
    with assms have "in_phase Waiting (fst (onclose cfg env code reason clean s))"
      by (auto simp: onclose_def c Let_def intro!: scheduleReconnect_phase)
    then show ?thesis ..
  qed
qed

lemma onclose_stopped:
  assumes "\<not> shouldReconnectRef s" "live (sk_ready s) = {}" "sk_timers s = []"
  shows "in_phase Stopped (fst (onclose cfg env code reason clean s))"
proof -
  have c: "clearTimers (s\<lparr>wsRef := None\<rparr>) = s\<lparr>wsRef := None, sk_timers := [],
      reconnectTimerRef := None, heartbeatTimerRef := None, staleTimerRef := None\<rparr>"
    using assms(3) by (subst clearTimers_all) simp_all
  with assms show ?thesis by (simp add: onclose_def Let_def in_phase_def)
qed

lemma onopen_phase:
  assumes "shouldReconnectRef s" "wsRef s = Some i" "unclosed (sk_ready s) = {i}"
    "sk_ready s ! i = RS_OPEN" "sk_timers s = []"
  shows "in_phase Up (fst (onopen cfg s))"
proof -
  let ?s1 = "s\<lparr>attemptsRef := 0, ws_status := Open, lastError := None\<rparr>"
  let ?s2 = "if 0 < wc_heartbeatMs cfg then set_timer HeartbeatTimer (wc_heartbeatMs cfg)
      (?s1\<lparr>heartbeatTimerRef := Some (sk_nextHandle ?s1)\<rparr>) else ?s1"
  have "socket_timers_ok ?s2"
    using assms by (simp add: socket_timers_ok_def set_timer_def timer_ref_def)
  then have "socket_timers_ok (armStaleTimer cfg ?s2)" by (rule armStaleTimer_ok)
  moreover have "fst (onopen cfg s) = armStaleTimer cfg ?s2" by (simp add: onopen_def Let_def)
  ultimately show ?thesis using assms by (simp add: in_phase_def set_timer_def)
qed

lemma onmessage_phase:
  "in_phase Up s \<Longrightarrow> in_phase Up (fst (onmessage cfg env d s))"
  using armStaleTimer_ok [of "s\<lparr>lastMessageAtRef := we_now env\<rparr>" cfg]
  by (auto simp: onmessage_def in_phase_def Let_def socket_timers_ok_def timer_ref_def
      split: option.split cong: timer_kind.case_cong)

lemma closed_update_timers:
  "timer_ref k (s\<lparr>sk_ready := rs\<rparr>) = timer_ref k s" "timer_ref k (s\<lparr>lastError := e\<rparr>) = timer_ref k s"
  by (simp_all add: timer_ref_def split: timer_kind.split)

lemma socket_opened_phase:
  assumes "in_phase p s" "ready_of s i = Some RS_CONNECTING"
  shows "p = Dialing \<and> in_phase Up (fst (onopen cfg (s\<lparr>sk_ready := (sk_ready s)[i := RS_OPEN]\<rparr>)))"
proof -
  have i: "i < length (sk_ready s)" "sk_ready s ! i = RS_CONNECTING"
    using assms(2) by (simp_all add: ready_of_Some)
  then have "i \<in> unclosed (sk_ready s)" "i \<in> live (sk_ready s)"
    by (auto simp: unclosed_def live_def)
  then have p: "p = Dialing" "wsRef s = Some i" "unclosed (sk_ready s) = {i}"
    using assms(1) i(2) by (cases p; auto simp: in_phase_def)+
  then have "in_phase Up (fst (onopen cfg (s\<lparr>sk_ready := (sk_ready s)[i := RS_OPEN]\<rparr>)))"
    using assms(1) i(1) by (intro onopen_phase [where i = i])
      (simp_all add: in_phase_simps unclosed_update)
  with p(1) show ?thesis by simp
qed

lemma socket_message_phase:
  assumes "in_phase p s" "ready_of s i = Some RS_OPEN"
  shows "p = Up"
proof -
  have i: "i < length (sk_ready s)" "sk_ready s ! i = RS_OPEN"
    using assms(2) by (simp_all add: ready_of_Some)
  then have "i \<in> unclosed (sk_ready s)" "i \<in> live (sk_ready s)"
    by (auto simp: unclosed_def live_def)
  then show ?thesis using assms(1) i(2) by (cases p) (auto simp: in_phase_def)
qed

lemma socket_closed_phase:
  assumes "in_phase p s" "i < length (sk_ready s)" "sk_ready s ! i \<noteq> RS_CLOSED"
  shows "\<exists>p'. phase_step p p' \<and>
    in_phase p' (fst (ws_apply cfg env (SocketClosed i failed code reason clean) s))"
proof -
  define s1 where "s1 = (if failed then fst (onerror cfg (s\<lparr>sk_ready := (sk_ready s)[i := RS_CLOSED]\<rparr>))
    else s\<lparr>sk_ready := (sk_ready s)[i := RS_CLOSED]\<rparr>)"
  have s1: "sk_ready s1 = (sk_ready s)[i := RS_CLOSED]" "sk_timers s1 = sk_timers s"
    "shouldReconnectRef s1 = shouldReconnectRef s" "timer_ref k s1 = timer_ref k s" for k
    by (simp_all add: s1_def onerror_def Let_def closed_update_timers)
  have eq: "fst (ws_apply cfg env (SocketClosed i failed code reason clean) s) =
      fst (onclose cfg env code reason clean s1)"
    by (simp add: ws_apply_def s1_def split_beta Let_def)
  have i: "i \<in> unclosed (sk_ready s)" using assms(2,3) by (simp add: unclosed_def)
  show ?thesis
  proof (cases "p = Stopped")
    case True
    then have "in_phase Stopped (fst (onclose cfg env code reason clean s1))"
      using assms(1,2) by (intro onclose_stopped) (auto simp: s1 in_phase_def live_update)
    with True show ?thesis by (auto simp: eq intro: phase_step.stay)
  next
    case False
    then have p: "p \<in> {Dialing, Up, Draining}" "shouldReconnectRef s" "unclosed (sk_ready s) = {i}"
      using assms(1) i by (cases p; auto simp: in_phase_def)+
    have "in_phase Waiting (fst (onclose cfg env code reason clean s1)) \<or>
        in_phase GaveUp (fst (onclose cfg env code reason clean s1))"
      using p assms(2) in_phase_timers [OF assms(1)]
      by (intro onclose_phase) (simp_all add: s1 unclosed_update)
    with p(1) show ?thesis unfolding eq by (meson phase_step.lost phase_step.capped)
  qed
qed

lemma timer_fired_phase:
  assumes "in_phase p s" "t \<in> set (sk_timers s)"
  shows "\<exists>p'. phase_step p p' \<and> in_phase p' (fst (ws_apply cfg env (TimerFired t) s))"
proof (cases "p = Waiting")
  case True
  with assms have w: "sk_timers s = [t]" "tm_kind t = ReconnectTimer" "wsRef s = None"
    "unclosed (sk_ready s) = {}" "ws_status s \<noteq> Open"
    by (auto simp: in_phase_def)
  then have "in_phase (if we_construct env = None then Dialing else Waiting)
      (fst (connect cfg env (clear_timer (Some (tm_handle t)) s)))"
    by (intro connect_phase) (simp_all add: clear_timer_def)
  with True w(2) show ?thesis
    by (auto simp: ws_apply_def intro: phase_step.redial phase_step.stay split: if_splits)
next
  case False
  with assms have p: "p = Up \<or> p = Draining" "socket_timers_ok s"
    by (cases p; auto simp: in_phase_def)+
  have clear: "socket_timers_ok (clear_timer (Some h) s)" for h
    using p(2) by (auto simp: clear_timer_def socket_timers_ok_def timer_ref_def
        split: timer_kind.splits)
  show ?thesis
  proof (cases "tm_kind t")
    case ReconnectTimer
    with p(2) assms(2) show ?thesis by (auto simp: socket_timers_ok_def)
  next
    case HeartbeatTimer
    then have "fst (ws_apply cfg env (TimerFired t) s) = s"
      by (simp add: ws_apply_def heartbeat_callback_def split: option.split)
    with assms(1) show ?thesis by (auto intro: phase_step.stay)
  next
    case StaleTimer
    from p(1) assms(1) obtain i where i: "wsRef s = Some i" "unclosed (sk_ready s) = {i}"
      "i < length (sk_ready s)" "shouldReconnectRef s" "ws_status s = Open"
      "p = Up \<and> sk_ready s ! i = RS_OPEN \<or> p = Draining \<and> sk_ready s ! i = RS_CLOSING"
    proof -
      from p(1) assms(1) obtain i where i: "wsRef s = Some i" "unclosed (sk_ready s) = {i}"
        "shouldReconnectRef s" "ws_status s = Open"
        "p = Up \<and> sk_ready s ! i = RS_OPEN \<or> p = Draining \<and> sk_ready s ! i = RS_CLOSING"
        by (elim disjE) (auto simp: in_phase_simps)
      moreover from i(2) have "i < length (sk_ready s)" by (metis insertI1 unclosed_mem)
      ultimately show ?thesis using that by blast
    qed
    define u where "u = clear_timer (Some (tm_handle t)) s"
    have u: "sk_ready u = sk_ready s" "wsRef u = wsRef s" "shouldReconnectRef u"
      "ws_status u = Open" "socket_timers_ok u"
      using i(4,5) clear by (simp_all add: u_def, simp_all add: clear_timer_def)
    have app: "fst (ws_apply cfg env (TimerFired t) s) =
        (if p = Up then u\<lparr>sk_ready := (sk_ready s)[i := RS_CLOSING]\<rparr> else u)"
      using StaleTimer i(1,3,6) u(1,2)
      by (auto simp: ws_apply_def u_def [symmetric] stale_callback_def close_socket_def ready_of_def)
    have "in_phase Draining (fst (ws_apply cfg env (TimerFired t) s))"
    proof (cases "p = Up")
      case True
      with i u show ?thesis
        by (simp add: app in_phase_simps unclosed_update socket_timers_ok_def closed_update_timers)
    next
      case False
      with i u show ?thesis by (simp add: app in_phase_simps)
    qed
    with p(1) show ?thesis by (auto intro: phase_step.stale phase_step.stay)
  qed
qed

lemma in_phase_lastError: "in_phase p (s\<lparr>lastError := e\<rparr>) \<longleftrightarrow> in_phase p s"
  by (simp add: in_phase_def socket_timers_ok_def closed_update_timers cong: phase.case_cong)

lemma ws_send_state: "fst (ws_send env d s) = s \<or> (\<exists>e. fst (ws_send env d s) = s\<lparr>lastError := e\<rparr>)"
  by (cases "wsRef s"; cases "we_sendError env") (auto simp: ws_send_def)

lemma send_frame: "in_phase p s \<Longrightarrow> in_phase p (fst (ws_send env d s))"
  using ws_send_state [of env d s] in_phase_lastError by metis

lemma redundant_connect:
  assumes "in_phase p s" "live (sk_ready s) \<noteq> {}"
  shows "connect cfg env s = (s, [])"
proof -
  from assms(2) obtain i where i: "i < length (sk_ready s)"
    "sk_ready s ! i = RS_CONNECTING \<or> sk_ready s ! i = RS_OPEN"
    by (auto simp: live_def)
  then have "i \<in> unclosed (sk_ready s)" "i \<in> live (sk_ready s)"
    by (auto simp: unclosed_def live_def)
  then have "shouldReconnectRef s" "wsRef s = Some i"
    using assms(1) i(2) by (cases p; auto simp: in_phase_def)+
  then show ?thesis using i by (auto simp: connect_def ready_of_def Let_def)
qed

lemma app_step_phase:
  assumes "in_phase p s" "ws_enabled a s" "app_action s env a"
  shows "\<exists>p'. phase_step p p' \<and> in_phase p' (fst (ws_apply cfg env a s))"
proof (cases a)
  case (SocketOpened i)
  with assms show ?thesis
    using socket_opened_phase by (fastforce simp: ws_enabled_def ws_apply_def intro: phase_step.opened)
next
  case (SocketMessage i d)
  with assms have "p = Up" using socket_message_phase by (simp add: ws_enabled_def)
  with SocketMessage assms(1) show ?thesis
    using onmessage_phase by (fastforce simp: ws_apply_def intro: phase_step.stay)
next
  case (SocketClosed i failed code reason clean)
  with assms show ?thesis using socket_closed_phase by (simp add: ws_enabled_def)
next
  case (TimerFired t)
  with assms show ?thesis using timer_fired_phase by (simp add: ws_enabled_def)
next
  case (CallSend d)
  with assms(1) show ?thesis using send_frame by (auto simp: ws_apply_def intro: phase_step.stay)
next
  case CallDisconnect
  with assms(1) show ?thesis
    using disconnect_phase by (auto simp: ws_apply_def intro: phase_step.stop)
next
  case Unmount
  with assms(1) show ?thesis
    using disconnect_phase by (auto simp: ws_apply_def unmount_effect_def intro: phase_step.stop)
next
  case CallConnect
  with assms(1,3) have "fst (ws_apply cfg env a s) = s"
    by (simp add: app_action_def ws_apply_def redundant_connect)
  with assms(1) show ?thesis by (auto intro: phase_step.stay)
qed (use assms(3) in \<open>simp_all add: app_action_def\<close>)

lemma app_steps_phase:
  assumes "ws_steps cfg app_action s s'" "in_phase p s"
  shows "\<exists>p'. phase_step\<^sup>*\<^sup>* p p' \<and> in_phase p' s'"
  using assms
proof (induction rule: ws_steps.induct)
  case here
  then show ?case by blast
next
  case (more s1 env a)
  then obtain p1 where "phase_step\<^sup>*\<^sup>* p p1" "in_phase p1 s1" by blast
  with app_step_phase [OF this(2) more.hyps(3,2), of cfg] show ?case
    by (meson rtranclp.rtrancl_into_rtrancl)
qed

lemma mount_phase:
  "in_phase (if we_construct env = None then Dialing else Waiting) (fst (mount_effect cfg env init_ws))"
  unfolding mount_effect_def by (rule connect_phase) (simp_all add: init_ws_def unclosed_def)

lemma mounted_phase:
  assumes "ws_steps cfg app_action (fst (mount_effect cfg env init_ws)) s"
  obtains p where "in_phase p s"
  using app_steps_phase [OF assms mount_phase] by blast

section \<open>Properties of the connection\<close>


definition calm_env :: ws_env where
  "calm_env = \<lparr>we_now = 7, we_random = 1 / 2, we_construct = None, we_sendError = None\<rparr>"

definition plain_cfg :: ws_config where
  "plain_cfg = ws_cfg None \<lparr>wo_url = Some (str ''ws://h/ws''), wo_maxBackoffMs = None,
     wo_baseBackoffMs = None, wo_maxReconnectAttempts = Some 2, wo_heartbeatMs = None,
     wo_staleAfterMs = None\<rparr>"

lemmas ws_handlers = ws_apply_def ws_enabled_def mount_effect_def unmount_effect_def connect_def
  disconnect_def onopen_def onclose_def onerror_def scheduleReconnect_def armStaleTimer_def
  clearTimers_def clear_timer_def set_timer_def close_socket_def ready_of_def stale_callback_def
  heartbeat_callback_def Let_def

lemmas ws_samples = init_ws_def calm_env_def plain_cfg_def ws_cfg_def

text \<open>A run that opens the first socket.\<close>

lemma opened_run:
  "ws_steps plain_cfg app_action (fst (mount_effect plain_cfg calm_env init_ws))
     (fst (ws_apply plain_cfg calm_env (SocketOpened 0)
        (fst (mount_effect plain_cfg calm_env init_ws))))"
  by (rule ws_steps.more [OF ws_steps.here])
    (simp_all add: app_action_def ws_enabled_def mount_effect_def connect_def ready_of_def
      ws_samples Let_def)




text \<open>
  C5. The hook is never stranded: while it is supposed to be connected and has not given up,
  either it refers to a socket that is not closed, whose close event is still to come, or the
  reconnect timer is pending and its firing is enabled.
\<close>

theorem hook_never_stranded:
  assumes "ws_steps cfg app_action (fst (mount_effect cfg env init_ws)) s"
    and "shouldReconnectRef s" "ws_status s \<noteq> Closed"
  shows "(\<exists>i. wsRef s = Some i \<and> (\<forall>f c r w. ws_enabled (SocketClosed i f c r w) s)) \<or>
    (\<exists>t. ws_enabled (TimerFired t) s \<and> tm_kind t = ReconnectTimer)"
proof -
  obtain p where p: "in_phase p s" using assms(1) by (rule mounted_phase)
  have u: "i \<in> unclosed (sk_ready s) \<Longrightarrow> ws_enabled (SocketClosed i f c r w) s" for i f c r w
    by (simp add: ws_enabled_def unclosed_def)
  show ?thesis
    using p assms(2,3) u
    by (cases p) (auto simp: in_phase_simps ws_enabled_def [of "TimerFired _"])
qed

theorem hook_never_stranded_witness:
  "\<exists>i. wsRef (fst (ws_apply plain_cfg calm_env (SocketOpened 0)
     (fst (mount_effect plain_cfg calm_env init_ws)))) = Some i"
  using hook_never_stranded [OF opened_run]
  by (simp add: ws_handlers ws_samples)

lemma clearTimers_frame [simp]:
  "sk_ready (clearTimers s) = sk_ready s" "shouldReconnectRef (clearTimers s) = shouldReconnectRef s"
  "attemptsRef (clearTimers s) = attemptsRef s" "wsRef (clearTimers s) = wsRef s"
  by (cases "reconnectTimerRef s"; cases "heartbeatTimerRef s"; cases "staleTimerRef s";
      simp add: clearTimers_def clear_timer_def Let_def)+

lemma set_timer_frame [simp]:
  "sk_ready (set_timer k d s) = sk_ready s" "attemptsRef (set_timer k d s) = attemptsRef s"
  by (simp_all add: set_timer_def)

lemma onclose_sockets [simp]: "sk_ready (fst (onclose cfg env code reason clean s)) = sk_ready s"
  by (simp add: onclose_def scheduleReconnect_def Let_def)

lemma onerror_frame [simp]:
  "sk_ready (fst (onerror cfg s)) = sk_ready s" "attemptsRef (fst (onerror cfg s)) = attemptsRef s"
  "shouldReconnectRef (fst (onerror cfg s)) = shouldReconnectRef s"
  "sk_timers (fst (onerror cfg s)) = sk_timers s"
  by (simp_all add: onerror_def Let_def)

lemma disconnect_sockets [simp]: "length (sk_ready (fst (disconnect s))) = length (sk_ready s)"
  by (simp add: disconnect_def close_socket_def Let_def split: option.split)

lemma stopped_makes_no_socket:
  assumes "in_phase Stopped s" "ws_enabled a s" "app_action s env a"
  shows "length (sk_ready (fst (ws_apply cfg env a s))) = length (sk_ready s)"
proof (cases a)
  case (SocketOpened i)
  with assms show ?thesis by (auto simp: ws_enabled_def ready_of_Some in_phase_simps live_def)
next
  case (SocketMessage i d)
  with assms show ?thesis by (auto simp: ws_enabled_def ready_of_Some in_phase_simps live_def)
next
  case (SocketClosed i f c r w)
  then show ?thesis by (simp add: ws_apply_def split_beta Let_def)
next
  case (TimerFired t)
  with assms show ?thesis by (simp add: ws_enabled_def in_phase_simps)
next
  case (CallSend d)
  then show ?thesis using ws_send_state [of env d s] by (auto simp: ws_apply_def)
qed (use assms(1,3) in \<open>simp_all add: app_action_def ws_apply_def unmount_effect_def in_phase_simps\<close>)

lemma stopped_for_good:
  assumes "ws_steps cfg app_action s s'" "in_phase Stopped s"
  shows "in_phase Stopped s' \<and> length (sk_ready s') = length (sk_ready s)"
  using assms
proof (induction rule: ws_steps.induct)
  case here
  then show ?case by simp
next
  case (more s1 env a)
  then obtain p' where "phase_step Stopped p'" "in_phase p' (fst (ws_apply cfg env a s1))"
    using app_step_phase by blast
  with more stopped_makes_no_socket show ?case by (auto elim: phase_step_stopped)
qed




section \<open>The cap on reconnect attempts\<close>

text \<open>Runs in which the constructor does not throw and no handshake completes.\<close>

definition failing_action :: "ws_state \<Rightarrow> ws_env \<Rightarrow> ws_action \<Rightarrow> bool" where
  "failing_action s env a \<longleftrightarrow>
     app_action s env a \<and> we_construct env = None \<and> (\<forall>i. a \<noteq> SocketOpened i)"

definition attempt_budget :: "ws_config \<Rightarrow> ws_state \<Rightarrow> bool" where
  "attempt_budget cfg s \<longleftrightarrow>
     int (attemptsRef s) \<le> wc_maxReconnectAttempts cfg \<and>
     length (sk_ready s) \<le> attemptsRef s + 1 \<and>
     (in_phase Waiting s \<longrightarrow> length (sk_ready s) \<le> attemptsRef s)"

lemma not_waiting:
  "wsRef s \<noteq> None \<Longrightarrow> \<not> in_phase Waiting s" "sk_timers s = [] \<Longrightarrow> \<not> in_phase Waiting s"
  "ws_status s = Closed \<Longrightarrow> \<not> in_phase Waiting s"
  by (auto simp: in_phase_simps)

lemma budget_unchanged:
  "attempt_budget cfg s \<Longrightarrow> attemptsRef s' = attemptsRef s \<Longrightarrow>
     length (sk_ready s') = length (sk_ready s) \<Longrightarrow> (in_phase Waiting s' \<Longrightarrow> in_phase Waiting s) \<Longrightarrow>
     attempt_budget cfg s'"
  by (auto simp: attempt_budget_def)

lemma close_socket_frame:
  "attemptsRef (fst (close_socket i code reason s)) = attemptsRef s"
  "length (sk_ready (fst (close_socket i code reason s))) = length (sk_ready s)"
  "wsRef (fst (close_socket i code reason s)) = wsRef s"
  "ws_status (fst (close_socket i code reason s)) = ws_status s"
  by (simp_all add: close_socket_def)

lemma disconnect_frame:
  "attemptsRef (fst (disconnect s)) = attemptsRef s" "ws_status (fst (disconnect s)) = Closed"
  by (simp_all add: disconnect_def close_socket_frame Let_def split_beta split: option.split)

lemma disconnect_budget: "attempt_budget cfg s \<Longrightarrow> attempt_budget cfg (fst (disconnect s))"
  by (erule budget_unchanged) (simp_all add: disconnect_frame not_waiting)

lemma message_frame:
  "attemptsRef (fst (onmessage cfg env d s)) = attemptsRef s"
  "sk_ready (fst (onmessage cfg env d s)) = sk_ready s" "wsRef (fst (onmessage cfg env d s)) = wsRef s"
  by (simp_all add: onmessage_def Let_def split: option.split)

lemma onclose_budget:
  assumes "int (attemptsRef s) \<le> wc_maxReconnectAttempts cfg"
    "length (sk_ready s) \<le> attemptsRef s + 1" "0 < wc_maxReconnectAttempts cfg"
  shows "attempt_budget cfg (fst (onclose cfg env code reason clean s))"
  using assms
  by (auto simp: attempt_budget_def onclose_def scheduleReconnect_def not_waiting Let_def)

lemma connect_budget:
  assumes "attempt_budget cfg s" "in_phase Waiting s" "we_construct env = None"
  shows "attempt_budget cfg (fst (connect cfg env (clear_timer h s)))"
proof -
  have c: "sk_ready (clear_timer h s) = sk_ready s" "attemptsRef (clear_timer h s) = attemptsRef s"
    "wsRef (clear_timer h s) = wsRef s"
    by (simp_all add: clear_timer_def split: option.split)
  from assms show ?thesis
    by (simp add: attempt_budget_def connect_def c not_waiting Let_def)
qed

lemma timer_budget:
  assumes "attempt_budget cfg s" "in_phase p s" "t \<in> set (sk_timers s)" "we_construct env = None"
  shows "attempt_budget cfg (fst (ws_apply cfg env (TimerFired t) s))"
proof (cases "tm_kind t")
  case ReconnectTimer
  then have "in_phase Waiting s"
    using assms(2,3) by (cases p) (auto simp: in_phase_simps socket_timers_ok_def)
  with assms ReconnectTimer show ?thesis by (simp add: ws_apply_def connect_budget)
next
  case HeartbeatTimer
  then have "fst (ws_apply cfg env (TimerFired t) s) = s"
    by (simp add: ws_apply_def heartbeat_callback_def split: option.split)
  with assms(1) show ?thesis by simp
next
  case StaleTimer
  then have "wsRef s \<noteq> None"
    using assms(2,3) by (cases p) (auto simp: in_phase_simps socket_timers_ok_def)
  then obtain i where i: "wsRef s = Some i" by blast
  have "fst (ws_apply cfg env (TimerFired t) s) =
      fst (close_socket i 4000 (str ''stale'') (clear_timer (Some (tm_handle t)) s))"
    using StaleTimer i by (simp add: ws_apply_def stale_callback_def clear_timer_def)
  then show ?thesis
    using assms(1) i
    by (auto intro!: budget_unchanged [OF assms(1)] simp: close_socket_frame clear_timer_def not_waiting)
qed

lemma failing_step_budget:
  assumes "attempt_budget cfg s" "in_phase p s" "0 < wc_maxReconnectAttempts cfg"
    and "ws_enabled a s" "failing_action s env a"
  shows "attempt_budget cfg (fst (ws_apply cfg env a s))"
proof (cases a)
  case (SocketMessage i d)
  with assms have "p = Up" using socket_message_phase by (simp add: ws_enabled_def)
  with assms(2) have "wsRef s \<noteq> None" by (auto simp: in_phase_simps)
  with assms(1) SocketMessage show ?thesis
    by (auto intro!: budget_unchanged [OF assms(1)] simp: ws_apply_def message_frame not_waiting)
next
  case (SocketClosed i failed code reason clean)
  with assms(1,3) show ?thesis
    by (auto simp: ws_apply_def attempt_budget_def [of _ s] split_beta Let_def intro!: onclose_budget)
next
  case (TimerFired t)
  with assms show ?thesis by (auto intro: timer_budget simp: ws_enabled_def failing_action_def)
next
  case (CallSend d)
  then show ?thesis
    using assms(1) ws_send_state [of env d s]
    by (auto simp: ws_apply_def in_phase_lastError intro: budget_unchanged)
next
  case CallConnect
  with assms have "fst (ws_apply cfg env a s) = s"
    by (simp add: failing_action_def app_action_def ws_apply_def redundant_connect)
  with assms(1) show ?thesis by simp
qed (use assms in \<open>simp_all add: failing_action_def app_action_def ws_apply_def unmount_effect_def
       disconnect_budget\<close>)

lemma failing_runs_budget:
  assumes "ws_steps cfg failing_action s s'" "in_phase p s" "attempt_budget cfg s"
    and "0 < wc_maxReconnectAttempts cfg"
  shows "(\<exists>p. in_phase p s') \<and> attempt_budget cfg s'"
  using assms
proof (induction rule: ws_steps.induct)
  case here
  then show ?case by blast
next
  case (more s1 env a)
  then obtain p1 where p1: "in_phase p1 s1" "attempt_budget cfg s1" by blast
  have "app_action s1 env a" using more.hyps(2) by (simp add: failing_action_def)
  with app_step_phase [OF p1(1) more.hyps(3), of env cfg]
    failing_step_budget [OF p1(2,1) more.prems(3) more.hyps(3,2)]
  show ?case by blast
qed



text \<open>
  The cap is checked by the close handler only: a constructor that throws is retried for ever.
\<close>

definition broken_env :: ws_env where
  "broken_env = calm_env\<lparr>we_construct := Some []\<rparr>"

fun failed_dials :: "nat \<Rightarrow> ws_state" where
  "failed_dials 0 = fst (mount_effect plain_cfg broken_env init_ws)"
| "failed_dials (Suc n) =
     fst (ws_apply plain_cfg broken_env (TimerFired (hd (sk_timers (failed_dials n)))) (failed_dials n))"

lemma connect_throwing:
  "we_construct env = Some m \<Longrightarrow> wsRef s = None \<Longrightarrow>
     wsRef (fst (connect cfg env s)) = None \<and>
     attemptsRef (fst (connect cfg env s)) = Suc (attemptsRef s) \<and>
     (sk_timers s = [] \<longrightarrow> (\<exists>t. sk_timers (fst (connect cfg env s)) = [t] \<and> tm_kind t = ReconnectTimer))"
  by (simp add: connect_def scheduleReconnect_def set_timer_def Let_def)

lemma constructor_failures_ignore_cap:
  "ws_steps plain_cfg app_action (failed_dials 0) (failed_dials n) \<and>
     attemptsRef (failed_dials n) = Suc n \<and> wsRef (failed_dials n) = None \<and>
     (\<exists>t. sk_timers (failed_dials n) = [t] \<and> tm_kind t = ReconnectTimer)"
proof (induction n)
  case 0
  show ?case
    using connect_throwing [of broken_env "[]" "init_ws\<lparr>shouldReconnectRef := True, attemptsRef := 0\<rparr>"
        plain_cfg]
    by (simp add: ws_steps.here mount_effect_def) (simp add: broken_env_def init_ws_def)
next
  case (Suc n)
  then obtain t where t: "sk_timers (failed_dials n) = [t]" "tm_kind t = ReconnectTimer" by blast
  let ?s = "clear_timer (Some (tm_handle t)) (failed_dials n)"
  have "failed_dials (Suc n) = fst (connect plain_cfg broken_env ?s)"
    using t by (simp add: ws_apply_def)
  moreover have "wsRef ?s = None" "attemptsRef ?s = Suc n" "sk_timers ?s = []"
    using Suc t by (simp_all add: clear_timer_def)
  moreover have "ws_steps plain_cfg app_action (failed_dials 0) (failed_dials (Suc n))"
    unfolding failed_dials.simps(2)
    by (rule ws_steps.more [OF conjunct1 [OF Suc]]) (simp_all add: app_action_def ws_enabled_def t)
  ultimately show ?case
    using connect_throwing [of broken_env "[]" ?s plain_cfg] by (simp add: broken_env_def)
qed

section \<open>Mounting twice\<close>

text \<open>
  \<^verbatim>\<open>React.StrictMode\<close> runs the mount effect, its cleanup and the mount effect again. The close
  event of the first socket then arrives while the second one is referenced; its handler drops
  that reference and schedules a dial, and two live sockets deliver events. Unmounting closes only
  the one referenced.
\<close>

definition remount_run :: "(ws_env \<times> ws_action) list" where
  "remount_run = map (\<lambda>a. (calm_env, a))
     [Mount, Unmount, Mount, SocketOpened 1, SocketClosed 0 False 1000 [] True,
      TimerFired \<lparr>tm_handle = 3, tm_kind = ReconnectTimer, tm_delay = 250\<rparr>, SocketOpened 2]"

lemma remount_leaves_two_live_sockets:
  "\<exists>s. ws_run plain_cfg remount_run init_ws = Some s \<and> live (sk_ready s) = {1, 2} \<and>
     wsRef s = Some 2 \<and> 1 \<in> live (sk_ready (fst (disconnect s)))"
proof -
  have live: "live [RS_CLOSED, RS_OPEN, RS_OPEN] = {1, 2}" "1 \<in> live [RS_CLOSED, RS_OPEN, RS_CLOSING]"
    by (auto simp: live_def less_Suc_eq numeral_2_eq_2)
  show ?thesis
    by (simp add: remount_run_def ws_handlers ws_samples backoffDelay_def nth_list_update live
        live [unfolded One_nat_def] numeral_2_eq_2 numeral_3_eq_3)
qed

section \<open>Reconnect delays\<close>

definition delays_ok :: "ws_config \<Rightarrow> ws_state \<Rightarrow> bool" where
  "delays_ok cfg s \<longleftrightarrow> (\<forall>t \<in> set (sk_timers s).
     tm_kind t = ReconnectTimer \<longrightarrow> 0 \<le> tm_delay t \<and> tm_delay t \<le> wc_maxBackoffMs cfg)"

lemma delays_subset: "delays_ok cfg s \<Longrightarrow> set (sk_timers s') \<subseteq> set (sk_timers s) \<Longrightarrow> delays_ok cfg s'"
  by (auto simp: delays_ok_def)

lemma delays_update [simp]:
  "delays_ok cfg (s\<lparr>sk_ready := rs\<rparr>) = delays_ok cfg s"
  "delays_ok cfg (s\<lparr>wsRef := r\<rparr>) = delays_ok cfg s"
  "delays_ok cfg (s\<lparr>reconnectTimerRef := h\<rparr>) = delays_ok cfg s"
  "delays_ok cfg (s\<lparr>heartbeatTimerRef := h\<rparr>) = delays_ok cfg s"
  "delays_ok cfg (s\<lparr>staleTimerRef := h\<rparr>) = delays_ok cfg s"
  "delays_ok cfg (s\<lparr>attemptsRef := n\<rparr>) = delays_ok cfg s"
  "delays_ok cfg (s\<lparr>shouldReconnectRef := b\<rparr>) = delays_ok cfg s"
  "delays_ok cfg (s\<lparr>lastMessageAtRef := i\<rparr>) = delays_ok cfg s"
  "delays_ok cfg (s\<lparr>ws_status := st\<rparr>) = delays_ok cfg s"
  "delays_ok cfg (s\<lparr>lastError := e\<rparr>) = delays_ok cfg s"
  by (simp_all add: delays_ok_def)

lemma clear_timer_subset: "set (sk_timers (clear_timer h s)) \<subseteq> set (sk_timers s)"
  by (auto simp: clear_timer_def split: option.split)

lemma clearTimers_subset: "set (sk_timers (clearTimers s)) \<subseteq> set (sk_timers s)"
  by (auto simp: clearTimers_def clear_timer_def Let_def split: option.splits)

lemma set_timer_delays [simp]:
  "delays_ok cfg (set_timer k d s) \<longleftrightarrow>
     delays_ok cfg s \<and> (k = ReconnectTimer \<longrightarrow> 0 \<le> d \<and> d \<le> wc_maxBackoffMs cfg)"
  by (auto simp: delays_ok_def set_timer_def)

lemma clear_timer_delays: "delays_ok cfg s \<Longrightarrow> delays_ok cfg (clear_timer h s)"
  by (erule delays_subset) (rule clear_timer_subset)

lemma armStaleTimer_delays: "delays_ok cfg s \<Longrightarrow> delays_ok cfg (armStaleTimer cfg s)"
  by (simp add: armStaleTimer_def Let_def clear_timer_delays)

lemma scheduleReconnect_delays:
  assumes "delays_ok cfg s" "0 \<le> we_random env" "we_random env < 1"
    "0 \<le> wc_baseBackoffMs cfg" "0 \<le> wc_maxBackoffMs cfg"
  shows "delays_ok cfg (scheduleReconnect cfg env s)"
proof -
  have b: "backoffDelay = backoff" by (intro ext) (simp add: backoffDelay_def backoff_def)
  show ?thesis
    using assms backoff_bounds [OF assms(2-5)]
    by (simp add: scheduleReconnect_def b Let_def)
qed

lemma connect_delays:
  assumes "delays_ok cfg s" "0 \<le> we_random env" "we_random env < 1"
    "0 \<le> wc_baseBackoffMs cfg" "0 \<le> wc_maxBackoffMs cfg"
  shows "delays_ok cfg (fst (connect cfg env s))"
  using assms
  by (simp add: connect_def Let_def scheduleReconnect_delays split: option.split)

lemma clearTimers_delays: "delays_ok cfg s \<Longrightarrow> delays_ok cfg (clearTimers s)"
  by (erule delays_subset) (rule clearTimers_subset)

lemma close_socket_delays [simp]:
  "delays_ok cfg (fst (close_socket i code reason s)) = delays_ok cfg s"
  by (simp add: close_socket_def)

lemma disconnect_delays: "delays_ok cfg s \<Longrightarrow> delays_ok cfg (fst (disconnect s))"
  by (simp add: disconnect_def Let_def split_beta clearTimers_delays split: option.split)

lemma onclose_delays:
  assumes "delays_ok cfg s" "0 \<le> we_random env" "we_random env < 1"
    "0 \<le> wc_baseBackoffMs cfg" "0 \<le> wc_maxBackoffMs cfg"
  shows "delays_ok cfg (fst (onclose cfg env code reason clean s))"
  using assms by (simp add: onclose_def Let_def scheduleReconnect_delays clearTimers_delays)

lemma onopen_delays: "delays_ok cfg s \<Longrightarrow> delays_ok cfg (fst (onopen cfg s))"
  by (simp add: onopen_def Let_def armStaleTimer_delays)

lemma onmessage_delays: "delays_ok cfg s \<Longrightarrow> delays_ok cfg (fst (onmessage cfg env d s))"
  by (simp add: onmessage_def Let_def armStaleTimer_delays split: option.split)

lemma step_delays:
  assumes "delays_ok cfg s" "0 \<le> we_random env" "we_random env < 1"
    "0 \<le> wc_baseBackoffMs cfg" "0 \<le> wc_maxBackoffMs cfg"
  shows "delays_ok cfg (fst (ws_apply cfg env a s))"
proof (cases a)
  case (TimerFired t)
  have "fst (heartbeat_callback env s) = s"
    by (simp add: heartbeat_callback_def split: option.split)
  with TimerFired assms show ?thesis
    by (simp add: ws_apply_def stale_callback_def connect_delays clear_timer_delays
        split: timer_kind.split option.split)
next
  case (SocketClosed i failed code reason clean)
  with assms show ?thesis
    by (simp add: ws_apply_def split_beta Let_def onclose_delays onerror_def)
next
  case (CallSend d)
  with assms(1) show ?thesis using ws_send_state [of env d s] by (auto simp: ws_apply_def)
qed (use assms in \<open>simp_all add: ws_apply_def mount_effect_def unmount_effect_def
    connect_delays disconnect_delays onopen_delays onmessage_delays\<close>)

text \<open>
  Whoever calls what and in whatever order, every reconnect timer the hook ever sets has a
  delay between 0 and the configured maximum.
\<close>

lemma reconnect_delay_bounded:
  assumes "ws_steps cfg (\<lambda>s env a. 0 \<le> we_random env \<and> we_random env < 1) init_ws s"
    and "0 \<le> wc_baseBackoffMs cfg" "0 \<le> wc_maxBackoffMs cfg"
    and "t \<in> set (sk_timers s)" "tm_kind t = ReconnectTimer"
  shows "0 \<le> tm_delay t \<and> tm_delay t \<le> wc_maxBackoffMs cfg"
proof -
  have "delays_ok cfg s"
    using assms(1)
  proof (induction rule: ws_steps.induct)
    case here
    show ?case by (simp add: delays_ok_def init_ws_def)
  next
    case (more s1 env a)
    then show ?case using step_delays assms(2,3) by blast
  qed
  with assms(4,5) show ?thesis by (simp add: delays_ok_def)
qed

section \<open>Messages\<close>

text \<open>The event store after the effects of a step; the other effects do not touch it.\<close>

definition deliver :: "ws_effect list \<Rightarrow> jsval event_store \<Rightarrow> jsval event_store" where
  "deliver es st = fold (\<lambda>e st. case e of AddEvent v \<Rightarrow> add_event v st | _ \<Rightarrow> st) es st"

fun receive :: "ws_config \<Rightarrow> ws_env \<Rightarrow> ustr list \<Rightarrow> ws_state \<times> jsval event_store \<Rightarrow>
  ws_state \<times> jsval event_store"
where
  "receive cfg env [] (s, st) = (s, st)"
| "receive cfg env (d # ds) (s, st) =
     (let (s', es) = onmessage cfg env d s in receive cfg env ds (s', deliver es st))"

definition accepted_frames :: "ustr list \<Rightarrow> jsval list" where
  "accepted_frames ds = filter (\<lambda>v. \<not> is_ping v) (List.map_filter json_parse ds)"

lemma receive_store:
  "snd (receive cfg env ds (s, st)) = fold add_event (accepted_frames ds) st"
proof (induction ds arbitrary: s st)
  case Nil
  then show ?case by (simp add: accepted_frames_def map_filter_simps)
next
  case (Cons d ds)
  then show ?case
    by (cases "json_parse d")
      (simp_all add: onmessage_def deliver_def accepted_frames_def map_filter_simps Let_def)
qed

text \<open>
  C23. Whatever frames the server sends, the event store ends up with the newest 1000 of what it
  held and the parsed frames, in order of arrival: a frame that is not JSON and an
  application-level ping leave no trace.
\<close>

theorem frames_reach_the_store:
  assumes "length (events st) \<le> 1000"
  shows "events (snd (receive cfg env ds (s, st))) =
    take_last 1000 (events st @ filter (\<lambda>v. \<not> is_ping v) (List.map_filter json_parse ds))"
  using assms event_log.entries_fold [of st "accepted_frames ds"]
  by (simp add: receive_store accepted_frames_def)

lemma ping_frame: "json_parse heartbeat_payload = Some (JObj [(str ''type'', JStr (str ''ping''))])"
  unfolding heartbeat_payload_def by (rule json_parse_stringify) simp

theorem frames_reach_the_store_witness:
  "events (snd (receive plain_cfg calm_env [heartbeat_payload, json_stringify (JBool True)]
     (init_ws, empty_event_store))) = [JBool True]"
proof -
  have "json_parse (json_stringify (JBool True)) = Some (JBool True)"
    by (rule json_parse_stringify) simp
  then show ?thesis
    by (subst frames_reach_the_store)
      (simp_all add: empty_event_store_def map_filter_simps ping_frame is_ping_def field_def take_last_def
        del: json_stringify.simps)
qed

end
