(* ===== verification/ErrorBoundary.thy ===== *)
theory ErrorBoundary
  imports ErrorReporter
begin

text \<open>
  \<^verbatim>\<open>components/common/ErrorBoundary.tsx\<close>: the state of the boundary, what it does with a caught
  error, and how it shortens stack traces. React derives the state in the render phase and calls
  \<^verbatim>\<open>componentDidCatch\<close> after it has been applied; the state set in the latter is applied after the
  call, so the callback sees the state before it.
\<close>

section \<open>Trimming a stack trace\<close>

text \<open>The index of the last occurrence of a code unit, -1 if there is none.\<close>

definition lastIndexOf :: "nat \<Rightarrow> ustr \<Rightarrow> int" where
  "lastIndexOf c s = int (length s) - 1 - int (length (takeWhile (\<lambda>d. d \<noteq> c) (rev s)))"

definition truncated_mark :: ustr where
  "truncated_mark = [10, 0x2026] @ str '' (truncated)''"

definition STACK_LIMIT_BYTES :: nat where "STACK_LIMIT_BYTES = 4 * 1024"

definition trimStack :: "ustr \<Rightarrow> nat \<Rightarrow> ustr" where
  "trimStack s maxBytes =
     (if length s \<le> maxBytes then s
      else
        (let cut = take maxBytes s; lastNl = lastIndexOf 10 cut
         in (if 0 < lastNl then take (nat lastNl) cut else cut) @ truncated_mark))"

lemma lastIndexOf_bounds: "lastIndexOf c s < int (length s)" "- 1 \<le> lastIndexOf c s"
proof -
  have "length (takeWhile (\<lambda>d. d \<noteq> c) (rev s)) \<le> length (rev s)" by (rule length_takeWhile_le)
  then show "lastIndexOf c s < int (length s)" "- 1 \<le> lastIndexOf c s"
    by (simp_all add: lastIndexOf_def)
qed

lemma lastIndexOf_nth:
  assumes "0 \<le> lastIndexOf c s"
  shows "s ! nat (lastIndexOf c s) = c"
proof -
  let ?n = "length (takeWhile (\<lambda>d. d \<noteq> c) (rev s))"
  have n: "?n < length (rev s)" using assms by (simp add: lastIndexOf_def)
  then have "rev s ! ?n = c" using nth_length_takeWhile by fastforce
  moreover have "rev s ! ?n = s ! (length s - Suc ?n)" using n by (simp add: rev_nth)
  moreover have "nat (lastIndexOf c s) = length s - Suc ?n"
    using n by (simp add: lastIndexOf_def)
  ultimately show ?thesis by simp
qed

lemma lastIndexOf_least:
  assumes "i < length s" "s ! i = c"
  shows "int i \<le> lastIndexOf c s"
proof (rule ccontr)
  let ?n = "length (takeWhile (\<lambda>d. d \<noteq> c) (rev s))"
  assume "\<not> int i \<le> lastIndexOf c s"
  then have lt: "length s - Suc i < ?n" using assms(1) by (simp add: lastIndexOf_def)
  then have "rev s ! (length s - Suc i) \<noteq> c"
    by (metis (mono_tags, lifting) nth_mem set_takeWhileD takeWhile_nth)
  with assms show False by (simp add: rev_nth)
qed

text \<open>
  A short stack is shown as it is. A long one is cut to a prefix of at most the limit
  followed by the mark, and the cut is made in front of a line break whenever there is one in
  reach that does not start the text.
\<close>

lemma trimmed_stack:
  "trimStack s n = (if length s \<le> n then s else take (length (trimStack s n) - length truncated_mark) s @
      truncated_mark) \<and>
   length (trimStack s n) \<le> (if length s \<le> n then n else n + length truncated_mark) \<and>
   (n < length s \<and> 10 \<in> set (drop 1 (take n s)) \<longrightarrow>
      s ! (length (trimStack s n) - length truncated_mark) = 10)"
proof (cases "length s \<le> n")
  case True
  then show ?thesis by (simp add: trimStack_def)
next
  case False
  let ?cut = "take n s" let ?l = "lastIndexOf 10 ?cut"
  have len: "length ?cut = n" using False by simp
  have l: "?l < int n" using lastIndexOf_bounds(1) [of 10 ?cut] len by simp
  define k where "k = (if 0 < ?l then nat ?l else n)"
  have k: "k \<le> n" using l by (auto simp: k_def)
  have trim: "trimStack s n = take k s @ truncated_mark"
    using False k by (auto simp: trimStack_def k_def Let_def min_def)
  have lk: "length (trimStack s n) - length truncated_mark = k"
    using trim k False by (simp add: min_def)
  have nl: "s ! k = 10" if mem: "10 \<in> set (drop 1 ?cut)"
  proof -
    obtain j where j: "j < length (drop 1 ?cut)" "drop 1 ?cut ! j = 10"
      using mem by (metis in_set_conv_nth)
    then have "Suc j < length ?cut" by simp linarith
    moreover from this j(2) have "?cut ! Suc j = 10" using nth_drop [of 1 ?cut j] by simp
    ultimately have "?cut ! Suc j = 10" "Suc j < length ?cut" by simp_all
    then have "0 < ?l" using lastIndexOf_least [of "Suc j" ?cut 10] by simp
    with lastIndexOf_nth [of 10 ?cut] l show ?thesis by (simp add: k_def)
  qed
  show ?thesis
    unfolding lk using False trim k nl by (simp add: min_def)
qed

text \<open>The limit itself is not kept: the mark comes on top of it.\<close>

lemma trimmed_stack_exceeds_limit:
  "n < m \<Longrightarrow> length (trimStack (replicate m 65) n) = n + 14"
  by (simp add: trimStack_def lastIndexOf_def truncated_mark_def Let_def takeWhile_replicate)

section \<open>The boundary\<close>

record caught_error =
  ce_name :: ustr
  ce_message :: ustr
  ce_stack :: "ustr option"

record error_info_view =
  ei_error :: caught_error
  ei_stack :: ustr
  ei_componentStack :: ustr
  ei_timestamp :: int

record boundary =
  bd_info :: "error_info_view option"

definition init_boundary :: boundary where
  "init_boundary = \<lparr>bd_info = None\<rparr>"

definition stack_text :: "ustr option \<Rightarrow> ustr" where
  "stack_text x = (case x of Some t \<Rightarrow> t | None \<Rightarrow> [])"

definition getDerivedStateFromError :: "int \<Rightarrow> caught_error \<Rightarrow> boundary \<Rightarrow> boundary" where
  "getDerivedStateFromError now e b =
     b\<lparr>bd_info := Some \<lparr>ei_error = e, ei_stack = trimStack (stack_text (ce_stack e)) STACK_LIMIT_BYTES,
        ei_componentStack = [], ei_timestamp = now\<rparr>\<rparr>"

text \<open>The new state, what \<^verbatim>\<open>onError\<close> is called with, and the event dispatched on the window.\<close>

definition componentDidCatch ::
  "int \<Rightarrow> caught_error \<Rightarrow> ustr option \<Rightarrow> boundary \<Rightarrow> boundary \<times> error_info_view \<times> window_event"
where
  "componentDidCatch now e cs b =
     (b\<lparr>bd_info := map_option
          (\<lambda>i. i\<lparr>ei_componentStack := trimStack (stack_text cs) STACK_LIMIT_BYTES\<rparr>) (bd_info b)\<rparr>,
      (case bd_info b of
         Some i \<Rightarrow> i
       | None \<Rightarrow> \<lparr>ei_error = e, ei_stack = trimStack (stack_text (ce_stack e)) STACK_LIMIT_BYTES,
           ei_componentStack = stack_text cs, ei_timestamp = now\<rparr>),
      BoundaryEvent (ThrownError (ce_name e) (ce_message e) (ce_stack e))
        (JObj [(str ''componentStack'', case cs of Some t \<Rightarrow> JStr t | None \<Rightarrow> JUndef)]))"

definition reset_boundary :: "boundary \<Rightarrow> boundary" where
  "reset_boundary b = b\<lparr>bd_info := None\<rparr>"

definition caught ::
  "int \<Rightarrow> caught_error \<Rightarrow> ustr option \<Rightarrow> boundary \<Rightarrow> boundary \<times> error_info_view \<times> window_event"
where
  "caught now e cs b = componentDidCatch now e cs (getDerivedStateFromError now e b)"

text \<open>
  The callback is handed the info with an empty component stack, not the one the fallback
  shows; the report that reaches the server carries the stack in full.
\<close>

lemma onError_without_component_stack:
  "ei_componentStack (fst (snd (caught now e cs b))) = [] \<and>
   map_option ei_componentStack (bd_info (fst (caught now e cs b))) =
     Some (trimStack (stack_text cs) STACK_LIMIT_BYTES)"
  by (simp add: caught_def componentDidCatch_def getDerivedStateFromError_def)

text \<open>
  A caught render error is never lost while reporting is enabled: whatever the state of the
  boundary and of the reporter, with or without the global handlers, it is shown, and exactly one
  report with its name, message and stack, marked as coming from a boundary, is queued and its
  flush armed.
\<close>

lemma caught_error_is_reported:
  assumes "rc_enabled (er_config s)"
  shows "\<exists>r. er_queue (dispatch_event env (snd (snd (caught now e cs b))) s) = er_queue s @ [r] \<and>
    rp_name r = ce_name e \<and> rp_message r = ce_message e \<and> rp_stack r = ce_stack e \<and>
    rp_source r = Boundary \<and>
    er_flushTimer (dispatch_event env (snd (snd (caught now e cs b))) s) \<noteq> None \<and>
    map_option ei_error (bd_info (fst (caught now e cs b))) = Some e"
  using assms
  by (auto simp: caught_def componentDidCatch_def getDerivedStateFromError_def dispatch_event_def
      event_input_def reportError_def scheduleFlush_def make_report_def as_error_def)

end
