(* ===== verification/EditForms.thy ===== *)
theory EditForms
  imports Main
begin

text \<open>
  The contract of the edit forms of the pages: an edit is started on an item, its fields are
  changed, and it is saved, with at most one call of the page's callback, or cancelled. The project,
  component, node and cluster pages interpret it on their own handlers.
\<close>

datatype ('x, 'v) form_step = Start 'x | Change 'v | Save | Cancel

text \<open>A run of the form: the final state and the calls of the callback, oldest first.\<close>

fun form_run ::
  "('x \<Rightarrow> 's \<Rightarrow> 's) \<Rightarrow> ('v \<Rightarrow> 's \<Rightarrow> 's) \<Rightarrow> ('s \<Rightarrow> 's \<times> 'c option) \<Rightarrow> ('s \<Rightarrow> 's) \<Rightarrow>
   ('x, 'v) form_step list \<Rightarrow> 's \<Rightarrow> 's \<times> 'c list"
where
  "form_run start change save cancel [] s = (s, [])"
| "form_run start change save cancel (a # as) s =
     (let (s1, c) = (case a of Start x \<Rightarrow> (start x s, None) | Change v \<Rightarrow> (change v s, None)
            | Save \<Rightarrow> save s | Cancel \<Rightarrow> (cancel s, None));
          (s2, cs) = form_run start change save cancel as s1
      in (s2, (case c of None \<Rightarrow> cs | Some x \<Rightarrow> x # cs)))"

fun started :: "('x, 'v) form_step list \<Rightarrow> 'x list" where
  "started [] = []"
| "started (Start x # as) = x # started as"
| "started (_ # as) = started as"

locale edit_form =
  fixes start :: "'x \<Rightarrow> 's \<Rightarrow> 's"
    and change :: "'v \<Rightarrow> 's \<Rightarrow> 's"
    and save :: "'s \<Rightarrow> 's \<times> 'c option"
    and cancel :: "'s \<Rightarrow> 's"
    and editing :: "'s \<Rightarrow> 'k option"
  assumes change_editing: "editing (change v s) = editing s"
    and save_closes: "save s = (s', Some c) \<Longrightarrow> editing s \<noteq> None \<and> editing s' = None"
    and save_refused: "save s = (s', None) \<Longrightarrow> s' = s"
    and cancel_closes: "editing (cancel s) = None"
begin

text \<open>Every save answers an edit that was started: one edit is saved at most once.\<close>

lemma run_calls:
  "length (snd (form_run start change save cancel as s)) \<le>
     length (started as) + (if editing s = None then 0 else 1)"
proof (induction as arbitrary: s)
  case (Cons a as)
  show ?case
  proof (cases a)
    case (Start x)
    then show ?thesis using Cons.IH [of "start x s"] by (simp add: split_beta split: if_splits)
  next
    case (Change v)
    then show ?thesis using Cons.IH [of "change v s"] by (simp add: split_beta change_editing)
  next
    case Save
    obtain s' c where save: "save s = (s', c)" by fastforce
    show ?thesis
    proof (cases c)
      case None
      with save have "s' = s" by (simp add: save_refused)
      then show ?thesis using Cons.IH [of s] Save save None by (simp add: split_beta)
    next
      case (Some x)
      with save have "editing s \<noteq> None" "editing s' = None" by (auto dest: save_closes)
      then show ?thesis using Cons.IH [of s'] Save save Some by (auto simp: split_beta)
    qed
  next
    case Cancel
    then show ?thesis using Cons.IH [of "cancel s"] by (simp add: split_beta cancel_closes)
  qed
qed simp

end

text \<open>A form that remembers which item it edits: what it saves goes to that item.\<close>

locale targeted_form = edit_form start change save cancel editing
  for start :: "'x \<Rightarrow> 's \<Rightarrow> 's"
    and change :: "'v \<Rightarrow> 's \<Rightarrow> 's"
    and save :: "'s \<Rightarrow> 's \<times> 'c option"
    and cancel :: "'s \<Rightarrow> 's"
    and editing :: "'s \<Rightarrow> 'k option" +
  fixes key :: "'x \<Rightarrow> 'k"
    and target :: "'c \<Rightarrow> 'k"
  assumes start_editing: "editing (start x s) \<in> {None, Some (key x), editing s}"
    and save_target: "save s = (s', Some c) \<Longrightarrow> editing s = Some (target c)"
begin

lemma run_targets:
  "target ` set (snd (form_run start change save cancel as s)) \<subseteq>
     key ` set (started as) \<union> set_option (editing s)"
proof (induction as arbitrary: s)
  case (Cons a as)
  show ?case
  proof (cases a)
    case (Start x)
    then show ?thesis using Cons.IH [of "start x s"] start_editing [of x s]
      by (auto simp: split_beta split: if_splits)
  next
    case (Change v)
    then show ?thesis using Cons.IH [of "change v s"] by (simp add: split_beta change_editing)
  next
    case Save
    obtain s' c where save: "save s = (s', c)" by fastforce
    show ?thesis
    proof (cases c)
      case None
      with save have "s' = s" by (simp add: save_refused)
      then show ?thesis using Cons.IH [of s] Save save None by (simp add: split_beta)
    next
      case (Some x)
      with save have "editing s = Some (target x)" "editing s' = None"
        by (auto dest: save_target save_closes)
      then show ?thesis using Cons.IH [of s'] Save save Some by (auto simp: split_beta)
    qed
  next
    case Cancel
    then show ?thesis using Cons.IH [of "cancel s"] by (auto simp: split_beta cancel_closes)
  qed
qed simp

text \<open>From a closed form, no more calls than edits, and only to items whose edit was started.\<close>

lemma run_from_closed:
  "editing s = None \<Longrightarrow> form_run start change save cancel as s = (s', cs) \<Longrightarrow>
     length cs \<le> length (started as) \<and> target ` set cs \<subseteq> key ` set (started as)"
  using run_calls [of as s] run_targets [of as s] by simp

end

end
