(* ===== verification/Workspace.thy ===== *)
theory Workspace
  imports JsonText Stores "HOL-Library.Monad_Syntax"
begin

text \<open>
  The workspace: \<^verbatim>\<open>types/workspace.ts\<close> and \<^verbatim>\<open>types/cluster.ts\<close>, the migration of what the
  backend stores, its JSON form, and the operations of \<^verbatim>\<open>App.tsx\<close> on the list of projects. The
  operations are functions on the list; \<open>App\<close> puts them into the state of the page. Fresh
  ids are arguments, so are the connection defaults that new nodes copy.
\<close>

section \<open>Types\<close>

datatype cluster_type = Physical | Logical

record cluster_node =
  nd_id :: ustr
  nd_name :: ustr
  nd_host :: ustr
  nd_port :: int
  nd_user :: ustr
  nd_database :: ustr
  nd_cluster_type :: cluster_type
  nd_role :: ustr
  nd_source :: "ustr option"
  nd_password :: "ustr option" \<comment> \<open>not in the type, but the node page patches it in\<close>

record workspace_cluster =
  cl_id :: ustr
  cl_name :: ustr
  cl_replicationType :: cluster_type
  cl_alertThresholdSec :: "jsnum option"
  cl_nodes :: "cluster_node list"

datatype component_type = Collector | Analyzer | Storage | Custom

record workspace_component =
  cp_id :: ustr
  cp_name :: ustr
  cp_componentType :: ustr \<comment> \<open>the form of the component page offers types outside the union\<close>
  cp_linkedClusterIds :: "ustr list"

record workspace_project =
  pj_id :: ustr
  pj_name :: ustr
  pj_clusters :: "workspace_cluster list"
  pj_components :: "workspace_component list"

text \<open>What an older backend may hold: arrays may be missing.\<close>

record raw_cluster =
  rw_id :: ustr
  rw_name :: ustr
  rw_replicationType :: cluster_type
  rw_alertThresholdSec :: "jsnum option"
  rw_nodes :: "cluster_node list option"

record raw_component =
  rm_id :: ustr
  rm_name :: ustr
  rm_componentType :: ustr
  rm_linkedClusterIds :: "ustr list option"

record raw_project =
  rj_id :: ustr
  rj_name :: ustr
  rj_clusters :: "raw_cluster list option"
  rj_components :: "raw_component list option"

definition or_empty :: "'a list option \<Rightarrow> 'a list" where
  "or_empty x = (case x of Some l \<Rightarrow> l | None \<Rightarrow> [])"

lemma or_empty_simps [simp]: "or_empty (Some l) = l" "or_empty None = []"
  by (simp_all add: or_empty_def)

section \<open>Migration\<close>

definition migrate_threshold :: "jsnum option \<Rightarrow> jsnum" where
  "migrate_threshold x = (case x of
     Some v \<Rightarrow> if num_truthy v \<and> num_pos v then v else Fin 30 | None \<Rightarrow> Fin 30)"

definition migrate_cluster :: "raw_cluster \<Rightarrow> workspace_cluster" where
  "migrate_cluster c =
     \<lparr>cl_id = rw_id c, cl_name = rw_name c, cl_replicationType = rw_replicationType c,
      cl_alertThresholdSec = Some (migrate_threshold (rw_alertThresholdSec c)),
      cl_nodes = or_empty (rw_nodes c)\<rparr>"

definition migrate_component :: "raw_component \<Rightarrow> workspace_component" where
  "migrate_component m =
     \<lparr>cp_id = rm_id m, cp_name = rm_name m, cp_componentType = rm_componentType m,
      cp_linkedClusterIds = or_empty (rm_linkedClusterIds m)\<rparr>"

definition migrateWorkspaceProjects :: "raw_project list \<Rightarrow> workspace_project list" where
  "migrateWorkspaceProjects = map (\<lambda>p.
     \<lparr>pj_id = rj_id p, pj_name = rj_name p,
      pj_clusters = map migrate_cluster (or_empty (rj_clusters p)),
      pj_components = map migrate_component (or_empty (rj_components p))\<rparr>)"

text \<open>A project of today read by the migration again.\<close>

definition raw_of_cluster :: "workspace_cluster \<Rightarrow> raw_cluster" where
  "raw_of_cluster c =
     \<lparr>rw_id = cl_id c, rw_name = cl_name c, rw_replicationType = cl_replicationType c,
      rw_alertThresholdSec = cl_alertThresholdSec c, rw_nodes = Some (cl_nodes c)\<rparr>"

definition raw_of_component :: "workspace_component \<Rightarrow> raw_component" where
  "raw_of_component m =
     \<lparr>rm_id = cp_id m, rm_name = cp_name m, rm_componentType = cp_componentType m,
      rm_linkedClusterIds = Some (cp_linkedClusterIds m)\<rparr>"

definition raw_of :: "workspace_project \<Rightarrow> raw_project" where
  "raw_of p =
     \<lparr>rj_id = pj_id p, rj_name = pj_name p, rj_clusters = Some (map raw_of_cluster (pj_clusters p)),
      rj_components = Some (map raw_of_component (pj_components p))\<rparr>"

text \<open>The thresholds a migrated workspace has, and the ones the views may rely on.\<close>

definition threshold_ok :: "workspace_cluster \<Rightarrow> bool" where
  "threshold_ok c \<longleftrightarrow> (case cl_alertThresholdSec c of Some v \<Rightarrow> num_pos v | None \<Rightarrow> False)"

lemma num_pos_truthy: "num_pos v \<Longrightarrow> num_truthy v"
  by (cases v) auto

lemma migrate_threshold_pos: "num_pos (migrate_threshold x)"
  by (cases x) (simp_all add: migrate_threshold_def)

lemma migrate_raw_cluster: "threshold_ok c \<Longrightarrow> migrate_cluster (raw_of_cluster c) = c"
  by (cases c) (auto simp: threshold_ok_def migrate_cluster_def raw_of_cluster_def migrate_threshold_def
      num_pos_truthy split: option.splits)

lemma migrate_raw_component: "migrate_component (raw_of_component m) = m"
  by (cases m) (simp add: migrate_component_def raw_of_component_def)

lemma migrate_raw:
  assumes "\<forall>p \<in> set ps. \<forall>c \<in> set (pj_clusters p). threshold_ok c"
  shows "migrateWorkspaceProjects (map raw_of ps) = ps"
proof -
  have "map migrate_cluster (map raw_of_cluster (pj_clusters p)) = pj_clusters p" if "p \<in> set ps" for p
    using assms that by (simp add: migrate_raw_cluster map_idI)
  moreover have "map migrate_component (map raw_of_component ms) = ms" for ms
    by (simp add: migrate_raw_component map_idI)
  ultimately show ?thesis
    by (auto simp: migrateWorkspaceProjects_def raw_of_def intro!: map_idI)
qed

text \<open>
  The migration is total and idempotent: every cluster it returns has a positive alert
  threshold, whatever the stored value was (missing, zero, negative or not a number), and a
  migrated workspace that is migrated again is unchanged.
\<close>

lemma migration_idempotent:
  "migrateWorkspaceProjects (map raw_of (migrateWorkspaceProjects raws)) = migrateWorkspaceProjects raws \<and>
   list_all (\<lambda>p. list_all threshold_ok (pj_clusters p)) (migrateWorkspaceProjects raws)"
proof -
  have ok: "list_all (\<lambda>p. list_all threshold_ok (pj_clusters p)) (migrateWorkspaceProjects raws)"
    by (auto simp: list_all_iff migrateWorkspaceProjects_def migrate_cluster_def threshold_ok_def
        migrate_threshold_pos)
  then have "migrateWorkspaceProjects (map raw_of (migrateWorkspaceProjects raws)) =
      migrateWorkspaceProjects raws"
    by (intro migrate_raw) (auto simp: list_all_iff)
  with ok show ?thesis by simp
qed

section \<open>The stored form\<close>

definition type_text :: "cluster_type \<Rightarrow> ustr" where
  "type_text t = (case t of Physical \<Rightarrow> str ''physical'' | Logical \<Rightarrow> str ''logical'')"

definition component_text :: "component_type \<Rightarrow> ustr" where
  "component_text t = (case t of Collector \<Rightarrow> str ''collector'' | Analyzer \<Rightarrow> str ''analyzer''
     | Storage \<Rightarrow> str ''storage'' | Custom \<Rightarrow> str ''custom'')"

definition node_json :: "cluster_node \<Rightarrow> jsval" where
  "node_json n = JObj [(str ''id'', JStr (nd_id n)), (str ''name'', JStr (nd_name n)),
     (str ''host'', JStr (nd_host n)), (str ''port'', JNum (jsint (nd_port n))),
     (str ''user'', JStr (nd_user n)), (str ''database'', JStr (nd_database n)),
     (str ''cluster_type'', JStr (type_text (nd_cluster_type n))), (str ''role'', JStr (nd_role n)),
     (str ''source'', case nd_source n of Some x \<Rightarrow> JStr x | None \<Rightarrow> JUndef),
     (str ''password'', case nd_password n of Some x \<Rightarrow> JStr x | None \<Rightarrow> JUndef)]"

definition cluster_json :: "workspace_cluster \<Rightarrow> jsval" where
  "cluster_json c = JObj [(str ''id'', JStr (cl_id c)), (str ''name'', JStr (cl_name c)),
     (str ''replicationType'', JStr (type_text (cl_replicationType c))),
     (str ''alertThresholdSec'', case cl_alertThresholdSec c of Some v \<Rightarrow> JNum v | None \<Rightarrow> JUndef),
     (str ''nodes'', JArr (map node_json (cl_nodes c)))]"

definition component_json :: "workspace_component \<Rightarrow> jsval" where
  "component_json m = JObj [(str ''id'', JStr (cp_id m)), (str ''name'', JStr (cp_name m)),
     (str ''componentType'', JStr (cp_componentType m)),
     (str ''linkedClusterIds'', JArr (map JStr (cp_linkedClusterIds m)))]"

definition project_json :: "workspace_project \<Rightarrow> jsval" where
  "project_json p = JObj [(str ''id'', JStr (pj_id p)), (str ''name'', JStr (pj_name p)),
     (str ''clusters'', JArr (map cluster_json (pj_clusters p))),
     (str ''components'', JArr (map component_json (pj_components p)))]"

text \<open>
  Reading it back. The code casts the parsed value to its type; the functions below return it
  when it has that type, missing arrays and thresholds included.
\<close>

fun mapM :: "('a \<Rightarrow> 'b option) \<Rightarrow> 'a list \<Rightarrow> 'b list option" where
  "mapM f [] = Some []"
| "mapM f (x # xs) = do { y \<leftarrow> f x; ys \<leftarrow> mapM f xs; Some (y # ys) }"

lemma mapM_map: "(\<And>x. x \<in> set xs \<Longrightarrow> f (g x) = Some (h x)) \<Longrightarrow> mapM f (map g xs) = Some (map h xs)"
  by (induction xs) simp_all

lemma mapM_Some_set: "mapM f xs = Some ys \<Longrightarrow> y \<in> set ys \<Longrightarrow> \<exists>x\<in>set xs. f x = Some y"
  by (induction xs arbitrary: ys) (auto split: Option.bind_splits)

lemma mapM_defined: "mapM f xs = Some ys \<Longrightarrow> x \<in> set xs \<Longrightarrow> \<exists>y. f x = Some y"
  by (induction xs arbitrary: ys) (auto split: Option.bind_splits)

lemma mapM_all: "mapM f xs = Some ys \<Longrightarrow> (\<And>x y. f x = Some y \<Longrightarrow> P y) \<Longrightarrow> y \<in> set ys \<Longrightarrow> P y"
  using mapM_Some_set by fast

lemma mapM_total: "(\<And>x. x \<in> set xs \<Longrightarrow> \<exists>y. f x = Some y) \<Longrightarrow> \<exists>ys. mapM f xs = Some ys"
  by (induction xs) fastforce+

definition as_str :: "jsval \<Rightarrow> ustr option" where
  "as_str v = (case v of JStr s \<Rightarrow> Some s | _ \<Rightarrow> None)"

definition as_int :: "jsval \<Rightarrow> int option" where
  "as_int v = (case v of JNum (Fin q) \<Rightarrow> if of_int \<lfloor>q\<rfloor> = q then Some \<lfloor>q\<rfloor> else None | _ \<Rightarrow> None)"

definition as_type :: "jsval \<Rightarrow> cluster_type option" where
  "as_type v = (if v = JStr (str ''physical'') then Some Physical
     else if v = JStr (str ''logical'') then Some Logical else None)"

text \<open>An optional field: \<^verbatim>\<open>undefined\<close> and \<^verbatim>\<open>null\<close> are absent.\<close>

definition opt_field :: "(jsval \<Rightarrow> 'a option) \<Rightarrow> jsval \<Rightarrow> 'a option option" where
  "opt_field f v = (case v of JUndef \<Rightarrow> Some None | JNull \<Rightarrow> Some None | _ \<Rightarrow> map_option Some (f v))"

definition as_list :: "(jsval \<Rightarrow> 'a option) \<Rightarrow> jsval \<Rightarrow> 'a list option" where
  "as_list f v = (case v of JArr vs \<Rightarrow> mapM f vs | _ \<Rightarrow> None)"

definition as_num :: "jsval \<Rightarrow> jsnum option" where
  "as_num v = (case v of JNum n \<Rightarrow> Some n | _ \<Rightarrow> None)"

definition as_obj :: "jsval \<Rightarrow> (ustr \<times> jsval) list option" where
  "as_obj v = (case v of JObj fs \<Rightarrow> Some fs | _ \<Rightarrow> None)"

definition decode_node :: "jsval \<Rightarrow> cluster_node option" where
  "decode_node v = do {
     fs \<leftarrow> as_obj v;
     i \<leftarrow> as_str (field fs ''id''); n \<leftarrow> as_str (field fs ''name'');
     h \<leftarrow> as_str (field fs ''host''); p \<leftarrow> as_int (field fs ''port'');
     u \<leftarrow> as_str (field fs ''user''); d \<leftarrow> as_str (field fs ''database'');
     t \<leftarrow> as_type (field fs ''cluster_type''); r \<leftarrow> as_str (field fs ''role'');
     src \<leftarrow> opt_field as_str (field fs ''source'');
     pw \<leftarrow> opt_field as_str (field fs ''password'');
     Some \<lparr>nd_id = i, nd_name = n, nd_host = h, nd_port = p, nd_user = u, nd_database = d,
       nd_cluster_type = t, nd_role = r, nd_source = src, nd_password = pw\<rparr> }"

definition decode_cluster :: "jsval \<Rightarrow> raw_cluster option" where
  "decode_cluster v = do {
     fs \<leftarrow> as_obj v;
     i \<leftarrow> as_str (field fs ''id''); n \<leftarrow> as_str (field fs ''name'');
     t \<leftarrow> as_type (field fs ''replicationType'');
     a \<leftarrow> opt_field as_num (field fs ''alertThresholdSec'');
     ns \<leftarrow> opt_field (as_list decode_node) (field fs ''nodes'');
     Some \<lparr>rw_id = i, rw_name = n, rw_replicationType = t, rw_alertThresholdSec = a, rw_nodes = ns\<rparr> }"

definition decode_component :: "jsval \<Rightarrow> raw_component option" where
  "decode_component v = do {
     fs \<leftarrow> as_obj v;
     i \<leftarrow> as_str (field fs ''id''); n \<leftarrow> as_str (field fs ''name'');
     t \<leftarrow> as_str (field fs ''componentType'');
     ls \<leftarrow> opt_field (as_list as_str) (field fs ''linkedClusterIds'');
     Some \<lparr>rm_id = i, rm_name = n, rm_componentType = t, rm_linkedClusterIds = ls\<rparr> }"

definition decode_project :: "jsval \<Rightarrow> raw_project option" where
  "decode_project v = do {
     fs \<leftarrow> as_obj v;
     i \<leftarrow> as_str (field fs ''id''); n \<leftarrow> as_str (field fs ''name'');
     cs \<leftarrow> opt_field (as_list decode_cluster) (field fs ''clusters'');
     ms \<leftarrow> opt_field (as_list decode_component) (field fs ''components'');
     Some \<lparr>rj_id = i, rj_name = n, rj_clusters = cs, rj_components = ms\<rparr> }"

lemma as_type_text [simp]: "as_type (JStr (type_text t)) = Some t"
  by (cases t) (simp_all add: as_type_def type_text_def)

lemma as_simps [simp]:
  "as_str (JStr s) = Some s" "as_int (JNum (jsint i)) = Some i" "as_num (JNum n) = Some n"
  "as_obj (JObj fs) = Some fs" "as_list f (JArr vs) = mapM f vs"
  "opt_field f JUndef = Some None" "opt_field f (JStr s) = map_option Some (f (JStr s))"
  "opt_field f (JNum n) = map_option Some (f (JNum n))"
  "opt_field f (JArr vs) = map_option Some (f (JArr vs))"
  by (simp_all add: as_str_def as_int_def as_num_def as_obj_def as_list_def opt_field_def)

lemma decode_node_json: "decode_node (node_json n) = Some n"
  by (cases n) (simp add: decode_node_def node_json_def field_def split: option.split)

lemma decode_cluster_json: "decode_cluster (cluster_json c) = Some (raw_of_cluster c)"
  using mapM_map [of "cl_nodes c" decode_node node_json id]
  by (simp add: decode_cluster_def cluster_json_def field_def raw_of_cluster_def decode_node_json
      split: option.split)

lemma decode_component_json: "decode_component (component_json m) = Some (raw_of_component m)"
  using mapM_map [of "cp_linkedClusterIds m" as_str JStr id]
  by (simp add: decode_component_def component_json_def field_def raw_of_component_def)

lemma decode_project_json: "decode_project (project_json p) = Some (raw_of p)"
  using mapM_map [of "pj_clusters p" decode_cluster cluster_json raw_of_cluster]
    mapM_map [of "pj_components p" decode_component component_json raw_of_component]
  by (simp add: decode_project_def project_json_def field_def raw_of_def decode_cluster_json
      decode_component_json)

text \<open>
  What is saved is what is loaded: the JSON value a workspace with positive thresholds is
  saved as, read back and migrated, is the same workspace.
\<close>

lemma stored_workspace_roundtrip:
  assumes "\<forall>p \<in> set ps. \<forall>c \<in> set (pj_clusters p). threshold_ok c"
  shows "map_option migrateWorkspaceProjects (mapM decode_project (map project_json ps)) = Some ps"
  using mapM_map [of ps decode_project project_json raw_of] migrate_raw [OF assms]
  by (simp add: decode_project_json)

definition sample_project :: workspace_project where
  "sample_project = \<lparr>pj_id = str ''p'', pj_name = str ''P'',
     pj_clusters = [\<lparr>cl_id = str ''c'', cl_name = str ''C'', cl_replicationType = Physical,
       cl_alertThresholdSec = Some (jsint 30),
       cl_nodes = [\<lparr>nd_id = str ''n'', nd_name = str ''N'', nd_host = str ''h'', nd_port = 5432,
         nd_user = str ''u'', nd_database = str ''d'', nd_cluster_type = Physical,
         nd_role = str ''primary'', nd_source = None, nd_password = None\<rparr>]\<rparr>],
     pj_components = [\<lparr>cp_id = str ''m'', cp_name = str ''M'', cp_componentType = component_text Collector,
       cp_linkedClusterIds = [str ''c'']\<rparr>]\<rparr>"

section \<open>The stored text\<close>

text \<open>
  The value as it comes out of its text: the fields that are \<^verbatim>\<open>undefined\<close> are gone. Ports and
  thresholds are whole numbers below the point where printing goes over to an exponent.
\<close>

definition printable_cluster :: "workspace_cluster \<Rightarrow> bool" where
  "printable_cluster c \<longleftrightarrow>
     (case cl_alertThresholdSec c of Some v \<Rightarrow> json_ok (JNum v) | None \<Rightarrow> True) \<and>
     (\<forall>n \<in> set (cl_nodes c). \<bar>nd_port n\<bar> < 10 ^ 21)"

definition printable :: "workspace_project \<Rightarrow> bool" where
  "printable p \<longleftrightarrow> (\<forall>c \<in> set (pj_clusters p). printable_cluster c)"

lemma json_ok_pruned_node: "\<bar>nd_port n\<bar> < 10 ^ 21 \<Longrightarrow> json_ok (pruned (node_json n))"
  using json_ok_int [of "nd_port n"]
  by (cases "nd_source n"; cases "nd_password n") (simp_all add: node_json_def)

lemma json_ok_pruned_cluster:
  assumes "printable_cluster c"
  shows "json_ok (pruned (cluster_json c))"
proof -
  have "json_ok (pruned (JArr (map node_json (cl_nodes c))))"
    using assms by (simp add: printable_cluster_def json_ok_pruned_node)
  then show ?thesis
    using assms
    by (cases "cl_alertThresholdSec c")
      (auto simp: cluster_json_def printable_cluster_def split: jsnum.splits)
qed

lemma json_ok_pruned_component: "json_ok (pruned (component_json m))"
  by (simp add: component_json_def)

lemma json_ok_pruned_project: "printable p \<Longrightarrow> json_ok (pruned (project_json p))"
  by (simp add: project_json_def printable_def json_ok_pruned_cluster json_ok_pruned_component)

lemma decode_pruned_node: "decode_node (pruned (node_json n)) = Some n"
  by (cases n; cases "nd_source n"; cases "nd_password n")
    (simp_all add: decode_node_def node_json_def field_def)

lemma decode_pruned_cluster: "decode_cluster (pruned (cluster_json c)) = Some (raw_of_cluster c)"
  if "printable_cluster c"
proof -
  have "mapM decode_node (map (\<lambda>n. pruned (node_json n)) (cl_nodes c)) = Some (cl_nodes c)"
    using mapM_map [of "cl_nodes c" decode_node "\<lambda>n. pruned (node_json n)" id]
    by (simp add: decode_pruned_node)
  with that show ?thesis
    by (cases "cl_alertThresholdSec c")
      (auto simp: decode_cluster_def cluster_json_def raw_of_cluster_def field_def comp_def
        printable_cluster_def split: jsnum.splits)
qed

lemma decode_pruned_component: "decode_component (pruned (component_json m)) = Some (raw_of_component m)"
  using mapM_map [of "cp_linkedClusterIds m" as_str JStr id]
  by (simp add: decode_component_def component_json_def field_def raw_of_component_def comp_def)

lemma decode_pruned_project:
  assumes "printable p"
  shows "decode_project (pruned (project_json p)) = Some (raw_of p)"
proof -
  have "mapM decode_cluster (map (\<lambda>c. pruned (cluster_json c)) (pj_clusters p)) =
      Some (map raw_of_cluster (pj_clusters p))"
    by (rule mapM_map) (use assms in \<open>simp add: printable_def decode_pruned_cluster\<close>)
  moreover have "mapM decode_component (map (\<lambda>m. pruned (component_json m)) (pj_components p)) =
      Some (map raw_of_component (pj_components p))"
    by (rule mapM_map) (rule decode_pruned_component)
  ultimately show ?thesis
    by (simp add: decode_project_def project_json_def field_def raw_of_def comp_def)
qed

lemma decode_pruned_projects:
  assumes "\<forall>p \<in> set ps. printable p" "\<forall>p \<in> set ps. \<forall>c \<in> set (pj_clusters p). threshold_ok c"
  shows "map_option migrateWorkspaceProjects
    (mapM decode_project (map (\<lambda>p. pruned (project_json p)) ps)) = Some ps"
proof -
  have "mapM decode_project (map (\<lambda>p. pruned (project_json p)) ps) = Some (map raw_of ps)"
    by (rule mapM_map) (use assms(1) decode_pruned_project in blast)
  then show ?thesis using migrate_raw [OF assms(2)] by simp
qed

section \<open>Operations on the workspace\<close>

text \<open>\<^verbatim>\<open>xs.map((x) => (p(x) ? f(x) : x))\<close>, the shape of every update.\<close>

definition update_where :: "('a \<Rightarrow> bool) \<Rightarrow> ('a \<Rightarrow> 'a) \<Rightarrow> 'a list \<Rightarrow> 'a list" where
  "update_where P f = map (\<lambda>x. if P x then f x else x)"

definition find_first :: "('a \<Rightarrow> bool) \<Rightarrow> 'a list \<Rightarrow> 'a option" where
  "find_first P xs = (case filter P xs of [] \<Rightarrow> None | x # _ \<Rightarrow> Some x)"

definition head_opt :: "'a list \<Rightarrow> 'a option" where
  "head_opt xs = (case xs of [] \<Rightarrow> None | x # _ \<Rightarrow> Some x)"

definition or_else :: "'a option \<Rightarrow> 'a option \<Rightarrow> 'a option" where
  "or_else a b = (case a of Some x \<Rightarrow> Some x | None \<Rightarrow> b)"

definition label :: "nat list \<Rightarrow> nat \<Rightarrow> ustr" where
  "label prefix n = prefix @ nat_str n"

definition project_prefix :: ustr where "project_prefix = [0x9879, 0x76EE, 0x20]"
definition cluster_prefix :: ustr where "cluster_prefix = [0x96C6, 0x7FA4, 0x20]"
definition component_prefix :: ustr where "component_prefix = [0x7EC4, 0x4EF6, 0x20]"

definition makeDefaultNode :: "pg_config \<Rightarrow> ustr \<Rightarrow> nat \<Rightarrow> ustr \<Rightarrow> cluster_node" where
  "makeDefaultNode cfg i idx role =
     \<lparr>nd_id = i, nd_name = str ''Node '' @ nat_str idx, nd_host = cfg_host cfg, nd_port = cfg_port cfg,
      nd_user = cfg_user cfg, nd_database = cfg_database cfg,
      nd_cluster_type =
        (if role = str ''publisher'' \<or> role = str ''subscriber'' then Logical else Physical),
      nd_role = role, nd_source = Some (str ''manual''), nd_password = None\<rparr>"

definition default_role :: "nat \<Rightarrow> ustr" where
  "default_role idx = (if idx = 1 then str ''primary'' else str ''standby'')"

definition default_node :: "pg_config \<Rightarrow> ustr \<Rightarrow> nat \<Rightarrow> cluster_node" where
  "default_node cfg i idx = makeDefaultNode cfg i idx (default_role idx)"

definition createProject :: "ustr \<Rightarrow> workspace_project list \<Rightarrow> workspace_project list" where
  "createProject i ps = ps @
     [\<lparr>pj_id = i, pj_name = label project_prefix (length ps + 1), pj_clusters = [], pj_components = []\<rparr>]"

definition removeProject :: "ustr \<Rightarrow> workspace_project list \<Rightarrow> workspace_project list" where
  "removeProject i ps = filter (\<lambda>p. pj_id p \<noteq> i) ps"

definition updateProject :: "ustr \<Rightarrow> ustr option \<Rightarrow> workspace_project list \<Rightarrow> workspace_project list"
where
  "updateProject i name = update_where (\<lambda>p. pj_id p = i)
     (\<lambda>p. case name of Some n \<Rightarrow> p\<lparr>pj_name := n\<rparr> | None \<Rightarrow> p)"

definition in_project ::
  "ustr \<Rightarrow> (workspace_project \<Rightarrow> workspace_project) \<Rightarrow> workspace_project list \<Rightarrow> workspace_project list"
where
  "in_project i = update_where (\<lambda>p. pj_id p = i)"

definition new_cluster :: "pg_config \<Rightarrow> ustr \<Rightarrow> ustr \<Rightarrow> workspace_project \<Rightarrow> workspace_cluster" where
  "new_cluster cfg i node_id p =
     \<lparr>cl_id = i, cl_name = label cluster_prefix (length (pj_clusters p) + 1),
      cl_replicationType = Physical, cl_alertThresholdSec = Some (Fin 30),
      cl_nodes = [default_node cfg node_id 1]\<rparr>"

text \<open>
  The operations on clusters, nodes and components work in the project that is passed, the
  selected one or, from the project page, the one clicked.
\<close>

definition createCluster ::
  "pg_config \<Rightarrow> ustr \<Rightarrow> ustr \<Rightarrow> workspace_project \<Rightarrow> workspace_project list \<Rightarrow> workspace_project list"
where
  "createCluster cfg i node_id sel =
     in_project (pj_id sel) (\<lambda>p. p\<lparr>pj_clusters := pj_clusters p @ [new_cluster cfg i node_id sel]\<rparr>)"

definition removeCluster ::
  "ustr \<Rightarrow> workspace_project \<Rightarrow> workspace_project list \<Rightarrow> workspace_project list"
where
  "removeCluster i sel = in_project (pj_id sel)
     (\<lambda>p. p\<lparr>pj_clusters := filter (\<lambda>c. cl_id c \<noteq> i) (pj_clusters p)\<rparr>)"

text \<open>A patch: the fields of a node and of a cluster that the views edit; an absent one is kept.\<close>

record node_patch =
  np_name :: "ustr option"
  np_host :: "ustr option"
  np_port :: "int option"
  np_user :: "ustr option"
  np_database :: "ustr option"
  np_cluster_type :: "cluster_type option"
  np_role :: "ustr option"
  np_password :: "ustr option"
  np_alertThresholdSec :: "jsnum option"

definition patched :: "'a option \<Rightarrow> 'a \<Rightarrow> 'a" where
  "patched x old = (case x of Some v \<Rightarrow> v | None \<Rightarrow> old)"

definition patch_node :: "node_patch \<Rightarrow> cluster_node \<Rightarrow> cluster_node" where
  "patch_node u n = n\<lparr>nd_name := patched (np_name u) (nd_name n),
     nd_host := patched (np_host u) (nd_host n), nd_port := patched (np_port u) (nd_port n),
     nd_user := patched (np_user u) (nd_user n),
     nd_database := patched (np_database u) (nd_database n),
     nd_cluster_type := patched (np_cluster_type u) (nd_cluster_type n),
     nd_role := patched (np_role u) (nd_role n),
     nd_password := (case np_password u of Some v \<Rightarrow> Some v | None \<Rightarrow> nd_password n)\<rparr>"

definition patch_cluster :: "node_patch \<Rightarrow> workspace_cluster \<Rightarrow> workspace_cluster" where
  "patch_cluster u c = c\<lparr>cl_name := patched (np_name u) (cl_name c),
     cl_alertThresholdSec := (case np_alertThresholdSec u of
       Some v \<Rightarrow> Some v | None \<Rightarrow> cl_alertThresholdSec c)\<rparr>"

definition in_cluster ::
  "ustr \<Rightarrow> (workspace_cluster \<Rightarrow> workspace_cluster) \<Rightarrow> workspace_project \<Rightarrow> workspace_project"
where
  "in_cluster i f p = p\<lparr>pj_clusters := update_where (\<lambda>c. cl_id c = i) f (pj_clusters p)\<rparr>"

definition updateClusterNode ::
  "ustr \<Rightarrow> ustr \<Rightarrow> node_patch \<Rightarrow> workspace_project \<Rightarrow> workspace_project list \<Rightarrow> workspace_project list"
where
  "updateClusterNode cluster_id node_id u sel = in_project (pj_id sel) (in_cluster cluster_id
     (\<lambda>c. if node_id = [] then patch_cluster u c
          else c\<lparr>cl_nodes := update_where (\<lambda>n. nd_id n = node_id) (patch_node u) (cl_nodes c)\<rparr>))"

definition addNode ::
  "pg_config \<Rightarrow> ustr \<Rightarrow> ustr \<Rightarrow> workspace_project \<Rightarrow> workspace_project list \<Rightarrow> workspace_project list"
where
  "addNode cfg i cluster_id sel = in_project (pj_id sel) (in_cluster cluster_id
     (\<lambda>c. c\<lparr>cl_nodes := cl_nodes c @ [default_node cfg i (length (cl_nodes c) + 1)]\<rparr>))"

definition removeNode ::
  "ustr \<Rightarrow> ustr \<Rightarrow> workspace_project \<Rightarrow> workspace_project list \<Rightarrow> workspace_project list"
where
  "removeNode cluster_id node_id sel = in_project (pj_id sel) (in_cluster cluster_id
     (\<lambda>c. let filtered = filter (\<lambda>n. nd_id n \<noteq> node_id) (cl_nodes c)
          in c\<lparr>cl_nodes := (if 0 < length filtered then filtered else cl_nodes c)\<rparr>))"

definition createComponent ::
  "ustr \<Rightarrow> workspace_project \<Rightarrow> workspace_project list \<Rightarrow> workspace_project list"
where
  "createComponent i sel = in_project (pj_id sel) (\<lambda>p. p\<lparr>pj_components := pj_components p @
     [\<lparr>cp_id = i, cp_name = label component_prefix (length (pj_components sel) + 1),
       cp_componentType = component_text Collector, cp_linkedClusterIds = []\<rparr>]\<rparr>)"

definition removeComponent ::
  "ustr \<Rightarrow> workspace_project \<Rightarrow> workspace_project list \<Rightarrow> workspace_project list"
where
  "removeComponent i sel = in_project (pj_id sel)
     (\<lambda>p. p\<lparr>pj_components := filter (\<lambda>c. cp_id c \<noteq> i) (pj_components p)\<rparr>)"

definition in_component ::
  "ustr \<Rightarrow> (workspace_component \<Rightarrow> workspace_component) \<Rightarrow> workspace_project \<Rightarrow> workspace_project"
where
  "in_component i f p = p\<lparr>pj_components := update_where (\<lambda>c. cp_id c = i) f (pj_components p)\<rparr>"

definition updateComponent ::
  "ustr \<Rightarrow> ustr option \<Rightarrow> ustr option \<Rightarrow> workspace_project \<Rightarrow> workspace_project list \<Rightarrow>
   workspace_project list"
where
  "updateComponent i name kind sel = in_project (pj_id sel) (in_component i
     (\<lambda>c. c\<lparr>cp_name := patched name (cp_name c),
          cp_componentType := patched kind (cp_componentType c)\<rparr>))"

definition toggle :: "'a \<Rightarrow> 'a list \<Rightarrow> 'a list" where
  "toggle x xs = (if x \<in> set xs then filter (\<lambda>y. y \<noteq> x) xs else xs @ [x])"

definition toggleLink ::
  "ustr \<Rightarrow> ustr \<Rightarrow> workspace_project \<Rightarrow> workspace_project list \<Rightarrow> workspace_project list"
where
  "toggleLink component_id cluster_id sel = in_project (pj_id sel) (in_component component_id
     (\<lambda>c. c\<lparr>cp_linkedClusterIds := toggle cluster_id (cp_linkedClusterIds c)\<rparr>))"

section \<open>The invariant of a workspace\<close>

text \<open>
  Ids are unique where the operations look things up by id, links are not repeated, and no
  cluster is left without a node.
\<close>

definition cluster_ok :: "workspace_cluster \<Rightarrow> bool" where
  "cluster_ok c \<longleftrightarrow> distinct (map nd_id (cl_nodes c)) \<and> cl_nodes c \<noteq> []"

definition component_ok :: "workspace_component \<Rightarrow> bool" where
  "component_ok m \<longleftrightarrow> distinct (cp_linkedClusterIds m)"

definition project_ok :: "workspace_project \<Rightarrow> bool" where
  "project_ok p \<longleftrightarrow> distinct (map cl_id (pj_clusters p)) \<and> distinct (map cp_id (pj_components p)) \<and>
     list_all cluster_ok (pj_clusters p) \<and> list_all component_ok (pj_components p)"

definition workspace_ok :: "workspace_project list \<Rightarrow> bool" where
  "workspace_ok ps \<longleftrightarrow> distinct (map pj_id ps) \<and> list_all project_ok ps"

definition project_ids :: "workspace_project \<Rightarrow> ustr set" where
  "project_ids p = insert (pj_id p) (set (map cl_id (pj_clusters p)) \<union> set (map cp_id (pj_components p)) \<union>
     (\<Union>c \<in> set (pj_clusters p). set (map nd_id (cl_nodes c))))"

definition all_ids :: "workspace_project list \<Rightarrow> ustr set" where
  "all_ids ps = (\<Union>p \<in> set ps. project_ids p)"

lemma map_update_where:
  "(\<And>x. P x \<Longrightarrow> k (f x) = k x) \<Longrightarrow> map k (update_where P f xs) = map k xs"
  by (simp add: update_where_def)

lemma list_all_update_where:
  "list_all Q xs \<Longrightarrow> (\<And>x. x \<in> set xs \<Longrightarrow> P x \<Longrightarrow> Q x \<Longrightarrow> Q (f x)) \<Longrightarrow> list_all Q (update_where P f xs)"
  by (auto simp: update_where_def list_all_iff)

lemma distinct_map_filter: "distinct (map f xs) \<Longrightarrow> distinct (map f (filter P xs))"
  by (induction xs) auto

lemma list_all_filter: "list_all Q xs \<Longrightarrow> list_all Q (filter P xs)"
  by (simp add: list_all_iff)

lemma distinct_toggle: "distinct xs \<Longrightarrow> distinct (toggle x xs)"
  by (simp add: toggle_def)

lemma in_project_ok:
  assumes "workspace_ok ps"
    and "\<And>p. p \<in> set ps \<Longrightarrow> project_ok p \<Longrightarrow> project_ok (f p) \<and> pj_id (f p) = pj_id p"
  shows "workspace_ok (in_project i f ps)"
proof -
  have "map pj_id (in_project i f ps) = map pj_id ps"
    using assms by (auto simp: in_project_def update_where_def workspace_ok_def list_all_iff)
  with assms show ?thesis
    by (auto simp: workspace_ok_def in_project_def intro!: list_all_update_where)
qed

lemma in_cluster_ok:
  assumes "project_ok p"
    and "\<And>c. c \<in> set (pj_clusters p) \<Longrightarrow> cluster_ok c \<Longrightarrow> cluster_ok (f c) \<and> cl_id (f c) = cl_id c"
  shows "project_ok (in_cluster i f p) \<and> pj_id (in_cluster i f p) = pj_id p"
proof -
  have "map cl_id (pj_clusters (in_cluster i f p)) = map cl_id (pj_clusters p)"
    using assms by (auto simp: in_cluster_def update_where_def project_ok_def list_all_iff)
  with assms show ?thesis
    by (auto simp: project_ok_def in_cluster_def intro!: list_all_update_where)
qed

lemma in_component_ok:
  assumes "project_ok p" and "\<And>c. component_ok c \<Longrightarrow> component_ok (f c)" and "\<And>c. cp_id (f c) = cp_id c"
  shows "project_ok (in_component i f p) \<and> pj_id (in_component i f p) = pj_id p"
  using assms
  by (auto simp: project_ok_def in_component_def map_update_where intro!: list_all_update_where)

section \<open>Every operation keeps the invariant\<close>

datatype workspace_op =
    CreateProject ustr
  | RemoveProject ustr
  | UpdateProject ustr "ustr option"
  | CreateCluster ustr ustr \<comment> \<open>the ids of the cluster and of its first node\<close>
  | RemoveCluster ustr
  | UpdateClusterNode ustr ustr node_patch
  | AddNode ustr ustr \<comment> \<open>the id of the new node, the cluster\<close>
  | RemoveNode ustr ustr
  | CreateComponent ustr
  | RemoveComponent ustr
  | UpdateComponent ustr "ustr option" "ustr option"
  | ToggleLink ustr ustr

definition apply_op ::
  "pg_config \<Rightarrow> workspace_op \<Rightarrow> workspace_project option \<Rightarrow> workspace_project list \<Rightarrow>
   workspace_project list"
where
  "apply_op cfg x sel ps = (case x of
     CreateProject i \<Rightarrow> createProject i ps
   | RemoveProject i \<Rightarrow> removeProject i ps
   | UpdateProject i n \<Rightarrow> updateProject i n ps
   | _ \<Rightarrow> (case sel of
       None \<Rightarrow> ps
     | Some p \<Rightarrow> (case x of
         CreateCluster i n \<Rightarrow> createCluster cfg i n p ps
       | RemoveCluster i \<Rightarrow> removeCluster i p ps
       | UpdateClusterNode c n u \<Rightarrow> updateClusterNode c n u p ps
       | AddNode i c \<Rightarrow> addNode cfg i c p ps
       | RemoveNode c n \<Rightarrow> removeNode c n p ps
       | CreateComponent i \<Rightarrow> createComponent i p ps
       | RemoveComponent i \<Rightarrow> removeComponent i p ps
       | UpdateComponent i n t \<Rightarrow> updateComponent i n t p ps
       | ToggleLink m c \<Rightarrow> toggleLink m c p ps
       | _ \<Rightarrow> ps)))"

definition new_ids :: "workspace_op \<Rightarrow> ustr list" where
  "new_ids x = (case x of CreateProject i \<Rightarrow> [i] | CreateCluster i n \<Rightarrow> [i, n] | AddNode i c \<Rightarrow> [i]
     | CreateComponent i \<Rightarrow> [i] | _ \<Rightarrow> [])"

lemma removeNode_keeps_some:
  "cl_nodes c \<noteq> [] \<Longrightarrow>
     (let filtered = filter (\<lambda>n. nd_id n \<noteq> node_id) (cl_nodes c)
      in (if 0 < length filtered then filtered else cl_nodes c)) \<noteq> []"
  by (simp add: Let_def)

lemma createProject_ok:
  "workspace_ok ps \<Longrightarrow> i \<notin> all_ids ps \<Longrightarrow> workspace_ok (createProject i ps)"
  by (auto simp: workspace_ok_def createProject_def project_ok_def all_ids_def project_ids_def)

lemma removeProject_ok: "workspace_ok ps \<Longrightarrow> workspace_ok (removeProject i ps)"
  by (simp add: workspace_ok_def removeProject_def distinct_map_filter list_all_filter)

lemma updateProject_ok: "workspace_ok ps \<Longrightarrow> workspace_ok (updateProject i n ps)"
  unfolding updateProject_def in_project_def [symmetric]
  by (erule in_project_ok) (simp add: project_ok_def split: option.split)

lemma createCluster_ok:
  "workspace_ok ps \<Longrightarrow> i \<notin> all_ids ps \<Longrightarrow> workspace_ok (createCluster cfg i n p ps)"
  unfolding createCluster_def
  by (erule in_project_ok)
    (auto simp: project_ok_def new_cluster_def cluster_ok_def all_ids_def project_ids_def)

lemma removeCluster_ok: "workspace_ok ps \<Longrightarrow> workspace_ok (removeCluster i p ps)"
  unfolding removeCluster_def
  by (erule in_project_ok) (simp add: project_ok_def distinct_map_filter list_all_filter)

lemma patch_ids [simp]: "nd_id (patch_node u n) = nd_id n" "cl_id (patch_cluster u c) = cl_id c"
  "cl_nodes (patch_cluster u c) = cl_nodes c"
  by (simp_all add: patch_node_def patch_cluster_def)

lemma updateClusterNode_ok: "workspace_ok ps \<Longrightarrow> workspace_ok (updateClusterNode c n u p ps)"
  unfolding updateClusterNode_def
  by (erule in_project_ok, rule in_cluster_ok, assumption)
    (auto simp: cluster_ok_def map_update_where update_where_def comp_def if_distrib cong: if_cong)

lemma addNode_ok:
  assumes "workspace_ok ps" "i \<notin> all_ids ps"
  shows "workspace_ok (addNode cfg i c p ps)"
  unfolding addNode_def
proof (rule in_project_ok [OF assms(1)], rule in_cluster_ok)
  fix q k
  assume "q \<in> set ps" "k \<in> set (pj_clusters q)" "cluster_ok k"
  moreover from this(1,2) assms(2) have "i \<notin> set (map nd_id (cl_nodes k))"
    by (auto simp: all_ids_def project_ids_def)
  ultimately show "cluster_ok (k\<lparr>cl_nodes := cl_nodes k @ [default_node cfg i (length (cl_nodes k) + 1)]\<rparr>) \<and>
      cl_id (k\<lparr>cl_nodes := cl_nodes k @ [default_node cfg i (length (cl_nodes k) + 1)]\<rparr>) = cl_id k"
    by (simp add: cluster_ok_def default_node_def makeDefaultNode_def)
qed simp

lemma removeNode_ok: "workspace_ok ps \<Longrightarrow> workspace_ok (removeNode c n p ps)"
  unfolding removeNode_def
  by (erule in_project_ok, rule in_cluster_ok, assumption)
    (simp add: cluster_ok_def distinct_map_filter Let_def)

lemma createComponent_ok:
  "workspace_ok ps \<Longrightarrow> i \<notin> all_ids ps \<Longrightarrow> workspace_ok (createComponent i p ps)"
  unfolding createComponent_def
  by (erule in_project_ok) (auto simp: project_ok_def component_ok_def all_ids_def project_ids_def)

lemma removeComponent_ok: "workspace_ok ps \<Longrightarrow> workspace_ok (removeComponent i p ps)"
  unfolding removeComponent_def
  by (erule in_project_ok) (simp add: project_ok_def distinct_map_filter list_all_filter)

lemma updateComponent_ok: "workspace_ok ps \<Longrightarrow> workspace_ok (updateComponent i n t p ps)"
  unfolding updateComponent_def
  by (erule in_project_ok, rule in_component_ok, assumption) (simp_all add: component_ok_def)

lemma toggleLink_ok: "workspace_ok ps \<Longrightarrow> workspace_ok (toggleLink m c p ps)"
  unfolding toggleLink_def
  by (erule in_project_ok, rule in_component_ok, assumption)
    (simp_all add: component_ok_def distinct_toggle)

lemmas workspace_op_ok = createProject_ok removeProject_ok updateProject_ok createCluster_ok
  removeCluster_ok updateClusterNode_ok addNode_ok removeNode_ok createComponent_ok
  removeComponent_ok updateComponent_ok toggleLink_ok

text \<open>
  C13. Every operation of the page on the workspace, whatever project is selected, keeps ids
  unique, links unrepeated and every cluster with at least one node, as long as the ids it
  makes up are new.
\<close>

theorem workspace_invariant:
  assumes "workspace_ok ps" "set (new_ids x) \<inter> all_ids ps = {}"
  shows "workspace_ok (apply_op cfg x sel ps)"
  using assms
  by (cases sel; cases x) (auto simp: apply_op_def new_ids_def intro: workspace_op_ok)

lemma sample_project_ok: "workspace_ok [sample_project]"
  by (simp add: workspace_ok_def project_ok_def cluster_ok_def component_ok_def sample_project_def)

definition sample_cfg :: pg_config where
  "sample_cfg = pg_conf init_pg_state"

theorem workspace_invariant_witness:
  "workspace_ok (apply_op sample_cfg (AddNode (str ''x'') (str ''c'')) (Some sample_project) [sample_project])"
  by (rule workspace_invariant [OF sample_project_ok])
    (simp add: new_ids_def all_ids_def project_ids_def sample_project_def)

text \<open>
  C31. An operation inside the selected project touches nothing else: every other project is
  where it was, unchanged, and the number of projects and their order stay the same.
\<close>

theorem project_operations_are_local:
  assumes "x \<notin> range CreateProject \<union> range RemoveProject" "\<forall>i n. x \<noteq> UpdateProject i n"
    and "k < length ps" "pj_id (ps ! k) \<noteq> pj_id sel"
  shows "length (apply_op cfg x (Some sel) ps) = length ps \<and> apply_op cfg x (Some sel) ps ! k = ps ! k"
proof -
  have "length (in_project (pj_id sel) f ps) = length ps \<and> in_project (pj_id sel) f ps ! k = ps ! k" for f
    using assms(3,4) by (simp add: in_project_def update_where_def)
  then show ?thesis
    using assms(1,2)
    by (cases x) (auto simp: apply_op_def createCluster_def removeCluster_def updateClusterNode_def
        addNode_def removeNode_def createComponent_def removeComponent_def updateComponent_def
        toggleLink_def)
qed

theorem project_operations_are_local_witness:
  "apply_op sample_cfg (RemoveCluster (str ''c'')) (Some (sample_project\<lparr>pj_id := str ''q''\<rparr>))
     [sample_project] ! 0 = sample_project"
  using project_operations_are_local [of "RemoveCluster (str ''c'')" 0 "[sample_project]"
      "sample_project\<lparr>pj_id := str ''q''\<rparr>" sample_cfg]
  by (simp add: sample_project_def image_iff)

text \<open>
  Linking is a toggle: toggling the same link twice restores every component's set of
  linked clusters, and a single toggle changes the membership of exactly that cluster in exactly
  that component of the selected project.
\<close>

lemma toggle_link_effect:
  "map (\<lambda>p. map (\<lambda>m. (cp_id m, set (cp_linkedClusterIds m))) (pj_components p))
      (toggleLink m c sel (toggleLink m c sel ps)) =
     map (\<lambda>p. map (\<lambda>m. (cp_id m, set (cp_linkedClusterIds m))) (pj_components p)) ps \<and>
   map (\<lambda>p. map (\<lambda>m. (cp_id m, set (cp_linkedClusterIds m))) (pj_components p)) (toggleLink m c sel ps) =
     map (\<lambda>p. map (\<lambda>q. (cp_id q, if pj_id p = pj_id sel \<and> cp_id q = m
         then (if c \<in> set (cp_linkedClusterIds q) then set (cp_linkedClusterIds q) - {c}
               else insert c (set (cp_linkedClusterIds q)))
         else set (cp_linkedClusterIds q))) (pj_components p)) ps"
proof -
  have t: "set (toggle c xs) = (if c \<in> set xs then set xs - {c} else insert c (set xs))" for xs
    by (auto simp: toggle_def)
  have t2: "set (toggle c (toggle c xs)) = set xs" for xs
    by (auto simp: t)
  show ?thesis
    by (auto simp: toggleLink_def in_project_def in_component_def update_where_def t t2)
qed

text \<open>Removing a cluster leaves the links of components to it behind.\<close>

lemma removeCluster_leaves_links:
  "removeCluster (str ''c'') sample_project [sample_project] = [sample_project\<lparr>pj_clusters := []\<rparr>] \<and>
   map cp_linkedClusterIds (pj_components (sample_project\<lparr>pj_clusters := []\<rparr>)) = [[str ''c'']]"
  by (simp add: removeCluster_def in_project_def update_where_def sample_project_def)

text \<open>
  The node page's patch carries the password typed in; the spread puts it into the node, and
  with the node into what is saved.
\<close>

lemma patched_password_is_saved:
  "np_password u = Some w \<Longrightarrow> nd_password (patch_node u n) = Some w \<and>
     (\<exists>fs. node_json (patch_node u n) = JObj fs \<and> field fs ''password'' = JStr w)"
  by (simp add: patch_node_def node_json_def field_def)

end
