(* ===== verification/Templates.thy ===== *)
theory Templates
  imports Workspace
begin

text \<open>
  \<^verbatim>\<open>types/template.ts\<close>: the three workspace templates. Building a project makes ids as it goes;
  the model threads a supply of fresh ids through in the order in which the code asks for them.
  The node count is a whole number, the length of \<^verbatim>\<open>Array.from\<close> for a negative one being 0.
\<close>

datatype replication_template = Single | PhysicalRepl | LogicalRepl

record template_params =
  tp_nodeCount :: int
  tp_alertThresholdSec :: jsnum
  tp_createCollector :: bool
  tp_createAnalyzer :: bool
  tp_createStorage :: bool
  tp_componentNamePattern :: ustr

section \<open>Names\<close>

text \<open>
  \<^verbatim>\<open>s.replace(/p/g, r)\<close> for a pattern \<open>p\<close> without special characters: occurrences are found
  from the left, replacements are not searched again, and \<^verbatim>\<open>$\<close> sequences in the replacement
  stand for a dollar sign, the match, and the text before and after it.
\<close>

fun expand_replacement :: "ustr \<Rightarrow> ustr \<Rightarrow> ustr \<Rightarrow> ustr \<Rightarrow> ustr" where
  "expand_replacement m before after [] = []"
| "expand_replacement m before after [c] = [c]"
| "expand_replacement m before after (c # d # r) =
     (if c = 36 \<and> d = 36 then 36 # expand_replacement m before after r
      else if c = 36 \<and> d = 38 then m @ expand_replacement m before after r
      else if c = 36 \<and> d = 96 then before @ expand_replacement m before after r
      else if c = 36 \<and> d = 39 then after @ expand_replacement m before after r
      else c # expand_replacement m before after (d # r))"

function replace_from :: "ustr \<Rightarrow> ustr \<Rightarrow> ustr \<Rightarrow> ustr \<Rightarrow> ustr" where
  "replace_from p r before [] = []"
| "replace_from p r before (c # cs) =
     (if p \<noteq> [] \<and> starts_with p (c # cs)
      then expand_replacement p before (drop (length p) (c # cs)) r @
             replace_from p r (before @ p) (drop (length p) (c # cs))
      else c # replace_from p r (before @ [c]) cs)"
  by pat_completeness auto
termination
  by (relation "measure (\<lambda>(p, r, b, s). length s)") (auto simp: neq_Nil_conv)

definition replace_all :: "ustr \<Rightarrow> ustr \<Rightarrow> ustr \<Rightarrow> ustr" where
  "replace_all p r s = replace_from p r [] s"

definition resolveComponentName :: "ustr \<Rightarrow> ustr \<Rightarrow> component_type \<Rightarrow> ustr \<Rightarrow> ustr" where
  "resolveComponentName pattern project kind fallback =
     (let p = trim (replace_all (str ''{type}'') (component_text kind)
                      (replace_all (str ''{project}'') project pattern))
      in if 0 < length p then p else fallback)"

definition fallback_name :: "replication_template \<Rightarrow> component_type \<Rightarrow> ustr" where
  "fallback_name t kind = (case kind of
     Collector \<Rightarrow> (if t = LogicalRepl
       then [0x903B, 0x8F91, 0x590D, 0x5236, 0x91C7, 0x96C6, 0x7EC4, 0x4EF6]
       else [0x7269, 0x7406, 0x590D, 0x5236, 0x91C7, 0x96C6, 0x7EC4, 0x4EF6])
   | Analyzer \<Rightarrow> (if t = LogicalRepl then str ''CDC '' @ [0x5206, 0x6790, 0x7EC4, 0x4EF6]
       else [0x590D, 0x5236, 0x5206, 0x6790, 0x7EC4, 0x4EF6])
   | _ \<Rightarrow> (if t = LogicalRepl then [0x53D8, 0x66F4, 0x5B58, 0x50A8, 0x7EC4, 0x4EF6]
       else [0x5F52, 0x6863, 0x5B58, 0x50A8, 0x7EC4, 0x4EF6]))"

section \<open>Components\<close>

definition wanted_types :: "template_params \<Rightarrow> component_type list" where
  "wanted_types params =
     (if tp_createCollector params then [Collector] else []) @
     (if tp_createAnalyzer params then [Analyzer] else []) @
     (if tp_createStorage params then [Storage] else [])"

definition make_component ::
  "replication_template \<Rightarrow> ustr \<Rightarrow> ustr \<Rightarrow> template_params \<Rightarrow> ustr \<Rightarrow> component_type \<Rightarrow> workspace_component"
where
  "make_component t project cluster_id params i kind =
     \<lparr>cp_id = i,
      cp_name = resolveComponentName (tp_componentNamePattern params) project kind (fallback_name t kind),
      cp_componentType = component_text kind, cp_linkedClusterIds = [cluster_id]\<rparr>"

definition buildComponents ::
  "replication_template \<Rightarrow> ustr \<Rightarrow> ustr \<Rightarrow> template_params \<Rightarrow> (nat \<Rightarrow> ustr) \<Rightarrow> nat \<Rightarrow> workspace_component list"
where
  "buildComponents t project cluster_id params genId k =
     map (\<lambda>(n, kind). make_component t project cluster_id params (genId (k + n)) kind)
       (enumerate 0 (wanted_types params))"

section \<open>Projects\<close>

definition first_role :: "replication_template \<Rightarrow> ustr" where
  "first_role t = (if t = LogicalRepl then str ''publisher'' else str ''primary'')"

definition other_role :: "replication_template \<Rightarrow> ustr" where
  "other_role t = (if t = LogicalRepl then str ''subscriber'' else str ''standby'')"

definition node_count :: "replication_template \<Rightarrow> template_params \<Rightarrow> nat" where
  "node_count t params = (if t = Single then 1 else nat (tp_nodeCount params))"

definition cluster_name :: "replication_template \<Rightarrow> ustr" where
  "cluster_name t = (case t of
     Single \<Rightarrow> [0x5355, 0x673A, 0x96C6, 0x7FA4]
   | PhysicalRepl \<Rightarrow> [0x4E3B, 0x4ECE, 0x96C6, 0x7FA4]
   | LogicalRepl \<Rightarrow> [0x53D1, 0x5E03, 0x8BA2, 0x9605, 0x96C6, 0x7FA4])"

text \<open>The ids are taken for the nodes, the cluster, the project and the components, in this order.\<close>

definition buildProject ::
  "replication_template \<Rightarrow> pg_config \<Rightarrow> (nat \<Rightarrow> ustr) \<Rightarrow> ustr \<Rightarrow> template_params \<Rightarrow> workspace_project"
where
  "buildProject t cfg genId name params =
     (let n = node_count t params;
          nodes = map (\<lambda>i. makeDefaultNode cfg (genId i) (i + 1)
                    (if i = 0 then first_role t else other_role t)) [0..<n];
          cluster = \<lparr>cl_id = genId n, cl_name = cluster_name t,
            cl_replicationType = (if t = LogicalRepl then Logical else Physical),
            cl_alertThresholdSec = Some (tp_alertThresholdSec params), cl_nodes = nodes\<rparr>
      in \<lparr>pj_id = genId (n + 1), pj_name = name, pj_clusters = [cluster],
          pj_components = buildComponents t name (cl_id cluster) params genId (n + 2)\<rparr>)"

definition defaultParams :: "replication_template \<Rightarrow> template_params" where
  "defaultParams t =
     \<lparr>tp_nodeCount = (if t = Single then 1 else 2),
      tp_alertThresholdSec = (if t = LogicalRepl then Fin 60 else Fin 30),
      tp_createCollector = True, tp_createAnalyzer = (t \<noteq> Single),
      tp_createStorage = (t = LogicalRepl), tp_componentNamePattern = str ''{project}-{type}''\<rparr>"

section \<open>What a template builds\<close>

lemma map_component_fields:
  "map cp_id (buildComponents t project c params genId k) =
     map (\<lambda>n. genId (k + n)) [0..<length (wanted_types params)]"
  "map cp_componentType (buildComponents t project c params genId k) = map component_text (wanted_types params)"
proof -
  have "map cp_id (buildComponents t project c params genId k) =
      map (\<lambda>x. genId (k + fst x)) (enumerate 0 (wanted_types params))"
    by (simp add: buildComponents_def make_component_def split_beta comp_def)
  also have "\<dots> = map (\<lambda>n. genId (k + n)) (map fst (enumerate 0 (wanted_types params)))"
    by (simp only: map_map comp_def)
  finally show "map cp_id (buildComponents t project c params genId k) =
      map (\<lambda>n. genId (k + n)) [0..<length (wanted_types params)]"
    by (simp only: map_fst_enumerate)
      simp
  have "map cp_componentType (buildComponents t project c params genId k) =
      map component_text (map snd (enumerate 0 (wanted_types params)))"
    by (simp add: buildComponents_def make_component_def split_beta comp_def del: map_snd_enumerate)
  then show "map cp_componentType (buildComponents t project c params genId k) = map component_text (wanted_types params)"
    by simp
qed

lemma component_links: "m \<in> set (buildComponents t project c params genId k) \<Longrightarrow> cp_linkedClusterIds m = [c]"
  by (auto simp: buildComponents_def make_component_def)

lemma distinct_ids: "inj genId \<Longrightarrow> distinct (map (\<lambda>n. genId (k + n)) [0..<m])"
  unfolding distinct_map by (intro conjI distinct_upt inj_onI) (auto dest: injD)

lemma node_roles:
  "0 < n \<Longrightarrow> map (\<lambda>i. if i = 0 then a else b) [0..<n] = a # replicate (n - 1) b"
  by (rule nth_equalityI) (auto simp: nth_Cons split: nat.split)

lemma buildProject_shape:
  assumes "inj genId" "t = Single \<or> 1 \<le> tp_nodeCount params"
  shows "project_ok (buildProject t cfg genId name params) \<and>
    map cp_componentType (pj_components (buildProject t cfg genId name params)) = map component_text (wanted_types params) \<and>
    (\<exists>c. pj_clusters (buildProject t cfg genId name params) = [c] \<and>
      map nd_role (cl_nodes c) = first_role t # replicate (node_count t params - 1) (other_role t) \<and>
      list_all (\<lambda>n. nd_cluster_type n = cl_replicationType c) (cl_nodes c) \<and>
      list_all (\<lambda>m. cp_linkedClusterIds m = [cl_id c])
        (pj_components (buildProject t cfg genId name params)))"
proof -
  let ?n = "node_count t params"
  have n: "0 < ?n" using assms(2) by (auto simp: node_count_def)
  let ?ns = "map (\<lambda>i. makeDefaultNode cfg (genId i) (i + 1)
      (if i = 0 then first_role t else other_role t)) [0..<?n]"
  have ids: "distinct (map nd_id ?ns)"
    using distinct_ids [OF assms(1), of 0] by (simp add: makeDefaultNode_def comp_def)
  have roles: "map nd_role ?ns = first_role t # replicate (?n - 1) (other_role t)"
    using node_roles [OF n, of "first_role t" "other_role t"]
    by (simp add: makeDefaultNode_def comp_def)
  have types: "list_all (\<lambda>x. nd_cluster_type x = (if t = LogicalRepl then Logical else Physical)) ?ns"
    by (auto simp: list_all_iff makeDefaultNode_def first_role_def other_role_def)
  have links: "list_all (\<lambda>m. cp_linkedClusterIds m = [genId ?n])
      (buildComponents t name (genId ?n) params genId (?n + 2))"
    by (simp add: list_all_iff component_links)
  then have "list_all component_ok (buildComponents t name (genId ?n) params genId (?n + 2))"
    by (simp add: list_all_iff component_ok_def)
  moreover have "?ns \<noteq> []" using n by simp
  ultimately show ?thesis
    using ids roles types links distinct_ids [OF assms(1), of "?n + 2" "length (wanted_types params)"]
    unfolding buildProject_def Let_def project_ok_def cluster_ok_def
    by (simp add: map_component_fields del: map_map map_eq_conv map_is_Nil_conv)
qed

text \<open>
  Every template builds a well-formed project: from fresh ids, with at least one node, all
  ids are distinct, there is one cluster of the template's replication type whose first node has
  the leading role and whose other nodes have the following one, with the node types the roles
  imply, and every component asked for exists once, in order, linked to that cluster.
\<close>

lemma template_project_wellformed:
  assumes "inj genId" "t = Single \<or> 1 \<le> tp_nodeCount params"
  shows "project_ok (buildProject t cfg genId name params) \<and>
    map cp_componentType (pj_components (buildProject t cfg genId name params)) = map component_text (wanted_types params) \<and>
    (\<exists>c. pj_clusters (buildProject t cfg genId name params) = [c] \<and>
      map nd_role (cl_nodes c) = first_role t # replicate (node_count t params - 1) (other_role t) \<and>
      list_all (\<lambda>n. nd_cluster_type n = cl_replicationType c) (cl_nodes c) \<and>
      list_all (\<lambda>m. cp_linkedClusterIds m = [cl_id c])
        (pj_components (buildProject t cfg genId name params)))"
  using assms by (rule buildProject_shape)

lemma default_component_name:
  "resolveComponentName (str ''{project}-{type}'') (str ''shop'') Collector [] = str ''shop-collector''"
  by (simp add: resolveComponentName_def replace_all_def component_text_def str_def trim_def is_space_def)

lemma dollar_in_project_name:
  "resolveComponentName (str ''{project}-{type}'') (str ''a$&'') Collector [] = str ''a{project}-collector''"
  by (simp add: resolveComponentName_def replace_all_def component_text_def str_def trim_def is_space_def)

end
