(* ===== verification/App.thy ===== *)
theory App
  imports Templates ApiClient
begin

text \<open>
  \<^verbatim>\<open>App.tsx\<close>: the state of the page, its exchanges with the backend, the autosave of the
  workspace, the selection, and the creation of a project from a template. An exchange is a
  function of the browser's \<open>reply\<close>; what happens after an \<^verbatim>\<open>await\<close> is a handler of its own, whose
  captured variables are arguments. A render with its effects is the function called after the
  state change that causes it.
\<close>

section \<open>Exchanges with the backend\<close>

text \<open>
  Reading a property: \<^verbatim>\<open>null\<close> and \<^verbatim>\<open>undefined\<close> raise a \<^verbatim>\<open>TypeError\<close>, here \<open>None\<close>, which every caller
  below catches.
\<close>

definition js_prop :: "jsval \<Rightarrow> string \<Rightarrow> jsval option" where
  "js_prop v k = (case v of
     JUndef \<Rightarrow> None | JNull \<Rightarrow> None | JObj fs \<Rightarrow> Some (field fs k) | _ \<Rightarrow> Some JUndef)"

text \<open>\<^verbatim>\<open>res.json()\<close> of an answer that is \<^verbatim>\<open>ok\<close>.\<close>

definition reply_json :: "reply \<Rightarrow> jsval option" where
  "reply_json r = (case r of
     Responded status text url \<Rightarrow> if response_ok status then json_parse text else None
   | Rejected _ \<Rightarrow> None)"

definition WORKSPACE_SCHEMA_VERSION :: int where "WORKSPACE_SCHEMA_VERSION = 1"

definition loadProjectsFromBackend :: "reply \<Rightarrow> workspace_project list option" where
  "loadProjectsFromBackend r = do {
     v \<leftarrow> reply_json r;
     ok \<leftarrow> js_prop v ''success'';
     ps \<leftarrow> js_prop v ''projects'';
     if truthy ok then map_option migrateWorkspaceProjects (as_list decode_project ps) else None }"

text \<open>The body of the PUT, and its outcome.\<close>

definition saveProjects_body :: "workspace_project list \<Rightarrow> jsval" where
  "saveProjects_body ps = JObj [(str ''schemaVersion'', JNum (jsint WORKSPACE_SCHEMA_VERSION)),
     (str ''projects'', JArr (map project_json ps))]"

definition saveProjectsToBackend :: "reply \<Rightarrow> bool" where
  "saveProjectsToBackend r = (case r of
     Responded status text url \<Rightarrow> response_ok status | Rejected _ \<Rightarrow> False)"

text \<open>The answer of a backend that has stored the projects.\<close>

definition stored_answer :: "workspace_project list \<Rightarrow> ustr \<Rightarrow> reply" where
  "stored_answer ps url = Responded 200 (json_stringify (JObj [(str ''success'', JBool True),
     (str ''projects'', JArr (map (\<lambda>p. pruned (project_json p)) ps))])) url"

lemma stored_answer_loads:
  assumes "\<forall>p \<in> set ps. printable p" "\<forall>p \<in> set ps. \<forall>c \<in> set (pj_clusters p). threshold_ok c"
  shows "loadProjectsFromBackend (stored_answer ps url) = Some ps"
proof -
  have "json_ok (JObj [(str ''success'', JBool True), (str ''projects'', JArr (map (\<lambda>p. pruned (project_json p)) ps))])"
    using assms(1) by (simp add: json_ok_pruned_project)
  then show ?thesis
    using decode_pruned_projects [OF assms]
    by (simp add: stored_answer_def loadProjectsFromBackend_def reply_json_def response_ok_def js_prop_def field_def
        del: json_stringify.simps)
qed



definition template_text :: "replication_template \<Rightarrow> ustr" where
  "template_text t = (case t of Single \<Rightarrow> str ''single'' | PhysicalRepl \<Rightarrow> str ''physical''
     | LogicalRepl \<Rightarrow> str ''logical'')"

record provision_request =
  pq_endpoint :: ustr
  pq_body :: jsval

definition provision_call :: "replication_template \<Rightarrow> ustr \<Rightarrow> ustr \<Rightarrow> provision_request" where
  "provision_call t project_id name =
     \<lparr>pq_endpoint = (if t = Single then str ''/api/provision/single''
        else if t = PhysicalRepl then str ''/api/provision/physical''
        else str ''/api/provision/logical''),
      pq_body = JObj [(str ''projectId'', JStr project_id), (str ''clusterName'', JStr name),
        (str ''runtime'', JObj [(str ''type'', JStr (str ''docker''))])]\<rparr>"

record provision_result =
  pr_ok :: bool
  pr_taskId :: jsval
  pr_error :: "ustr option"

definition provisionClusterByTemplate :: "reply \<Rightarrow> provision_result" where
  "provisionClusterByTemplate r =
     (let failed = (\<lambda>e. \<lparr>pr_ok = False, pr_taskId = JUndef, pr_error = Some e\<rparr>);
          network = failed (str ''network error'')
      in case r of
           Rejected _ \<Rightarrow> network
         | Responded status text url \<Rightarrow>
             if \<not> response_ok status then failed (str ''HTTP '' @ nat_str status)
             else case json_parse text of
                    None \<Rightarrow> network
                  | Some v \<Rightarrow> (case (js_prop v ''success'', js_prop v ''taskId'') of
                      (Some ok, Some i) \<Rightarrow>
                        \<lparr>pr_ok = truthy ok, pr_taskId = i,
                         pr_error = (if truthy ok then None else Some (str ''provision failed''))\<rparr>
                    | _ \<Rightarrow> network))"

text \<open>
  A provisioning task. The fields are whatever the backend or the cache held: the code casts
  them without a check; an absent one is \<open>JUndef\<close>.
\<close>

record provision_task =
  pv_taskId :: jsval
  pv_status :: jsval
  pv_progress :: jsval
  pv_message :: jsval
  pv_startedAt :: jsval
  pv_finishedAt :: jsval
  pv_projectId :: jsval
  pv_clusterId :: jsval

definition or_js :: "jsval \<Rightarrow> jsval \<Rightarrow> jsval" where
  "or_js a b = (if truthy a then a else b)"

definition getProvisionTask :: "reply \<Rightarrow> provision_task option" where
  "getProvisionTask r = do {
     v \<leftarrow> reply_json r;
     ok \<leftarrow> js_prop v ''success'';
     t \<leftarrow> js_prop v ''task'';
     if truthy ok \<and> truthy t then do {
       st \<leftarrow> js_prop t ''status''; pg \<leftarrow> js_prop t ''progress''; m \<leftarrow> js_prop t ''message'';
       sa \<leftarrow> js_prop t ''startedAt''; fa \<leftarrow> js_prop t ''finishedAt'';
       Some \<lparr>pv_taskId = JUndef, pv_status = or_js st (JStr (str ''unknown'')),
         pv_progress = coalesce pg (JNum (Fin 0)), pv_message = m, pv_startedAt = sa,
         pv_finishedAt = fa, pv_projectId = JUndef, pv_clusterId = JUndef\<rparr> }
     else None }"

datatype task_filter = AllTasks | RunningTasks | SuccessTasks | FailedTasks

definition filter_text :: "task_filter \<Rightarrow> ustr" where
  "filter_text f = (case f of AllTasks \<Rightarrow> [] | RunningTasks \<Rightarrow> str ''running''
     | SuccessTasks \<Rightarrow> str ''success'' | FailedTasks \<Rightarrow> str ''failed'')"

definition listProvisionTasks_url :: "nat \<Rightarrow> task_filter \<Rightarrow> ustr" where
  "listProvisionTasks_url limit f =
     str ''/api/tasks?limit='' @ nat_str limit @ str ''&status='' @ filter_text f"

definition list_item :: "jsval \<Rightarrow> provision_task option" where
  "list_item v = do {
     i \<leftarrow> js_prop v ''taskId''; st \<leftarrow> js_prop v ''status''; pg \<leftarrow> js_prop v ''progress'';
     m \<leftarrow> js_prop v ''message''; sa \<leftarrow> js_prop v ''startedAt''; fa \<leftarrow> js_prop v ''finishedAt'';
     p \<leftarrow> js_prop v ''projectId''; c \<leftarrow> js_prop v ''clusterId'';
     Some \<lparr>pv_taskId = or_js i (JStr (str ''-'')), pv_status = or_js st (JStr (str ''unknown'')),
       pv_progress = coalesce pg (JNum (Fin 0)), pv_message = m, pv_startedAt = sa,
       pv_finishedAt = fa, pv_projectId = p, pv_clusterId = c\<rparr> }"

definition listProvisionTasks :: "reply \<Rightarrow> provision_task list" where
  "listProvisionTasks r =
     (case (do {
        v \<leftarrow> reply_json r;
        ok \<leftarrow> js_prop v ''success'';
        ts \<leftarrow> js_prop v ''tasks'';
        if truthy ok then as_list list_item ts else None }) of
       Some items \<Rightarrow> items | None \<Rightarrow> [])"

section \<open>The task cache\<close>

definition TASK_STORAGE_KEY :: ustr where "TASK_STORAGE_KEY = str ''pgv_provision_task''"

definition cached_task :: "jsval \<Rightarrow> provision_task option" where
  "cached_task v = do {
     i \<leftarrow> js_prop v ''taskId''; st \<leftarrow> js_prop v ''status''; pg \<leftarrow> js_prop v ''progress'';
     m \<leftarrow> js_prop v ''message''; sa \<leftarrow> js_prop v ''startedAt''; fa \<leftarrow> js_prop v ''finishedAt'';
     p \<leftarrow> js_prop v ''projectId'';
     if \<not> truthy i \<or> \<not> truthy st then None
     else Some \<lparr>pv_taskId = i, pv_status = st, pv_progress = coalesce pg (JNum (Fin 0)),
       pv_message = coalesce m (JStr []), pv_startedAt = sa, pv_finishedAt = fa, pv_projectId = p,
       pv_clusterId = JUndef\<rparr> }"

definition loadProvisionTaskCache :: "ustr option \<Rightarrow> provision_task option" where
  "loadProvisionTaskCache raw = (case raw of
     None \<Rightarrow> None
   | Some t \<Rightarrow> if t = [] then None else Option.bind (json_parse t) cached_task)"

definition task_json :: "provision_task \<Rightarrow> jsval" where
  "task_json t = JObj [(str ''taskId'', pv_taskId t), (str ''status'', pv_status t),
     (str ''progress'', pv_progress t), (str ''message'', pv_message t),
     (str ''startedAt'', pv_startedAt t), (str ''finishedAt'', pv_finishedAt t),
     (str ''projectId'', pv_projectId t)]"

definition task_ok :: "provision_task \<Rightarrow> bool" where
  "task_ok t \<longleftrightarrow> truthy (pv_taskId t) \<and> truthy (pv_status t) \<and>
     pv_progress t \<notin> {JUndef, JNull} \<and> pv_message t \<notin> {JUndef, JNull} \<and> pv_clusterId t = JUndef"

section \<open>The state of the page\<close>

datatype view = ProjectHome | ClusterHome | ComponentHome | HostManagement | NodeHome | SqlView
  | WriteView | ReadView | TransactionView | XactStateView | WalView | ClogView | BufferView
  | LockView | MemoryView | PlanView

record app_state =
  ap_currentView :: view
  ap_connected :: bool
  ap_projects :: "workspace_project list"
  ap_selectedProjectId :: ustr
  ap_selectedClusterId :: ustr
  ap_selectedNodeId :: ustr
  ap_showTemplateDialog :: bool
  ap_highlightedComponentIds :: "ustr list"
  ap_workspaceBootstrapped :: bool
  ap_workspaceSyncError :: ustr
  ap_provisionTask :: "provision_task option"
  ap_recentTasks :: "provision_task list"
  ap_showRecentTasks :: bool
  ap_recentTaskFilter :: task_filter
  ap_saveTimer :: "workspace_project list option" \<comment> \<open>the pending autosave and what it captured\<close>
  ap_puts :: "workspace_project list list" \<comment> \<open>what has been sent to the backend, oldest first\<close>
  ap_storage :: "ustr option" \<comment> \<open>the task in \<^verbatim>\<open>localStorage\<close>\<close>

definition init_app :: "ustr option \<Rightarrow> app_state" where
  "init_app storage =
     \<lparr>ap_currentView = ProjectHome, ap_connected = False, ap_projects = [],
      ap_selectedProjectId = [], ap_selectedClusterId = [], ap_selectedNodeId = [],
      ap_showTemplateDialog = False, ap_highlightedComponentIds = [],
      ap_workspaceBootstrapped = False, ap_workspaceSyncError = [],
      ap_provisionTask = loadProvisionTaskCache storage, ap_recentTasks = [],
      ap_showRecentTasks = False, ap_recentTaskFilter = AllTasks, ap_saveTimer = None,
      ap_puts = [], ap_storage = storage\<rparr>"

section \<open>Saving\<close>

text \<open>
  The autosave effect runs after every change of the projects: it cancels the pending timer and
  sets a new one, which captures the projects of that render.
\<close>

definition autosave_effect :: "app_state \<Rightarrow> app_state" where
  "autosave_effect s =
     (if \<not> ap_workspaceBootstrapped s then s else s\<lparr>ap_saveTimer := Some (ap_projects s)\<rparr>)"

definition setProjects :: "workspace_project list \<Rightarrow> app_state \<Rightarrow> app_state" where
  "setProjects ps s = autosave_effect (s\<lparr>ap_projects := ps\<rparr>)"

definition save_timer_fires :: "app_state \<Rightarrow> app_state" where
  "save_timer_fires s = (case ap_saveTimer s of
     None \<Rightarrow> s | Some ps \<Rightarrow> s\<lparr>ap_saveTimer := None, ap_puts := ap_puts s @ [ps]\<rparr>)"

definition backend_error_text :: ustr where
  "backend_error_text = [0x5DE5, 0x4F5C, 0x533A, 0x540E, 0x7AEF, 0x4E0D, 0x53EF, 0x7528, 0xFF0C,
     0x5F53, 0x524D, 0x4F7F, 0x7528, 0x672C, 0x5730, 0x7F13, 0x5B58, 0x3002]"

definition save_error_text :: ustr where
  "save_error_text = [0x5DE5, 0x4F5C, 0x533A, 0x4FDD, 0x5B58, 0x5931, 0x8D25, 0xFF0C, 0x53D8,
     0x66F4, 0x4EC5, 0x4FDD, 0x5B58, 0x5728, 0x672C, 0x5730, 0x7F13, 0x5B58, 0x3002]"

definition save_answered :: "reply \<Rightarrow> app_state \<Rightarrow> app_state" where
  "save_answered r s =
     s\<lparr>ap_workspaceSyncError := (if saveProjectsToBackend r then [] else save_error_text)\<rparr>"

section \<open>Loading\<close>

definition first_cluster_id :: "workspace_project option \<Rightarrow> ustr" where
  "first_cluster_id p = (case p of
     None \<Rightarrow> [] | Some q \<Rightarrow> (case pj_clusters q of [] \<Rightarrow> [] | c # _ \<Rightarrow> cl_id c))"

definition bootstrap :: "reply \<Rightarrow> app_state \<Rightarrow> app_state" where
  "bootstrap r s =
     autosave_effect
       ((case loadProjectsFromBackend r of
           None \<Rightarrow> s\<lparr>ap_workspaceSyncError := backend_error_text\<rparr>
         | Some remote \<Rightarrow>
             (let s1 = s\<lparr>ap_projects := remote, ap_workspaceSyncError := []\<rparr>
              in case remote of
                   [] \<Rightarrow> s1
                 | p # _ \<Rightarrow> s1\<lparr>ap_selectedProjectId := pj_id p,
                     ap_selectedClusterId := first_cluster_id (Some p)\<rparr>))
        \<lparr>ap_workspaceBootstrapped := True\<rparr>)"

definition reloadWorkspaceFromBackend :: "reply \<Rightarrow> app_state \<Rightarrow> app_state" where
  "reloadWorkspaceFromBackend r s = (case loadProjectsFromBackend r of
     None \<Rightarrow> s
   | Some remote \<Rightarrow>
       (let current = (if ap_selectedProjectId s \<noteq> [] then ap_selectedProjectId s
              else (case remote of [] \<Rightarrow> [] | p # _ \<Rightarrow> pj_id p));
            p = or_else (find_first (\<lambda>x. pj_id x = current) remote) (head_opt remote)
        in setProjects remote (s\<lparr>ap_selectedProjectId := current,
             ap_selectedClusterId := first_cluster_id p\<rparr>)))"

section \<open>Selection\<close>

definition selectedProject :: "app_state \<Rightarrow> workspace_project option" where
  "selectedProject s = or_else (find_first (\<lambda>p. pj_id p = ap_selectedProjectId s) (ap_projects s))
     (head_opt (ap_projects s))"

definition selectedNodeConfig :: "app_state \<Rightarrow> cluster_node option" where
  "selectedNodeConfig s = do {
     p \<leftarrow> selectedProject s;
     c \<leftarrow> find_first (\<lambda>c. cl_id c = ap_selectedClusterId s) (pj_clusters p);
     or_else (find_first (\<lambda>n. nd_id n = ap_selectedNodeId s) (cl_nodes c)) (head_opt (cl_nodes c)) }"

definition first_node_id :: "workspace_cluster \<Rightarrow> ustr" where
  "first_node_id c = (case cl_nodes c of [] \<Rightarrow> [] | n # _ \<Rightarrow> nd_id n)"

definition selection_effect :: "app_state \<Rightarrow> app_state" where
  "selection_effect s = (case selectedProject s of
     None \<Rightarrow> s
   | Some p \<Rightarrow>
       (let s1 = (if ap_selectedProjectId s = [] then s\<lparr>ap_selectedProjectId := pj_id p\<rparr> else s)
        in case or_else (find_first (\<lambda>c. cl_id c = ap_selectedClusterId s) (pj_clusters p))
                  (head_opt (pj_clusters p)) of
             None \<Rightarrow> s1
           | Some c \<Rightarrow>
               (let s2 = (if cl_id c \<noteq> ap_selectedClusterId s
                          then s1\<lparr>ap_selectedClusterId := cl_id c\<rparr> else s1)
                in if ap_selectedNodeId s = [] then s2\<lparr>ap_selectedNodeId := first_node_id c\<rparr>
                   else s2)))"

section \<open>Handlers\<close>

definition app_op :: "pg_config \<Rightarrow> workspace_op \<Rightarrow> app_state \<Rightarrow> app_state" where
  "app_op cfg x s =
     (let sel = selectedProject s; next_ps = apply_op cfg x sel (ap_projects s);
          s1 = setProjects next_ps s
      in case x of
           CreateProject i \<Rightarrow> s1\<lparr>ap_selectedProjectId := i\<rparr>
         | RemoveProject i \<Rightarrow>
             (if ap_selectedProjectId s = i
              then s1\<lparr>ap_selectedProjectId := (case next_ps of [] \<Rightarrow> [] | p # _ \<Rightarrow> pj_id p),
                      ap_selectedClusterId := []\<rparr>
              else s1)
         | UpdateProject i n \<Rightarrow> s1
         | _ \<Rightarrow>
             if sel = None then s
             else (case x of
               CreateCluster i n \<Rightarrow> s1\<lparr>ap_selectedClusterId := i\<rparr>
             | RemoveCluster i \<Rightarrow>
                 (if ap_selectedClusterId s = i then s1\<lparr>ap_selectedClusterId := []\<rparr> else s1)
             | _ \<Rightarrow> s1))"

text \<open>The two creations of the project page, which name their project.\<close>

definition create_cluster_in :: "pg_config \<Rightarrow> ustr \<Rightarrow> ustr \<Rightarrow> ustr \<Rightarrow> app_state \<Rightarrow> app_state" where
  "create_cluster_in cfg i node_id project_id s =
     (case find_first (\<lambda>p. pj_id p = project_id) (ap_projects s) of
        None \<Rightarrow> s
      | Some p \<Rightarrow> (setProjects (createCluster cfg i node_id p (ap_projects s)) s)
          \<lparr>ap_selectedProjectId := project_id, ap_selectedClusterId := i,
           ap_currentView := ClusterHome\<rparr>)"

definition create_component_in :: "ustr \<Rightarrow> ustr \<Rightarrow> app_state \<Rightarrow> app_state" where
  "create_component_in i project_id s =
     (case find_first (\<lambda>p. pj_id p = project_id) (ap_projects s) of
        None \<Rightarrow> s | Some p \<Rightarrow> setProjects (createComponent i p (ap_projects s)) s)"

definition navigate_to_cluster :: "ustr \<Rightarrow> ustr \<Rightarrow> app_state \<Rightarrow> app_state" where
  "navigate_to_cluster project_id cluster_id s = s\<lparr>ap_selectedProjectId := project_id,
     ap_selectedClusterId := cluster_id, ap_currentView := ClusterHome\<rparr>"

text \<open>
  The double click on a node: the selection changes at once, the connection when the answer says
  so. The second component of the result is the new state of the connection store.
\<close>

definition node_clicked :: "cluster_node \<Rightarrow> app_state \<Rightarrow> app_state" where
  "node_clicked n s = (if ap_selectedClusterId s = [] then s else s\<lparr>ap_selectedNodeId := nd_id n\<rparr>)"

definition node_connected ::
  "cluster_node \<Rightarrow> jsval \<Rightarrow> app_state \<times> pg_state \<Rightarrow> app_state \<times> pg_state"
where
  "node_connected n data x = (case x of (s, st) \<Rightarrow>
     (case (js_prop data ''success'', js_prop data ''version'') of
        (Some ok, Some v) \<Rightarrow>
          if \<not> truthy ok then (s, st)
          else
            (s\<lparr>ap_currentView := NodeHome, ap_connected := True\<rparr>,
             setVersion (to_str (or_js v (JStr [])))
               (setConnected True (setConfig \<lparr>cfg_host = nd_host n, cfg_port = nd_port n,
                  cfg_user = nd_user n, cfg_database = nd_database n\<rparr> st)))
      | _ \<Rightarrow> (s, st)))"

text \<open>What is shown: without a connection only the three workspace pages.\<close>

definition shown_view :: "app_state \<Rightarrow> view option" where
  "shown_view s =
     (if ap_currentView s \<notin> {ProjectHome, ClusterHome, ComponentHome} \<and> \<not> ap_connected s then None
      else Some (ap_currentView s))"

section \<open>Creating a project from a template\<close>

definition project_name :: "ustr \<Rightarrow> app_state \<Rightarrow> ustr" where
  "project_name name s =
     (if trim name \<noteq> [] then trim name else label project_prefix (length (ap_projects s) + 1))"

definition handleTemplateConfirm_preview ::
  "pg_config \<Rightarrow> ustr \<Rightarrow> (nat \<Rightarrow> ustr) \<Rightarrow> replication_template \<Rightarrow> ustr \<Rightarrow> template_params \<Rightarrow> app_state \<Rightarrow> app_state"
where
  "handleTemplateConfirm_preview cfg i genId t name params s =
     (let project = (buildProject t cfg genId (project_name name s) params)\<lparr>pj_id := i\<rparr>
      in (setProjects (ap_projects s @ [project]) s)
           \<lparr>ap_showTemplateDialog := False, ap_selectedProjectId := i,
            ap_selectedClusterId := first_cluster_id (Some project),
            ap_highlightedComponentIds := map cp_id (pj_components project),
            ap_currentView := ComponentHome\<rparr>)"

text \<open>
  The create mode up to its first \<^verbatim>\<open>await\<close>: the empty project is shown and sent to the backend at
  once.
\<close>

definition base_project :: "ustr \<Rightarrow> ustr \<Rightarrow> app_state \<Rightarrow> workspace_project" where
  "base_project i name s =
     \<lparr>pj_id = i, pj_name = project_name name s, pj_clusters = [], pj_components = []\<rparr>"

definition handleTemplateConfirm_create :: "ustr \<Rightarrow> ustr \<Rightarrow> app_state \<Rightarrow> app_state" where
  "handleTemplateConfirm_create i name s =
     (let optimistic = ap_projects s @ [base_project i name s]
      in (setProjects optimistic s)
           \<lparr>ap_showTemplateDialog := False, ap_selectedProjectId := i,
            ap_puts := ap_puts s @ [optimistic]\<rparr>)"

text \<open>
  After the seed has been saved, or not, the provisioning call is made only if it was; its
  request, and the result the handler goes on with.
\<close>

definition provision_after_seed ::
  "bool \<Rightarrow> (provision_request \<Rightarrow> reply) \<Rightarrow> replication_template \<Rightarrow> ustr \<Rightarrow> ustr \<Rightarrow> provision_result"
where
  "provision_after_seed seedOk backend t i base_name =
     (if seedOk then provisionClusterByTemplate
        (backend (provision_call t i (base_name @ str ''-'' @ template_text t)))
      else \<lparr>pr_ok = False, pr_taskId = JUndef, pr_error = None\<rparr>)"

definition set_task :: "provision_task option \<Rightarrow> app_state \<Rightarrow> app_state" where
  "set_task t s = s\<lparr>ap_provisionTask := t\<rparr>"

definition creating_text :: ustr where
  "creating_text = [0x96C6, 0x7FA4, 0x521B, 0x5EFA, 0x4E2D] @ str ''...''"

definition create_failed_text :: ustr where
  "create_failed_text = [0x96C6, 0x7FA4, 0x521B, 0x5EFA, 0x5931, 0x8D25, 0xFF1A]"

definition resuming_text :: ustr where
  "resuming_text = [0x4EFB, 0x52A1, 0x6062, 0x590D, 0x4E2D] @ str ''...''"

definition started_task :: "jsval \<Rightarrow> int \<Rightarrow> ustr \<Rightarrow> provision_task" where
  "started_task task_id now i =
     \<lparr>pv_taskId = task_id, pv_status = JStr (str ''running''), pv_progress = JNum (jsint 5),
      pv_message = JStr creating_text, pv_startedAt = JNum (jsint now), pv_finishedAt = JUndef,
      pv_projectId = JStr i, pv_clusterId = JUndef\<rparr>"

definition failed_task :: "ustr option \<Rightarrow> int \<Rightarrow> ustr \<Rightarrow> provision_task" where
  "failed_task err now i =
     \<lparr>pv_taskId = JStr (str ''local-'' @ int_str now), pv_status = JStr (str ''failed''),
      pv_progress = JNum (jsint 100),
      pv_message = JStr (create_failed_text @ (case err of
        None \<Rightarrow> str ''unknown error'' | Some e \<Rightarrow> if e = [] then str ''unknown error'' else e)),
      pv_startedAt = JNum (jsint now), pv_finishedAt = JNum (jsint now), pv_projectId = JStr i,
      pv_clusterId = JUndef\<rparr>"

text \<open>The result tells whether the handler goes on to reload the workspace.\<close>

definition create_provisioned ::
  "ustr \<Rightarrow> provision_result \<Rightarrow> int \<Rightarrow> app_state \<Rightarrow> app_state \<times> bool"
where
  "create_provisioned i pr now s =
     (if truthy (pr_taskId pr) then (set_task (Some (started_task (pr_taskId pr) now i)) s, pr_ok pr)
      else if \<not> pr_ok pr then
        (let s1 = set_task (Some (failed_task (pr_error pr) now i)) s
         in (setProjects (filter (\<lambda>p. pj_id p \<noteq> i) (ap_projects s1)) s1, False))
      else (s, True))"

definition create_reloaded :: "ustr \<Rightarrow> reply \<Rightarrow> app_state \<Rightarrow> app_state" where
  "create_reloaded i r s = (case loadProjectsFromBackend r of
     None \<Rightarrow> s
   | Some remote \<Rightarrow>
       (setProjects remote s)
         \<lparr>ap_selectedProjectId := i,
          ap_selectedClusterId := first_cluster_id (find_first (\<lambda>p. pj_id p = i) remote),
          ap_highlightedComponentIds := [], ap_currentView := ClusterHome\<rparr>)"

section \<open>Tasks\<close>

definition task_running :: "provision_task option \<Rightarrow> bool" where
  "task_running t = (case t of
     None \<Rightarrow> False
   | Some t \<Rightarrow> truthy (pv_taskId t) \<and> pv_status t \<noteq> JStr (str ''success'') \<and>
       pv_status t \<noteq> JStr (str ''failed''))"

text \<open>
  The answer of a poll or of a manual refresh is merged into whatever task is current by then;
  a poll is on its way only while a task is running, a refresh whenever there is one.
\<close>

definition merge_task :: "provision_task \<Rightarrow> provision_task \<Rightarrow> provision_task" where
  "merge_task task prev = prev\<lparr>pv_status := pv_status task, pv_progress := pv_progress task,
     pv_message := or_js (pv_message task) (pv_message prev),
     pv_startedAt := or_js (pv_startedAt task) (pv_startedAt prev),
     pv_finishedAt := pv_finishedAt task\<rparr>"

definition poll_answered :: "reply \<Rightarrow> app_state \<Rightarrow> app_state" where
  "poll_answered r s = (case getProvisionTask r of
     None \<Rightarrow> s | Some t \<Rightarrow> set_task (map_option (merge_task t) (ap_provisionTask s)) s)"

definition refreshProvisionTask :: "reply \<Rightarrow> app_state \<Rightarrow> app_state" where
  "refreshProvisionTask r s =
     (case ap_provisionTask s of
        None \<Rightarrow> s | Some t \<Rightarrow> if truthy (pv_taskId t) then poll_answered r s else s)"

definition refreshRecentTasks :: "reply \<Rightarrow> app_state \<Rightarrow> app_state" where
  "refreshRecentTasks r s = s\<lparr>ap_recentTasks := listProvisionTasks r\<rparr>"

definition resume_task :: "reply \<Rightarrow> app_state \<Rightarrow> app_state" where
  "resume_task r s = (case listProvisionTasks r of
     [] \<Rightarrow> s
   | t # _ \<Rightarrow>
       if pv_status t = JStr (str ''running'')
       then set_task (Some (t\<lparr>pv_message := or_js (pv_message t) (JStr resuming_text),
              pv_projectId := JUndef, pv_clusterId := JUndef\<rparr>)) s
       else s)"

text \<open>
  The effects of a change of the task: it is mirrored to the storage, a failure opens the list of
  failed tasks, and a success makes the page reload the workspace and dismisses the task later.
\<close>

definition task_effects :: "app_state \<Rightarrow> app_state" where
  "task_effects s = (case ap_provisionTask s of
     None \<Rightarrow> s\<lparr>ap_storage := None\<rparr>
   | Some t \<Rightarrow>
       (let s1 = s\<lparr>ap_storage := Some (json_stringify (task_json t))\<rparr>
        in if pv_status t = JStr (str ''failed'')
           then s1\<lparr>ap_showRecentTasks := True, ap_recentTaskFilter := FailedTasks\<rparr> else s1))"

definition success_effect :: "reply \<Rightarrow> app_state \<Rightarrow> app_state" where
  "success_effect r s = (case ap_provisionTask s of
     None \<Rightarrow> s
   | Some t \<Rightarrow> if pv_status t = JStr (str ''success'') then reloadWorkspaceFromBackend r s else s)"

definition dismiss_task :: "app_state \<Rightarrow> app_state" where
  "dismiss_task s = set_task None s"

definition taskStatusLabel :: "ustr \<Rightarrow> ustr" where
  "taskStatusLabel st =
     (if st = str ''running'' then [0x8FDB, 0x884C, 0x4E2D]
      else if st = str ''success'' then [0x6210, 0x529F]
      else if st = str ''failed'' then [0x5931, 0x8D25] else st)"

text \<open>Times in milliseconds; an absent or zero start gives 0.\<close>

definition taskDurationSec :: "int \<Rightarrow> int option \<Rightarrow> int option \<Rightarrow> int" where
  "taskDurationSec now startedAt finishedAt = (case startedAt of
     None \<Rightarrow> 0
   | Some st \<Rightarrow> if st = 0 then 0
       else max 0 (((case finishedAt of Some f \<Rightarrow> f | None \<Rightarrow> now) - st) div 1000))"

section \<open>Runs of the page\<close>

datatype app_event =
    Bootstrapped reply
  | Reloaded reply
  | WorkspaceOp pg_config workspace_op
  | ProjectPageCluster pg_config ustr ustr ustr
  | ProjectPageComponent ustr ustr
  | SaveTimerFired
  | SaveAnswered reply
  | PreviewConfirmed pg_config ustr "nat \<Rightarrow> ustr" replication_template ustr template_params
  | CreateConfirmed ustr ustr
  | CreateProvisioned ustr provision_result int
  | CreateReloaded ustr reply
  | PollAnswered reply
  | Refreshed reply
  | RecentAnswered reply
  | ResumeAnswered reply
  | SuccessReloaded reply
  | TaskDismissed
  | NavigatedToCluster ustr ustr
  | NodeClicked cluster_node

definition app_handle :: "app_event \<Rightarrow> app_state \<Rightarrow> app_state" where
  "app_handle e s = (case e of
     Bootstrapped r \<Rightarrow> bootstrap r s
   | Reloaded r \<Rightarrow> reloadWorkspaceFromBackend r s
   | WorkspaceOp cfg x \<Rightarrow> app_op cfg x s
   | ProjectPageCluster cfg i n p \<Rightarrow> create_cluster_in cfg i n p s
   | ProjectPageComponent i p \<Rightarrow> create_component_in i p s
   | SaveTimerFired \<Rightarrow> save_timer_fires s
   | SaveAnswered r \<Rightarrow> save_answered r s
   | PreviewConfirmed cfg i g t n u \<Rightarrow> handleTemplateConfirm_preview cfg i g t n u s
   | CreateConfirmed i n \<Rightarrow> handleTemplateConfirm_create i n s
   | CreateProvisioned i pr now \<Rightarrow> fst (create_provisioned i pr now s)
   | CreateReloaded i r \<Rightarrow> create_reloaded i r s
   | PollAnswered r \<Rightarrow> poll_answered r s
   | Refreshed r \<Rightarrow> refreshProvisionTask r s
   | RecentAnswered r \<Rightarrow> refreshRecentTasks r s
   | ResumeAnswered r \<Rightarrow> resume_task r s
   | SuccessReloaded r \<Rightarrow> success_effect r s
   | TaskDismissed \<Rightarrow> dismiss_task s
   | NavigatedToCluster p c \<Rightarrow> navigate_to_cluster p c s
   | NodeClicked n \<Rightarrow> node_clicked n s)"

text \<open>An event is handled, then the effects of the render run.\<close>

definition app_step :: "app_event \<Rightarrow> app_state \<Rightarrow> app_state" where
  "app_step e s = task_effects (selection_effect (app_handle e s))"

section \<open>Nothing is left unsaved\<close>

definition saved_or_pending :: "app_state \<Rightarrow> bool" where
  "saved_or_pending s \<longleftrightarrow> ap_workspaceBootstrapped s \<longrightarrow>
     ap_saveTimer s = Some (ap_projects s) \<or>
     ap_saveTimer s = None \<and> ap_puts s \<noteq> [] \<and> last (ap_puts s) = ap_projects s"

text \<open>The part of the state that matters, and the steps that leave it alone.\<close>

definition save_part ::
  "app_state \<Rightarrow> bool \<times> workspace_project list \<times> workspace_project list option \<times> workspace_project list list"
where
  "save_part s = (ap_workspaceBootstrapped s, ap_projects s, ap_saveTimer s, ap_puts s)"

lemma save_part_cong: "save_part s' = save_part s \<Longrightarrow> saved_or_pending s' = saved_or_pending s"
  by (simp add: save_part_def saved_or_pending_def)

lemma saved_setProjects [simp]: "saved_or_pending (setProjects ps s)"
  by (simp add: saved_or_pending_def setProjects_def autosave_effect_def)

lemma saved_update [simp]:
  "saved_or_pending (s\<lparr>ap_selectedProjectId := a\<rparr>) = saved_or_pending s"
  "saved_or_pending (s\<lparr>ap_selectedClusterId := a\<rparr>) = saved_or_pending s"
  "saved_or_pending (s\<lparr>ap_selectedNodeId := a\<rparr>) = saved_or_pending s"
  "saved_or_pending (s\<lparr>ap_currentView := v\<rparr>) = saved_or_pending s"
  "saved_or_pending (s\<lparr>ap_showTemplateDialog := b\<rparr>) = saved_or_pending s"
  "saved_or_pending (s\<lparr>ap_highlightedComponentIds := l\<rparr>) = saved_or_pending s"
  "saved_or_pending (s\<lparr>ap_workspaceSyncError := a\<rparr>) = saved_or_pending s"
  "saved_or_pending (s\<lparr>ap_provisionTask := t\<rparr>) = saved_or_pending s"
  "saved_or_pending (s\<lparr>ap_recentTasks := ts\<rparr>) = saved_or_pending s"
  "saved_or_pending (s\<lparr>ap_showRecentTasks := b\<rparr>) = saved_or_pending s"
  "saved_or_pending (s\<lparr>ap_recentTaskFilter := f\<rparr>) = saved_or_pending s"
  "saved_or_pending (s\<lparr>ap_storage := x\<rparr>) = saved_or_pending s"
  by (simp_all add: saved_or_pending_def)

lemma saved_effects [simp]:
  "saved_or_pending (selection_effect s) = saved_or_pending s"
  "saved_or_pending (task_effects s) = saved_or_pending s"
  by (simp_all add: selection_effect_def task_effects_def Let_def split: option.split)

lemma saved_reload: "saved_or_pending s \<Longrightarrow> saved_or_pending (reloadWorkspaceFromBackend r s)"
  by (simp add: reloadWorkspaceFromBackend_def Let_def split: option.split)

lemma saved_op: "saved_or_pending s \<Longrightarrow> saved_or_pending (app_op cfg x s)"
  by (simp add: app_op_def Let_def split: workspace_op.split)

lemma saved_create: "saved_or_pending s \<Longrightarrow> saved_or_pending (handleTemplateConfirm_create i n s)"
  by (simp add: handleTemplateConfirm_create_def Let_def)
    (simp add: saved_or_pending_def setProjects_def autosave_effect_def)

lemma saved_bootstrap: "saved_or_pending (bootstrap r s)"
  by (simp add: bootstrap_def autosave_effect_def saved_or_pending_def)

lemma saved_timer: "saved_or_pending s \<Longrightarrow> saved_or_pending (save_timer_fires s)"
  by (auto simp: save_timer_fires_def saved_or_pending_def split: option.split)

lemma saved_poll: "saved_or_pending s \<Longrightarrow> saved_or_pending (poll_answered r s)"
  by (simp add: poll_answered_def set_task_def split: option.split)

lemma saved_handle: "saved_or_pending s \<Longrightarrow> saved_or_pending (app_handle e s)"
  by (cases e)
    (simp_all add: app_handle_def saved_reload saved_op saved_create saved_bootstrap saved_timer
      saved_poll create_cluster_in_def create_component_in_def save_answered_def
      handleTemplateConfirm_preview_def create_provisioned_def set_task_def create_reloaded_def
      refreshProvisionTask_def refreshRecentTasks_def resume_task_def success_effect_def
      dismiss_task_def navigate_to_cluster_def node_clicked_def Let_def
      split: option.split list.split)


text \<open>
  A load that fails for whatever reason is followed by the autosave of the empty list, which
  replaces what the backend holds.
\<close>

lemma failed_load_saves_empty_workspace:
  "ap_puts (app_step SaveTimerFired (app_step (Bootstrapped (Responded 500 [] [])) (init_app None))) = [[]]"
  by (simp add: app_step_def app_handle_def bootstrap_def loadProjectsFromBackend_def reply_json_def
      response_ok_def autosave_effect_def save_timer_fires_def init_app_def selection_effect_def
      selectedProject_def find_first_def head_opt_def or_else_def task_effects_def
      loadProvisionTaskCache_def)

text \<open>A preview, too, becomes part of the workspace and is saved with it.\<close>

lemma preview_is_saved:
  assumes "ap_workspaceBootstrapped s"
  shows "\<exists>p. ap_saveTimer (handleTemplateConfirm_preview cfg i genId t name params s) =
    Some (ap_projects s @ [p]) \<and> pj_id p = i"
  using assms
  by (simp add: handleTemplateConfirm_preview_def setProjects_def autosave_effect_def Let_def)

text \<open>The page of the hosts is not shown without a connection, although it needs none.\<close>

lemma host_page_needs_connection:
  "\<not> ap_connected s \<Longrightarrow> shown_view (s\<lparr>ap_currentView := HostManagement\<rparr>) = None"
  by (simp add: shown_view_def)

section \<open>The selection\<close>

lemma find_first_Some: "find_first P xs = Some x \<Longrightarrow> P x \<and> x \<in> set xs"
proof -
  assume "find_first P xs = Some x"
  then obtain ys where "filter P xs = x # ys" by (auto simp: find_first_def split: list.splits)
  then have "x \<in> set (filter P xs)" by (simp only: list.set_intros)
  then show ?thesis by simp
qed

lemma find_first_None: "find_first P xs = None \<longleftrightarrow> (\<forall>x \<in> set xs. \<not> P x)"
proof -
  have "find_first P xs = None \<longleftrightarrow> filter P xs = []" by (simp add: find_first_def split: list.split)
  then show ?thesis by (simp add: filter_empty_conv)
qed

lemma find_first_exists:
  "x \<in> set xs \<Longrightarrow> P x \<Longrightarrow> \<exists>y. find_first P xs = Some y \<and> P y \<and> y \<in> set xs"
  using find_first_None [of P xs] find_first_Some [of P xs] by (cases "find_first P xs") auto

lemma find_first_head: "P x \<Longrightarrow> find_first P (x # xs) = Some x"
  by (simp add: find_first_def)

lemma selection_frame [simp]:
  "ap_projects (selection_effect s) = ap_projects s"
  by (simp add: selection_effect_def Let_def split: option.split)

lemma selection_project:
  "selectedProject (selection_effect s) = selectedProject s"
proof (cases "selectedProject s")
  case None
  then show ?thesis by (simp add: selection_effect_def)
next
  case (Some p)
  have id: "ap_selectedProjectId (selection_effect s) =
      (if ap_selectedProjectId s = [] then pj_id p else ap_selectedProjectId s)"
    by (simp add: selection_effect_def Some Let_def split: option.split)
  show ?thesis
  proof (cases "ap_selectedProjectId s = []")
    case False
    then show ?thesis by (simp add: selectedProject_def id)
  next
    case True
    show ?thesis
    proof (cases "find_first (\<lambda>q. pj_id q = []) (ap_projects s)")
      case None
      with Some True obtain ps where ps: "ap_projects s = p # ps"
        by (auto simp: selectedProject_def or_else_def head_opt_def split: list.splits)
      then show ?thesis
        using True Some by (simp add: selectedProject_def id find_first_head or_else_def)
    next
      case (Some q)
      with \<open>selectedProject s = Some p\<close> True have "pj_id p = []"
        using find_first_Some [OF Some] by (auto simp: selectedProject_def or_else_def)
      then show ?thesis using True by (simp add: selectedProject_def id)
    qed
  qed
qed

definition selection_ok :: "app_state \<Rightarrow> bool" where
  "selection_ok s = (case selectedProject s of
     None \<Rightarrow> ap_projects s = []
   | Some p \<Rightarrow> pj_clusters p = [] \<or>
       (\<exists>c \<in> set (pj_clusters p). cl_id c = ap_selectedClusterId s \<and>
          (cl_nodes c = [] \<or> first_node_id c = [] \<or> ap_selectedNodeId s \<noteq> [])))"

text \<open>
  After every render the selection is coherent: a project is selected whenever there is
  one, the selected cluster is one of that project's clusters whenever it has any, and a node is
  selected; and the effect that sees to this reaches a fixed point in one pass.
\<close>

lemma selection_effect_settles:
  "selection_ok (selection_effect s) \<and> selection_effect (selection_effect s) = selection_effect s"
proof (cases "selectedProject s")
  case None
  then have "ap_projects s = []"
    by (auto simp: selectedProject_def or_else_def head_opt_def split: option.splits list.splits)
  with None show ?thesis by (simp add: selection_ok_def selection_effect_def)
next
  case (Some p)
  note sp = Some selection_project [of s]
  show ?thesis
  proof (cases "or_else (find_first (\<lambda>c. cl_id c = ap_selectedClusterId s) (pj_clusters p))
      (head_opt (pj_clusters p))")
    case None
    then have "pj_clusters p = []"
      by (auto simp: or_else_def head_opt_def split: option.splits list.splits)
    with sp show ?thesis
      by (simp add: selection_ok_def selection_effect_def Let_def or_else_def find_first_def head_opt_def)
  next
    case (Some c)
    have c: "c \<in> set (pj_clusters p)"
      using Some find_first_Some
      by (fastforce simp: or_else_def head_opt_def split: option.splits list.splits)
    have again: "or_else (find_first (\<lambda>d. cl_id d = cl_id c) (pj_clusters p))
        (head_opt (pj_clusters p)) = Some c"
    proof (cases "find_first (\<lambda>d. cl_id d = ap_selectedClusterId s) (pj_clusters p)")
      case None
      with Some obtain cs where "pj_clusters p = c # cs"
        by (auto simp: or_else_def head_opt_def split: list.splits)
      then show ?thesis by (simp add: find_first_head or_else_def)
    next
      case (Some d)
      then have "d = c" "cl_id c = ap_selectedClusterId s"
        using \<open>or_else _ _ = Some c\<close> find_first_Some [OF Some] by (simp_all add: or_else_def)
      with Some show ?thesis by (simp add: or_else_def)
    qed
    define s' where "s' = selection_effect s"
    have s': "ap_selectedClusterId s' = cl_id c" "selectedProject s' = Some p"
      "ap_selectedProjectId s' = [] \<longrightarrow> pj_id p = []"
      "ap_selectedNodeId s' = (if ap_selectedNodeId s = [] then first_node_id c else ap_selectedNodeId s)"
      using sp Some by (simp_all add: s'_def, auto simp: selection_effect_def Let_def)
    have "selection_ok s'"
      using s' c by (auto simp: selection_ok_def intro!: bexI [of _ c])
    moreover have "selection_effect s' = s'"
      using s' again by (cases s') (auto simp: selection_effect_def Let_def)
    ultimately show ?thesis by (simp add: s'_def)
  qed
qed

section \<open>Provisioning\<close>



text \<open>
  A poll only reports progress: whatever the backend answers, it neither starts, replaces
  nor dismisses a task, does not touch the workspace, and a missing message or start time keeps
  the old one.
\<close>

lemma poll_keeps_identity:
  "map_option pv_taskId (ap_provisionTask (poll_answered r s)) = map_option pv_taskId (ap_provisionTask s) \<and>
   map_option pv_projectId (ap_provisionTask (poll_answered r s)) =
     map_option pv_projectId (ap_provisionTask s) \<and>
   save_part (poll_answered r s) = save_part s \<and>
   (case getProvisionTask r of
      None \<Rightarrow> poll_answered r s = s
    | Some t \<Rightarrow>
        map_option pv_status (ap_provisionTask (poll_answered r s)) =
          map_option (\<lambda>_. pv_status t) (ap_provisionTask s) \<and>
        map_option pv_message (ap_provisionTask (poll_answered r s)) =
          map_option (\<lambda>u. or_js (pv_message t) (pv_message u)) (ap_provisionTask s))"
  by (cases "ap_provisionTask s")
    (simp_all add: poll_answered_def set_task_def merge_task_def save_part_def split: option.split)

text \<open>
  The answer is not matched with the task that is current when it arrives: the success of one
  task is taken for that of another that has replaced it.
\<close>

lemma late_poll_finishes_other_task:
  assumes "getProvisionTask r = Some t" "pv_status t = JStr (str ''success'')"
    and "ap_provisionTask s = Some (started_task (JStr (str ''other'')) now i)"
  shows "\<not> task_running (ap_provisionTask (poll_answered r s))"
  using assms by (simp add: poll_answered_def set_task_def task_running_def merge_task_def)

text \<open>
  The task survives a restart of the page: a task with an id and a status, as every running
  task has, is read back from its cached JSON value as it was.
\<close>

lemma task_cache_roundtrip:
  assumes "task_ok t"
  shows "cached_task (task_json t) = Some t"
  using assms
  by (cases t; cases "pv_progress t"; cases "pv_message t")
    (auto simp: task_ok_def cached_task_def task_json_def js_prop_def field_def)

text \<open>
  A reload replaces what is shown, and the autosave that was pending with it: a change that had not
  reached the backend when it answered is lost, on the page and in the backend.
\<close>

lemma reload_drops_pending_change:
  assumes "loadProjectsFromBackend r = Some remote" "ap_workspaceBootstrapped s"
  shows "ap_projects (reloadWorkspaceFromBackend r s) = remote \<and>
    ap_saveTimer (reloadWorkspaceFromBackend r s) = Some remote"
  using assms by (simp add: reloadWorkspaceFromBackend_def setProjects_def autosave_effect_def Let_def)

end
