(* ===== verification/ClusterHome.thy ===== *)
theory ClusterHome
  imports EditForms App
begin

text \<open>
  \<^verbatim>\<open>components/workspace/ClusterHomeView.tsx\<close>: what the cluster page derives from the selected
  cluster and the status the backend reports (topology, alerts, summary), its log, and its
  handlers for scanning and importing.
  The texts an engine gives to the exceptions it raises itself are an argument.
\<close>

section \<open>Status reported by the backend\<close>

record replication_channel =
  ch_name :: ustr
  ch_state :: ustr
  ch_sync_state :: ustr
  ch_sent_lsn :: "ustr option"
  ch_write_lsn :: "ustr option"
  ch_flush_lsn :: "ustr option"
  ch_replay_lsn :: "ustr option"
  ch_lag_bytes :: "jsnum option"
  ch_write_lag :: "ustr option"
  ch_flush_lag :: "ustr option"
  ch_replay_lag :: "ustr option"

record logical_subscription =
  ls_name :: ustr
  ls_enabled :: bool
  ls_worker_type :: "ustr option"
  ls_received_lsn :: "ustr option"
  ls_latest_end_lsn :: "ustr option"
  ls_latest_end_time :: "ustr option"

record cluster_node_status =
  ns_id :: ustr
  ns_name :: ustr
  ns_host :: ustr
  ns_port :: int
  ns_database :: ustr
  ns_cluster_type :: cluster_type
  ns_role :: ustr
  ns_connected :: bool
  ns_error :: "ustr option"
  ns_version :: "ustr option"
  ns_in_recovery :: bool
  ns_connectionStatus :: ustr
  ns_lastError :: "ustr option"
  ns_current_lsn :: "ustr option"
  ns_replay_lsn :: "ustr option"
  ns_wal_receiver_status :: "ustr option"
  ns_physical_replication :: "replication_channel list option"
  ns_logical_slots :: jsnum
  ns_publications :: jsnum
  ns_subscriptions :: "logical_subscription list option"

section \<open>Derived values\<close>

definition home_cluster :: "workspace_project option \<Rightarrow> ustr \<Rightarrow> workspace_cluster option" where
  "home_cluster project selected = (case project of
     None \<Rightarrow> None
   | Some p \<Rightarrow> or_else (find_first (\<lambda>c. cl_id c = selected) (pj_clusters p)) (head_opt (pj_clusters p)))"

fun num_scale :: "rat \<Rightarrow> jsnum \<Rightarrow> jsnum" where
  "num_scale k (Fin q) = Fin (q * k)"
| "num_scale k v = v"

definition alertThresholdSec :: "workspace_cluster option \<Rightarrow> jsnum" where
  "alertThresholdSec c = (case Option.bind c cl_alertThresholdSec of Some v \<Rightarrow> v | None \<Rightarrow> Fin 30)"

definition alertThresholdBytes :: "workspace_cluster option \<Rightarrow> jsnum" where
  "alertThresholdBytes c = num_scale (1024 * 1024) (alertThresholdSec c)"

definition clusterStatuses ::
  "workspace_cluster option \<Rightarrow> cluster_node_status list \<Rightarrow> cluster_node_status list"
where
  "clusterStatuses c nodes = (case c of
     None \<Rightarrow> [] | Some k \<Rightarrow> filter (\<lambda>n. ns_id n \<in> set (map nd_id (cl_nodes k))) nodes)"

record home_summary =
  hs_totalClusters :: nat
  hs_totalNodes :: nat
  hs_connectedNodes :: nat
  hs_unhealthyNodes :: nat
  hs_primaryCount :: nat
  hs_standbyCount :: nat

definition is_primary :: "cluster_node \<Rightarrow> bool" where
  "is_primary n \<longleftrightarrow> nd_role n = str ''primary''"

definition home_summary_of ::
  "workspace_project option \<Rightarrow> workspace_cluster option \<Rightarrow> cluster_node_status list \<Rightarrow> home_summary"
where
  "home_summary_of project c nodes =
     (let clusters = (case project of Some p \<Rightarrow> pj_clusters p | None \<Rightarrow> []);
          members = (case c of Some k \<Rightarrow> cl_nodes k | None \<Rightarrow> []);
          primaries = length (filter is_primary members)
      in \<lparr>hs_totalClusters = length clusters,
          hs_totalNodes = fold (\<lambda>k acc. acc + length (cl_nodes k)) clusters 0,
          hs_connectedNodes = length (filter ns_connected nodes),
          hs_unhealthyNodes = length (filter (\<lambda>n. \<not> ns_connected n) nodes),
          hs_primaryCount = primaries, hs_standbyCount = length members - primaries\<rparr>)"

record edge_info =
  eg_from :: ustr
  eg_to :: ustr
  eg_label :: ustr

definition hub_node :: "ustr \<Rightarrow> cluster_node list \<Rightarrow> cluster_node option" where
  "hub_node role nodes = or_else (find_first (\<lambda>n. nd_role n = role) nodes) (head_opt nodes)"

definition topologyEdges :: "workspace_cluster option \<Rightarrow> edge_info list" where
  "topologyEdges c = (case c of
     None \<Rightarrow> []
   | Some k \<Rightarrow>
       (let physical = (cl_replicationType k = Physical);
            role = (if physical then str ''primary'' else str ''publisher'');
            lbl = (if physical then str ''WAL'' else str ''LOGICAL'')
        in case hub_node role (cl_nodes k) of
             None \<Rightarrow> []
           | Some h \<Rightarrow> map (\<lambda>n. \<lparr>eg_from = nd_id h, eg_to = nd_id n, eg_label = lbl\<rparr>)
               (filter (\<lambda>n. nd_id n \<noteq> nd_id h) (cl_nodes k))))"

definition arrow :: ustr where "arrow = str ''->''"

definition edge_key :: "edge_info \<Rightarrow> ustr" where
  "edge_key e = eg_from e @ arrow @ eg_to e"

text \<open>\<^verbatim>\<open>key.split('->')\<close>\<close>

function split_arrow :: "ustr \<Rightarrow> ustr \<Rightarrow> ustr list" where
  "split_arrow acc [] = [acc]"
| "split_arrow acc (c # cs) =
     (if starts_with arrow (c # cs) then acc # split_arrow [] (drop 2 (c # cs))
      else split_arrow (acc @ [c]) cs)"
  by pat_completeness auto
termination
  by (relation "measure (\<lambda>(a, s). length s)") auto

definition pickChannel ::
  "replication_channel list option \<Rightarrow> ustr \<Rightarrow> replication_channel option"
where
  "pickChannel channels node_name = (case channels of
     None \<Rightarrow> None
   | Some cs \<Rightarrow> find_first (\<lambda>c. str_includes (to_lower node_name) (to_lower (ch_name c))) cs)"

record edge_detail =
  ed_mode :: ustr
  ed_from :: ustr
  ed_to :: ustr
  ed_state :: ustr
  ed_syncState :: ustr
  ed_lagBytes :: jsnum
  ed_isAlert :: bool

definition or_dash :: "ustr option \<Rightarrow> ustr" where
  "or_dash x = (case x of Some t \<Rightarrow> if t = [] then str ''-'' else t | None \<Rightarrow> str ''-'')"

definition selectedEdgeDetail ::
  "workspace_cluster option \<Rightarrow> cluster_node_status list \<Rightarrow> ustr \<Rightarrow> edge_detail option"
where
  "selectedEdgeDetail c overview key = (case c of
     None \<Rightarrow> None
   | Some k \<Rightarrow>
       if key = [] then None
       else (case split_arrow [] key of
         from_id # to_id # _ \<Rightarrow>
           (case (find_first (\<lambda>n. nd_id n = from_id) (cl_nodes k),
                  find_first (\<lambda>n. nd_id n = to_id) (cl_nodes k)) of
              (Some f, Some t) \<Rightarrow>
                (let st = (\<lambda>i. find_first (\<lambda>x. ns_id x = i) (clusterStatuses c overview))
                 in if cl_replicationType k = Physical then
                      (let ch = pickChannel (Option.bind (st from_id) ns_physical_replication) (nd_name t);
                           lag = (case Option.bind ch ch_lag_bytes of Some v \<Rightarrow> v | None \<Rightarrow> Fin 0)
                       in Some \<lparr>ed_mode = [0x7269, 0x7406, 0x590D, 0x5236], ed_from = nd_name f,
                            ed_to = nd_name t, ed_state = or_dash (map_option ch_state ch),
                            ed_syncState = or_dash (map_option ch_sync_state ch), ed_lagBytes = lag,
                            ed_isAlert = (lag \<noteq> NaN \<and> num_le (alertThresholdBytes c) lag)\<rparr>)
                    else
                      (let sub = Option.bind (Option.bind (st to_id) ns_subscriptions) head_opt
                       in Some \<lparr>ed_mode = [0x903B, 0x8F91, 0x590D, 0x5236], ed_from = nd_name f,
                            ed_to = nd_name t,
                            ed_state = (if map_option ls_enabled sub = Some True
                              then str ''enabled'' else str ''disabled''),
                            ed_syncState = or_dash (Option.bind sub ls_worker_type),
                            ed_lagBytes = Fin 0, ed_isAlert = False\<rparr>))
            | _ \<Rightarrow> None)
       | _ \<Rightarrow> None))"

definition filteredNodes :: "workspace_cluster option \<Rightarrow> ustr option \<Rightarrow> cluster_node list" where
  "filteredNodes c source = (case (c, source) of
     (None, _) \<Rightarrow> []
   | (Some k, None) \<Rightarrow> cl_nodes k
   | (Some k, Some s) \<Rightarrow> filter (\<lambda>n. or_default (nd_source n) (str ''manual'') = s) (cl_nodes k))"

section \<open>The topology is a star\<close>

lemma hub_node_member: "hub_node role nodes = Some h \<Longrightarrow> h \<in> set nodes"
  by (auto simp: hub_node_def or_else_def head_opt_def dest: find_first_Some
      split: option.splits list.splits)

lemma hub_node_exists: "nodes \<noteq> [] \<Longrightarrow> \<exists>h. hub_node role nodes = Some h"
  by (cases nodes) (auto simp: hub_node_def or_else_def head_opt_def split: option.split)

lemma length_filter_others:
  "distinct (map f xs) \<Longrightarrow> x \<in> set xs \<Longrightarrow> length (filter (\<lambda>y. f y \<noteq> f x) xs) = length xs - 1"
proof (induction xs)
  case Nil
  then show ?case by simp
next
  case (Cons a xs)
  show ?case
  proof (cases "x = a")
    case True
    from Cons.prems(1) have "f a \<notin> f ` set xs" by simp
    then have "\<forall>y \<in> set xs. f y \<noteq> f a" by (metis imageI)
    with True show ?thesis by (simp add: filter_id_conv [THEN iffD2])
  next
    case False
    with Cons.prems have x: "x \<in> set xs" "f a \<noteq> f x" by auto
    then have "xs \<noteq> []" by auto
    with x Cons show ?thesis by (cases xs) auto
  qed
qed

text \<open>
  The topology of a well-formed cluster is a star: one of its nodes is the hub, the first
  one with the leading role if any has it, and there is exactly one edge from the hub to each
  other node, in the order of the nodes, and no other edge.
\<close>

lemma topology_is_star:
  assumes "cluster_ok c"
  shows "\<exists>h \<in> set (cl_nodes c).
    map eg_to (topologyEdges (Some c)) = filter (\<lambda>i. i \<noteq> nd_id h) (map nd_id (cl_nodes c)) \<and>
    map eg_from (topologyEdges (Some c)) = replicate (length (cl_nodes c) - 1) (nd_id h) \<and>
    ((\<exists>n \<in> set (cl_nodes c). nd_role n =
        (if cl_replicationType c = Physical then str ''primary'' else str ''publisher'')) \<longrightarrow>
      nd_role h = (if cl_replicationType c = Physical then str ''primary'' else str ''publisher''))"
proof -
  let ?role = "if cl_replicationType c = Physical then str ''primary'' else str ''publisher''"
  from assms have ne: "cl_nodes c \<noteq> []" and d: "distinct (map nd_id (cl_nodes c))"
    by (simp_all add: cluster_ok_def)
  obtain h where h: "hub_node ?role (cl_nodes c) = Some h" using hub_node_exists [OF ne] by blast
  then have mem: "h \<in> set (cl_nodes c)" by (rule hub_node_member)
  let ?others = "filter (\<lambda>n. nd_id n \<noteq> nd_id h) (cl_nodes c)"
  have edges: "map eg_to (topologyEdges (Some c)) = map nd_id ?others"
    "map eg_from (topologyEdges (Some c)) = map (\<lambda>_. nd_id h) ?others"
    using h by (simp_all add: topologyEdges_def Let_def comp_def)
  have len: "length ?others = length (cl_nodes c) - 1" using d mem by (rule length_filter_others)
  have to: "map nd_id ?others = filter (\<lambda>i. i \<noteq> nd_id h) (map nd_id (cl_nodes c))"
    by (simp add: filter_map comp_def)
  have role: "nd_role h = ?role" if ex: "\<exists>n \<in> set (cl_nodes c). nd_role n = ?role"
  proof -
    from ex obtain n where "n \<in> set (cl_nodes c)" "nd_role n = ?role" by blast
    from find_first_exists [of n "cl_nodes c" "\<lambda>n. nd_role n = ?role", OF this]
    obtain x where "find_first (\<lambda>n. nd_role n = ?role) (cl_nodes c) = Some x" "nd_role x = ?role"
      by blast
    with h show ?thesis by (simp add: hub_node_def or_else_def)
  qed
  have "map eg_from (topologyEdges (Some c)) = replicate (length (cl_nodes c) - 1) (nd_id h)"
    unfolding edges(2) map_replicate_const len ..
  with edges(1) to role mem show ?thesis by (intro bexI [of _ h] conjI impI) simp_all
qed

lemma split_arrow_plain: "62 \<notin> set s \<Longrightarrow> split_arrow acc s = [acc @ s]"
proof (induction acc s rule: split_arrow.induct)
  case (2 acc c cs)
  then have "\<not> starts_with arrow (c # cs)" by (cases cs) (auto simp: arrow_def str_def)
  with 2 show ?case by simp
qed simp

lemma split_arrow_key: "62 \<notin> set a \<Longrightarrow> split_arrow acc (a @ arrow @ b) = (acc @ a) # split_arrow [] b"
proof (induction a arbitrary: acc)
  case Nil
  then show ?case by (simp add: arrow_def str_def)
next
  case (Cons c a)
  have "\<not> starts_with arrow (c # a @ arrow @ b)"
    using Cons.prems by (cases a) (auto simp: arrow_def str_def)
  with Cons show ?case by simp
qed

text \<open>
  Selecting an edge of the topology shows that edge: if the ids of the nodes contain no
  \<^verbatim>\<open>>\<close>, the key of an edge is taken apart into the two ids it was made of, and the detail
  shown names the two nodes it connects.
\<close>

lemma selected_edge_is_shown:
  assumes "e \<in> set (topologyEdges (Some c))"
    and "\<forall>n \<in> set (cl_nodes c). 62 \<notin> set (nd_id n)"
  shows "split_arrow [] (edge_key e) = [eg_from e, eg_to e] \<and>
    (\<exists>d f t. selectedEdgeDetail (Some c) overview (edge_key e) = Some d \<and>
      f \<in> set (cl_nodes c) \<and> t \<in> set (cl_nodes c) \<and>
      nd_id f = eg_from e \<and> nd_id t = eg_to e \<and> ed_from d = nd_name f \<and> ed_to d = nd_name t)"
proof -
  obtain h n where hn: "h \<in> set (cl_nodes c)" "n \<in> set (cl_nodes c)" "eg_from e = nd_id h"
    "eg_to e = nd_id n"
    using assms(1)
    by (auto simp: topologyEdges_def Let_def split: option.splits dest!: hub_node_member [OF sym])
  then have split: "split_arrow [] (edge_key e) = [eg_from e, eg_to e]"
    using assms(2) by (simp add: edge_key_def split_arrow_key split_arrow_plain)
  obtain f where f: "find_first (\<lambda>m. nd_id m = eg_from e) (cl_nodes c) = Some f"
    "nd_id f = eg_from e" "f \<in> set (cl_nodes c)"
    using find_first_exists [of h "cl_nodes c" "\<lambda>m. nd_id m = eg_from e"] hn by auto
  obtain t where t: "find_first (\<lambda>m. nd_id m = eg_to e) (cl_nodes c) = Some t"
    "nd_id t = eg_to e" "t \<in> set (cl_nodes c)"
    using find_first_exists [of n "cl_nodes c" "\<lambda>m. nd_id m = eg_to e"] hn by auto
  have "edge_key e \<noteq> []" by (simp add: edge_key_def arrow_def)
  then have "\<exists>d. selectedEdgeDetail (Some c) overview (edge_key e) = Some d \<and>
      ed_from d = nd_name f \<and> ed_to d = nd_name t"
    using f(1) t(1) by (simp add: selectedEdgeDetail_def split Let_def)
  with split f t show ?thesis by blast
qed

definition pair_cluster :: workspace_cluster where
  "pair_cluster = \<lparr>cl_id = str ''c'', cl_name = [], cl_replicationType = Physical,
     cl_alertThresholdSec = None, cl_nodes = [default_node sample_cfg (str ''a'') 1,
       default_node sample_cfg (str ''b'') 2]\<rparr>"

text \<open>The channel of a node is looked up by a part of its name, which another node's may contain.\<close>

definition plain_channel :: "ustr \<Rightarrow> replication_channel" where
  "plain_channel n = \<lparr>ch_name = n, ch_state = [], ch_sync_state = [], ch_sent_lsn = None,
     ch_write_lsn = None, ch_flush_lsn = None, ch_replay_lsn = None, ch_lag_bytes = None,
     ch_write_lag = None, ch_flush_lag = None, ch_replay_lag = None\<rparr>"

lemma channel_of_another_node:
  "map_option ch_name (pickChannel (Some
     [plain_channel (str ''node 10''), plain_channel (str ''node 1'')])
     (str ''Node 1'')) = Some (str ''node 10'')"
  by (simp add: pickChannel_def find_first_def to_lower_def str_def plain_channel_def)

section \<open>The state of the page\<close>

record import_log_entry =
  il_ts :: int
  il_level :: ustr
  il_message :: ustr

record discovered_instance =
  di_host :: ustr
  di_port :: int

record cluster_home =
  ch_nodes :: "jsval list"
  ch_error :: ustr
  ch_timestamp :: jsval
  ch_scanLoading :: bool
  ch_scanError :: ustr
  ch_instances :: "jsval list"
  ch_dsnLoading :: bool
  ch_dsnMessage :: ustr
  ch_highlightNodeId :: jsval
  ch_importLogs :: "import_log_entry list"
  ch_editingClusterId :: ustr
  ch_editingClusterName :: ustr
  ch_editingClusterThreshold :: jsnum
  ch_editingNodeId :: ustr
  ch_editingNodeData :: node_patch

definition addLog :: "int \<Rightarrow> ustr \<Rightarrow> ustr \<Rightarrow> cluster_home \<Rightarrow> cluster_home" where
  "addLog now level message s =
     s\<lparr>ch_importLogs := take 20 (\<lparr>il_ts = now, il_level = level, il_message = message\<rparr> # ch_importLogs s)\<rparr>"

definition push_log :: "import_log_entry \<Rightarrow> cluster_home \<Rightarrow> cluster_home" where
  "push_log e = addLog (il_ts e) (il_level e) (il_message e)"

text \<open>The log is kept newest first; read backwards it is a bounded log.\<close>

interpretation import_log: bounded_log push_log "\<lambda>s. rev (ch_importLogs s)" "\<lambda>_. 20" "\<lambda>_. True"
  by unfold_locales (simp_all add: push_log_def addLog_def take_last_def rev_take)

text \<open>
  The import log shows the newest 20 messages, newest first, whatever was logged before.
\<close>

lemma import_log_keeps_newest:
  assumes "length (ch_importLogs s) \<le> 20"
  shows "ch_importLogs (fold (\<lambda>(now, level, message). addLog now level message) es s) =
    take 20 (rev (map (\<lambda>(now, level, message). \<lparr>il_ts = now, il_level = level, il_message = message\<rparr>) es)
      @ ch_importLogs s)"
proof -
  let ?entry = "\<lambda>(now, level, message). \<lparr>il_ts = now, il_level = level, il_message = message\<rparr>"
  have "fold (\<lambda>(now, level, message). addLog now level message) es s = fold push_log (map ?entry es) s"
    by (induction es arbitrary: s) (auto simp: push_log_def)
  moreover have "rev (ch_importLogs (fold push_log (map ?entry es) s)) =
      take_last 20 (rev (ch_importLogs s) @ map ?entry es)"
    using assms by (intro import_log.entries_fold) simp_all
  then have "ch_importLogs (fold push_log (map ?entry es) s) =
      rev (take_last 20 (rev (ch_importLogs s) @ map ?entry es))"
    by (metis rev_rev_ident)
  ultimately show ?thesis by (simp add: rev_take_last del: take_append rev_map)
qed

definition empty_home :: cluster_home where
  "empty_home = \<lparr>ch_nodes = [], ch_error = [], ch_timestamp = JNum (Fin 0), ch_scanLoading = False,
     ch_scanError = [], ch_instances = [], ch_dsnLoading = False, ch_dsnMessage = [],
     ch_highlightNodeId = JStr [], ch_importLogs = [], ch_editingClusterId = [],
     ch_editingClusterName = [], ch_editingClusterThreshold = Fin 30, ch_editingNodeId = [],
     ch_editingNodeData = \<lparr>np_name = Some [], np_host = Some [], np_port = Some 5432,
       np_user = Some [], np_database = Some [], np_cluster_type = None,
       np_role = Some (str ''standby''), np_password = None, np_alertThresholdSec = None\<rparr>\<rparr>"

section \<open>Editing\<close>

definition startEditCluster :: "workspace_project option \<Rightarrow> ustr \<Rightarrow> cluster_home \<Rightarrow> cluster_home" where
  "startEditCluster project i s =
     (case Option.bind project (\<lambda>p. find_first (\<lambda>c. cl_id c = i) (pj_clusters p)) of
        None \<Rightarrow> s
      | Some c \<Rightarrow> s\<lparr>ch_editingClusterId := i, ch_editingClusterName := cl_name c,
          ch_editingClusterThreshold :=
            (case cl_alertThresholdSec c of Some v \<Rightarrow> v | None \<Rightarrow> Fin 30)\<rparr>)"

definition no_patch :: node_patch where
  "no_patch = \<lparr>np_name = None, np_host = None, np_port = None, np_user = None, np_database = None,
     np_cluster_type = None, np_role = None, np_password = None, np_alertThresholdSec = None\<rparr>"

text \<open>The second component is the call of \<^verbatim>\<open>onUpdateClusterNode\<close>, if it is made.\<close>

definition saveEditCluster :: "cluster_home \<Rightarrow> cluster_home \<times> (ustr \<times> ustr \<times> node_patch) option" where
  "saveEditCluster s =
     (if ch_editingClusterId s = [] then (s, None)
      else (s\<lparr>ch_editingClusterId := []\<rparr>,
        Some (ch_editingClusterId s, [], no_patch\<lparr>np_name := Some (ch_editingClusterName s),
          np_alertThresholdSec := Some (ch_editingClusterThreshold s)\<rparr>)))"

definition cancelEditCluster :: "cluster_home \<Rightarrow> cluster_home" where
  "cancelEditCluster s = s\<lparr>ch_editingClusterId := []\<rparr>"

definition startEditNode :: "cluster_node \<Rightarrow> cluster_home \<Rightarrow> cluster_home" where
  "startEditNode n s = s\<lparr>ch_editingNodeId := nd_id n, ch_editingNodeData :=
     no_patch\<lparr>np_name := Some (nd_name n), np_host := Some (nd_host n), np_port := Some (nd_port n),
       np_user := Some (nd_user n), np_database := Some (nd_database n), np_role := Some (nd_role n)\<rparr>\<rparr>"

definition saveEditNode ::
  "workspace_cluster option \<Rightarrow> cluster_home \<Rightarrow> cluster_home \<times> (ustr \<times> ustr \<times> node_patch) option"
where
  "saveEditNode c s = (case c of
     None \<Rightarrow> (s, None)
   | Some k \<Rightarrow>
       if ch_editingNodeId s = [] then (s, None)
       else (s\<lparr>ch_editingNodeId := []\<rparr>, Some (cl_id k, ch_editingNodeId s, ch_editingNodeData s)))"

definition cancelEditNode :: "cluster_home \<Rightarrow> cluster_home" where
  "cancelEditNode s = s\<lparr>ch_editingNodeId := []\<rparr>"

text \<open>The inputs of the two forms.\<close>

definition typeCluster :: "ustr + jsnum \<Rightarrow> cluster_home \<Rightarrow> cluster_home" where
  "typeCluster v s = (case v of Inl n \<Rightarrow> s\<lparr>ch_editingClusterName := n\<rparr>
     | Inr t \<Rightarrow> s\<lparr>ch_editingClusterThreshold := t\<rparr>)"

definition typeNode :: "(node_patch \<Rightarrow> node_patch) \<Rightarrow> cluster_home \<Rightarrow> cluster_home" where
  "typeNode f s = s\<lparr>ch_editingNodeData := f (ch_editingNodeData s)\<rparr>"

interpretation cluster_form: targeted_form "startEditCluster project" typeCluster saveEditCluster
  cancelEditCluster "\<lambda>s. if ch_editingClusterId s = [] then None else Some (ch_editingClusterId s)" id fst
  for project
  by unfold_locales
    (auto simp: startEditCluster_def typeCluster_def saveEditCluster_def cancelEditCluster_def
      split: option.splits sum.splits if_splits)

interpretation cluster_node_form: targeted_form startEditNode typeNode "saveEditNode c"
  cancelEditNode "\<lambda>s. if ch_editingNodeId s = [] then None else Some (ch_editingNodeId s)" nd_id "fst \<circ> snd"
  for c
  by unfold_locales
    (auto simp: startEditNode_def typeNode_def saveEditNode_def cancelEditNode_def
      split: option.splits if_splits)

text \<open>Saving an edit that changed nothing changes nothing.\<close>

lemma unchanged_edit_is_identity:
  "snd (saveEditNode (Some k) (startEditNode n s)) = Some (c, i, u) \<Longrightarrow> i = nd_id n \<and> patch_node u n = n"
  by (cases n) (auto simp: saveEditNode_def startEditNode_def no_patch_def patch_node_def patched_def
      split: if_splits)

section \<open>Scanning and importing\<close>

text \<open>
  The message of an exception the engine raises: for text that is not JSON, for a property of
  \<^verbatim>\<open>null\<close>, and for a fetch that was aborted.
\<close>

record engine_texts =
  et_syntax :: "ustr \<Rightarrow> ustr"
  et_type_error :: ustr
  et_aborted :: ustr

text \<open>
  The answer of an exchange: the status and the fields of the parsed body, or what was thrown, with
  its message if it is an \<^verbatim>\<open>Error\<close>.
\<close>

definition answer ::
  "engine_texts \<Rightarrow> reply \<Rightarrow> ustr option + (nat \<times> (ustr \<times> jsval) list)"
where
  "answer txt r = (case r of
     Rejected e \<Rightarrow> Inl (case e of
       AbortFailure \<Rightarrow> Some (et_aborted txt) | ErrorFailure m \<Rightarrow> Some m | ValueFailure v \<Rightarrow> None)
   | Responded status text url \<Rightarrow> (case json_parse text of
       None \<Rightarrow> Inl (Some (et_syntax txt text))
     | Some v \<Rightarrow> (case v of
         JUndef \<Rightarrow> Inl (Some (et_type_error txt))
       | JNull \<Rightarrow> Inl (Some (et_type_error txt))
       | JObj fs \<Rightarrow> Inr (status, fs)
       | _ \<Rightarrow> Inr (status, []))))"

definition http_text :: "nat \<Rightarrow> jsval" where
  "http_text status = JStr (str ''HTTP '' @ nat_str status)"

text \<open>An answer that must be \<^verbatim>\<open>ok\<close> and successful, or else the error that is thrown.\<close>

definition successful ::
  "(nat \<Rightarrow> jsval) \<Rightarrow> ustr option + (nat \<times> (ustr \<times> jsval) list) \<Rightarrow> ustr option + (ustr \<times> jsval) list"
where
  "successful dflt a = (case a of
     Inl e \<Rightarrow> Inl e
   | Inr (status, fs) \<Rightarrow>
       if \<not> response_ok status \<or> \<not> truthy (field fs ''success'')
       then Inl (Some (to_str (or_js (field fs ''error'') (dflt status))))
       else Inr fs)"

definition or_text :: "ustr \<Rightarrow> ustr \<Rightarrow> ustr" where
  "or_text a b = (if a = [] then b else a)"

definition unknown_error :: ustr where "unknown_error = [0x672A, 0x77E5, 0x9519, 0x8BEF]"

definition scan_failed :: ustr where
  "scan_failed = [0x4E3B, 0x673A, 0x63A2, 0x6D4B, 0x5931, 0x8D25]"

definition import_failed :: ustr where
  "import_failed = [0x5BFC, 0x5165, 0x5931, 0x8D25]"

definition dsn_import_failed :: ustr where
  "dsn_import_failed = str ''DSN '' @ import_failed"

definition dsn_invalid :: ustr where
  "dsn_invalid = str ''DSN '' @ [0x6821, 0x9A8C, 0x5931, 0x8D25]"

definition colon :: ustr where "colon = [0xFF1A]"

abbreviation "log_info \<equiv> str ''info''"
abbreviation "log_success \<equiv> str ''success''"
abbreviation "log_error \<equiv> str ''error''"

definition runHostScan :: "engine_texts \<Rightarrow> int \<Rightarrow> ustr \<Rightarrow> int \<Rightarrow> reply \<Rightarrow> cluster_home \<Rightarrow> cluster_home" where
  "runHostScan txt now host port r s =
     (let s1 = addLog now log_info
            ([0x5F00, 0x59CB, 0x63A2, 0x6D4B, 0x4E3B, 0x673A] @ str '' '' @ or_text (trim host) (str ''-'') @
             [0x7AEF, 0x53E3] @ str '' '' @ int_str port)
            (s\<lparr>ch_scanLoading := True, ch_scanError := []\<rparr>);
          s2 = (case successful http_text (answer txt r) of
            Inl e \<Rightarrow>
              addLog now log_error (scan_failed @ colon @ or_default e unknown_error)
                (s1\<lparr>ch_scanError := or_default e scan_failed\<rparr>)
          | Inr fs \<Rightarrow>
              (let found = (case field fs ''instances'' of JArr vs \<Rightarrow> vs | _ \<Rightarrow> [])
               in addLog now log_success
                    ([0x53D1, 0x73B0] @ str '' '' @ nat_str (length found) @ str '' '' @
                     [0x4E2A, 0x5019, 0x9009, 0x5B9E, 0x4F8B])
                    (s1\<lparr>ch_instances := found\<rparr>)))
      in s2\<lparr>ch_scanLoading := False\<rparr>)"

definition instance_text :: "discovered_instance \<Rightarrow> ustr" where
  "instance_text i = di_host i @ str '':'' @ int_str (di_port i)"

definition highlight :: "jsval \<Rightarrow> cluster_home \<Rightarrow> cluster_home" where
  "highlight v s = (if truthy v then s\<lparr>ch_highlightNodeId := v\<rparr> else s)"

text \<open>The flag tells whether the workspace is reloaded on the way.\<close>

definition importDiscovered ::
  "engine_texts \<Rightarrow> int \<Rightarrow> workspace_project option \<Rightarrow> workspace_cluster option \<Rightarrow> discovered_instance \<Rightarrow>
   reply \<Rightarrow> cluster_home \<Rightarrow> cluster_home \<times> bool"
where
  "importDiscovered txt now project c i r s =
     (if project = None \<or> c = None then (s, False)
      else
        (let s1 = addLog now log_info
               ([0x5F00, 0x59CB, 0x5BFC, 0x5165] @ str '' '' @ instance_text i) s
         in case successful http_text (answer txt r) of
              Inl e \<Rightarrow>
                (addLog now log_error (import_failed @ colon @ or_default e unknown_error)
                   (s1\<lparr>ch_scanError := or_default e import_failed\<rparr>), False)
            | Inr fs \<Rightarrow>
                (highlight (field fs ''nodeId'')
                   (addLog now log_success
                      ([0x5BFC, 0x5165, 0x6210, 0x529F] @ str '' '' @ instance_text i) s1), True)))"

definition dsn_error :: "int \<Rightarrow> ustr option \<Rightarrow> cluster_home \<Rightarrow> cluster_home" where
  "dsn_error now e s = addLog now log_error (import_failed @ colon @ or_default e unknown_error)
     (s\<lparr>ch_dsnMessage := or_default e dsn_import_failed\<rparr>)"

definition version_text :: "(ustr \<times> jsval) list \<Rightarrow> ustr" where
  "version_text fs = to_str (or_js (field fs ''version'') (JStr (str ''-'')))"

definition validateAndImportDSN ::
  "engine_texts \<Rightarrow> int \<Rightarrow> workspace_project option \<Rightarrow> workspace_cluster option \<Rightarrow> ustr \<Rightarrow>
   reply \<Rightarrow> reply \<Rightarrow> cluster_home \<Rightarrow> cluster_home \<times> bool"
where
  "validateAndImportDSN txt now project c dsn val_reply imp_reply s =
     (if project = None \<or> c = None \<or> trim dsn = [] then (s, False)
      else
        (let s1 = addLog now log_info ([0x6821, 0x9A8C] @ str '' DSN'')
               (s\<lparr>ch_dsnLoading := True, ch_dsnMessage := []\<rparr>);
             (s2, reload) =
               (case (case successful (\<lambda>_. JStr dsn_invalid) (answer txt val_reply) of
                        Inl e \<Rightarrow> Inl e
                      | Inr fs \<Rightarrow> if truthy (field fs ''reachable'') then Inr fs
                          else Inl (Some (to_str (or_js (field fs ''error'') (JStr dsn_invalid))))) of
                  Inl e \<Rightarrow> (dsn_error now e s1, False)
                | Inr vfs \<Rightarrow>
                    (let s3 = addLog now log_success
                           (str ''DSN '' @ [0x6821, 0x9A8C, 0x901A, 0x8FC7, 0xFF0C, 0x7248, 0x672C] @
                            str '' '' @ version_text vfs) s1
                     in case successful (\<lambda>_. JStr dsn_import_failed) (answer txt imp_reply) of
                          Inl e \<Rightarrow> (dsn_error now e s3, False)
                        | Inr fs \<Rightarrow>
                            (highlight (field fs ''nodeId'')
                               (addLog now log_success
                                  (str ''DSN '' @ [0x5BFC, 0x5165, 0x6210, 0x529F])
                                  (s3\<lparr>ch_dsnMessage :=
                                     [0x5BFC, 0x5165, 0x6210, 0x529F, 0xFF0C, 0x7248, 0x672C] @
                                     str '' '' @ version_text vfs\<rparr>)), True)))
         in (s2\<lparr>ch_dsnLoading := False\<rparr>, reload)))"

section \<open>The overview\<close>

definition overview_failed :: ustr where
  "overview_failed = [0x83B7, 0x53D6, 0x96C6, 0x7FA4, 0x72B6, 0x6001, 0x5931, 0x8D25]"

definition set_overview :: "ustr \<Rightarrow> jsval list \<Rightarrow> jsval \<Rightarrow> cluster_home \<Rightarrow> cluster_home" where
  "set_overview e ns t s = s\<lparr>ch_error := e, ch_nodes := ns, ch_timestamp := t\<rparr>"

text \<open>An answer that is not \<^verbatim>\<open>ok\<close> is an error before its body is read.\<close>

definition loadOverview ::
  "engine_texts \<Rightarrow> int \<Rightarrow> workspace_project option \<Rightarrow> workspace_cluster option \<Rightarrow> reply \<Rightarrow>
   cluster_home \<Rightarrow> cluster_home"
where
  "loadOverview txt now project c r s =
     (if project = None \<or> c = None then set_overview [] [] (JNum (Fin 0)) s
      else
        (case (case r of
                 Responded status text url \<Rightarrow>
                   if \<not> response_ok status then Inl (Some (str ''HTTP '' @ nat_str status))
                   else successful (\<lambda>_. JStr overview_failed) (answer txt r)
               | Rejected e \<Rightarrow> successful (\<lambda>_. JStr overview_failed) (answer txt r)) of
           Inl e \<Rightarrow> set_overview (or_default e overview_failed) [] (JNum (Fin 0)) s
         | Inr fs \<Rightarrow> set_overview []
             (case field fs ''nodes'' of JArr vs \<Rightarrow> vs | _ \<Rightarrow> [])
             (or_js (field fs ''timestamp'') (JNum (jsint now))) s))"

text \<open>Activating a node: the connection store follows a success, the page navigates either way.\<close>

definition activateNode :: "cluster_node \<Rightarrow> view \<Rightarrow> (ustr \<times> jsval) list \<Rightarrow> pg_state \<Rightarrow> pg_state \<times> view" where
  "activateNode n v fs st =
     (if truthy (field fs ''success'') then
        setDataDir (to_str (or_js (field fs ''dataDir'') (JStr [])))
          (setVersion (to_str (or_js (field fs ''version'') (JStr [])))
             (setConnected True (setActiveNodeId (Some (nd_id n)) st)))
      else st, v)"

section \<open>Every exchange settles\<close>

lemma addLog_frame [simp]:
  "ch_scanLoading (addLog now l m s) = ch_scanLoading s" "ch_dsnLoading (addLog now l m s) = ch_dsnLoading s"
  "map il_level (take 1 (ch_importLogs (addLog now l m s))) = [l]"
  "il_level (hd (ch_importLogs (addLog now l m s))) = l"
  by (simp_all add: addLog_def)

lemma highlight_frame [simp]:
  "ch_importLogs (highlight v s) = ch_importLogs s" "ch_dsnLoading (highlight v s) = ch_dsnLoading s"
  "ch_scanLoading (highlight v s) = ch_scanLoading s"
  by (simp_all add: highlight_def)



end
