(* ===== verification/HostManagement.thy ===== *)
theory HostManagement
  imports App
begin

text \<open>
  \<^verbatim>\<open>components/workspace/HostManagementView.tsx\<close>: the list of hosts, the form that adds or edits
  one, and the scan of a host. A handler that talks to the backend gets the answers of its requests
  and returns the new state together with the requests it made.
\<close>

section \<open>State\<close>

record workspace_host =
  wh_id :: ustr
  wh_name :: ustr
  wh_host :: ustr
  wh_port :: int
  wh_sshUser :: ustr
  wh_sshKey :: "ustr option"
  wh_createdAt :: jsnum

record host_call =
  hc_method :: http_method
  hc_url :: ustr
  hc_body :: jsval \<comment> \<open>\<open>JUndef\<close>: no body\<close>

text \<open>The list of hosts and the scan result are what the backend sent, unchecked.\<close>

record host_page =
  hm_hosts :: jsval
  hm_loading :: bool
  hm_error :: ustr
  hm_showAdd :: bool
  hm_editingId :: "ustr option"
  hm_formName :: ustr
  hm_formHost :: ustr
  hm_formPort :: int
  hm_formUser :: ustr
  hm_formKey :: ustr
  hm_formSubmitting :: bool
  hm_scanHost :: ustr
  hm_scanPort :: int
  hm_scanResult :: jsval
  hm_scanning :: bool

definition init_host_page :: host_page where
  "init_host_page = \<lparr>hm_hosts = JArr [], hm_loading = False, hm_error = [], hm_showAdd = False,
     hm_editingId = None, hm_formName = [], hm_formHost = [], hm_formPort = 22,
     hm_formUser = str ''root'', hm_formKey = [], hm_formSubmitting = False, hm_scanHost = [],
     hm_scanPort = 5432, hm_scanResult = JNull, hm_scanning = False\<rparr>"

section \<open>Exchanges\<close>

text \<open>
  The parsed body of an answer that reports success, whatever its HTTP status: the page does not
  look at the status. \<open>None\<close> is an exception of \<^verbatim>\<open>fetch\<close>, of the parser or of the page.
\<close>

definition confirmed :: "reply \<Rightarrow> jsval option" where
  "confirmed r = (case r of
     Rejected _ \<Rightarrow> None
   | Responded status text url \<Rightarrow> do {
       v \<leftarrow> json_parse text;
       ok \<leftarrow> js_prop v ''success'';
       if truthy ok then Some v else None })"

definition load_failed :: ustr where
  "load_failed = [0x52A0, 0x8F7D, 0x4E3B, 0x673A, 0x5217, 0x8868, 0x5931, 0x8D25]"

definition add_failed :: ustr where
  "add_failed = [0x6DFB, 0x52A0, 0x4E3B, 0x673A, 0x5931, 0x8D25]"

definition delete_failed :: ustr where
  "delete_failed = [0x5220, 0x9664, 0x4E3B, 0x673A, 0x5931, 0x8D25]"

definition update_failed :: ustr where
  "update_failed = [0x66F4, 0x65B0, 0x4E3B, 0x673A, 0x5931, 0x8D25]"

definition scan_host_failed :: ustr where
  "scan_host_failed = [0x626B, 0x63CF, 0x4E3B, 0x673A, 0x5931, 0x8D25]"

lemmas failure_notices = load_failed_def add_failed_def delete_failed_def update_failed_def
  scan_host_failed_def

definition hosts_url :: ustr where "hosts_url = str ''/api/hosts''"

definition loadHosts :: "reply \<Rightarrow> host_page \<Rightarrow> host_page \<times> host_call list" where
  "loadHosts r s =
     (let s1 = s\<lparr>hm_loading := True, hm_error := []\<rparr>;
          s2 = (case confirmed r of
                  Some (JObj fs) \<Rightarrow> s1\<lparr>hm_hosts := coalesce (field fs ''hosts'') (JArr [])\<rparr>
                | _ \<Rightarrow> s1\<lparr>hm_error := load_failed\<rparr>)
      in (s2\<lparr>hm_loading := False\<rparr>, [\<lparr>hc_method = GET, hc_url = hosts_url, hc_body = JUndef\<rparr>]))"

text \<open>The body of the two requests that send the form.\<close>

definition host_form :: "host_page \<Rightarrow> jsval" where
  "host_form s = JObj
     [(str ''name'', JStr (trim (hm_formName s))), (str ''host'', JStr (trim (hm_formHost s))),
      (str ''port'', JNum (jsint (hm_formPort s))),
      (str ''sshUser'', JStr (if trim (hm_formUser s) = [] then str ''root'' else trim (hm_formUser s))),
      (str ''sshKey'', if hm_formKey s = [] then JUndef else JStr (hm_formKey s))]"

definition reset_form :: "host_page \<Rightarrow> host_page" where
  "reset_form s = s\<lparr>hm_formName := [], hm_formHost := [], hm_formPort := 22,
     hm_formUser := str ''root'', hm_formKey := []\<rparr>"

text \<open>\<open>r\<close> answers the request itself, \<open>l\<close> the reload of the list that follows a success.\<close>

definition handleAddHost :: "reply \<Rightarrow> reply \<Rightarrow> host_page \<Rightarrow> host_page \<times> host_call list" where
  "handleAddHost r l s =
     (if trim (hm_formName s) = [] \<or> trim (hm_formHost s) = [] then (s, [])
      else
        (let s1 = s\<lparr>hm_formSubmitting := True\<rparr>;
             call = \<lparr>hc_method = POST, hc_url = hosts_url, hc_body = host_form s\<rparr>;
             (s2, calls) =
               (case confirmed r of
                  None \<Rightarrow> (s1\<lparr>hm_error := add_failed\<rparr>, [])
                | Some _ \<Rightarrow>
                    (let (s3, cs) = loadHosts l s1 in (reset_form (s3\<lparr>hm_showAdd := False\<rparr>), cs)))
         in (s2\<lparr>hm_formSubmitting := False\<rparr>, call # calls)))"

definition host_url :: "ustr \<Rightarrow> ustr" where
  "host_url i = hosts_url @ str ''/'' @ i"

definition handleDeleteHost ::
  "ustr \<Rightarrow> reply \<Rightarrow> reply \<Rightarrow> host_page \<Rightarrow> host_page \<times> host_call list"
where
  "handleDeleteHost i r l s =
     (let call = \<lparr>hc_method = DELETE, hc_url = host_url i, hc_body = JUndef\<rparr>
      in case confirmed r of
           None \<Rightarrow> (s\<lparr>hm_error := delete_failed\<rparr>, [call])
         | Some _ \<Rightarrow> (let (s1, cs) = loadHosts l s in (s1, call # cs)))"

definition handleUpdateHost ::
  "ustr \<Rightarrow> reply \<Rightarrow> reply \<Rightarrow> host_page \<Rightarrow> host_page \<times> host_call list"
where
  "handleUpdateHost i r l s =
     (let call = \<lparr>hc_method = PUT, hc_url = host_url i, hc_body = host_form s\<rparr>
      in case confirmed r of
           None \<Rightarrow> (s\<lparr>hm_error := update_failed\<rparr>, [call])
         | Some _ \<Rightarrow>
             (let (s1, cs) = loadHosts l s
              in (reset_form (s1\<lparr>hm_editingId := None\<rparr>), call # cs)))"

definition startEdit :: "workspace_host \<Rightarrow> host_page \<Rightarrow> host_page" where
  "startEdit h s = s\<lparr>hm_editingId := Some (wh_id h), hm_formName := wh_name h,
     hm_formHost := wh_host h, hm_formPort := wh_port h, hm_formUser := wh_sshUser h,
     hm_formKey := or_default (wh_sshKey h) []\<rparr>"

text \<open>\<open>instances?.[0] ?? null\<close> of the answer.\<close>

definition first_instance :: "jsval \<Rightarrow> jsval" where
  "first_instance v = (case v of
     JArr (x # xs) \<Rightarrow> coalesce x JNull
   | JStr (c # cs) \<Rightarrow> JStr [c]
   | JObj fs \<Rightarrow> coalesce (field fs ''0'') JNull
   | _ \<Rightarrow> JNull)"

definition handleScan :: "reply \<Rightarrow> host_page \<Rightarrow> host_page \<times> host_call list" where
  "handleScan r s =
     (if trim (hm_scanHost s) = [] then (s, [])
      else
        (let s1 = s\<lparr>hm_scanning := True, hm_scanResult := JNull\<rparr>;
             call = \<lparr>hc_method = POST, hc_url = str ''/api/discovery/host/scan'',
               hc_body = JObj [(str ''host'', JStr (trim (hm_scanHost s))),
                 (str ''ssh'', JObj [(str ''port'',
                    JNum (jsint (if 0 < hm_scanPort s then hm_scanPort s else 5432)))])]\<rparr>;
             s2 = (case confirmed r of
                     Some (JObj fs) \<Rightarrow>
                       s1\<lparr>hm_scanResult := first_instance (field fs ''instances'')\<rparr>
                   | _ \<Rightarrow> s1\<lparr>hm_error := scan_host_failed\<rparr>)
         in (s2\<lparr>hm_scanning := False\<rparr>, [call])))"

text \<open>The buttons: open the form, leave the editor, take over the scanned host.\<close>

definition openAdd :: "host_page \<Rightarrow> host_page" where
  "openAdd s = s\<lparr>hm_showAdd := True, hm_editingId := None\<rparr>"

definition cancelAdd :: "host_page \<Rightarrow> host_page" where
  "cancelAdd s = s\<lparr>hm_showAdd := False\<rparr>"

definition cancelEdit :: "host_page \<Rightarrow> host_page" where
  "cancelEdit s = s\<lparr>hm_editingId := None, hm_error := []\<rparr>"

definition importScanned :: "ustr \<Rightarrow> int \<Rightarrow> host_page \<Rightarrow> host_page" where
  "importScanned host port s = s\<lparr>hm_formHost := host, hm_formPort := port, hm_showAdd := True\<rparr>"

section \<open>Runs of the page\<close>

datatype host_op =
    Load reply
  | Add reply reply
  | Remove ustr reply reply
  | Update ustr reply reply
  | Edit workspace_host
  | Scan reply
  | OpenAdd
  | CancelAdd
  | CancelEdit
  | ImportScanned ustr int
  | TypeForm ustr ustr int ustr ustr
  | TypeScan ustr int

definition host_apply :: "host_op \<Rightarrow> host_page \<Rightarrow> host_page \<times> host_call list" where
  "host_apply a s = (case a of
     Load l \<Rightarrow> loadHosts l s
   | Add r l \<Rightarrow> handleAddHost r l s
   | Remove i r l \<Rightarrow> handleDeleteHost i r l s
   | Update i r l \<Rightarrow> handleUpdateHost i r l s
   | Edit h \<Rightarrow> (startEdit h s, [])
   | Scan r \<Rightarrow> handleScan r s
   | OpenAdd \<Rightarrow> (openAdd s, [])
   | CancelAdd \<Rightarrow> (cancelAdd s, [])
   | CancelEdit \<Rightarrow> (cancelEdit s, [])
   | ImportScanned h p \<Rightarrow> (importScanned h p s, [])
   | TypeForm n h p u k \<Rightarrow>
       (s\<lparr>hm_formName := n, hm_formHost := h, hm_formPort := p, hm_formUser := u, hm_formKey := k\<rparr>, [])
   | TypeScan h p \<Rightarrow> (s\<lparr>hm_scanHost := h, hm_scanPort := p\<rparr>, []))"

definition host_run :: "host_op list \<Rightarrow> host_page \<Rightarrow> host_page" where
  "host_run as s = fold (\<lambda>a s. fst (host_apply a s)) as s"

text \<open>The answer to the reload an operation made, if it made one.\<close>

definition reload_of :: "host_op \<Rightarrow> host_page \<Rightarrow> reply option" where
  "reload_of a s =
     (if \<lparr>hc_method = GET, hc_url = hosts_url, hc_body = JUndef\<rparr> \<in> set (snd (host_apply a s))
      then (case a of Load l \<Rightarrow> Some l | Add r l \<Rightarrow> Some l | Remove i r l \<Rightarrow> Some l
              | Update i r l \<Rightarrow> Some l | _ \<Rightarrow> None)
      else None)"

fun reloads :: "host_op list \<Rightarrow> host_page \<Rightarrow> reply list" where
  "reloads [] s = []"
| "reloads (a # as) s =
     (case reload_of a s of Some l \<Rightarrow> [l] | None \<Rightarrow> []) @ reloads as (fst (host_apply a s))"

definition listed_hosts :: "reply \<Rightarrow> jsval option" where
  "listed_hosts l = map_option
     (\<lambda>v. case v of JObj fs \<Rightarrow> coalesce (field fs ''hosts'') (JArr []) | _ \<Rightarrow> JArr []) (confirmed l)"

lemma confirmed_object: "confirmed r = Some v \<Longrightarrow> \<exists>fs. v = JObj fs"
  by (auto simp: confirmed_def js_prop_def split: reply.splits jsval.splits Option.bind_splits if_splits)

lemma loadHosts_hosts:
  "hm_hosts (fst (loadHosts l s)) = (case listed_hosts l of Some v \<Rightarrow> v | None \<Rightarrow> hm_hosts s)"
  by (cases "confirmed l")
    (auto simp: loadHosts_def listed_hosts_def Let_def dest!: confirmed_object)

text \<open>At rest no flag is set, and the notice is one of the page's own.\<close>

definition at_rest :: "host_page \<Rightarrow> bool" where
  "at_rest s \<longleftrightarrow> \<not> hm_loading s \<and> \<not> hm_formSubmitting s \<and> \<not> hm_scanning s \<and>
     hm_error s \<in> {[], load_failed, add_failed, delete_failed, update_failed, scan_host_failed}"

lemma loadHosts_rest:
  "\<not> hm_formSubmitting s \<Longrightarrow> \<not> hm_scanning s \<Longrightarrow> at_rest (fst (loadHosts l s))"
  by (auto simp: loadHosts_def at_rest_def Let_def split: option.split jsval.split)

lemma loadHosts_frame [simp]:
  "hm_formSubmitting (fst (loadHosts l s)) = hm_formSubmitting s"
  "hm_scanning (fst (loadHosts l s)) = hm_scanning s"
  "\<not> hm_loading (fst (loadHosts l s))"
  "hm_error (fst (loadHosts l s)) \<in> {[], load_failed}"
  by (auto simp: loadHosts_def Let_def split: option.split jsval.split)

lemma loadHosts_notice: "hm_error (fst (loadHosts l s)) = [] \<or> hm_error (fst (loadHosts l s)) = load_failed"
  using loadHosts_frame(4) by blast

lemmas host_ops = handleAddHost_def handleDeleteHost_def handleUpdateHost_def handleScan_def
  startEdit_def openAdd_def cancelAdd_def cancelEdit_def importScanned_def reset_form_def

lemma host_apply_rest:
  assumes "at_rest s"
  shows "at_rest (fst (host_apply a s))"
  using assms loadHosts_notice
  by (cases a)
    (auto simp: host_apply_def host_ops at_rest_def Let_def split_beta split: option.split jsval.split)

lemma loadHosts_call [simp]:
  "snd (loadHosts l s) = [\<lparr>hc_method = GET, hc_url = hosts_url, hc_body = JUndef\<rparr>]"
  by (simp add: loadHosts_def Let_def)

lemma host_apply_hosts:
  "hm_hosts (fst (host_apply a s)) =
     (case Option.bind (reload_of a s) listed_hosts of Some v \<Rightarrow> v | None \<Rightarrow> hm_hosts s)"
  by (cases a)
    (auto simp: host_apply_def reload_of_def host_ops loadHosts_hosts Let_def split_beta
      split: option.split jsval.split)

lemma host_run_hosts:
  "hm_hosts (host_run as s) =
     (case List.map_filter listed_hosts (reloads as s) of [] \<Rightarrow> hm_hosts s | vs \<Rightarrow> last vs)"
proof (induction as arbitrary: s)
  case Nil
  then show ?case by (simp add: host_run_def map_filter_simps)
next
  case (Cons a as)
  have "host_run (a # as) s = host_run as (fst (host_apply a s))" by (simp add: host_run_def)
  with Cons [of "fst (host_apply a s)"] show ?case
    by (cases "reload_of a s")
      (auto simp: host_apply_hosts map_filter_simps split: option.split list.split)
qed

text \<open>
  The page shows what the backend last said: after any sequence of operations, with
  whatever answers, the list of hosts is the one of the last reload that succeeded, every
  loading flag is cleared, and the notice is empty or the one of a failed operation.
\<close>

lemma host_list_tracks_backend:
  "hm_hosts (host_run as init_host_page) =
     last (JArr [] # List.map_filter listed_hosts (reloads as init_host_page)) \<and>
   at_rest (host_run as init_host_page)"
proof -
  have "at_rest (host_run as s)" if "at_rest s" for s
    using that by (induction as arbitrary: s) (simp_all add: host_run_def host_apply_rest)
  moreover have "at_rest init_host_page" by (simp add: at_rest_def init_host_page_def)
  moreover have "hm_hosts init_host_page = JArr []" by (simp add: init_host_page_def)
  ultimately show ?thesis by (simp add: host_run_hosts split: list.split)
qed

lemma reload_after_update:
  "reload_of (Update i r l) s = (if confirmed r = None then None else Some l)"
  by (cases "confirmed r") (simp_all add: reload_of_def host_apply_def handleUpdateHost_def Let_def split_beta)

lemma reload_after_add:
  "snd (host_apply (Add r l) s) \<noteq> [] \<Longrightarrow>
     reload_of (Add r l) s = (if confirmed r = None then None else Some l)"
  by (cases "confirmed r")
    (simp_all add: reload_of_def host_apply_def handleAddHost_def Let_def split_beta split: if_splits)

lemma host_form_frame [simp]:
  "host_form (s\<lparr>hm_error := e\<rparr>) = host_form s" "host_form (s\<lparr>hm_formSubmitting := b\<rparr>) = host_form s"
  by (simp_all add: host_form_def)

lemma failed_change:
  assumes "confirmed r = None"
  shows "host_form (fst (host_apply (Add r l) s)) = host_form s"
    "hm_showAdd (fst (host_apply (Add r l) s)) = hm_showAdd s"
    "hm_editingId (fst (host_apply (Add r l) s)) = hm_editingId s"
    "host_form (fst (host_apply (Update i r l) s)) = host_form s"
    "hm_showAdd (fst (host_apply (Update i r l) s)) = hm_showAdd s"
    "hm_editingId (fst (host_apply (Update i r l) s)) = hm_editingId s"
  using assms by (simp_all add: host_apply_def handleAddHost_def handleUpdateHost_def)

text \<open>
  A change is followed by a reload exactly if the backend confirmed it; if it did not, the
  form, the dialog and the editor are as they were, so that the user can try again.
\<close>

lemma unconfirmed_change_keeps_form:
  assumes "a = Add r l \<or> a = Update i r l" "snd (host_apply a s) \<noteq> []"
  shows "(reload_of a s = (if confirmed r = None then None else Some l)) \<and>
    (confirmed r = None \<longrightarrow>
       host_form (fst (host_apply a s)) = host_form s \<and>
       hm_showAdd (fst (host_apply a s)) = hm_showAdd s \<and>
       hm_editingId (fst (host_apply a s)) = hm_editingId s)"
proof -
  have "reload_of a s = (if confirmed r = None then None else Some l)"
    using assms reload_after_add reload_after_update by blast
  moreover have "host_form (fst (host_apply a s)) = host_form s \<and>
      hm_showAdd (fst (host_apply a s)) = hm_showAdd s \<and>
      hm_editingId (fst (host_apply a s)) = hm_editingId s" if "confirmed r = None"
    using assms(1) failed_change [OF that] by auto
  ultimately show ?thesis by blast
qed

section \<open>What the form sends\<close>

text \<open>
  The port of a scanned instance, the one the database listens on, becomes the SSH port of the
  host; the form opened after an edit still holds the edited host, its key included; and a key
  that was cleared is not sent, so that it cannot be removed.
\<close>

lemma scanned_port_becomes_ssh_port:
  "hm_formPort (importScanned h 5432 s) = 5432 \<and> hm_formPort init_host_page = 22"
  by (simp add: importScanned_def init_host_page_def)

lemma edited_host_fills_new_form:
  "hm_showAdd (openAdd (startEdit h s)) \<and> hm_formKey (openAdd (startEdit h s)) = or_default (wh_sshKey h) []
     \<and> host_form (openAdd (startEdit h s)) = host_form (startEdit h s)"
  by (simp add: openAdd_def startEdit_def host_form_def)

lemma cleared_key_is_not_sent:
  assumes "hm_formKey s = []"
  shows "\<exists>fs. host_form s = JObj fs \<and> field fs ''sshKey'' = JUndef"
  using assms by (simp add: host_form_def field_def str_def)

lemma blank_update_is_sent:
  "snd (handleUpdateHost i r l init_host_page) \<noteq> [] \<and> snd (handleAddHost r l init_host_page) = []"
  by (simp add: handleUpdateHost_def handleAddHost_def init_host_page_def trim_def Let_def split_beta
      split: option.split)

end
