(* ===== verification/NodePages.thy ===== *)
theory NodePages
  imports VisualizationData App
begin

text \<open>
  The pages of a connected node that ask the backend themselves: the SQL console
  (\<^verbatim>\<open>components/sql/SQLConsole.tsx\<close>) and the WAL and CLOG viewers. \<open>None\<close> as the result of a step
  is an exception, which the handlers catch.
\<close>

section \<open>The SQL console\<close>

record exec_result =
  xr_columns :: "(ustr \<times> jsnum) list"
  xr_rows :: "jsval list"
  xr_commandTag :: ustr

text \<open>\<open>er_result = None\<close> is a result that is missing or falsy; the answer is then left as it is.\<close>

record exec_response =
  xs_success :: jsval
  xs_error :: jsval
  xs_result :: "exec_result option"

definition js_list :: "jsval \<Rightarrow> jsval list option" where
  "js_list v = (case coalesce v (JArr []) of JArr vs \<Rightarrow> Some vs | _ \<Rightarrow> None)"

definition column_of :: "jsval \<Rightarrow> (ustr \<times> jsnum) option" where
  "column_of c = do {
     n \<leftarrow> js_prop c ''Name'';
     t \<leftarrow> js_prop c ''Type'';
     Some (str_or_empty n, num_or_0 t) }"

text \<open>
  A \<^verbatim>\<open>Rows\<close> that is neither missing nor an array makes the loop over the rows throw; nothing is
  shown before that, so the exception is raised here.
\<close>

definition normalizeResponse :: "jsval \<Rightarrow> exec_response option" where
  "normalizeResponse raw = do {
     ok \<leftarrow> js_prop raw ''success'';
     err \<leftarrow> js_prop raw ''error'';
     r \<leftarrow> js_prop raw ''result'';
     if \<not> truthy r then Some \<lparr>xs_success = ok, xs_error = err, xs_result = None\<rparr>
     else do {
       cs \<leftarrow> js_prop r ''Columns'' \<bind> js_list;
       cols \<leftarrow> mapM column_of cs;
       rows \<leftarrow> js_prop r ''Rows'';
       rs \<leftarrow> (if truthy ok then js_list rows else Some []);
       tag \<leftarrow> js_prop r ''CommandTag'';
       Some \<lparr>xs_success = ok, xs_error = err, xs_result = Some
         \<lparr>xr_columns = cols, xr_rows = rs, xr_commandTag = str_or_empty tag\<rparr>\<rparr> }}"

abbreviation tab :: ustr where "tab \<equiv> [9]"
abbreviation newline :: ustr where "newline \<equiv> [10]"

text \<open>A row is a plain object; a row that is a string or an array is read as one without columns.\<close>

definition row_cell :: "jsval \<Rightarrow> ustr \<Rightarrow> ustr option" where
  "row_cell row name = (case row of
     JUndef \<Rightarrow> None | JNull \<Rightarrow> None
   | JObj fs \<Rightarrow> Some (case map_of fs name of
       Some v \<Rightarrow> if truthy v then to_str v else [] | None \<Rightarrow> [])
   | _ \<Rightarrow> Some [])"

definition row_line :: "ustr list \<Rightarrow> jsval \<Rightarrow> ustr option" where
  "row_line names row = map_option (\<lambda>cells. join tab cells @ newline) (mapM (row_cell row) names)"

definition no_result :: ustr where
  "no_result = [0x28, 0x65E0, 0x7ED3, 0x679C, 0x29]"

definition result_text :: "exec_result \<Rightarrow> ustr option" where
  "result_text x = do {
     lines \<leftarrow> mapM (row_line (map fst (xr_columns x))) (xr_rows x);
     let out = (if xr_columns x = [] then [] else join tab (map fst (xr_columns x)) @ newline) @
           concat lines @
           (if xr_commandTag x = [] then [] else str ''('' @ xr_commandTag x @ str '')'' @ newline);
     Some (if out = [] then no_result else out) }"

definition exec_unknown_error :: ustr where
  "exec_unknown_error = [0x672A, 0x77E5, 0x9519, 0x8BEF]"

definition request_failed :: "ustr \<Rightarrow> ustr" where
  "request_failed e = str ''ERROR: '' @ [0x8BF7, 0x6C42, 0x5931, 0x8D25] @ str '' - '' @ e @ newline"

definition response_text :: "exec_response \<Rightarrow> ustr option" where
  "response_text x = (case xs_result x of
     Some r \<Rightarrow> if truthy (xs_success x) then result_text r
       else Some (str ''ERROR: '' @ to_str (or_js (xs_error x) (JStr exec_unknown_error)) @ newline)
   | None \<Rightarrow> Some (str ''ERROR: '' @ to_str (or_js (xs_error x) (JStr exec_unknown_error)) @ newline))"

text \<open>The body of an answer, whatever its status.\<close>

definition any_json :: "reply \<Rightarrow> jsval option" where
  "any_json r = (case r of Responded status text url \<Rightarrow> json_parse text | Rejected _ \<Rightarrow> None)"

record sql_console =
  sq_sql :: ustr
  sq_output :: ustr
  sq_loading :: bool

definition init_sql_console :: sql_console where
  "init_sql_console = \<lparr>sq_sql = str ''SELECT 1;'', sq_output = [], sq_loading = False\<rparr>"

text \<open>\<open>exc\<close> is the text of whatever exception the answer leads to.\<close>

definition handleExecute ::
  "(reply \<Rightarrow> ustr) \<Rightarrow> reply \<Rightarrow> sql_console \<Rightarrow> sql_console \<times> jsval option"
where
  "handleExecute exc r s =
     (if trim (sq_sql s) = [] then (s, None)
      else
        (let s1 = s\<lparr>sq_loading := True, sq_output := []\<rparr>;
             s2 = (case any_json r \<bind> normalizeResponse \<bind> response_text of
                     Some out \<Rightarrow> s1\<lparr>sq_output := out\<rparr>
                   | None \<Rightarrow> s1\<lparr>sq_output := request_failed (exc r)\<rparr>)
         in (s2\<lparr>sq_loading := False\<rparr>, Some (JObj [(str ''sql'', JStr (trim (sq_sql s)))]))))"

text \<open>The answer to a statement, as the backend sends it.\<close>

definition exec_json :: "ustr list \<Rightarrow> ustr list list \<Rightarrow> ustr \<Rightarrow> jsval" where
  "exec_json cols rows tag = JObj
     [(str ''success'', JBool True),
      (str ''result'', JObj
        [(str ''Columns'', JArr (map (\<lambda>c. JObj [(str ''Name'', JStr c), (str ''Type'', JNum (Fin 0))]) cols)),
         (str ''Rows'', JArr (map (\<lambda>cells. JObj (zip cols (map JStr cells))) rows)),
         (str ''CommandTag'', JStr tag)])]"

definition table_line :: "ustr list \<Rightarrow> ustr" where
  "table_line cells = join tab cells @ newline"

definition table_text :: "ustr list \<Rightarrow> ustr list list \<Rightarrow> ustr \<Rightarrow> ustr" where
  "table_text cols rows tag =
     concat (map table_line ((if cols = [] then [] else [cols]) @ rows)) @
     (if tag = [] then [] else str ''('' @ tag @ str '')'' @ newline)"

lemma row_cell_zip:
  assumes "distinct cols" "length cells = length cols" "i < length cols"
  shows "row_cell (JObj (zip cols (map JStr cells))) (cols ! i) = Some (cells ! i)"
proof -
  have "map_of (zip cols (map JStr cells)) (cols ! i) = Some (JStr (cells ! i))"
    using assms by (simp add: map_of_zip_nth)
  then show ?thesis by (simp add: row_cell_def)
qed

lemma row_line_zip:
  assumes "distinct cols" "length cells = length cols"
  shows "row_line cols (JObj (zip cols (map JStr cells))) = Some (table_line cells)"
proof -
  have "mapM (row_cell (JObj (zip cols (map JStr cells)))) cols = Some cells"
  proof -
    have "mapM (row_cell (JObj (zip cols (map JStr cells)))) (map ((!) cols) [0..<length cols]) =
        Some (map ((!) cells) [0..<length cols])"
      by (rule mapM_map) (use assms row_cell_zip in auto)
    then show ?thesis using map_nth [of cols] map_nth [of cells] assms(2) by simp
  qed
  then show ?thesis by (simp add: row_line_def table_line_def)
qed

lemma normalize_exec_json:
  "normalizeResponse (exec_json cols rows tag) = Some \<lparr>xs_success = JBool True, xs_error = JUndef,
     xs_result = Some \<lparr>xr_columns = map (\<lambda>c. (c, Fin 0)) cols,
       xr_rows = map (\<lambda>cells. JObj (zip cols (map JStr cells))) rows, xr_commandTag = tag\<rparr>\<rparr>"
proof -
  have "mapM column_of (map (\<lambda>c. JObj [(str ''Name'', JStr c), (str ''Type'', JNum (Fin 0))]) cols) =
      Some (map (\<lambda>c. (c, Fin 0)) cols)"
    by (rule mapM_map) (simp add: column_of_def js_prop_def field_def str_def)
  then show ?thesis
    by (simp add: normalizeResponse_def exec_json_def js_prop_def field_def str_def js_list_def
        truthy_def)
qed

lemma result_text_table:
  assumes "distinct cols" "\<forall>cells \<in> set rows. length cells = length cols"
  shows "result_text \<lparr>xr_columns = map (\<lambda>c. (c, Fin 0)) cols,
      xr_rows = map (\<lambda>cells. JObj (zip cols (map JStr cells))) rows, xr_commandTag = tag\<rparr> =
    Some (if table_text cols rows tag = [] then no_result else table_text cols rows tag)"
proof -
  have "mapM (row_line cols) (map (\<lambda>cells. JObj (zip cols (map JStr cells))) rows) =
      Some (map table_line rows)"
    by (rule mapM_map) (use assms row_line_zip in auto)
  then show ?thesis by (simp add: result_text_def table_text_def table_line_def comp_def Let_def)
qed


lemma json_ok_exec_json:
  assumes "distinct cols"
  shows "json_ok (exec_json cols rows tag)"
proof -
  have "distinct (map fst (zip cols (map JStr cells)))" for cells
    using assms by (simp add: map_fst_zip_take)
  then show ?thesis by (auto simp: exec_json_def str_def dest!: set_zip_rightD)
qed


text \<open>Whatever the answer, the console ends up idle and showing something.\<close>

lemma console_settles:
  assumes "trim (sq_sql s) \<noteq> []"
  shows "\<not> sq_loading (fst (handleExecute exc r s)) \<and> sq_output (fst (handleExecute exc r s)) \<noteq> []"
proof -
  have "out \<noteq> []" if "response_text x = Some out" for x out
    using that
    by (auto simp: response_text_def result_text_def no_result_def str_def Let_def
        split: option.splits if_splits Option.bind_splits)
  then show ?thesis
    using assms
    by (auto simp: handleExecute_def request_failed_def str_def Let_def split: option.split
        Option.bind_splits)
qed

section \<open>The WAL viewer\<close>

record wal_viewer =
  wl_records :: "jsval list"
  wl_loading :: bool
  wl_lsn :: ustr

definition wal_url :: "ustr \<Rightarrow> wal_viewer \<Rightarrow> ustr" where
  "wal_url base s = base @ str ''/api/wal?lsn='' @ wl_lsn s"

definition fetchWALRecords :: "reply \<Rightarrow> wal_viewer \<Rightarrow> wal_viewer" where
  "fetchWALRecords r s = s\<lparr>wl_loading := False,
     wl_records := (case any_json r \<bind> (\<lambda>d. js_prop d ''records'') of Some (JArr vs) \<Rightarrow> vs | _ \<Rightarrow> [])\<rparr>"

text \<open>A block that is not an object raises an exception while rendering, if it is \<^verbatim>\<open>null\<close>.\<close>

definition block_text :: "jsval \<Rightarrow> ustr option" where
  "block_text b = do {
     rel \<leftarrow> js_prop b ''relNode'';
     blk \<leftarrow> js_prop b ''blockNum'';
     Some ((if rel = JUndef \<or> rel = JNull then str ''rel ?'' else str ''rel '' @ to_str rel) @ str '':'' @
       (if blk = JUndef \<or> blk = JNull then str ''blk ?'' else str ''blk '' @ to_str blk)) }"

definition formatBlocks :: "jsval \<Rightarrow> ustr option" where
  "formatBlocks value = (case value of
     JArr (b # bs) \<Rightarrow> map_option (join (str '', '')) (mapM block_text (take 2 (b # bs)))
   | _ \<Rightarrow> Some (str ''-''))"

section \<open>The CLOG viewer\<close>

record clog_stats =
  cg_in_progress :: nat
  cg_committed :: nat
  cg_aborted :: nat
  cg_subtrans :: nat
  cg_total :: nat

record clog_viewer =
  cv_stats :: clog_stats
  cv_loading :: bool
  cv_transactions :: "jsval list"

definition no_clog_stats :: clog_stats where
  "no_clog_stats = \<lparr>cg_in_progress = 0, cg_committed = 0, cg_aborted = 0, cg_subtrans = 0, cg_total = 0\<rparr>"

definition count_status :: "jsval \<Rightarrow> clog_stats \<Rightarrow> clog_stats" where
  "count_status st c =
     (if st = JStr (str ''in-progress'') then c\<lparr>cg_in_progress := cg_in_progress c + 1\<rparr>
      else if st = JStr (str ''committed'') then c\<lparr>cg_committed := cg_committed c + 1\<rparr>
      else if st = JStr (str ''aborted'') then c\<lparr>cg_aborted := cg_aborted c + 1\<rparr>
      else if st = JStr (str ''subtrans'') then c\<lparr>cg_subtrans := cg_subtrans c + 1\<rparr>
      else c)"

text \<open>An answer whose list is falsy leaves the viewer as it was; any exception clears it.\<close>

definition fetchCLOGStats :: "reply \<Rightarrow> clog_viewer \<Rightarrow> clog_viewer" where
  "fetchCLOGStats r s =
     (case do {
        d \<leftarrow> any_json r;
        txs \<leftarrow> js_prop d ''transactions'';
        if \<not> truthy txs then Some s
        else case txs of
          JArr vs \<Rightarrow> do {
            sts \<leftarrow> mapM (\<lambda>v. js_prop v ''status'') vs;
            Some (s\<lparr>cv_transactions := vs,
              cv_stats := fold count_status sts (no_clog_stats\<lparr>cg_total := length vs\<rparr>)\<rparr>) }
        | _ \<Rightarrow> None } of
        Some s' \<Rightarrow> s'
      | None \<Rightarrow> s\<lparr>cv_transactions := [], cv_stats := no_clog_stats\<rparr>)\<lparr>cv_loading := False\<rparr>"

text \<open>The number on a card is looked up by the name of the status, in the keys of the statistics.\<close>

definition status_labels :: "ustr list" where
  "status_labels = [str ''in-progress'', str ''committed'', str ''aborted'', str ''subtrans'']"

definition stats_entries :: "clog_stats \<Rightarrow> (ustr \<times> nat) list" where
  "stats_entries c = [(str ''in_progress'', cg_in_progress c), (str ''committed'', cg_committed c),
     (str ''aborted'', cg_aborted c), (str ''subtrans'', cg_subtrans c), (str ''total'', cg_total c)]"

definition card_count :: "clog_stats \<Rightarrow> ustr \<Rightarrow> nat" where
  "card_count c key = (case map_of (stats_entries c) key of Some n \<Rightarrow> n | None \<Rightarrow> 0)"

text \<open>The number of transactions of an answer that have a given status.\<close>

definition with_status :: "string \<Rightarrow> jsval list \<Rightarrow> nat" where
  "with_status st vs = length (filter (\<lambda>v. js_prop v ''status'' = Some (JStr (str st))) vs)"

lemma count_status_fields:
  "cg_in_progress (count_status st c) = cg_in_progress c + of_bool (st = JStr (str ''in-progress''))"
  "cg_committed (count_status st c) = cg_committed c + of_bool (st = JStr (str ''committed''))"
  "cg_aborted (count_status st c) = cg_aborted c + of_bool (st = JStr (str ''aborted''))"
  "cg_subtrans (count_status st c) = cg_subtrans c + of_bool (st = JStr (str ''subtrans''))"
  "cg_total (count_status st c) = cg_total c"
  by (simp_all add: count_status_def str_def)

lemma fold_count_status:
  assumes "mapM (\<lambda>v. js_prop v ''status'') vs = Some sts"
  shows "cg_in_progress (fold count_status sts c) = cg_in_progress c + with_status ''in-progress'' vs \<and>
    cg_committed (fold count_status sts c) = cg_committed c + with_status ''committed'' vs \<and>
    cg_aborted (fold count_status sts c) = cg_aborted c + with_status ''aborted'' vs \<and>
    cg_subtrans (fold count_status sts c) = cg_subtrans c + with_status ''subtrans'' vs \<and>
    cg_total (fold count_status sts c) = cg_total c"
  using assms
proof (induction vs arbitrary: sts c)
  case Nil
  then show ?case by (simp add: with_status_def)
next
  case (Cons v vs)
  then obtain st sts' where st: "js_prop v ''status'' = Some st" "sts = st # sts'"
    "mapM (\<lambda>v. js_prop v ''status'') vs = Some sts'"
    by (auto split: Option.bind_splits)
  have w: "with_status k (v # vs) = of_bool (st = JStr (str k)) + with_status k vs" for k
    using st(1) by (simp add: with_status_def)
  from Cons.IH [OF st(3), of "count_status st c"] show ?case
    by (simp add: st(2) w count_status_fields)
qed

text \<open>
  An answer with a list of transactions is counted correctly: the total is the length of the
  list and each counter the number of transactions with that status. On the page, however, the
  card of the transactions in progress shows 0 whatever the counters are, because it looks for
  its number under the name of the status and not under that of the counter.
\<close>

lemma clog_counts:
  assumes "any_json r = Some d" "js_prop d ''transactions'' = Some (JArr vs)"
    and "\<forall>v \<in> set vs. js_prop v ''status'' \<noteq> None"
  shows "cv_transactions (fetchCLOGStats r s) = vs \<and>
    stats_entries (cv_stats (fetchCLOGStats r s)) =
      [(str ''in_progress'', with_status ''in-progress'' vs), (str ''committed'', with_status ''committed'' vs),
       (str ''aborted'', with_status ''aborted'' vs), (str ''subtrans'', with_status ''subtrans'' vs),
       (str ''total'', length vs)] \<and>
    map (card_count (cv_stats (fetchCLOGStats r s))) status_labels =
      [0, with_status ''committed'' vs, with_status ''aborted'' vs, with_status ''subtrans'' vs]"
proof -
  have "mapM (\<lambda>v. js_prop v ''status'') vs = Some (map (\<lambda>v. the (js_prop v ''status'')) vs)"
    using mapM_map [of vs "\<lambda>v. js_prop v ''status''" id "\<lambda>v. the (js_prop v ''status'')"] assms(3)
    by auto
  from fold_count_status [OF this, of "no_clog_stats\<lparr>cg_total := length vs\<rparr>"] assms(1,2) this
  show ?thesis
    by (simp add: fetchCLOGStats_def stats_entries_def card_count_def status_labels_def
        no_clog_stats_def str_def)
qed

definition clog_answer :: "ustr list \<Rightarrow> jsval" where
  "clog_answer sts = JObj [(str ''transactions'',
     JArr (map (\<lambda>st. JObj [(str ''xid'', JNum (Fin 7)), (str ''status'', JStr st)]) sts))]"

lemma json_ok_clog_answer: "json_ok (clog_answer sts)"
  by (auto simp: clog_answer_def str_def)

end
