(* ===== verification/Charts.thy ===== *)
theory Charts
  imports VisualizationData "HOL-Library.Multiset"
begin

text \<open>
  What the charts of a node show: the statistics and the grid of \<^verbatim>\<open>BufferHeatmapView.tsx\<close>, the
  rows and the nodes of \<^verbatim>\<open>PipelineView.tsx\<close>, and the state diagram of
  \<^verbatim>\<open>TransactionStateView.tsx\<close>. Positions are numbers; what d3 does with them (scales, axes,
  paths) is not modelled. Quotients are exact where the program computes with doubles.
\<close>

section \<open>Statistics of the buffer heat map\<close>

record heat_stats =
  hs_total :: nat
  hs_used :: nat
  hs_usedPct :: rat
  hs_dirty :: nat
  hs_dirtyPct :: rat
  hs_pinned :: nat
  hs_avgHit :: rat

definition computeStats :: "buffer_cell list \<Rightarrow> heat_stats" where
  "computeStats data =
     (let used = filter (\<lambda>b. 0 < bc_hit_count b) data;
          dirty = filter bc_is_dirty data;
          pinned = filter bc_is_pinned data;
          hits = map bc_hit_count used
      in \<lparr>hs_total = length data,
          hs_used = length used,
          hs_usedPct = (if data = [] then 0 else of_nat (length used) / of_nat (length data) * 100),
          hs_dirty = length dirty,
          hs_dirtyPct = (if used = [] then 0 else of_nat (length dirty) / of_nat (length used) * 100),
          hs_pinned = length pinned,
          hs_avgHit = (if hits = [] then 0 else of_nat (sum_list hits) / of_nat (length hits))\<rparr>)"

definition sparkline_data :: "buffer_cell list \<Rightarrow> buffer_cell list" where
  "sparkline_data data = sort_by_num bc_id (filter (\<lambda>b. 0 < bc_hit_count b) data)"

lemma mset_insert_by [simp]: "mset (insert_by key x ys) = add_mset x (mset ys)"
  by (induction ys) simp_all

lemma mset_sort_by_num [simp]: "mset (sort_by_num key xs) = mset xs"
  by (induction xs) (simp_all add: sort_by_num_def)

text \<open>The buffers named by the \<^verbatim>\<open>buffer_pin\<close> events, with repetitions.\<close>

definition pinned_buffers :: "probe_event list \<Rightarrow> jsnum list" where
  "pinned_buffers evs = List.map_filter buffer_event_key evs"

lemma mset_buildBufferCells:
  "mset (buildBufferCells evs) = mset (map (cell_of evs) (first_keys [] (pinned_buffers evs)))"
  by (simp only: buildBufferCells_def cells_by_key mset_sort_by_num pinned_buffers_def)

lemma pins_count: "length (filter (\<lambda>e. buffer_event_key e = Some k) evs) = count_list (pinned_buffers evs) k"
  by (induction evs) (simp_all add: pinned_buffers_def map_filter_simps split: option.split)

lemma cell_of_pins: "bc_hit_count (cell_of evs k) = count_list (pinned_buffers evs) k"
  "bc_is_pinned (cell_of evs k)" "\<not> bc_is_dirty (cell_of evs k)"
  by (simp_all add: cell_of_def pins_count Let_def)

lemma built_cells:
  assumes "b \<in> set (buildBufferCells evs)"
  shows "0 < bc_hit_count b \<and> bc_is_pinned b \<and> \<not> bc_is_dirty b"
proof -
  have "set (buildBufferCells evs) = set (map (cell_of evs) (first_keys [] (pinned_buffers evs)))"
    using mset_eq_setD [OF mset_buildBufferCells] .
  with assms obtain k where "b = cell_of evs k" "k \<in> set (pinned_buffers evs)"
    by (auto simp: set_first_keys)
  then show ?thesis by (simp add: cell_of_pins count_list_0_iff neq0_conv [symmetric] del: neq0_conv)
qed

lemma sum_hit_counts: "sum_list (map bc_hit_count (buildBufferCells evs)) = length (pinned_buffers evs)"
proof -
  let ?ks = "first_keys [] (pinned_buffers evs)"
  have d: "distinct ?ks" by (rule distinct_first_keys) simp
  have "mset (map bc_hit_count (buildBufferCells evs)) =
      mset (map (count_list (pinned_buffers evs)) ?ks)"
    using arg_cong [OF mset_buildBufferCells, of "image_mset bc_hit_count" evs]
    by (simp add: multiset.map_comp comp_def cell_of_pins)
  then have "sum_list (map bc_hit_count (buildBufferCells evs)) =
      sum_list (map (count_list (pinned_buffers evs)) ?ks)"
    by (metis sum_mset_sum_list)
  also have "\<dots> = sum (count_list (pinned_buffers evs)) (set ?ks)"
    using d by (simp add: sum_list_distinct_conv_sum_set)
  also have "\<dots> = length (pinned_buffers evs)"
    by (rule sum_count_set) (simp_all add: set_first_keys)
  finally show ?thesis .
qed

text \<open>
  The heat map tells what the event stream says: there is one cell for each different buffer,
  all of them used and pinned and none of them dirty, and the average number of hits times the
  number of cells is the number of pin events.
\<close>

lemma heat_map_statistics:
  "computeStats (buildBufferCells evs) =
     (let n = card (set (pinned_buffers evs)) in
      \<lparr>hs_total = n, hs_used = n, hs_usedPct = (if n = 0 then 0 else 100), hs_dirty = 0,
       hs_dirtyPct = 0, hs_pinned = n,
       hs_avgHit = (if n = 0 then 0 else of_nat (length (pinned_buffers evs)) / of_nat n)\<rparr>)"
proof -
  let ?ks = "first_keys [] (pinned_buffers evs)"
  let ?cs = "buildBufferCells evs"
  have "length ?cs = length ?ks" using mset_eq_length [OF mset_buildBufferCells, of evs] by simp
  also have "\<dots> = card (set ?ks)" by (rule distinct_card [symmetric], rule distinct_first_keys) simp
  also have "set ?ks = set (pinned_buffers evs)" by (simp add: set_first_keys)
  finally have n: "length ?cs = card (set (pinned_buffers evs))" .
  have "filter (\<lambda>b. 0 < bc_hit_count b) ?cs = ?cs" "filter bc_is_pinned ?cs = ?cs"
    "filter bc_is_dirty ?cs = []"
    using built_cells by (auto simp: filter_id_conv filter_empty_conv)
  then show ?thesis
    using n sum_hit_counts [of evs] by (cases "?cs = []") (simp_all add: computeStats_def Let_def)
qed

section \<open>The grid of the buffer heat map\<close>

definition colCount :: nat where "colCount = 32"

record rect =
  rc_x :: int
  rc_y :: int
  rc_w :: int
  rc_h :: int

definition cell_size :: "int \<Rightarrow> int" where
  "cell_size width = max 6 ((width - 40) div int colCount)"

definition grid_height :: "int \<Rightarrow> nat \<Rightarrow> int" where
  "grid_height width n =
     (let rows = (int n + int colCount - 1) div int colCount in rows * (cell_size width + 2) + 20)"

definition cell_rect :: "int \<Rightarrow> nat \<Rightarrow> rect" where
  "cell_rect width i =
     (let col = int (i mod colCount); row = int (i div colCount); s = cell_size width
      in \<lparr>rc_x = 20 + col * s, rc_y = 10 + row * (s + 2), rc_w = s - 1, rc_h = s - 1\<rparr>)"

text \<open>The colour of a cell: unused, or one of two scales at a share of the largest hit count.\<close>

datatype fill = Unused | Oranges rat | Blues rat

definition max_hit :: "buffer_cell list \<Rightarrow> nat" where
  "max_hit data = (let m = fold max (map bc_hit_count data) 0 in if m = 0 then 1 else m)"

definition cell_fill :: "buffer_cell list \<Rightarrow> bool \<Rightarrow> buffer_cell \<Rightarrow> fill" where
  "cell_fill data showDirty b =
     (let share = of_nat (bc_hit_count b) / of_nat (max_hit data)
      in if bc_hit_count b = 0 then Unused
         else if bc_is_dirty b \<and> showDirty then Oranges (min share 1)
         else Blues share)"

text \<open>Row and column in the details of a cell; \<open>None\<close> for a buffer number that is not finite.\<close>

definition hovered_position :: "buffer_cell \<Rightarrow> (int \<times> rat) option" where
  "hovered_position b = (case bc_id b of
     Fin q \<Rightarrow>
       (let row = \<lfloor>q / of_nat colCount\<rfloor>;
            whole = (if q < 0 then \<lceil>q / of_nat colCount\<rceil> else row)
        in Some (row, q - of_nat colCount * of_int whole))
   | _ \<Rightarrow> None)"

definition apart :: "rect \<Rightarrow> rect \<Rightarrow> bool" where
  "apart a b \<longleftrightarrow> rc_x a + rc_w a < rc_x b \<or> rc_x b + rc_w b < rc_x a \<or>
     rc_y a + rc_h a < rc_y b \<or> rc_y b + rc_h b < rc_y a"

lemma cell_size_pos: "6 \<le> cell_size width"
  by (simp add: cell_size_def)

lemma steps_apart:
  assumes "c < (d :: int)" "0 < s"
  shows "c * s + (s - 1) < d * s"
proof -
  have "(c + 1) * s \<le> d * s" using assms by (intro mult_right_mono) simp_all
  then show ?thesis by (simp add: distrib_right)
qed

lemma cells_apart_less:
  assumes "i < j"
  shows "apart (cell_rect width i) (cell_rect width j)"
proof (cases "i div colCount = j div colCount")
  case True
  then have "i mod colCount < j mod colCount"
    using assms by (metis div_mult_mod_eq nat_add_left_cancel_less)
  then have "int (i mod colCount) < int (j mod colCount)" by simp
  from steps_apart [OF this, of "cell_size width"] cell_size_pos [of width] show ?thesis
    by (simp add: apart_def cell_rect_def Let_def)
next
  case False
  then have "int (i div colCount) < int (j div colCount)"
    using assms div_le_mono [of i j colCount] by simp
  from steps_apart [OF this, of "cell_size width + 2"] cell_size_pos [of width] show ?thesis
    by (simp add: apart_def cell_rect_def Let_def)
qed

lemma cell_in_width:
  assumes "232 \<le> width"
  shows "20 \<le> rc_x (cell_rect width i)" "rc_x (cell_rect width i) + rc_w (cell_rect width i) \<le> width - 20"
proof -
  have s: "cell_size width * 32 \<le> width - 40"
    using assms by (simp add: cell_size_def colCount_def)
  have "i mod colCount < colCount" by (simp add: colCount_def)
  then have "int (i mod colCount) + 1 \<le> 32" by (simp add: colCount_def)
  then have "(int (i mod colCount) + 1) * cell_size width \<le> 32 * cell_size width"
    using cell_size_pos [of width] by (intro mult_right_mono) simp_all
  with s show "rc_x (cell_rect width i) + rc_w (cell_rect width i) \<le> width - 20"
    by (simp add: cell_rect_def distrib_right Let_def)
  show "20 \<le> rc_x (cell_rect width i)"
    using cell_size_pos [of width] by (simp add: cell_rect_def Let_def)
qed

lemma cell_in_height:
  assumes "i < n"
  shows "10 \<le> rc_y (cell_rect width i)"
    "rc_y (cell_rect width i) + rc_h (cell_rect width i) \<le> grid_height width n - 10"
proof -
  have "int (i div colCount) + 1 \<le> (int n + int colCount - 1) div int colCount"
    using assms by (simp add: colCount_def zdiv_int)
  then have "(int (i div colCount) + 1) * (cell_size width + 2) \<le>
      (int n + int colCount - 1) div int colCount * (cell_size width + 2)"
    using cell_size_pos [of width] by (intro mult_right_mono) simp_all
  then show "rc_y (cell_rect width i) + rc_h (cell_rect width i) \<le> grid_height width n - 10"
    by (simp add: cell_rect_def grid_height_def distrib_right Let_def)
  show "10 \<le> rc_y (cell_rect width i)"
    using cell_size_pos [of width] by (simp add: cell_rect_def Let_def)
qed

text \<open>
  The grid is drawn without overlap and within its frame: two different cells never touch,
  every cell lies within the margins of the drawing vertically, and horizontally whenever the
  container is at least 232 pixels wide.
\<close>

lemma heat_map_grid:
  assumes "i < n" "j < n" "i \<noteq> j"
  shows "apart (cell_rect width i) (cell_rect width j) \<and>
    10 \<le> rc_y (cell_rect width i) \<and>
    rc_y (cell_rect width i) + rc_h (cell_rect width i) \<le> grid_height width n - 10 \<and>
    (232 \<le> width \<longrightarrow> 20 \<le> rc_x (cell_rect width i) \<and>
      rc_x (cell_rect width i) + rc_w (cell_rect width i) \<le> width - 20)"
proof -
  have "apart (cell_rect width i) (cell_rect width j)"
    using assms(3) cells_apart_less [of i j width] cells_apart_less [of j i width]
    by (cases "i < j") (auto simp: apart_def)
  with assms(1) show ?thesis using cell_in_height cell_in_width by blast
qed

text \<open>The position shown for a cell is computed from its buffer number, not from its place.\<close>

lemma hovered_position_is_not_the_place:
  "hovered_position \<lparr>bc_id = jsint 40, bc_hit_count = 1, bc_is_dirty = False, bc_is_pinned = True,
     bc_relfilenode = Fin 0\<rparr> = Some (1, 8) \<and>
   cell_rect 800 0 = \<lparr>rc_x = 20, rc_y = 10, rc_w = 22, rc_h = 22\<rparr>"
  by (simp add: hovered_position_def cell_rect_def cell_size_def colCount_def floor_eq_iff Let_def)

section \<open>The pipeline\<close>

text \<open>Only stages that took time are rows of the Gantt chart.\<close>

definition doneStages :: "pipeline_stage list \<Rightarrow> pipeline_stage list" where
  "doneStages stages = filter (\<lambda>s. 0 < st_duration_us s) stages"

definition totalTime :: "pipeline_stage list \<Rightarrow> int" where
  "totalTime stages = (case map st_end_us (doneStages stages) of [] \<Rightarrow> 0 | e # es \<Rightarrow> fold max es e)"

definition or_color :: "ustr \<Rightarrow> string \<Rightarrow> ustr" where
  "or_color c d = (if c = [] then str d else c)"

definition gantt_fill :: "pipeline_stage \<Rightarrow> ustr" where
  "gantt_fill s = (if st_status s = Error then str ''#f85149'' else or_color (st_color s) ''#3fb950'')"

definition stage_fill :: "pipeline_stage \<Rightarrow> ustr" where
  "stage_fill s = (case st_status s of
     Error \<Rightarrow> str ''#f85149'' | Done \<Rightarrow> or_color (st_color s) ''#3fb950''
   | Active \<Rightarrow> str ''#58a6ff'' | Pending \<Rightarrow> str ''#30363d'')"

text \<open>Width of a node and centre of the \<open>i\<close>-th one.\<close>

definition node_width :: "rat \<Rightarrow> nat \<Rightarrow> rat" where
  "node_width width n = min 100 (max 60 ((width - 140) / of_nat (max n 1)))"

definition node_center :: "rat \<Rightarrow> nat \<Rightarrow> nat \<Rightarrow> rat" where
  "node_center width n i = 60 + of_nat i * node_width width n + node_width width n / 2"

text \<open>A click on a node selects its stage, or unselects it.\<close>

definition click_stage :: "pipeline_stage \<Rightarrow> pipeline_stage option \<Rightarrow> pipeline_stage option" where
  "click_stage s selected =
     (if map_option st_id selected = Some (st_id s) then None else Some s)"

text \<open>The stages of the write pipeline carry no durations, so its Gantt chart has no rows.\<close>

lemma gantt_of_write_pipeline_is_empty:
  assumes "buildWriteStages evs = Some stages"
  shows "doneStages stages = [] \<and> totalTime stages = 0"
proof -
  have "st_duration_us (write_stage w b x s) = st_duration_us s" for w b x s
    by (simp add: write_stage_def split: option.split)
  moreover have "st_duration_us s = 0" if "s \<in> set WRITE_STAGE_TEMPLATE" for s
    using that by (auto simp: WRITE_STAGE_TEMPLATE_def pending_stage_def)
  ultimately have "doneStages stages = []"
    using assms by (auto simp: buildWriteStages_def doneStages_def filter_empty_conv Let_def split: if_splits)
  then show ?thesis by (simp add: totalTime_def)
qed

text \<open>The circles of neighbouring nodes have radius 17 and do not touch.\<close>

lemma pipeline_nodes_apart: "node_center width n i + 17 < node_center width n (Suc i) - 17"
  by (simp add: node_center_def node_width_def field_simps)

section \<open>The state diagram of transactions\<close>

definition STATE_ORDER :: "xact_status list" where
  "STATE_ORDER = [Idle, Started, In_progress, Commit, Abort]"

definition currentState :: "transaction_state list \<Rightarrow> xact_status" where
  "currentState data = (if data = [] then Idle else tx_state (last data))"

fun indexOf :: "'a \<Rightarrow> 'a list \<Rightarrow> int" where
  "indexOf x [] = -1"
| "indexOf x (y # ys) = (if x = y then 0 else (let i = indexOf x ys in if i < 0 then -1 else i + 1))"

definition currentStep :: "transaction_state list \<Rightarrow> int" where
  "currentStep data = max 0 (indexOf (currentState data) STATE_ORDER)"

definition state_x :: "rat \<Rightarrow> xact_status \<Rightarrow> rat" where
  "state_x width s = 40 + of_int (indexOf s STATE_ORDER) * ((width - 60) / (of_nat (length STATE_ORDER) - 1))"

definition isActive :: "transaction_state list \<Rightarrow> xact_status \<Rightarrow> bool" where
  "isActive data s \<longleftrightarrow> indexOf s STATE_ORDER \<le> currentStep data"

definition isCurrent :: "transaction_state list \<Rightarrow> xact_status \<Rightarrow> bool" where
  "isCurrent data s \<longleftrightarrow> currentStep data = indexOf s STATE_ORDER"

text \<open>
  The state diagram has exactly one current state, that of the last transaction listed or
  \<^verbatim>\<open>idle\<close>; the states drawn as passed are that one and all before it in the row.
\<close>

lemma state_diagram:
  "(isCurrent data s \<longleftrightarrow> s = currentState data) \<and>
   (isActive data s \<longleftrightarrow> s \<in> set (takeWhile (\<lambda>t. t \<noteq> currentState data) STATE_ORDER) \<or> s = currentState data)"
  by (cases s; cases "currentState data")
    (simp_all add: isCurrent_def isActive_def currentStep_def STATE_ORDER_def Let_def)

text \<open>An aborted transaction is drawn as having passed through \<^verbatim>\<open>commit\<close>.\<close>

lemma aborted_shows_commit: "currentState data = Abort \<Longrightarrow> isActive data Commit"
  by (simp add: isActive_def currentStep_def STATE_ORDER_def)

end
