(* ===== verification/Connections.thy ===== *)
theory Connections
  imports App
begin

text \<open>
  \<^verbatim>\<open>components/connection/ConnectionManager.tsx\<close>: connection profiles and the connect button. A
  connect goes through the API client, so its outcome is that of \<open>api_post\<close> in a world of
  replies; the state after it is returned together with the connection store and the calls of
  the component's callbacks.
\<close>

section \<open>State\<close>

record connection_profile =
  pr_id :: ustr
  pr_name :: ustr
  pr_host :: ustr
  pr_port :: int
  pr_user :: ustr
  pr_password :: ustr
  pr_database :: ustr

text \<open>What the form edits: any field may be missing.\<close>

record partial_profile =
  pp_id :: "ustr option"
  pp_name :: "ustr option"
  pp_host :: "ustr option"
  pp_port :: "int option"
  pp_user :: "ustr option"
  pp_password :: "ustr option"
  pp_database :: "ustr option"

record connection_manager =
  cm_profiles :: "connection_profile list"
  cm_activeProfile :: "connection_profile option"
  cm_editingProfile :: "partial_profile option"
  cm_isEditing :: bool
  cm_connecting :: bool
  cm_error :: ustr

definition init_connection_manager :: connection_manager where
  "init_connection_manager = \<lparr>cm_profiles = [], cm_activeProfile = None, cm_editingProfile = None,
     cm_isEditing = False, cm_connecting = False, cm_error = []\<rparr>"

section \<open>Connecting\<close>

definition current_profile :: "pg_config \<Rightarrow> connection_profile" where
  "current_profile cfg = \<lparr>pr_id = str ''current'', pr_name = str ''Current'', pr_host = cfg_host cfg,
     pr_port = cfg_port cfg, pr_user = cfg_user cfg, pr_password = [], pr_database = cfg_database cfg\<rparr>"

text \<open>The effect that runs whenever \<^verbatim>\<open>connected\<close> has changed, and on mounting.\<close>

definition connected_effect :: "pg_state \<Rightarrow> connection_manager \<Rightarrow> connection_manager" where
  "connected_effect pg s =
     (if pg_connected pg then s\<lparr>cm_activeProfile := Some (current_profile (pg_conf pg))\<rparr> else s)"

definition connect_body :: "connection_profile \<Rightarrow> jsval" where
  "connect_body p = JObj [(str ''host'', JStr (pr_host p)), (str ''port'', JNum (jsint (pr_port p))),
     (str ''user'', JStr (pr_user p)), (str ''database'', JStr (pr_database p))]"

definition config_of :: "connection_profile \<Rightarrow> pg_config" where
  "config_of p = \<lparr>cfg_host = pr_host p, cfg_port = pr_port p, cfg_user = pr_user p,
     cfg_database = pr_database p\<rparr>"

datatype callback = OnConnect bool | OnVersion jsval

definition cannot_connect :: "connection_profile \<Rightarrow> ustr \<Rightarrow> ustr" where
  "cannot_connect p m = str ''Cannot connect to '' @ pr_host p @ str '':'' @ int_str (pr_port p) @
     str '': '' @ m"

text \<open>\<open>type_error\<close> is the engine's message for reading a property of \<^verbatim>\<open>undefined\<close> or \<^verbatim>\<open>null\<close>.\<close>

definition connect_answered ::
  "ustr \<Rightarrow> connection_profile \<Rightarrow> api_failure + jsval \<Rightarrow> connection_manager \<Rightarrow> pg_state \<Rightarrow>
   connection_manager \<times> pg_state \<times> callback list"
where
  "connect_answered type_error p r s pg = (case r of
     Inl (ApiFailure e) \<Rightarrow>
       (s\<lparr>cm_error := str ''Backend rejected connection (HTTP '' @ int_str (ae_status e) @ str ''): '' @
          ae_message e\<rparr>, pg, [])
   | Inl LoopExited \<Rightarrow> (s\<lparr>cm_error := cannot_connect p loop_exited_message\<rparr>, pg, [])
   | Inr data \<Rightarrow> (case js_prop data ''success'' of
       None \<Rightarrow> (s\<lparr>cm_error := cannot_connect p type_error\<rparr>, pg, [])
     | Some ok \<Rightarrow>
         (let get = \<lambda>k. (case js_prop data k of Some v \<Rightarrow> v | None \<Rightarrow> JUndef);
              version = get ''version''
          in if truthy ok then
               (s\<lparr>cm_activeProfile := Some (p\<lparr>pr_id := (if pr_id p = [] then str ''current'' else pr_id p)\<rparr>)\<rparr>,
                setVersion (to_str (or_js version (JStr []))) (setConnected True (setConfig (config_of p) pg)),
                OnConnect True # (if truthy version then [OnVersion version] else []))
             else
               (s\<lparr>cm_error := to_str (or_js (get ''message'') (JStr (str ''Connection failed'')))\<rparr>, pg, []))))"

definition handleConnect ::
  "world \<Rightarrow> api_config \<Rightarrow> ustr \<Rightarrow> connection_profile \<Rightarrow> connection_manager \<Rightarrow> pg_state \<Rightarrow>
   connection_manager \<times> pg_state \<times> callback list"
where
  "handleConnect w cfg type_error p s pg =
     (let s1 = s\<lparr>cm_connecting := True, cm_error := []\<rparr>;
          r = snd (api_post w cfg (str ''/api/connect'') (connect_body p) no_options);
          (s2, pg2, cs) = connect_answered type_error p r s1 pg
      in (s2\<lparr>cm_connecting := False\<rparr>, pg2, cs))"

section \<open>Profiles\<close>

definition or_field :: "ustr option \<Rightarrow> ustr \<Rightarrow> ustr" where
  "or_field x d = (case x of Some v \<Rightarrow> if v = [] then d else v | None \<Rightarrow> d)"

text \<open>\<open>fresh\<close> is the id \<^verbatim>\<open>crypto.randomUUID\<close> or its substitute would give.\<close>

definition profile_of :: "ustr \<Rightarrow> partial_profile \<Rightarrow> connection_profile" where
  "profile_of fresh e = \<lparr>pr_id = or_field (pp_id e) fresh, pr_name = or_field (pp_name e) [],
     pr_host = or_field (pp_host e) (str ''localhost''),
     pr_port = (case pp_port e of Some n \<Rightarrow> if n = 0 then 5432 else n | None \<Rightarrow> 5432),
     pr_user = or_field (pp_user e) (str ''postgres''), pr_password = or_field (pp_password e) [],
     pr_database = or_field (pp_database e) (str ''postgres'')\<rparr>"

definition store_profile :: "connection_profile \<Rightarrow> connection_profile list \<Rightarrow> connection_profile list" where
  "store_profile p ps =
     (if \<exists>q \<in> set ps. pr_id q = pr_id p then map (\<lambda>q. if pr_id q = pr_id p then p else q) ps
      else ps @ [p])"

definition handleSaveProfile :: "ustr \<Rightarrow> connection_manager \<Rightarrow> connection_manager" where
  "handleSaveProfile fresh s = (case cm_editingProfile s of
     None \<Rightarrow> s
   | Some e \<Rightarrow>
       if or_field (pp_name e) [] = [] \<or> or_field (pp_host e) [] = [] then s
       else s\<lparr>cm_profiles := store_profile (profile_of fresh e) (cm_profiles s),
              cm_editingProfile := None, cm_isEditing := False\<rparr>)"

definition handleDeleteProfile :: "ustr \<Rightarrow> connection_manager \<Rightarrow> connection_manager" where
  "handleDeleteProfile i s = s\<lparr>cm_profiles := filter (\<lambda>p. pr_id p \<noteq> i) (cm_profiles s)\<rparr>"

definition startAdd :: "pg_state \<Rightarrow> connection_manager \<Rightarrow> connection_manager" where
  "startAdd pg s =
     (let cfg = pg_conf pg in
      s\<lparr>cm_editingProfile := Some \<lparr>pp_id = None, pp_name = None, pp_host = Some (cfg_host cfg),
          pp_port = Some (cfg_port cfg), pp_user = Some (cfg_user cfg), pp_password = Some [],
          pp_database = Some (cfg_database cfg)\<rparr>,
        cm_isEditing := True\<rparr>)"

definition startEditProfile :: "connection_profile \<Rightarrow> connection_manager \<Rightarrow> connection_manager" where
  "startEditProfile p s = s\<lparr>cm_editingProfile := Some \<lparr>pp_id = Some (pr_id p), pp_name = Some (pr_name p),
       pp_host = Some (pr_host p), pp_port = Some (pr_port p), pp_user = Some (pr_user p),
       pp_password = Some (pr_password p), pp_database = Some (pr_database p)\<rparr>,
     cm_isEditing := True\<rparr>"

definition cancelEditProfile :: "connection_manager \<Rightarrow> connection_manager" where
  "cancelEditProfile s = s\<lparr>cm_editingProfile := None, cm_isEditing := False\<rparr>"

text \<open>The badge of a profile in the list.\<close>

definition shown_connected :: "pg_state \<Rightarrow> connection_manager \<Rightarrow> connection_profile \<Rightarrow> bool" where
  "shown_connected pg s p \<longleftrightarrow>
     map_option pr_id (cm_activeProfile s) = Some (pr_id p) \<and> pg_connected pg"

section \<open>What connecting does\<close>

text \<open>Ids are unique and not empty, and every profile has a name, a host, a port and a user.\<close>

definition profile_ok :: "connection_profile \<Rightarrow> bool" where
  "profile_ok p \<longleftrightarrow> pr_id p \<noteq> [] \<and> pr_name p \<noteq> [] \<and> pr_host p \<noteq> [] \<and> pr_port p \<noteq> 0 \<and>
     pr_user p \<noteq> [] \<and> pr_database p \<noteq> []"

definition profiles_ok :: "connection_manager \<Rightarrow> bool" where
  "profiles_ok s \<longleftrightarrow> distinct (map pr_id (cm_profiles s)) \<and> list_all profile_ok (cm_profiles s)"

lemma store_profile_ids:
  "map pr_id (store_profile p ps) =
     (if pr_id p \<in> pr_id ` set ps then map pr_id ps else map pr_id ps @ [pr_id p])"
  by (auto simp: store_profile_def intro: rev_image_eqI)

lemma set_store_profile: "set (store_profile p ps) \<subseteq> insert p (set ps)"
  by (auto simp: store_profile_def)

lemma profile_of_ok:
  "fresh \<noteq> [] \<Longrightarrow> or_field (pp_name e) [] \<noteq> [] \<Longrightarrow> profile_ok (profile_of fresh e)"
  by (auto simp: profile_ok_def profile_of_def or_field_def str_def split: option.split)

lemma save_keeps_ok:
  assumes "profiles_ok s" "fresh \<noteq> []"
  shows "profiles_ok (handleSaveProfile fresh s)"
proof (cases "cm_editingProfile s")
  case None
  with assms(1) show ?thesis by (simp add: handleSaveProfile_def)
next
  case (Some e)
  have "list_all profile_ok (store_profile (profile_of fresh e) (cm_profiles s))"
    if "or_field (pp_name e) [] \<noteq> []"
    using assms profile_of_ok [OF assms(2) that] set_store_profile
    by (fastforce simp: profiles_ok_def list_all_iff)
  with Some assms(1) show ?thesis
    by (auto simp: handleSaveProfile_def profiles_ok_def store_profile_ids)
qed

lemma delete_keeps_ok: "profiles_ok s \<Longrightarrow> profiles_ok (handleDeleteProfile i s)"
  by (auto simp: profiles_ok_def handleDeleteProfile_def list_all_iff distinct_map inj_on_def)

datatype manager_op =
    SaveProfile ustr
  | DeleteProfile ustr
  | StartAdd
  | StartEditProfile connection_profile
  | CancelProfile
  | TypeProfile partial_profile
  | Connect world connection_profile

definition manager_apply ::
  "api_config \<Rightarrow> ustr \<Rightarrow> manager_op \<Rightarrow> connection_manager \<times> pg_state \<Rightarrow> connection_manager \<times> pg_state"
where
  "manager_apply cfg te a st = (case st of (s, pg) \<Rightarrow>
     (case a of
        SaveProfile fresh \<Rightarrow> (handleSaveProfile fresh s, pg)
      | DeleteProfile i \<Rightarrow> (handleDeleteProfile i s, pg)
      | StartAdd \<Rightarrow> (startAdd pg s, pg)
      | StartEditProfile p \<Rightarrow> (startEditProfile p s, pg)
      | CancelProfile \<Rightarrow> (cancelEditProfile s, pg)
      | TypeProfile e \<Rightarrow> (s\<lparr>cm_editingProfile := Some e\<rparr>, pg)
      | Connect w p \<Rightarrow>
          (let (s', pg', cs) = handleConnect w cfg te p s pg
           in (if pg_connected pg' = pg_connected pg then s' else connected_effect pg' s', pg'))))"

lemma handleConnect_profiles [simp]:
  "cm_profiles (fst (handleConnect w cfg te p s pg)) = cm_profiles s"
  by (simp add: handleConnect_def connect_answered_def Let_def split_beta
      split: sum.split api_failure.split option.split)

lemma manager_apply_ok:
  assumes "profiles_ok (fst st)" "a \<noteq> SaveProfile []"
  shows "profiles_ok (fst (manager_apply cfg te a st))"
proof (cases st)
  case (Pair s pg)
  show ?thesis
  proof (cases a)
    case (SaveProfile fresh)
    with assms Pair show ?thesis by (simp add: manager_apply_def save_keeps_ok)
  next
    case (DeleteProfile i)
    with assms(1) Pair show ?thesis by (simp add: manager_apply_def delete_keeps_ok)
  next
    case (Connect w p)
    have "cm_profiles (connected_effect pg' s') = cm_profiles s'" for pg' s'
      by (simp add: connected_effect_def)
    with Connect assms(1) Pair show ?thesis
      by (simp add: manager_apply_def profiles_ok_def split_beta Let_def)
  qed (use assms(1) Pair in \<open>simp_all add: manager_apply_def profiles_ok_def startAdd_def
         startEditProfile_def cancelEditProfile_def Let_def\<close>)
qed

text \<open>
  Profiles stay well formed: whatever is typed, saved, deleted and connected to, and
  whatever the backend answers, the ids in the list are unique and every profile has a name, a
  host, a port, a user and a database, as long as the ids made up for new profiles are not empty.
\<close>

lemma profiles_stay_well_formed:
  assumes "SaveProfile [] \<notin> set as"
  shows "profiles_ok (fst (fold (manager_apply cfg te) as (init_connection_manager, pg)))"
proof -
  have "profiles_ok (fst (fold (manager_apply cfg te) as st))" if "profiles_ok (fst st)" for st
    using that assms
  proof (induction as arbitrary: st)
    case (Cons a as)
    then have "profiles_ok (fst (manager_apply cfg te a st))" by (intro manager_apply_ok) auto
    with Cons show ?case by simp
  qed simp
  then show ?thesis by (simp add: profiles_ok_def init_connection_manager_def)
qed


text \<open>
  The effect that follows the first connect replaces the profile just connected by a generic one,
  so that the list shows no profile as connected.
\<close>

lemma effect_hides_connected_profile:
  assumes "pg_connected pg" "pr_id p \<noteq> str ''current''"
  shows "\<not> shown_connected pg (connected_effect pg s) p"
  using assms by (auto simp: shown_connected_def connected_effect_def current_profile_def)

end
