(* ===== verification/TaskPanel.thy ===== *)
theory TaskPanel
  imports App
begin

text \<open>
  The two places that show provisioning tasks: the panel of recent tasks of \<^verbatim>\<open>App.tsx\<close> with its
  refresh timer, and \<^verbatim>\<open>components/common/ToastNotification.tsx\<close>. An effect hook is part of the
  render that changes its dependencies; what it captures is kept in the state.
\<close>

section \<open>The panel of recent tasks\<close>

text \<open>
  \<open>tp_interval\<close> is the filter captured by the callback of the running interval timer, \<open>tp_log\<close> the
  filters of all requests made so far, each with whether the panel was open.
\<close>

record task_panel =
  tp_show :: bool
  tp_filter :: task_filter
  tp_interval :: "task_filter option"
  tp_tasks :: "provision_task list"
  tp_log :: "(bool \<times> task_filter) list"

definition init_panel :: task_panel where
  "init_panel = \<lparr>tp_show = False, tp_filter = AllTasks, tp_interval = None, tp_tasks = [], tp_log = []\<rparr>"

definition ask_tasks :: "task_filter \<Rightarrow> task_panel \<Rightarrow> task_panel" where
  "ask_tasks f s = s\<lparr>tp_log := tp_log s @ [(tp_show s, f)]\<rparr>"

text \<open>The effect with dependency \<^verbatim>\<open>showRecentTasks\<close>, its cleanup included.\<close>

definition show_effect :: "task_panel \<Rightarrow> task_panel" where
  "show_effect s =
     (if \<not> tp_show s then s\<lparr>tp_interval := None\<rparr>
      else (ask_tasks (tp_filter s) s)\<lparr>tp_interval := Some (tp_filter s)\<rparr>)"

text \<open>The effect with dependency \<^verbatim>\<open>recentTaskFilter\<close>.\<close>

definition filter_effect :: "task_panel \<Rightarrow> task_panel" where
  "filter_effect s = (if \<not> tp_show s then s else ask_tasks (tp_filter s) s)"

text \<open>A render with new values of the two states; an unchanged value triggers no effect.\<close>

definition panel_render :: "bool \<Rightarrow> task_filter \<Rightarrow> task_panel \<Rightarrow> task_panel" where
  "panel_render v f s =
     (let s1 = s\<lparr>tp_show := v, tp_filter := f\<rparr>;
          s2 = (if v \<noteq> tp_show s then show_effect s1 else s1)
      in if f \<noteq> tp_filter s then filter_effect s2 else s2)"

definition interval_fires :: "task_panel \<Rightarrow> task_panel" where
  "interval_fires s = (case tp_interval s of None \<Rightarrow> s | Some f \<Rightarrow> ask_tasks f s)"

definition tasks_answered :: "reply \<Rightarrow> task_panel \<Rightarrow> task_panel" where
  "tasks_answered r s = s\<lparr>tp_tasks := listProvisionTasks r\<rparr>"

definition toggle_panel :: "task_panel \<Rightarrow> task_panel" where
  "toggle_panel s = panel_render (\<not> tp_show s) (tp_filter s) s"

definition choose_filter :: "task_filter \<Rightarrow> task_panel \<Rightarrow> task_panel" where
  "choose_filter f s = panel_render (tp_show s) f s"

text \<open>A task that failed opens the panel on the failed ones.\<close>

definition task_failed :: "task_panel \<Rightarrow> task_panel" where
  "task_failed s = panel_render True FailedTasks s"

definition running_count :: "task_panel \<Rightarrow> nat" where
  "running_count s = length (filter (\<lambda>t. pv_status t = JStr (str ''running'')) (tp_tasks s))"

definition progress_percent :: "int \<Rightarrow> int" where
  "progress_percent p = max 0 (min 100 p)"

inductive panel_step :: "task_panel \<Rightarrow> task_panel \<Rightarrow> bool" where
  toggled: "panel_step s (toggle_panel s)"
| chosen: "panel_step s (choose_filter f s)"
| failed: "panel_step s (task_failed s)"
| fired: "panel_step s (interval_fires s)"
| answered: "panel_step s (tasks_answered r s)"

definition panel_ok :: "task_panel \<Rightarrow> bool" where
  "panel_ok s \<longleftrightarrow> (tp_interval s = None \<longleftrightarrow> \<not> tp_show s) \<and> (\<forall>(shown, f) \<in> set (tp_log s). shown)"

lemma panel_render_ok: "panel_ok s \<Longrightarrow> panel_ok (panel_render v f s)"
  by (auto simp: panel_ok_def panel_render_def show_effect_def filter_effect_def ask_tasks_def Let_def)

lemma panel_step_ok: "panel_step s s' \<Longrightarrow> panel_ok s \<Longrightarrow> panel_ok s'"
proof (induction rule: panel_step.induct)
  case (fired s)
  then show ?case
    by (auto simp: interval_fires_def panel_ok_def ask_tasks_def split: option.split)
next
  case (answered s r)
  then show ?case by (simp add: tasks_answered_def panel_ok_def)
qed (simp_all add: toggle_panel_def choose_filter_def task_failed_def panel_render_ok)

text \<open>
  C37. The panel asks the backend only while it is open: in every reachable state a refresh timer
  runs exactly if the panel is shown, and every request so far was made while it was shown.
\<close>

theorem panel_asks_only_when_open:
  assumes "panel_step\<^sup>*\<^sup>* init_panel s"
  shows "(tp_interval s = None \<longleftrightarrow> \<not> tp_show s) \<and> list_all fst (tp_log s)"
proof -
  have "panel_ok s"
    using assms by induction (auto simp: panel_step_ok, simp add: panel_ok_def init_panel_def)
  then show ?thesis by (auto simp: panel_ok_def list_all_iff)
qed

theorem panel_asks_only_when_open_witness:
  "tp_interval (interval_fires (toggle_panel init_panel)) \<noteq> None"
proof -
  have "panel_step init_panel (toggle_panel init_panel)"
    by (rule toggled)
  moreover have "panel_step (toggle_panel init_panel) (interval_fires (toggle_panel init_panel))"
    by (rule fired)
  ultimately have "panel_step\<^sup>*\<^sup>* init_panel (interval_fires (toggle_panel init_panel))"
    by (meson r_into_rtranclp rtranclp.rtrancl_into_rtrancl)
  from panel_asks_only_when_open [OF this] show ?thesis
    by (simp add: interval_fires_def toggle_panel_def panel_render_def show_effect_def ask_tasks_def
        init_panel_def Let_def)
qed

text \<open>
  The timer's callback keeps the filter that was set when the panel was opened: after another one
  is chosen, the next refresh replaces the filtered list by an unfiltered one.
\<close>

lemma refresh_uses_stale_filter:
  "map snd (tp_log (interval_fires (choose_filter FailedTasks (toggle_panel init_panel)))) =
     [AllTasks, FailedTasks, AllTasks]"
  by (simp add: interval_fires_def choose_filter_def toggle_panel_def panel_render_def show_effect_def
      filter_effect_def ask_tasks_def init_panel_def Let_def)

section \<open>The toast\<close>

text \<open>Times are in milliseconds; a timer is the moment it fires.\<close>

record toast =
  to_task :: "provision_task option"
  to_visible :: bool
  to_exiting :: bool
  to_hideAt :: "int option"
  to_dismissAt :: "int option"

definition has_status :: "string \<Rightarrow> provision_task option \<Rightarrow> bool" where
  "has_status st t \<longleftrightarrow> map_option pv_status t = Some (JStr (str st))"

definition toast_task_effect :: "int \<Rightarrow> toast \<Rightarrow> toast" where
  "toast_task_effect now s = (case to_task s of
     Some _ \<Rightarrow> s\<lparr>to_hideAt := None, to_visible := True, to_exiting := False\<rparr>
   | None \<Rightarrow> s\<lparr>to_hideAt := Some (now + 300), to_exiting := True\<rparr>)"

definition toast_dismiss_effect :: "int \<Rightarrow> toast \<Rightarrow> toast" where
  "toast_dismiss_effect now s = s\<lparr>to_dismissAt :=
     (if has_status ''success'' (to_task s) then Some (now + 2200) else None)\<rparr>"

text \<open>
  A render: the first effect runs if the task is another object, the second one always, since its
  other dependency is a function made anew by every render of the page.
\<close>

definition toast_render :: "int \<Rightarrow> provision_task option \<Rightarrow> bool \<Rightarrow> toast \<Rightarrow> toast" where
  "toast_render now t changed s =
     (let s1 = s\<lparr>to_task := t\<rparr>;
          s2 = (if changed then toast_task_effect now s1 else s1)
      in toast_dismiss_effect now s2)"

definition toast_mount :: "int \<Rightarrow> provision_task option \<Rightarrow> toast" where
  "toast_mount now t = toast_render now t True
     \<lparr>to_task = t, to_visible = False, to_exiting = False, to_hideAt = None, to_dismissAt = None\<rparr>"

definition hide_fires :: "toast \<Rightarrow> toast" where
  "hide_fires s = s\<lparr>to_visible := False, to_hideAt := None\<rparr>"

text \<open>The dismissal sets the page's task to \<^verbatim>\<open>null\<close>, which renders the toast again.\<close>

definition dismiss_fires :: "int \<Rightarrow> toast \<Rightarrow> toast" where
  "dismiss_fires now s = toast_render now None True (s\<lparr>to_dismissAt := None\<rparr>)"

inductive toast_step :: "toast \<Rightarrow> toast \<Rightarrow> bool" where
  rendered: "t \<noteq> to_task s \<longrightarrow> changed \<Longrightarrow> toast_step s (toast_render now t changed s)"
| hidden: "to_hideAt s = Some now \<Longrightarrow> toast_step s (hide_fires s)"
| dismissed: "to_dismissAt s = Some now \<Longrightarrow> toast_step s (dismiss_fires now s)"

definition toast_ok :: "toast \<Rightarrow> bool" where
  "toast_ok s \<longleftrightarrow>
     (if to_task s = None then to_exiting s \<and> (to_visible s \<longleftrightarrow> to_visible s \<and> to_hideAt s \<noteq> None)
      else to_visible s \<and> \<not> to_exiting s \<and> to_hideAt s = None) \<and>
     (to_dismissAt s \<noteq> None \<longleftrightarrow> has_status ''success'' (to_task s))"

lemma has_status_None [simp]: "\<not> has_status st None"
  by (simp add: has_status_def)

lemma toast_render_ok: "toast_ok s \<or> changed \<Longrightarrow> t \<noteq> to_task s \<longrightarrow> changed \<Longrightarrow>
    toast_ok (toast_render now t changed s)"
  by (cases t)
    (auto simp: toast_ok_def toast_render_def toast_task_effect_def toast_dismiss_effect_def Let_def
      split: if_splits)

lemma toast_step_ok: "toast_step s s' \<Longrightarrow> toast_ok s \<Longrightarrow> toast_ok s'"
proof (induction rule: toast_step.induct)
  case (rendered t s changed now)
  then show ?case by (intro toast_render_ok) auto
next
  case (hidden s now)
  then show ?case by (auto simp: toast_ok_def hide_fires_def split: if_splits)
next
  case (dismissed s now)
  then show ?case by (simp add: dismiss_fires_def toast_render_ok)
qed

text \<open>
  The toast follows the task: in every state that renders and timers can reach, a toast with a
  task is fully visible; a toast that is still visible without a task is on its way out, with the
  timer that hides it pending; and a timer to dismiss the task is pending exactly while the task
  has succeeded.
\<close>

lemma toast_follows_task:
  assumes "toast_step\<^sup>*\<^sup>* (toast_mount now t) s"
  shows "(if to_task s = None then to_exiting s \<and> (\<not> to_visible s \<or> to_hideAt s \<noteq> None)
      else to_visible s \<and> \<not> to_exiting s \<and> to_hideAt s = None) \<and>
    (to_dismissAt s \<noteq> None \<longleftrightarrow> has_status ''success'' (to_task s))"
proof -
  have "toast_ok (toast_mount now t)" by (simp add: toast_mount_def toast_render_ok)
  with assms have "toast_ok s" by induction (auto intro: toast_step_ok)
  then show ?thesis by (auto simp: toast_ok_def split: if_splits)
qed

text \<open>Every render of the page puts the toast's own dismissal off.\<close>

lemma render_defers_dismissal:
  "has_status ''success'' t \<Longrightarrow> to_dismissAt (toast_render now t False s) = Some (now + 2200)"
  by (simp add: toast_render_def toast_dismiss_effect_def Let_def)

end
