(* ===== verification/ProjectPage.thy ===== *)
theory ProjectPage
  imports EditForms Templates App
begin

text \<open>
  \<^verbatim>\<open>components/workspace/ProjectHomeView.tsx\<close> (statistics, the renaming form and the way to a
  cluster), \<^verbatim>\<open>TemplateDialog.tsx\<close> (the choice of a template), and the texts \<^verbatim>\<open>App.tsx\<close> and
  \<^verbatim>\<open>StatusBar.tsx\<close> put around every page. A handler that calls back into the page of the
  application is composed with the handler of \<open>App\<close> it calls.
\<close>

section \<open>Statistics\<close>

record project_stats =
  ps_clusterCount :: nat
  ps_nodeCount :: nat
  ps_componentCount :: nat
  ps_primaryCount :: nat
  ps_standbyCount :: int

definition getProjectStats :: "workspace_project \<Rightarrow> project_stats" where
  "getProjectStats p =
     (let nodeCount = foldl (\<lambda>acc c. acc + length (cl_nodes c)) 0 (pj_clusters p);
          primaryCount = foldl (\<lambda>acc c. acc +
            length (filter (\<lambda>n. nd_role n = str ''primary'') (cl_nodes c))) 0 (pj_clusters p)
      in \<lparr>ps_clusterCount = length (pj_clusters p), ps_nodeCount = nodeCount,
          ps_componentCount = length (pj_components p), ps_primaryCount = primaryCount,
          ps_standbyCount = int nodeCount - int primaryCount\<rparr>)"

record total_stats =
  ts_projects :: nat
  ts_clusters :: nat
  ts_nodes :: nat
  ts_components :: nat

definition totalStats :: "workspace_project list \<Rightarrow> total_stats" where
  "totalStats ps =
     \<lparr>ts_projects = length ps,
      ts_clusters = foldl (\<lambda>acc p. acc + length (pj_clusters p)) 0 ps,
      ts_nodes = foldl (\<lambda>acc p. acc + foldl (\<lambda>a c. a + length (cl_nodes c)) 0 (pj_clusters p)) 0 ps,
      ts_components = foldl (\<lambda>acc p. acc + length (pj_components p)) 0 ps\<rparr>"

lemma foldl_add_sum: "foldl (\<lambda>acc x. acc + f x) (a::nat) xs = a + sum_list (map f xs)"
  by (induction xs arbitrary: a) simp_all

lemma getProjectStats_simps [simp]:
  "ps_clusterCount (getProjectStats p) = length (pj_clusters p)"
  "ps_nodeCount (getProjectStats p) = (\<Sum>c\<leftarrow>pj_clusters p. length (cl_nodes c))"
  "ps_componentCount (getProjectStats p) = length (pj_components p)"
  by (simp_all add: getProjectStats_def Let_def foldl_add_sum)

lemma totalStats_simps [simp]:
  "ts_projects (totalStats ps) = length ps"
  "ts_clusters (totalStats ps) = (\<Sum>p\<leftarrow>ps. ps_clusterCount (getProjectStats p))"
  "ts_nodes (totalStats ps) = (\<Sum>p\<leftarrow>ps. ps_nodeCount (getProjectStats p))"
  "ts_components (totalStats ps) = (\<Sum>p\<leftarrow>ps. ps_componentCount (getProjectStats p))"
  by (simp_all add: totalStats_def foldl_add_sum)

text \<open>The standby count is never negative, although it is a difference of two counts.\<close>

lemma standby_count: "ps_standbyCount (getProjectStats p) =
    int (\<Sum>c\<leftarrow>pj_clusters p. length (filter (\<lambda>n. nd_role n \<noteq> str ''primary'') (cl_nodes c)))"
proof -
  have "length (cl_nodes c) = length (filter (\<lambda>n. nd_role n = str ''primary'') (cl_nodes c)) +
      length (filter (\<lambda>n. nd_role n \<noteq> str ''primary'') (cl_nodes c))" for c
    by (simp add: sum_length_filter_compl)
  note split = this
  have "(\<Sum>c\<leftarrow>pj_clusters p. length (cl_nodes c)) =
      (\<Sum>c\<leftarrow>pj_clusters p. length (filter (\<lambda>n. nd_role n = str ''primary'') (cl_nodes c))) +
      (\<Sum>c\<leftarrow>pj_clusters p. length (filter (\<lambda>n. nd_role n \<noteq> str ''primary'') (cl_nodes c)))"
    by (subst split) (simp only: sum_list_addf)
  then show ?thesis by (simp add: getProjectStats_def Let_def foldl_add_sum)
qed

text \<open>A sum over the projects after one of them, whose id is unique, has been replaced.\<close>

lemma sum_in_project:
  assumes "distinct (map pj_id ps)" "p \<in> set ps"
  shows "(\<Sum>q\<leftarrow>in_project (pj_id p) f ps. g q) + g p = (\<Sum>q\<leftarrow>ps. g q) + (g (f p) :: nat)"
  using assms
proof (induction ps)
  case (Cons q ps)
  show ?case
  proof (cases "q = p")
    case True
    have "pj_id r \<noteq> pj_id p" if "r \<in> set ps" for r
      using Cons.prems True imageI [OF that, of pj_id] by auto
    then have "in_project (pj_id p) f ps = ps"
      by (simp add: in_project_def update_where_def map_idI)
    with True show ?thesis by (simp add: in_project_def update_where_def)
  next
    case False
    with Cons.prems have "pj_id q \<noteq> pj_id p" "p \<in> set ps" by auto
    with Cons show ?thesis by (simp add: in_project_def update_where_def)
  qed
qed simp

lemma length_in_project [simp]: "length (in_project i f ps) = length ps"
  by (simp add: in_project_def update_where_def)

lemma find_first_unique:
  assumes "distinct (map k xs)" "x \<in> set xs"
  shows "find_first (\<lambda>y. k y = k x) xs = Some x"
  using assms
  by (induction xs) (auto simp: find_first_def)

section \<open>The page\<close>

record project_page =
  pg_editingProjectId :: ustr
  pg_editingProjectName :: ustr

definition init_project_page :: project_page where
  "init_project_page = \<lparr>pg_editingProjectId = [], pg_editingProjectName = []\<rparr>"

definition startEditProject :: "workspace_project \<Rightarrow> project_page \<Rightarrow> project_page" where
  "startEditProject p s = s\<lparr>pg_editingProjectId := pj_id p, pg_editingProjectName := pj_name p\<rparr>"

definition typeProjectName :: "ustr \<Rightarrow> project_page \<Rightarrow> project_page" where
  "typeProjectName v s = s\<lparr>pg_editingProjectName := v\<rparr>"

text \<open>The second component is the call of \<^verbatim>\<open>onUpdateProject\<close>, if it is made.\<close>

definition saveEditProject :: "project_page \<Rightarrow> project_page \<times> (ustr \<times> ustr) option" where
  "saveEditProject s =
     (if pg_editingProjectId s = [] then (s, None)
      else (s\<lparr>pg_editingProjectId := []\<rparr>, Some (pg_editingProjectId s, pg_editingProjectName s)))"

definition cancelEditProject :: "project_page \<Rightarrow> project_page" where
  "cancelEditProject s = s\<lparr>pg_editingProjectId := []\<rparr>"

definition isSelected :: "workspace_project \<Rightarrow> app_state \<Rightarrow> bool" where
  "isSelected p a \<longleftrightarrow> Some (pj_id p) = map_option pj_id (selectedProject a)"

definition cardClicked :: "workspace_project \<Rightarrow> project_page \<Rightarrow> app_state \<Rightarrow> app_state" where
  "cardClicked p s a =
     (if pj_id p = pg_editingProjectId s then a else a\<lparr>ap_selectedProjectId := pj_id p\<rparr>)"

definition handleClusterClick :: "ustr \<Rightarrow> ustr \<Rightarrow> app_state \<Rightarrow> app_state" where
  "handleClusterClick project_id cluster_id a =
     navigate_to_cluster project_id cluster_id (a\<lparr>ap_selectedProjectId := project_id\<rparr>)"

text \<open>
  The cards and the totals count the same things: each total is the sum of the cards' numbers,
  a card's primaries and standbys are its nodes, and creating a cluster from a card adds exactly
  one cluster with one primary to that card and to the totals and selects it.
\<close>

lemma project_statistics:
  assumes "distinct (map pj_id (ap_projects a))" "p \<in> set (ap_projects a)"
  shows "(let a' = create_cluster_in cfg i n (pj_id p) a; t = totalStats (ap_projects a);
      t' = totalStats (ap_projects a') in
    ts_projects t' = ts_projects t \<and> ts_components t' = ts_components t \<and>
    ts_clusters t' = ts_clusters t + 1 \<and> ts_nodes t' = ts_nodes t + 1 \<and>
    ts_nodes t = (\<Sum>q\<leftarrow>ap_projects a. ps_nodeCount (getProjectStats q)) \<and>
    int (ps_primaryCount (getProjectStats p)) + ps_standbyCount (getProjectStats p) =
      int (ps_nodeCount (getProjectStats p)) \<and> 0 \<le> ps_standbyCount (getProjectStats p) \<and>
    ap_selectedClusterId a' = i \<and> shown_view a' = Some ClusterHome)"
proof -
  let ?c = "new_cluster cfg i n p"
  let ?f = "\<lambda>q. q\<lparr>pj_clusters := pj_clusters q @ [?c]\<rparr>"
  have found: "find_first (\<lambda>q. pj_id q = pj_id p) (ap_projects a) = Some p"
    using assms by (rule find_first_unique)
  have made: "ap_projects (create_cluster_in cfg i n (pj_id p) a) = in_project (pj_id p) ?f (ap_projects a)"
    by (simp add: create_cluster_in_def found setProjects_def createCluster_def autosave_effect_def)
  have "length (cl_nodes ?c) = 1" by (simp add: new_cluster_def)
  then show ?thesis
    using sum_in_project [OF assms, where f = ?f and g = "\<lambda>q. ps_clusterCount (getProjectStats q)"]
      sum_in_project [OF assms, where f = ?f and g = "\<lambda>q. ps_nodeCount (getProjectStats q)"]
      sum_in_project [OF assms, where f = ?f and g = "\<lambda>q. ps_componentCount (getProjectStats q)"] standby_count [of p]
    by (simp add: made Let_def) (simp add: create_cluster_in_def found shown_view_def getProjectStats_def
        Let_def foldl_add_sum)
qed

section \<open>Renaming\<close>

definition editing_project :: "project_page \<Rightarrow> ustr option" where
  "editing_project s = (if pg_editingProjectId s = [] then None else Some (pg_editingProjectId s))"

interpretation project_form: targeted_form startEditProject typeProjectName saveEditProject
  cancelEditProject editing_project pj_id fst
  by unfold_locales
    (auto simp: startEditProject_def typeProjectName_def saveEditProject_def cancelEditProject_def
      editing_project_def split: if_splits)

text \<open>The calls arrive at the page of the application one after the other.\<close>

definition project_renamed :: "pg_config \<Rightarrow> ustr \<times> ustr \<Rightarrow> app_state \<Rightarrow> app_state" where
  "project_renamed cfg = (\<lambda>(i, n). app_op cfg (UpdateProject i (Some n)))"

definition rename_run ::
  "pg_config \<Rightarrow> (workspace_project, ustr) form_step list \<Rightarrow> app_state \<Rightarrow> app_state"
where
  "rename_run cfg as a = fold (project_renamed cfg)
     (snd (form_run startEditProject typeProjectName saveEditProject cancelEditProject as init_project_page)) a"

lemma project_renamed_projects [simp]:
  "ap_projects (project_renamed cfg (i, n) a) = updateProject i (Some n) (ap_projects a)"
  by (simp add: project_renamed_def app_op_def apply_op_def setProjects_def autosave_effect_def Let_def)

lemma updateProject_keeps:
  "map pj_id (updateProject i n ps) = map pj_id ps"
  "map pj_clusters (updateProject i n ps) = map pj_clusters ps"
  "map pj_components (updateProject i n ps) = map pj_components ps"
  "i \<in> K \<Longrightarrow> filter (\<lambda>p. pj_id p \<notin> K) (updateProject i n ps) = filter (\<lambda>p. pj_id p \<notin> K) ps"
  by (induction ps) (auto simp: updateProject_def update_where_def split: option.splits)

lemma renames_keep:
  assumes "fst ` set cs \<subseteq> K"
  shows "map pj_id (ap_projects (fold (project_renamed cfg) cs a)) = map pj_id (ap_projects a) \<and>
   map pj_clusters (ap_projects (fold (project_renamed cfg) cs a)) = map pj_clusters (ap_projects a) \<and>
   map pj_components (ap_projects (fold (project_renamed cfg) cs a)) = map pj_components (ap_projects a) \<and>
   filter (\<lambda>p. pj_id p \<notin> K) (ap_projects (fold (project_renamed cfg) cs a)) =
     filter (\<lambda>p. pj_id p \<notin> K) (ap_projects a)"
  using assms
proof (induction cs arbitrary: a)
  case (Cons c cs)
  obtain i n where c: "c = (i, n)" by fastforce
  with Cons show ?case by (simp add: updateProject_keeps)
qed simp

text \<open>
  Whatever is clicked and typed in the renaming form of the project page, the number and the
  order of the projects, their ids, clusters and components stay, and only projects whose
  editing was started can have another name.
\<close>

lemma renaming_is_local:
  "map pj_id (ap_projects (rename_run cfg as a)) = map pj_id (ap_projects a) \<and>
   map pj_clusters (ap_projects (rename_run cfg as a)) = map pj_clusters (ap_projects a) \<and>
   map pj_components (ap_projects (rename_run cfg as a)) = map pj_components (ap_projects a) \<and>
   filter (\<lambda>p. pj_id p \<notin> pj_id ` set (started as)) (ap_projects (rename_run cfg as a)) =
     filter (\<lambda>p. pj_id p \<notin> pj_id ` set (started as)) (ap_projects a)"
proof -
  obtain s' cs where run: "form_run startEditProject typeProjectName saveEditProject cancelEditProject
      as init_project_page = (s', cs)" by fastforce
  have sub: "fst ` set cs \<subseteq> pj_id ` set (started as)"
    using project_form.run_from_closed [OF _ run] by (simp add: editing_project_def init_project_page_def)
  show ?thesis
    unfolding rename_run_def run snd_conv by (rule renames_keep [OF sub])
qed

end
