(* ===== verification/Dialog.thy ===== *)
theory Dialog
  imports App
begin

text \<open>
  \<^verbatim>\<open>components/workspace/TemplateDialog.tsx\<close>: the choice of a template, of the name and parameters
  of the project, and of the mode, up to what is handed to \<^verbatim>\<open>handleTemplateConfirm\<close>. The two sliders
  are range inputs, whose value the browser keeps within their bounds and on their step.
\<close>

datatype create_mode = PreviewMode | CreateMode

record template_dialog =
  td_selected :: replication_template
  td_name :: ustr
  td_params :: template_params
  td_mode :: create_mode

text \<open>The name of a template, and the first occurrence of a pattern replaced.\<close>

definition template_name :: "replication_template \<Rightarrow> ustr" where
  "template_name t = (case t of
     Single \<Rightarrow> [0x5355, 0x673A, 0x6A21, 0x677F]
   | PhysicalRepl \<Rightarrow> [0x7269, 0x7406, 0x590D, 0x5236, 0x6A21, 0x677F]
   | LogicalRepl \<Rightarrow> [0x903B, 0x8F91, 0x590D, 0x5236, 0x6A21, 0x677F])"

fun replace_first :: "ustr \<Rightarrow> ustr \<Rightarrow> ustr \<Rightarrow> ustr" where
  "replace_first p r [] = (if p = [] then r else [])"
| "replace_first p r (c # cs) =
     (if starts_with p (c # cs) then r @ drop (length p) (c # cs) else c # replace_first p r cs)"

definition suggested_name :: "replication_template \<Rightarrow> ustr" where
  "suggested_name t = [0x6211, 0x7684] @ replace_first [0x6A21, 0x677F] [0x9879, 0x76EE] (template_name t)"

definition init_dialog :: template_dialog where
  "init_dialog = \<lparr>td_selected = PhysicalRepl, td_name = suggested_name PhysicalRepl,
     td_params = defaultParams PhysicalRepl, td_mode = CreateMode\<rparr>"

definition handleSelect :: "replication_template \<Rightarrow> template_dialog \<Rightarrow> template_dialog" where
  "handleSelect t d = d\<lparr>td_selected := t, td_params := defaultParams t, td_name := suggested_name t\<rparr>"

definition typeName :: "ustr \<Rightarrow> template_dialog \<Rightarrow> template_dialog" where
  "typeName v d = d\<lparr>td_name := v\<rparr>"

definition slideNodes :: "int \<Rightarrow> template_dialog \<Rightarrow> template_dialog" where
  "slideNodes v d = d\<lparr>td_params := (td_params d)\<lparr>tp_nodeCount := v\<rparr>\<rparr>"

definition slideThreshold :: "int \<Rightarrow> template_dialog \<Rightarrow> template_dialog" where
  "slideThreshold v d = d\<lparr>td_params := (td_params d)\<lparr>tp_alertThresholdSec := jsint v\<rparr>\<rparr>"

definition checkCollector :: "bool \<Rightarrow> template_dialog \<Rightarrow> template_dialog" where
  "checkCollector v d = d\<lparr>td_params := (td_params d)\<lparr>tp_createCollector := v\<rparr>\<rparr>"

definition checkAnalyzer :: "bool \<Rightarrow> template_dialog \<Rightarrow> template_dialog" where
  "checkAnalyzer v d = d\<lparr>td_params := (td_params d)\<lparr>tp_createAnalyzer := v\<rparr>\<rparr>"

definition checkStorage :: "bool \<Rightarrow> template_dialog \<Rightarrow> template_dialog" where
  "checkStorage v d = d\<lparr>td_params := (td_params d)\<lparr>tp_createStorage := v\<rparr>\<rparr>"

definition typePattern :: "ustr \<Rightarrow> template_dialog \<Rightarrow> template_dialog" where
  "typePattern v d = d\<lparr>td_params := (td_params d)\<lparr>tp_componentNamePattern := v\<rparr>\<rparr>"

definition chooseMode :: "create_mode \<Rightarrow> template_dialog \<Rightarrow> template_dialog" where
  "chooseMode m d = d\<lparr>td_mode := m\<rparr>"

text \<open>The arguments of \<^verbatim>\<open>onConfirm\<close>, and the handler of the page that gets them.\<close>

definition dialog_confirm ::
  "template_dialog \<Rightarrow> replication_template \<times> ustr \<times> template_params \<times> create_mode"
where
  "dialog_confirm d = (td_selected d,
     (if trim (td_name d) \<noteq> [] then trim (td_name d) else template_name (td_selected d)),
     td_params d, td_mode d)"

definition dialog_confirmed ::
  "pg_config \<Rightarrow> ustr \<Rightarrow> (nat \<Rightarrow> ustr) \<Rightarrow> template_dialog \<Rightarrow> app_state \<Rightarrow> app_state"
where
  "dialog_confirmed cfg i genId d a = (case dialog_confirm d of (t, name, params, mode) \<Rightarrow>
     (case mode of
        PreviewMode \<Rightarrow> handleTemplateConfirm_preview cfg i genId t name params a
      | CreateMode \<Rightarrow> handleTemplateConfirm_create i name a))"

section \<open>What the inputs can reach\<close>

definition min_nodes :: "replication_template \<Rightarrow> int" where
  "min_nodes t = (if t = Single then 1 else 2)"

inductive dialog_step :: "template_dialog \<Rightarrow> template_dialog \<Rightarrow> bool" where
  select: "dialog_step d (handleSelect t d)"
| name: "dialog_step d (typeName v d)"
| nodes: "min_nodes (td_selected d) \<le> v \<Longrightarrow> v \<le> 8 \<Longrightarrow> dialog_step d (slideNodes v d)"
| threshold: "5 \<le> v \<Longrightarrow> v \<le> 300 \<Longrightarrow> 5 dvd v \<Longrightarrow> dialog_step d (slideThreshold v d)"
| collector: "dialog_step d (checkCollector b d)"
| analyzer: "dialog_step d (checkAnalyzer b d)"
| storage: "dialog_step d (checkStorage b d)"
| pattern: "dialog_step d (typePattern v d)"
| mode: "dialog_step d (chooseMode m d)"

definition dialog_ok :: "template_dialog \<Rightarrow> bool" where
  "dialog_ok d \<longleftrightarrow> min_nodes (td_selected d) \<le> tp_nodeCount (td_params d) \<and>
     tp_nodeCount (td_params d) \<le> 8 \<and>
     (\<exists>v. tp_alertThresholdSec (td_params d) = jsint v \<and> 5 \<le> v \<and> v \<le> 300)"

lemma default_dialog_ok:
  "td_selected d = t \<Longrightarrow> td_params d = defaultParams t \<Longrightarrow> dialog_ok d"
  by (cases t) (auto simp: dialog_ok_def defaultParams_def min_nodes_def
      intro: exI [of _ 30] exI [of _ 60])

lemma dialog_step_ok: "dialog_step d d' \<Longrightarrow> dialog_ok d \<Longrightarrow> dialog_ok d'"
proof (induction rule: dialog_step.induct)
  case (select d t)
  then show ?case by (intro default_dialog_ok) (simp_all add: handleSelect_def)
qed (auto simp: dialog_ok_def typeName_def slideNodes_def slideThreshold_def checkCollector_def
    checkAnalyzer_def checkStorage_def
    typePattern_def chooseMode_def)

lemma template_name_trim: "trim (template_name t) = template_name t \<and> template_name t \<noteq> []"
  by (cases t) (simp_all add: template_name_def trim_def is_space_def)



text \<open>Confirming appends one project of that name, selects it and closes the dialog.\<close>

lemma confirm_appends:
  "\<exists>p. ap_projects (dialog_confirmed cfg i genId d a) = ap_projects a @ [p] \<and> pj_id p = i \<and>
     pj_name p = project_name (fst (snd (dialog_confirm d))) a \<and>
     ap_selectedProjectId (dialog_confirmed cfg i genId d a) = i \<and>
     \<not> ap_showTemplateDialog (dialog_confirmed cfg i genId d a)"
  by (simp add: dialog_confirmed_def dialog_confirm_def handleTemplateConfirm_preview_def
      handleTemplateConfirm_create_def base_project_def setProjects_def autosave_effect_def
      buildProject_def Let_def split: create_mode.split)

end
