(* ===== verification/ComponentPage.thy ===== *)
theory ComponentPage
  imports EditForms App
begin

text \<open>
  \<^verbatim>\<open>components/workspace/ComponentHomeView.tsx\<close>: the tree of components, clusters and nodes, the
  matrix of links, the map that draws them, and the edit form. Coordinates are exact rationals.
\<close>

section \<open>The tree\<close>

type_synonym tree_state = "ustr \<Rightarrow> bool option"

text \<open>The effect of mounting and of another project; toggling negates a missing entry to \<^verbatim>\<open>true\<close>.\<close>

definition expand_effect :: "workspace_project option \<Rightarrow> tree_state \<Rightarrow> tree_state" where
  "expand_effect project m = (case project of
     None \<Rightarrow> m
   | Some p \<Rightarrow> (\<lambda>i. if i \<in> set (map cp_id (pj_components p)) \<union> set (map cl_id (pj_clusters p))
       then Some True else None))"

definition toggle_row :: "ustr \<Rightarrow> tree_state \<Rightarrow> tree_state" where
  "toggle_row i m = m(i := Some (m i \<noteq> Some True))"

definition is_open :: "tree_state \<Rightarrow> ustr \<Rightarrow> bool" where
  "is_open m i \<longleftrightarrow> m i \<noteq> Some False"

datatype tree_row = ComponentRow workspace_component | ClusterRow workspace_cluster | NodeRow cluster_node

definition linkedClusters :: "workspace_project \<Rightarrow> workspace_component \<Rightarrow> workspace_cluster list" where
  "linkedClusters p c = filter (\<lambda>k. cl_id k \<in> set (cp_linkedClusterIds c)) (pj_clusters p)"

definition cluster_rows :: "tree_state \<Rightarrow> workspace_cluster \<Rightarrow> tree_row list" where
  "cluster_rows m k = ClusterRow k # (if is_open m (cl_id k) then map NodeRow (cl_nodes k) else [])"

definition tree_rows :: "workspace_project \<Rightarrow> tree_state \<Rightarrow> tree_row list" where
  "tree_rows p m = concat (map (\<lambda>c. ComponentRow c #
     (if is_open m (cp_id c) then concat (map (cluster_rows m) (linkedClusters p c)) else []))
     (pj_components p))"

lemma toggled_rows:
  "is_open (fold toggle_row is m) i \<longleftrightarrow>
     (let n = count_list is i in
        case m i of
          None \<Rightarrow> n = 0 \<or> odd n
        | Some b \<Rightarrow> (if b then even n else odd n))"
proof (induction "is" arbitrary: m)
  case (Cons j js)
  show ?case
    using Cons.IH [of "toggle_row j m"]
    by (cases "m i") (auto simp: toggle_row_def Let_def split: if_splits)
qed (auto simp: is_open_def split: option.split)

text \<open>
  In the tree, a row that was there when the project was opened is open after an even number
  of clicks. One created later takes a click without effect first: it is closed only after two.
\<close>

lemma tree_clicks:
  "is_open (fold toggle_row is (expand_effect (Some p) m)) i \<longleftrightarrow>
     (if i \<in> set (map cp_id (pj_components p)) \<union> set (map cl_id (pj_clusters p))
      then even (count_list is i) else count_list is i = 0 \<or> odd (count_list is i))"
  by (simp add: toggled_rows expand_effect_def Let_def)

text \<open>All rows open: the tree lists the components, and under each its clusters and their nodes.\<close>

lemma open_tree:
  "(\<And>i. is_open m i) \<Longrightarrow> tree_rows p m = concat (map (\<lambda>c. ComponentRow c #
     concat (map (\<lambda>k. ClusterRow k # map NodeRow (cl_nodes k)) (linkedClusters p c))) (pj_components p))"
  by (simp add: tree_rows_def cluster_rows_def [abs_def])

section \<open>The matrix and the map\<close>

definition matrix_cell :: "workspace_component \<Rightarrow> workspace_cluster \<Rightarrow> ustr" where
  "matrix_cell c k = (if cl_id k \<in> set (cp_linkedClusterIds c) then str ''Y'' else str ''N'')"

definition map_gap :: "nat \<Rightarrow> rat" where
  "map_gap n = (if n \<le> 1 then 0 else (820 - 80 - 120) / of_nat (n - 1))"

definition map_x :: "nat \<Rightarrow> nat \<Rightarrow> rat" where
  "map_x n i = 40 + of_nat i * map_gap n"

text \<open>\<^verbatim>\<open>new Map\<close> of positions by id: a later entry replaces an earlier one.\<close>

definition position_map :: "ustr list \<Rightarrow> ustr \<Rightarrow> rat option" where
  "position_map ids = map_of (rev (zip ids (map (map_x (length ids)) [0..<length ids])))"

record map_line =
  ml_x1 :: rat
  ml_y1 :: rat
  ml_x2 :: rat
  ml_y2 :: rat
  ml_active :: bool

text \<open>A line is drawn if both of its ends have a box.\<close>

definition link_line ::
  "ustr \<Rightarrow> (ustr \<Rightarrow> rat option) \<Rightarrow> (ustr \<Rightarrow> rat option) \<Rightarrow> ustr \<Rightarrow> ustr \<Rightarrow> map_line option"
where
  "link_line focused cMap gMap m k = (case (cMap m, gMap k) of
     (Some from, Some to) \<Rightarrow> Some \<lparr>ml_x1 = from + 120 / 2, ml_y1 = 46 + 34, ml_x2 = to + 120 / 2,
       ml_y2 = 150, ml_active = (focused = [] \<or> focused = m)\<rparr>
   | _ \<Rightarrow> None)"

definition map_lines :: "workspace_project \<Rightarrow> ustr \<Rightarrow> map_line list" where
  "map_lines p focused =
     (let cMap = position_map (map cp_id (pj_components p));
          gMap = position_map (map cl_id (pj_clusters p))
      in concat (map (\<lambda>c. List.map_filter (link_line focused cMap gMap (cp_id c)) (cp_linkedClusterIds c))
           (pj_components p)))"

lemma link_line_Some: "link_line focused cMap gMap m k = Some l \<longleftrightarrow>
    (\<exists>x y. cMap m = Some x \<and> gMap k = Some y \<and>
       l = \<lparr>ml_x1 = x + 60, ml_y1 = 80, ml_x2 = y + 60, ml_y2 = 150,
            ml_active = (focused = [] \<or> focused = m)\<rparr>)"
  by (auto simp: link_line_def split: option.splits)

lemma set_map_filter: "set (List.map_filter f xs) = {y. \<exists>x \<in> set xs. f x = Some y}"
  by (force simp: List.map_filter_def)

lemma position_map_nth:
  assumes "distinct ids" "i < length ids"
  shows "position_map ids (ids ! i) = Some (map_x (length ids) i)"
proof -
  let ?z = "zip ids (map (map_x (length ids)) [0..<length ids])"
  have "(ids ! i, map_x (length ids) i) \<in> set ?z"
    using assms(2) by (auto simp: in_set_zip intro: exI [of _ i])
  moreover have "distinct (map fst (rev ?z))" using assms(1) by (simp add: rev_map [symmetric])
  ultimately show ?thesis unfolding position_map_def by (intro map_of_is_SomeI) simp_all
qed

lemma position_map_None: "i \<notin> set ids \<Longrightarrow> position_map ids i = None"
  by (auto simp: position_map_def map_of_eq_None_iff dest: set_zip_leftD)

lemma position_map_Some:
  "distinct ids \<Longrightarrow> position_map ids i = Some x \<longleftrightarrow> (\<exists>j < length ids. ids ! j = i \<and> x = map_x (length ids) j)"
  by (cases "i \<in> set ids")
    (fastforce simp: in_set_conv_nth position_map_nth nth_eq_iff_index_eq,
     auto simp: position_map_None in_set_conv_nth)

lemma drawn_links:
  "(\<lambda>l. (ml_x1 l, ml_x2 l)) ` set (map_lines p focused) =
     {(x + 60, y + 60) | c k x y. c \<in> set (pj_components p) \<and> k \<in> set (cp_linkedClusterIds c) \<and>
        position_map (map cp_id (pj_components p)) (cp_id c) = Some x \<and>
        position_map (map cl_id (pj_clusters p)) k = Some y}" (is "?l = ?r")
proof -
  have lines: "set (map_lines p focused) = {l. \<exists>c \<in> set (pj_components p). \<exists>k \<in> set (cp_linkedClusterIds c).
      link_line focused (position_map (map cp_id (pj_components p)))
        (position_map (map cl_id (pj_clusters p))) (cp_id c) k = Some l}"
    by (auto simp: map_lines_def Let_def set_map_filter)
  show ?thesis
  proof (intro set_eqI iffI)
    fix z assume "z \<in> ?l"
    then show "z \<in> ?r" unfolding lines link_line_Some by (auto, blast)
  next
    fix z assume "z \<in> ?r"
    then obtain c k x y where "z = (x + 60, y + 60)" "c \<in> set (pj_components p)"
        "k \<in> set (cp_linkedClusterIds c)"
        "position_map (map cp_id (pj_components p)) (cp_id c) = Some x"
        "position_map (map cl_id (pj_clusters p)) k = Some y" by blast
    then show "z \<in> ?l"
      unfolding lines link_line_Some
      by (intro image_eqI [of _ _ "\<lparr>ml_x1 = x + 60, ml_y1 = 80, ml_x2 = y + 60, ml_y2 = 150,
            ml_active = (focused = [] \<or> focused = cp_id c)\<rparr>"]) (simp, blast)
  qed
qed

text \<open>
  C36. The map draws the matrix: the lines go from the box of a component to the box of a cluster
  exactly for the cells marked \<^verbatim>\<open>Y\<close>; links to clusters that no longer exist are not drawn.
\<close>

theorem map_draws_matrix:
  assumes "project_ok p"
  shows "(\<lambda>l. (ml_x1 l, ml_x2 l)) ` set (map_lines p focused) =
    {(map_x (length (pj_components p)) i + 60, map_x (length (pj_clusters p)) j + 60) | i j.
       i < length (pj_components p) \<and> j < length (pj_clusters p) \<and>
       matrix_cell (pj_components p ! i) (pj_clusters p ! j) = str ''Y''}"
    (is "?lines = ?cells")
proof -
  let ?cs = "pj_components p" and ?ks = "pj_clusters p"
  have dist: "distinct (map cp_id ?cs)" "distinct (map cl_id ?ks)"
    using assms by (simp_all add: project_ok_def)
  have "?lines = {(x + 60, y + 60) | c k x y. c \<in> set ?cs \<and> k \<in> set (cp_linkedClusterIds c) \<and>
      position_map (map cp_id ?cs) (cp_id c) = Some x \<and> position_map (map cl_id ?ks) k = Some y}"
    by (rule drawn_links)
  also have "\<dots> = ?cells"
  proof (intro set_eqI iffI)
    fix z assume "z \<in> {(x + 60, y + 60) | c k x y. c \<in> set ?cs \<and> k \<in> set (cp_linkedClusterIds c) \<and>
      position_map (map cp_id ?cs) (cp_id c) = Some x \<and> position_map (map cl_id ?ks) k = Some y}"
    then obtain c k x y where z: "z = (x + 60, y + 60)" "c \<in> set ?cs" "k \<in> set (cp_linkedClusterIds c)"
        "position_map (map cp_id ?cs) (cp_id c) = Some x" "position_map (map cl_id ?ks) k = Some y" by auto
    from z(2) obtain i where i: "i < length ?cs" "c = ?cs ! i" by (auto simp: in_set_conv_nth)
    with z(4) have "x = map_x (length ?cs) i"
      using position_map_nth [OF dist(1), of i] by simp
    moreover from z(5) obtain j where "j < length ?ks" "cl_id (?ks ! j) = k" "y = map_x (length ?ks) j"
      by (auto simp: position_map_Some [OF dist(2)])
    ultimately show "z \<in> ?cells" using z(1,3) i by (auto simp: matrix_cell_def)
  next
    fix z assume "z \<in> ?cells"
    then obtain i j where ij: "i < length ?cs" "j < length ?ks"
        "matrix_cell (?cs ! i) (?ks ! j) = str ''Y''"
        "z = (map_x (length ?cs) i + 60, map_x (length ?ks) j + 60)" by auto
    then have "cl_id (?ks ! j) \<in> set (cp_linkedClusterIds (?cs ! i))"
      by (auto simp: matrix_cell_def str_def split: if_splits)
    moreover have "position_map (map cp_id ?cs) (cp_id (?cs ! i)) = Some (map_x (length ?cs) i)"
      using position_map_nth [OF dist(1), of i] ij(1) by simp
    moreover have "position_map (map cl_id ?ks) (cl_id (?ks ! j)) = Some (map_x (length ?ks) j)"
      using position_map_nth [OF dist(2), of j] ij(2) by simp
    ultimately show "z \<in> {(x + 60, y + 60) | c k x y. c \<in> set ?cs \<and> k \<in> set (cp_linkedClusterIds c) \<and>
        position_map (map cp_id ?cs) (cp_id c) = Some x \<and> position_map (map cl_id ?ks) k = Some y}"
      using ij(1,4) nth_mem by fastforce
  qed
  finally show ?thesis .
qed

theorem map_draws_matrix_witness:
  "(\<lambda>l. (ml_x1 l, ml_x2 l)) ` set (map_lines sample_project []) = {(100, 100)}"
proof -
  have "project_ok sample_project"
    by (simp add: sample_project_def project_ok_def cluster_ok_def component_ok_def)
  from map_draws_matrix [OF this, of "[]"] show ?thesis
    by (auto simp: sample_project_def matrix_cell_def map_x_def map_gap_def)
qed

text \<open>The boxes stay inside the drawing, and stand apart exactly if there are at most six.\<close>

lemma box_inside: "i < n \<Longrightarrow> 40 \<le> map_x n i \<and> map_x n i + 120 \<le> 820 - 40"
proof -
  assume i: "i < n"
  show ?thesis
  proof (cases "n \<le> 1")
    case False
    have "map_x n i = 40 + 620 * (of_nat i / of_nat (n - 1))"
      using False by (simp add: map_x_def map_gap_def)
    moreover have "0 \<le> (of_nat i / of_nat (n - 1) :: rat)" by simp
    moreover have "(of_nat i / of_nat (n - 1) :: rat) \<le> 1"
    proof -
      have "(of_nat i :: rat) \<le> of_nat (n - 1)" using i by (intro of_nat_mono) simp
      then show ?thesis using False by (simp add: divide_le_eq_1 of_nat_diff)
    qed
    ultimately show ?thesis by simp
  qed (use i in \<open>simp add: map_x_def map_gap_def\<close>)
qed

lemma boxes_apart: "2 \<le> n \<Longrightarrow> map_x n i + 120 \<le> map_x n (Suc i) \<longleftrightarrow> n \<le> 6"
proof -
  assume n: "2 \<le> n"
  have pos: "(0::rat) < of_nat (n - 1)" using n by simp
  have "map_x n (Suc i) - map_x n i = 620 / of_nat (n - 1)"
    using n by (simp add: map_x_def map_gap_def algebra_simps add_divide_distrib)
  moreover have "120 \<le> (620 / of_nat (n - 1) :: rat) \<longleftrightarrow> 120 * of_nat (n - 1) \<le> (620::rat)"
    using pos by (simp only: pos_le_divide_eq)
  moreover have "120 * of_nat (n - 1) \<le> (620::rat) \<longleftrightarrow> 120 * (n - 1) \<le> 620"
    by (metis of_nat_le_iff of_nat_mult of_nat_numeral)
  moreover have "120 * (n - 1) \<le> 620 \<longleftrightarrow> n \<le> 6" using n by arith
  ultimately show ?thesis by (simp add: algebra_simps)
qed

section \<open>Editing and opening\<close>

record component_page =
  cf_editingComponentId :: ustr
  cf_editingComponentName :: ustr
  cf_editingComponentType :: ustr

definition init_component_page :: component_page where
  "init_component_page =
     \<lparr>cf_editingComponentId = [], cf_editingComponentName = [], cf_editingComponentType = []\<rparr>"

definition startEditComponent :: "workspace_component \<Rightarrow> component_page \<Rightarrow> component_page" where
  "startEditComponent c s = s\<lparr>cf_editingComponentId := cp_id c, cf_editingComponentName := cp_name c,
     cf_editingComponentType := cp_componentType c\<rparr>"

text \<open>The inputs for name and type.\<close>

definition changeComponent :: "ustr + ustr \<Rightarrow> component_page \<Rightarrow> component_page" where
  "changeComponent v s = (case v of Inl n \<Rightarrow> s\<lparr>cf_editingComponentName := n\<rparr>
     | Inr t \<Rightarrow> s\<lparr>cf_editingComponentType := t\<rparr>)"

definition saveEditComponent :: "component_page \<Rightarrow> component_page \<times> (ustr \<times> ustr \<times> ustr) option" where
  "saveEditComponent s =
     (if cf_editingComponentId s = [] then (s, None)
      else (s\<lparr>cf_editingComponentId := []\<rparr>,
        Some (cf_editingComponentId s, cf_editingComponentName s, cf_editingComponentType s)))"

definition cancelEditComponent :: "component_page \<Rightarrow> component_page" where
  "cancelEditComponent s = s\<lparr>cf_editingComponentId := []\<rparr>"

definition editing_component :: "component_page \<Rightarrow> ustr option" where
  "editing_component s =
     (if cf_editingComponentId s = [] then None else Some (cf_editingComponentId s))"

interpretation component_form: targeted_form startEditComponent changeComponent saveEditComponent
  cancelEditComponent editing_component cp_id fst
  by unfold_locales
    (auto simp: startEditComponent_def changeComponent_def saveEditComponent_def
      cancelEditComponent_def editing_component_def split: if_splits sum.splits)

text \<open>The page of the application gets the call.\<close>

definition component_saved :: "pg_config \<Rightarrow> ustr \<times> ustr \<times> ustr \<Rightarrow> app_state \<Rightarrow> app_state" where
  "component_saved cfg = (\<lambda>(i, n, t). app_op cfg (UpdateComponent i (Some n) (Some t)))"

text \<open>
  The types offered by the select; \<^verbatim>\<open>analyzer\<close>, \<^verbatim>\<open>storage\<close> and \<^verbatim>\<open>custom\<close> are missing, and all but
  the first are outside the type's union.
\<close>

definition offered_types :: "ustr list" where
  "offered_types = map str [''collector'', ''monitor'', ''backup'', ''proxy'', ''gateway'']"

lemma offered_outside_union:
  "t \<in> set (tl offered_types) \<Longrightarrow> \<forall>k. component_text k \<noteq> t"
  by (auto simp: offered_types_def component_text_def str_def split: component_type.split)

definition activate_in_tree :: "ustr \<Rightarrow> app_state \<Rightarrow> app_state" where
  "activate_in_tree cluster_id a = a\<lparr>ap_selectedClusterId := cluster_id, ap_currentView := ClusterHome\<rparr>"

text \<open>A click on a cluster of the map opens it if it has a node.\<close>

definition map_cluster_clicked :: "workspace_project \<Rightarrow> ustr \<Rightarrow> app_state \<Rightarrow> app_state" where
  "map_cluster_clicked p i a = (case find_first (\<lambda>k. cl_id k = i) (pj_clusters p) of
     Some k \<Rightarrow> (if cl_nodes k = [] then a else activate_in_tree i a) | None \<Rightarrow> a)"

definition roleLabel :: "ustr \<Rightarrow> ustr" where
  "roleLabel role =
     (if role = str ''primary'' then [0x4E3B, 0x8282, 0x70B9]
      else if role = str ''standby'' then [0x4ECE, 0x8282, 0x70B9]
      else if role = str ''publisher'' then [0x53D1, 0x5E03, 0x8005]
      else if role = str ''subscriber'' then [0x8BA2, 0x9605, 0x8005] else role)"

definition nodeDot_color :: "ustr \<Rightarrow> ustr" where
  "nodeDot_color role =
     (if role = str ''primary'' then str ''#4ade80'' else if role = str ''publisher'' then str ''#60a5fa''
      else if role = str ''standby'' then str ''#94a3b8''
      else if role = str ''subscriber'' then str ''#c4b5fd'' else str ''#94a3b8'')"

lemma distinct_key_eq: "distinct (map k xs) \<Longrightarrow> x \<in> set xs \<Longrightarrow> y \<in> set xs \<Longrightarrow> k x = k y \<longleftrightarrow> x = y"
  by (auto simp: distinct_map dest: inj_onD)

lemma updated_component:
  assumes "distinct (map cp_id cs)" "c \<in> set cs"
  shows "update_where (\<lambda>d. cp_id d = cp_id c)
      (\<lambda>d. d\<lparr>cp_name := patched (Some n) (cp_name d),
        cp_componentType := patched (Some t) (cp_componentType d)\<rparr>) cs =
    map (\<lambda>d. if d = c then c\<lparr>cp_name := n, cp_componentType := t\<rparr> else d) cs"
  using assms by (auto simp: update_where_def patched_def distinct_key_eq)

text \<open>
  Saving the form of a component of the selected project closes the form and gives that
  component exactly the typed name; its type and links, every other component and the clusters
  stay, the workspace stays well-formed, and the change is handed to the autosave.
\<close>

lemma component_edit_is_stored:
  assumes "workspace_ok (ap_projects a)" "selectedProject a = Some p" "c \<in> set (pj_components p)"
    "cp_id c \<noteq> []"
  shows "\<exists>s' v. saveEditComponent (changeComponent (Inl n) (startEditComponent c s)) = (s', Some v) \<and>
     editing_component s' = None \<and>
     (let a' = component_saved cfg v a in
        workspace_ok (ap_projects a') \<and>
        p\<lparr>pj_components := map (\<lambda>d. if d = c then c\<lparr>cp_name := n\<rparr> else d) (pj_components p)\<rparr>
          \<in> set (ap_projects a') \<and>
        ap_saveTimer a' = (if ap_workspaceBootstrapped a then Some (ap_projects a') else ap_saveTimer a))"
proof -
  let ?v = "(cp_id c, n, cp_componentType c)"
  have save: "saveEditComponent (changeComponent (Inl n) (startEditComponent c s)) =
      (cancelEditComponent (changeComponent (Inl n) (startEditComponent c s)), Some ?v)"
    using assms(4)
    by (simp add: saveEditComponent_def changeComponent_def startEditComponent_def cancelEditComponent_def)
  have p: "p \<in> set (ap_projects a)"
    using assms(2) by (auto simp: selectedProject_def or_else_def head_opt_def
        dest: find_first_Some split: option.splits list.splits)
  then have dist: "distinct (map cp_id (pj_components p))"
    using assms(1) by (auto simp: workspace_ok_def project_ok_def list_all_iff)
  have stored: "ap_projects (component_saved cfg ?v a) =
      updateComponent (cp_id c) (Some n) (Some (cp_componentType c)) p (ap_projects a)"
    by (simp add: component_saved_def app_op_def apply_op_def assms(2) setProjects_def
        autosave_effect_def Let_def)
  have timer: "ap_saveTimer (component_saved cfg ?v a) = (if ap_workspaceBootstrapped a
      then Some (ap_projects (component_saved cfg ?v a)) else ap_saveTimer a)"
    by (simp add: component_saved_def app_op_def assms(2) setProjects_def autosave_effect_def Let_def)
  have "in_component (cp_id c) (\<lambda>d. d\<lparr>cp_name := patched (Some n) (cp_name d),
        cp_componentType := patched (Some (cp_componentType c)) (cp_componentType d)\<rparr>) p =
      p\<lparr>pj_components := map (\<lambda>d. if d = c then c\<lparr>cp_name := n\<rparr> else d) (pj_components p)\<rparr>"
    by (simp add: in_component_def updated_component [OF dist assms(3)])
  then have "p\<lparr>pj_components := map (\<lambda>d. if d = c then c\<lparr>cp_name := n\<rparr> else d) (pj_components p)\<rparr>
      \<in> set (updateComponent (cp_id c) (Some n) (Some (cp_componentType c)) p (ap_projects a))"
    using p unfolding updateComponent_def in_project_def update_where_def
    by (force intro!: image_eqI [of _ _ p])
  moreover have "workspace_ok (updateComponent (cp_id c) (Some n) (Some (cp_componentType c)) p (ap_projects a))"
    using assms(1) by (rule updateComponent_ok)
  moreover have "editing_component (cancelEditComponent t) = None" for t
    by (simp add: editing_component_def cancelEditComponent_def)
  ultimately show ?thesis
    unfolding save Let_def
    by (intro exI [of _ "cancelEditComponent (changeComponent (Inl n) (startEditComponent c s))"]
        exI [of _ ?v]) (simp add: stored timer)
qed

end
