(* ===== verification/NodePage.thy ===== *)
theory NodePage
  imports EditForms ClusterHome
begin

text \<open>
  \<^verbatim>\<open>components/node/NodeHomeView.tsx\<close>: the edit form of the node page, what it shows of the node,
  and the modules it leads to; and the texts \<^verbatim>\<open>App.tsx\<close>, \<^verbatim>\<open>StatusBar.tsx\<close>, \<^verbatim>\<open>Header.tsx\<close> and
  \<^verbatim>\<open>NodePageHeader.tsx\<close> put around the pages.
\<close>

section \<open>The edit form\<close>

record node_page =
  nf_isEditing :: bool
  nf_editName :: ustr
  nf_editHost :: ustr
  nf_editPort :: int
  nf_editUser :: ustr
  nf_editPassword :: ustr
  nf_editDatabase :: ustr
  nf_editRole :: ustr

definition init_node_page :: node_page where
  "init_node_page = \<lparr>nf_isEditing = False, nf_editName = [], nf_editHost = [], nf_editPort = 5432,
     nf_editUser = [], nf_editPassword = [], nf_editDatabase = [], nf_editRole = []\<rparr>"

text \<open>The form opens with the address of the store's connection, not with the node's own.\<close>

definition startEdit :: "cluster_node option \<Rightarrow> pg_config \<Rightarrow> node_page \<Rightarrow> node_page" where
  "startEdit node cfg s = (case node of
     None \<Rightarrow> s
   | Some n \<Rightarrow> \<lparr>nf_isEditing = True, nf_editName = nd_name n, nf_editHost = cfg_host cfg,
       nf_editPort = cfg_port cfg, nf_editUser = cfg_user cfg, nf_editPassword = [],
       nf_editDatabase = cfg_database cfg, nf_editRole = nd_role n\<rparr>)"

datatype node_input = InName ustr | InHost ustr | InPort int | InUser ustr | InPassword ustr
  | InDatabase ustr | InRole ustr

definition type_node :: "node_input \<Rightarrow> node_page \<Rightarrow> node_page" where
  "type_node i s = (case i of
     InName v \<Rightarrow> s\<lparr>nf_editName := v\<rparr> | InHost v \<Rightarrow> s\<lparr>nf_editHost := v\<rparr>
   | InPort v \<Rightarrow> s\<lparr>nf_editPort := v\<rparr> | InUser v \<Rightarrow> s\<lparr>nf_editUser := v\<rparr>
   | InPassword v \<Rightarrow> s\<lparr>nf_editPassword := v\<rparr> | InDatabase v \<Rightarrow> s\<lparr>nf_editDatabase := v\<rparr>
   | InRole v \<Rightarrow> s\<lparr>nf_editRole := v\<rparr>)"

definition form_patch :: "node_page \<Rightarrow> node_patch" where
  "form_patch s = no_patch\<lparr>np_name := Some (nf_editName s), np_host := Some (nf_editHost s),
     np_port := Some (nf_editPort s), np_user := Some (nf_editUser s),
     np_password := Some (nf_editPassword s), np_database := Some (nf_editDatabase s),
     np_role := Some (nf_editRole s)\<rparr>"

text \<open>The button that saves is only there while the form is open.\<close>

definition saveEdit :: "cluster_node option \<Rightarrow> node_page \<Rightarrow> node_page \<times> (ustr \<times> node_patch) option" where
  "saveEdit node s = (if \<not> nf_isEditing s then (s, None) else (case node of
     None \<Rightarrow> (s, None)
   | Some n \<Rightarrow> (s\<lparr>nf_isEditing := False\<rparr>, Some (nd_id n, form_patch s))))"

definition cancelEdit :: "node_page \<Rightarrow> node_page" where
  "cancelEdit s = s\<lparr>nf_isEditing := False\<rparr>"

interpretation node_form: edit_form "startEdit node" type_node "saveEdit node" cancelEdit
  "\<lambda>s. if nf_isEditing s then Some () else None" for node
  by unfold_locales
    (auto simp: type_node_def saveEdit_def cancelEdit_def split: node_input.splits option.splits if_splits)

definition node_saved :: "pg_config \<Rightarrow> ustr \<times> node_patch \<Rightarrow> app_state \<Rightarrow> app_state" where
  "node_saved cfg = (\<lambda>(i, u) a. if ap_selectedClusterId a = [] then a
     else app_op cfg (UpdateClusterNode (ap_selectedClusterId a) i u) a)"

lemma find_first_Nil [simp]: "find_first P [] = None"
  by (simp add: find_first_def)

lemma find_first_Cons [simp]: "find_first P (x # xs) = (if P x then Some x else find_first P xs)"
  by (simp add: find_first_def)

lemma find_first_update:
  "(\<And>x. P (f x) = P x) \<Longrightarrow>
     find_first P (update_where Q f xs) = map_option (\<lambda>x. if Q x then f x else x) (find_first P xs)"
  by (induction xs) (simp_all add: update_where_def)

lemma head_update: "head_opt (update_where Q f xs) = map_option (\<lambda>x. if Q x then f x else x) (head_opt xs)"
  by (cases xs) (simp_all add: head_opt_def update_where_def)

lemma or_else_map: "or_else (map_option f x) (map_option f y) = map_option f (or_else x y)"
  by (simp add: or_else_def split: option.split)

lemmas lookup_update = find_first_update head_update or_else_map

text \<open>Updating a field of the selected node is seen by the selection.\<close>

lemma selectedNodeConfig_update:
  assumes "selectedNodeConfig a = Some n" "nd_id n \<noteq> []"
  shows "selectedNodeConfig (app_op cfg (UpdateClusterNode (ap_selectedClusterId a) (nd_id n) u) a) =
    Some (patch_node u n)"
proof -
  obtain p c where p: "selectedProject a = Some p"
    and c: "find_first (\<lambda>c. cl_id c = ap_selectedClusterId a) (pj_clusters p) = Some c"
    and n: "or_else (find_first (\<lambda>n. nd_id n = ap_selectedNodeId a) (cl_nodes c)) (head_opt (cl_nodes c)) = Some n"
    using assms(1) by (auto simp: selectedNodeConfig_def bind_eq_Some_conv)
  let ?k = "\<lambda>c. c\<lparr>cl_nodes := update_where (\<lambda>m. nd_id m = nd_id n) (patch_node u) (cl_nodes c)\<rparr>"
  let ?f = "\<lambda>p. p\<lparr>pj_clusters := update_where (\<lambda>c. cl_id c = ap_selectedClusterId a) ?k (pj_clusters p)\<rparr>"
  let ?a = "app_op cfg (UpdateClusterNode (ap_selectedClusterId a) (nd_id n) u) a"
  have new: "ap_projects ?a = update_where (\<lambda>q. pj_id q = pj_id p) ?f (ap_projects a)"
    using assms(2) by (simp add: app_op_def apply_op_def p setProjects_def autosave_effect_def
        updateClusterNode_def in_project_def in_cluster_def [abs_def] Let_def)
  have same: "ap_selectedProjectId ?a = ap_selectedProjectId a" "ap_selectedClusterId ?a = ap_selectedClusterId a"
      "ap_selectedNodeId ?a = ap_selectedNodeId a"
    by (simp_all add: app_op_def p setProjects_def autosave_effect_def Let_def)
  have "selectedProject ?a = Some (?f p)"
    using p by (simp add: selectedProject_def new same lookup_update)
  moreover have "find_first (\<lambda>c. cl_id c = ap_selectedClusterId a) (pj_clusters (?f p)) = Some (?k c)"
    using c by (auto simp: lookup_update dest: find_first_Some)
  moreover have "or_else (find_first (\<lambda>n. nd_id n = ap_selectedNodeId a) (cl_nodes (?k c)))
      (head_opt (cl_nodes (?k c))) = Some (patch_node u n)"
    using n by (simp add: lookup_update patch_node_def)
  ultimately show ?thesis by (simp add: selectedNodeConfig_def same)
qed

text \<open>
  C35. What the form of the node page holds when it is saved is what the selected node has
  afterwards, its password included; the form closes, and the node keeps its id, its replication
  type and its source.
\<close>

theorem node_edit_is_stored:
  assumes "selectedNodeConfig a = Some n" "nd_id n \<noteq> []" "ap_selectedClusterId a \<noteq> []" "nf_isEditing s"
  shows "\<exists>s' v. saveEdit (selectedNodeConfig a) s = (s', Some v) \<and> \<not> nf_isEditing s' \<and>
    selectedNodeConfig (node_saved cfg v a) =
      Some \<lparr>nd_id = nd_id n, nd_name = nf_editName s, nd_host = nf_editHost s, nd_port = nf_editPort s,
        nd_user = nf_editUser s, nd_database = nf_editDatabase s, nd_cluster_type = nd_cluster_type n,
        nd_role = nf_editRole s, nd_source = nd_source n, nd_password = Some (nf_editPassword s)\<rparr>"
proof -
  have "saveEdit (selectedNodeConfig a) s = (s\<lparr>nf_isEditing := False\<rparr>, Some (nd_id n, form_patch s))"
    using assms by (simp add: saveEdit_def)
  moreover have "selectedNodeConfig (node_saved cfg (nd_id n, form_patch s) a) = Some (patch_node (form_patch s) n)"
    using assms selectedNodeConfig_update [OF assms(1,2)] by (simp add: node_saved_def)
  ultimately show ?thesis
    by (cases n) (simp add: patch_node_def form_patch_def no_patch_def patched_def)
qed

definition sample_page :: app_state where
  "sample_page = (init_app None)\<lparr>ap_projects := [sample_project], ap_selectedClusterId := str ''c''\<rparr>"

lemma sample_page_node: "selectedNodeConfig sample_page = Some (hd (cl_nodes (hd (pj_clusters sample_project))))"
  by (simp add: sample_page_def selectedNodeConfig_def selectedProject_def sample_project_def init_app_def
      or_else_def head_opt_def)

theorem node_edit_is_stored_witness:
  "\<exists>v. map_option nd_host (selectedNodeConfig (node_saved sample_cfg v sample_page)) = Some (cfg_host sample_cfg)"
proof -
  have "nd_id (hd (cl_nodes (hd (pj_clusters sample_project)))) \<noteq> []" "ap_selectedClusterId sample_page \<noteq> []"
    "nf_isEditing (startEdit (selectedNodeConfig sample_page) sample_cfg init_node_page)"
    "nf_editHost (startEdit (selectedNodeConfig sample_page) sample_cfg init_node_page) = cfg_host sample_cfg"
    by (simp_all add: sample_project_def str_def sample_page_node startEdit_def) (simp add: sample_page_def str_def)
  note here = this
  obtain s' v where "saveEdit (selectedNodeConfig sample_page)
      (startEdit (selectedNodeConfig sample_page) sample_cfg init_node_page) = (s', Some v)"
    "map_option nd_host (selectedNodeConfig (node_saved sample_cfg v sample_page)) =
      Some (nf_editHost (startEdit (selectedNodeConfig sample_page) sample_cfg init_node_page))"
    using node_edit_is_stored [OF sample_page_node here(1-3), of sample_cfg] by fastforce
  with here(4) show ?thesis by (intro exI [of _ v]) simp
qed

text \<open>
  Opening the form and saving it unchanged gives the node the address of the store's connection
  and an empty password.
\<close>

lemma unchanged_save_overwrites_address:
  assumes "selectedNodeConfig a = Some n" "nd_id n \<noteq> []" "ap_selectedClusterId a \<noteq> []"
  shows "selectedNodeConfig (node_saved cfg (nd_id n, form_patch (startEdit (Some n) conf s)) a) =
    Some (n\<lparr>nd_host := cfg_host conf, nd_port := cfg_port conf, nd_user := cfg_user conf,
      nd_database := cfg_database conf, nd_password := Some []\<rparr>)"
  using selectedNodeConfig_update [OF assms(1,2)] assms(3)
  by (simp add: node_saved_def patch_node_def form_patch_def startEdit_def no_patch_def patched_def)

section \<open>What is shown\<close>

definition nodeStatus :: "pg_config \<Rightarrow> cluster_node_status list \<Rightarrow> cluster_node_status option" where
  "nodeStatus cfg = find_first (\<lambda>s. ns_host s = cfg_host cfg \<and> ns_port s = cfg_port cfg)"

text \<open>The page of the application passes no statuses, so none is ever found.\<close>

lemma no_status_is_shown: "nodeStatus cfg [] = None"
  by (simp add: nodeStatus_def)

definition node_modules :: "view list" where
  "node_modules = [SqlView, WalView, ClogView, WriteView, ReadView, TransactionView, BufferView, LockView,
     XactStateView, MemoryView, PlanView]"

text \<open>Every module is shown once a node is connected, and leads nowhere before.\<close>

lemma modules_need_connection:
  "v \<in> set node_modules \<Longrightarrow>
     shown_view (a\<lparr>ap_currentView := v\<rparr>) = (if ap_connected a then Some v else None)"
  by (auto simp: node_modules_def shown_view_def)

section \<open>The frame\<close>

definition nodeLabel :: "pg_config \<Rightarrow> ustr" where
  "nodeLabel cfg = cfg_host cfg @ str '':'' @ int_str (cfg_port cfg) @ str ''/'' @ cfg_database cfg"

definition project_level :: "view \<Rightarrow> bool" where
  "project_level v \<longleftrightarrow> v \<in> {ProjectHome, ClusterHome, ComponentHome, HostManagement}"

definition project_area :: ustr where "project_area = [0x9879, 0x76EE, 0x5DE5, 0x4F5C, 0x533A]"
definition node_area :: ustr where "node_area = [0x8282, 0x70B9, 0x5DE5, 0x4F5C, 0x533A]"
definition unselected :: ustr where "unselected = [0x672A, 0x9009, 0x62E9, 0x9879, 0x76EE]"
definition cluster_word :: ustr where "cluster_word = [0x96C6, 0x7FA4, 0x20]"

definition breadcrumb_text :: "pg_config \<Rightarrow> app_state \<Rightarrow> ustr" where
  "breadcrumb_text cfg a =
     (if project_level (ap_currentView a) then
        (case selectedProject a of
           Some p \<Rightarrow> project_area @ str '' / '' @ pj_name p @
             (if ap_currentView a = ClusterHome then str '' / '' @ cluster_word @
                (case find_first (\<lambda>c. cl_id c = ap_selectedClusterId a) (pj_clusters p) of
                   Some c \<Rightarrow> cl_name c | None \<Rightarrow> [])
              else [])
         | None \<Rightarrow> project_area @ str '' / '' @ unselected)
      else node_area @ str '' / '' @ (case selectedNodeConfig a of
           Some n \<Rightarrow> nd_name n @ str '' ('' @ nd_role n @ str '')'' | None \<Rightarrow> nodeLabel cfg))"

definition status_text :: "bool \<Rightarrow> bool \<Rightarrow> nat \<Rightarrow> ustr \<Rightarrow> ustr \<Rightarrow> ustr" where
  "status_text conn wsConnected eventCount mode last_type =
     (if conn then str ''Connected to PostgreSQL'' else str ''Not connected'') @ str '' | '' @
     (if wsConnected then str ''WS live'' else str ''WS offline'') @ str '' | '' @
     str ''events='' @ nat_str eventCount @ str '' | '' @ str ''mode='' @ mode @
     (if last_type = [] then [] else str '' | last='' @ last_type)"

definition header_version :: "ustr \<Rightarrow> ustr" where
  "header_version v = (if v = [] then [0x672A, 0x8FDE, 0x63A5] else v)"

definition header_subtitle :: "ustr option \<Rightarrow> ustr option \<Rightarrow> ustr option" where
  "header_subtitle source updatedAt =
     (let src = (case source of Some v \<Rightarrow> v | None \<Rightarrow> []); upd = (case updatedAt of Some v \<Rightarrow> v | None \<Rightarrow> [])
      in if src = [] \<and> upd = [] then None
         else Some ((if src = [] then [] else [0x6570, 0x636E, 0x6765, 0x6E90, 0xFF1A] @ src) @
           (if src \<noteq> [] \<and> upd \<noteq> [] then str '' | '' else []) @
           (if upd = [] then [] else [0x66F4, 0x65B0, 0x65F6, 0x95F4, 0xFF1A] @ upd)))"

end
