(* ===== verification/Polling.thy ===== *)
theory Polling
  imports Main
begin

text \<open>
  The contract of an effect that polls: every run of the effect has a number, its cleanup stops the
  timer and marks what is under way as stopped, so that an answer counts only if it belongs to the
  current run. The snapshot of the connected node and the overview of a cluster interpret it.
\<close>

datatype ('i, 'r) poll_event = Restart 'i | Tick | Answer nat 'r

fun poll_run ::
  "('i \<Rightarrow> 's \<Rightarrow> 's) \<Rightarrow> ('s \<Rightarrow> 's) \<Rightarrow> (nat \<Rightarrow> 'r \<Rightarrow> 's \<Rightarrow> 's) \<Rightarrow> ('i, 'r) poll_event list \<Rightarrow> 's \<Rightarrow> 's"
where
  "poll_run restart tick ans [] s = s"
| "poll_run restart tick ans (e # es) s = poll_run restart tick ans es
     (case e of Restart i \<Rightarrow> restart i s | Tick \<Rightarrow> tick s | Answer n r \<Rightarrow> ans n r s)"

locale polled_effect =
  fixes current :: "'s \<Rightarrow> nat"
    and asked :: "'s \<Rightarrow> nat list"
    and shown :: "'s \<Rightarrow> 'v"
    and restart :: "'i \<Rightarrow> 's \<Rightarrow> 's"
    and tick :: "'s \<Rightarrow> 's"
    and ans :: "nat \<Rightarrow> 'r \<Rightarrow> 's \<Rightarrow> 's"
  assumes current_restart: "current (restart i s) = Suc (current s)"
    and asked_restart: "set (asked (restart i s)) \<subseteq> insert (Suc (current s)) (set (asked s))"
    and current_tick: "current (tick s) = current s"
    and asked_tick: "set (asked (tick s)) \<subseteq> insert (current s) (set (asked s))"
    and current_ans: "current (ans n r s) = current s"
    and asked_ans: "set (asked (ans n r s)) \<subseteq> set (asked s)"
    and stale: "n \<noteq> current s \<Longrightarrow> shown (ans n r s) = shown s"
begin

text \<open>No answer is awaited for a run that has not started.\<close>

lemma asked_bounded:
  "\<forall>n \<in> set (asked s). n \<le> current s \<Longrightarrow>
     \<forall>n \<in> set (asked (poll_run restart tick ans es s)). n \<le> current (poll_run restart tick ans es s)"
proof (induction es arbitrary: s)
  case (Cons e es)
  have "\<forall>n \<in> set (asked t). n \<le> current t"
    if "t = (case e of Restart i \<Rightarrow> restart i s | Tick \<Rightarrow> tick s | Answer n r \<Rightarrow> ans n r s)" for t
    using Cons.prems that asked_restart asked_tick asked_ans
    by (cases e) (fastforce simp: current_restart current_tick current_ans)+
  with Cons.IH show ?case by simp
qed simp

text \<open>After a restart the answers to what was asked before change nothing, in whatever order.\<close>

lemma late_answers:
  assumes "\<forall>n \<in> set (asked s). n \<le> current s" "\<forall>(n, r) \<in> set late. n \<in> set (asked s)"
  shows "shown (poll_run restart tick ans (Restart i # map (\<lambda>(n, r). Answer n r) late) s) = shown (restart i s)"
proof -
  have "shown (poll_run restart tick ans (map (\<lambda>(n, r). Answer n r) late) t) = shown t"
    if "\<forall>(n, r) \<in> set late. n < current t" for t
    using that
  proof (induction late arbitrary: t)
    case (Cons x late)
    obtain n r where x: "x = (n, r)" by fastforce
    with Cons.prems have "\<forall>(n, r) \<in> set late. n < current (ans n' r' t)" for n' r'
      by (simp add: current_ans)
    moreover have "shown (ans n r t) = shown t" using Cons.prems x by (intro stale) auto
    ultimately show ?case using Cons.IH x by simp
  qed simp
  moreover have "\<forall>(n, r) \<in> set late. n < current (restart i s)"
    using assms by (fastforce simp: current_restart)
  ultimately show ?thesis by simp
qed

end

end
