(* ===== verification/Snapshots.thy ===== *)
theory Snapshots
  imports Polling LockGraph App
begin

text \<open>
  The polling of \<^verbatim>\<open>/api/snapshot\<close> in \<^verbatim>\<open>App.tsx\<close>: what an answer becomes, and the effect that polls
  while a node is connected. Each run of the effect has a number; its cleanup stops the timer and
  marks what is still under way as stopped, so an answer counts only if it belongs to the current
  run. A column is text or \<^verbatim>\<open>null\<close>, as the backend sends it; a value of another type is read as its
  text.
\<close>

section \<open>Answers\<close>

definition snapshot_row :: "jsval \<Rightarrow> row option" where
  "snapshot_row v = (case v of
     JObj fs \<Rightarrow> Some (map (\<lambda>(k, x). (k, to_str x)) (filter (\<lambda>(k, x). x \<noteq> JNull \<and> x \<noteq> JUndef) fs))
   | _ \<Rightarrow> None)"

definition snapshot_rows :: "jsval \<Rightarrow> row list option" where
  "snapshot_rows v = (case coalesce v (JArr []) of JArr vs \<Rightarrow> mapM snapshot_row vs | _ \<Rightarrow> None)"

record snapshot =
  sn_locks :: lock_graph
  sn_transactions :: "transaction_state list"
  sn_backends :: "row list"

definition no_snapshot :: snapshot where
  "no_snapshot = \<lparr>sn_locks = \<lparr>lg_nodes = [], lg_edges = [], lg_byKey = []\<rparr>, sn_transactions = [],
     sn_backends = []\<rparr>"

text \<open>An answer that cannot be used, or none, keeps the last snapshot.\<close>

definition snapshot_of :: "reply \<Rightarrow> snapshot option" where
  "snapshot_of r = do {
     d \<leftarrow> reply_json r;
     bs \<leftarrow> js_prop d ''backends'' \<bind> snapshot_rows;
     ls \<leftarrow> js_prop d ''locks'' \<bind> snapshot_rows;
     xid \<leftarrow> js_prop d ''current_xid'';
     Some \<lparr>sn_locks = buildLockGraphFromSnapshot bs ls,
       sn_transactions = buildTransactionsFromSnapshot bs (to_num (coalesce xid (JNum (Fin 0)))),
       sn_backends = bs\<rparr> }"

section \<open>The effect\<close>

record snapshot_poll =
  sp_connected :: bool
  sp_run :: nat
  sp_asked :: "nat list" \<comment> \<open>the runs that still await an answer\<close>
  sp_snapshot :: snapshot

definition ask_snapshot :: "snapshot_poll \<Rightarrow> snapshot_poll" where
  "ask_snapshot s =
     (if \<not> sp_connected s then s\<lparr>sp_snapshot := no_snapshot\<rparr> else s\<lparr>sp_asked := sp_run s # sp_asked s\<rparr>)"

text \<open>\<^verbatim>\<open>connected\<close> has changed: the old run is cleaned up, the next one asks at once.\<close>

definition connection_changed :: "bool \<Rightarrow> snapshot_poll \<Rightarrow> snapshot_poll" where
  "connection_changed c s = ask_snapshot (s\<lparr>sp_connected := c, sp_run := Suc (sp_run s)\<rparr>)"

definition snapshot_answered :: "nat \<Rightarrow> reply \<Rightarrow> snapshot_poll \<Rightarrow> snapshot_poll" where
  "snapshot_answered n r s =
     (let s1 = s\<lparr>sp_asked := remove1 n (sp_asked s)\<rparr>
      in if n \<noteq> sp_run s then s1
         else (case snapshot_of r of None \<Rightarrow> s1 | Some x \<Rightarrow> s1\<lparr>sp_snapshot := x\<rparr>))"

interpretation snapshot_effect: polled_effect sp_run sp_asked sp_snapshot connection_changed ask_snapshot
  snapshot_answered
  by unfold_locales
    (auto simp: connection_changed_def ask_snapshot_def snapshot_answered_def Let_def
      dest: set_remove1_subset [THEN subsetD] split: option.splits)

inductive poll_step :: "snapshot_poll \<Rightarrow> snapshot_poll \<Rightarrow> bool" where
  changed: "c \<noteq> sp_connected s \<Longrightarrow> poll_step s (connection_changed c s)"
| timer: "poll_step s (ask_snapshot s)"
| answered: "n \<in> set (sp_asked s) \<Longrightarrow> poll_step s (snapshot_answered n r s)"

definition init_poll :: snapshot_poll where
  "init_poll = ask_snapshot \<lparr>sp_connected = False, sp_run = 0, sp_asked = [], sp_snapshot = no_snapshot\<rparr>"

definition poll_ok :: "snapshot_poll \<Rightarrow> bool" where
  "poll_ok s \<longleftrightarrow> (\<forall>n \<in> set (sp_asked s). n \<le> sp_run s) \<and>
     (\<not> sp_connected s \<longrightarrow> sp_snapshot s = no_snapshot \<and> sp_run s \<notin> set (sp_asked s)) \<and>
     (sp_snapshot s = no_snapshot \<or> (\<exists>bs ls xid. sp_snapshot s =
        \<lparr>sn_locks = buildLockGraphFromSnapshot bs ls,
         sn_transactions = buildTransactionsFromSnapshot bs xid, sn_backends = bs\<rparr>))"

lemma snapshot_of_built: "snapshot_of r = Some x \<Longrightarrow> \<exists>bs ls xid. x =
    \<lparr>sn_locks = buildLockGraphFromSnapshot bs ls,
     sn_transactions = buildTransactionsFromSnapshot bs xid, sn_backends = bs\<rparr>"
  by (auto simp: snapshot_of_def split: Option.bind_splits)

lemma ask_snapshot_ok: "poll_ok s \<Longrightarrow> poll_ok (ask_snapshot s)"
  by (auto simp: poll_ok_def ask_snapshot_def)

lemma connection_changed_ok: "poll_ok s \<Longrightarrow> poll_ok (connection_changed c s)"
  by (fastforce simp: poll_ok_def connection_changed_def ask_snapshot_def)

lemma snapshot_answered_ok:
  assumes "poll_ok s" "n \<in> set (sp_asked s)"
  shows "poll_ok (snapshot_answered n r s)"
proof -
  have "set (remove1 n (sp_asked s)) \<subseteq> set (sp_asked s)" by (rule set_remove1_subset)
  with assms show ?thesis
    by (cases "n = sp_run s")
      (auto simp: poll_ok_def snapshot_answered_def Let_def split: option.split dest: snapshot_of_built)
qed

lemma poll_invariant:
  assumes "poll_step\<^sup>*\<^sup>* init_poll s"
  shows "poll_ok s"
  using assms
proof induction
  case base
  show ?case by (simp add: poll_ok_def init_poll_def ask_snapshot_def)
next
  case (step s t)
  from step(2,3) show ?case
    by cases (simp_all add: ask_snapshot_ok connection_changed_ok snapshot_answered_ok)
qed



text \<open>
  Whatever was asked of a node before the connection changed, its answers do not change what is
  shown afterwards.
\<close>

lemma late_snapshots_ignored:
  assumes "poll_step\<^sup>*\<^sup>* init_poll s" "\<forall>(n, r) \<in> set late. n \<in> set (sp_asked s)"
  shows "sp_snapshot (poll_run connection_changed ask_snapshot snapshot_answered
      (Restart c # map (\<lambda>(n, r). Answer n r) late) s) = sp_snapshot (connection_changed c s)"
proof (rule snapshot_effect.late_answers)
  show "\<forall>n \<in> set (sp_asked s). n \<le> sp_run s"
    using poll_invariant [OF assms(1)] by (simp add: poll_ok_def)
qed (rule assms(2))

text \<open>
  The page's own flag follows the connection store only upwards: once a node was connected, the
  page takes itself as connected.
\<close>

definition store_connected_effect :: "pg_state \<Rightarrow> app_state \<Rightarrow> app_state" where
  "store_connected_effect st a = (if pg_connected st then a\<lparr>ap_connected := True\<rparr> else a)"

lemma connection_is_never_lost: "ap_connected a \<Longrightarrow> ap_connected (store_connected_effect st a)"
  by (simp add: store_connected_effect_def)

text \<open>What the state diagram of transactions gets: the snapshot's list if it has any.\<close>

definition shown_transactions ::
  "snapshot \<Rightarrow> transaction_state list \<Rightarrow> transaction_state list option"
where
  "shown_transactions x from_events =
     (if sn_transactions x \<noteq> [] then Some (sn_transactions x)
      else if from_events \<noteq> [] then Some from_events else None)"

end
