(* ===== verification/Topology.thy ===== *)
theory Topology
  imports ClusterHome
begin

text \<open>
  What the cluster page of \<^verbatim>\<open>ClusterHomeView.tsx\<close> draws of a cluster: the number of nodes online
  on a cluster's card, the map of its topology and the pair of nodes of its replication diagram.
  Coordinates are exact rationals.
\<close>

section \<open>Cards\<close>

definition online_count :: "workspace_cluster \<Rightarrow> cluster_node_status list \<Rightarrow> nat" where
  "online_count c nodes =
     length (filter (\<lambda>n. ns_id n \<in> set (map nd_id (cl_nodes c)) \<and> ns_connected n) nodes)"

text \<open>With one status for each node, no more nodes are online than there are.\<close>

lemma online_at_most_all:
  assumes "distinct (map ns_id nodes)" "distinct (map nd_id (cl_nodes c))"
  shows "online_count c nodes \<le> length (cl_nodes c)"
proof -
  let ?on = "filter (\<lambda>n. ns_id n \<in> set (map nd_id (cl_nodes c)) \<and> ns_connected n) nodes"
  have "distinct (map ns_id ?on)" using assms(1) by (rule distinct_map_filter)
  then have "length ?on = card (set (map ns_id ?on))"
    using distinct_card [of "map ns_id ?on"] by (simp del: set_map)
  also have "\<dots> \<le> card (set (map nd_id (cl_nodes c)))" by (intro card_mono) auto
  also have "\<dots> = length (cl_nodes c)"
    using distinct_card [OF assms(2)] by (simp del: set_map)
  finally show ?thesis by (simp add: online_count_def)
qed

section \<open>The map\<close>

definition topology_gap :: "nat \<Rightarrow> rat" where
  "topology_gap n = (if n \<le> 1 then 0 else (700 - 80 - 120) / of_nat (max 1 (n - 1)))"

definition topology_positions :: "cluster_node list \<Rightarrow> (ustr \<times> rat) list" where
  "topology_positions nodes =
     map (\<lambda>(i, n). (nd_id n, 40 + of_nat i * topology_gap (length nodes))) (enumerate 0 nodes)"

record topology_line =
  tl_key :: ustr
  tl_active :: bool
  tl_x1 :: rat
  tl_x2 :: rat
  tl_y :: rat
  tl_label_x :: rat
  tl_label :: ustr

definition topology_line_of :: "cluster_node list \<Rightarrow> ustr \<Rightarrow> edge_info \<Rightarrow> topology_line option" where
  "topology_line_of nodes selected e =
     (case (map_of (topology_positions nodes) (eg_from e), map_of (topology_positions nodes) (eg_to e)) of
        (Some from, Some to) \<Rightarrow> Some \<lparr>tl_key = edge_key e, tl_active = (edge_key e = selected),
          tl_x1 = from + 120, tl_x2 = to, tl_y = 90 + 48 / 2, tl_label_x = (from + 120 + to) / 2,
          tl_label = eg_label e\<rparr>
      | _ \<Rightarrow> None)"

definition topology_lines :: "cluster_node list \<Rightarrow> edge_info list \<Rightarrow> ustr \<Rightarrow> topology_line list" where
  "topology_lines nodes edges selected = List.map_filter (topology_line_of nodes selected) edges"

lemma position_ids: "map fst (topology_positions nodes) = map nd_id nodes"
proof -
  have "map fst (topology_positions nodes) = map nd_id (map snd (enumerate 0 nodes))"
    by (simp add: topology_positions_def split_beta comp_def del: map_snd_enumerate)
  then show ?thesis by simp
qed

lemma position_of_node:
  assumes "n \<in> set nodes"
  shows "\<exists>x. map_of (topology_positions nodes) (nd_id n) = Some x"
proof -
  have "nd_id n \<in> set (map fst (topology_positions nodes))"
    using assms by (simp add: position_ids del: set_map) simp
  then show ?thesis using map_of_eq_None_iff [of "topology_positions nodes" "nd_id n"] by auto
qed

lemma topologyEdges_ends:
  assumes "e \<in> set (topologyEdges (Some c))"
  obtains f t where "f \<in> set (cl_nodes c)" "t \<in> set (cl_nodes c)" "eg_from e = nd_id f" "eg_to e = nd_id t"
  using assms
  by (auto simp: topologyEdges_def Let_def split: option.splits dest!: hub_node_member [OF sym])

lemma all_edges_drawn:
  "map tl_key (topology_lines (cl_nodes c) (topologyEdges (Some c)) selected) =
     map edge_key (topologyEdges (Some c))"
proof -
  have "\<exists>l. topology_line_of (cl_nodes c) selected e = Some l \<and> tl_key l = edge_key e"
    if e: "e \<in> set (topologyEdges (Some c))" for e
  proof -
    obtain f t where "f \<in> set (cl_nodes c)" "t \<in> set (cl_nodes c)" "eg_from e = nd_id f" "eg_to e = nd_id t"
      using topologyEdges_ends [OF e] .
    then show ?thesis
      using position_of_node [of f "cl_nodes c"] position_of_node [of t "cl_nodes c"]
      by (auto simp: topology_line_of_def)
  qed
  then have "map tl_key (List.map_filter (topology_line_of (cl_nodes c) selected) es) = map edge_key es"
    if "set es \<subseteq> set (topologyEdges (Some c))" for es
    using that
  proof (induction es)
    case (Cons e es)
    then obtain l where "topology_line_of (cl_nodes c) selected e = Some l" "tl_key l = edge_key e"
      by fastforce
    with Cons show ?case by (simp add: map_filter_simps)
  qed (simp add: map_filter_simps)
  then show ?thesis by (simp add: topology_lines_def)
qed

section \<open>The replication diagram\<close>

record replication_pair =
  rp_primary :: cluster_node
  rp_secondary :: cluster_node
  rp_primaryConnected :: bool
  rp_secondaryConnected :: bool
  rp_lagBytes :: jsnum

definition leading :: "cluster_node \<Rightarrow> bool" where
  "leading n \<longleftrightarrow> nd_role n = str ''primary'' \<or> nd_role n = str ''publisher''"

definition primaryNode :: "cluster_node list \<Rightarrow> cluster_node option" where
  "primaryNode nodes = or_else (find_first (\<lambda>n. nd_role n = str ''primary'') nodes)
     (or_else (find_first (\<lambda>n. nd_role n = str ''publisher'') nodes) (head_opt nodes))"

definition secondaryNode :: "cluster_node list \<Rightarrow> cluster_node option" where
  "secondaryNode nodes = or_else (find_first (\<lambda>n. \<not> leading n) nodes) (head_opt (drop 1 nodes))"

definition status_connected :: "cluster_node_status list \<Rightarrow> cluster_node \<Rightarrow> bool" where
  "status_connected statuses n =
     (case find_first (\<lambda>s. ns_id s = nd_id n) statuses of Some s \<Rightarrow> ns_connected s | None \<Rightarrow> False)"

definition replication_diagram ::
  "workspace_cluster \<Rightarrow> cluster_node_status list \<Rightarrow> edge_detail option \<Rightarrow> replication_pair option"
where
  "replication_diagram c statuses detail = do {
     p \<leftarrow> primaryNode (cl_nodes c);
     q \<leftarrow> secondaryNode (cl_nodes c);
     Some \<lparr>rp_primary = p, rp_secondary = q, rp_primaryConnected = status_connected statuses p,
       rp_secondaryConnected = status_connected statuses q,
       rp_lagBytes = (case detail of Some d \<Rightarrow> ed_lagBytes d | None \<Rightarrow> Fin 0)\<rparr> }"

text \<open>A cluster of one leading node and followers is shown with its leader and its first follower.\<close>

lemma diagram_of_star:
  assumes "leading h" "ns \<noteq> []" "list_all (\<lambda>n. \<not> leading n) ns"
  shows "primaryNode (h # ns) = Some h \<and> secondaryNode (h # ns) = Some (hd ns)"
proof -
  have "find_first (\<lambda>n. nd_role n = str ''primary'') ns = None"
    "find_first (\<lambda>n. nd_role n = str ''publisher'') ns = None"
    using assms(3) by (auto simp: find_first_None list_all_iff leading_def)
  moreover have "find_first (\<lambda>n. \<not> leading n) ns = Some (hd ns)"
    using assms(2,3) by (cases ns) (auto simp: find_first_head)
  ultimately show ?thesis
    using assms(1)
    by (auto simp: primaryNode_def secondaryNode_def or_else_def find_first_def leading_def head_opt_def
        split: list.splits)
qed

text \<open>Two leading nodes of different kinds are shown as one node replicating to itself.\<close>

lemma diagram_of_two_leaders:
  assumes "nd_role a = str ''publisher''" "nd_role b = str ''primary''"
  shows "primaryNode [a, b] = Some b \<and> secondaryNode [a, b] = Some b"
  using assms
  by (simp add: primaryNode_def secondaryNode_def or_else_def find_first_def leading_def head_opt_def str_def)

end
