(* ===== verification/Overview.thy ===== *)
theory Overview
  imports Polling ClusterHome
begin

text \<open>
  The polling of the status of the selected cluster in \<^verbatim>\<open>ClusterHomeView.tsx\<close>. The effect runs anew
  whenever the project or the selected cluster changes; an answer of an earlier run is dropped, but
  the overview it brought before stays until the first answer of the new one.
\<close>

record overview_poll =
  ov_project :: "workspace_project option"
  ov_cluster :: "workspace_cluster option"
  ov_run :: nat
  ov_asked :: "nat list"
  ov_home :: cluster_home

text \<open>Without a project or a cluster nothing is fetched and the overview is emptied at once.\<close>

definition ask_overview :: "overview_poll \<Rightarrow> overview_poll" where
  "ask_overview s =
     (if ov_project s = None \<or> ov_cluster s = None
      then s\<lparr>ov_home := set_overview [] [] (JNum (Fin 0)) (ov_home s)\<rparr>
      else s\<lparr>ov_asked := ov_run s # ov_asked s\<rparr>)"

definition overview_url :: "workspace_cluster \<Rightarrow> ustr" where
  "overview_url c = str ''/api/cluster/'' @ cl_id c @ str ''/overview''"

definition selection_changed ::
  "workspace_project option \<times> workspace_cluster option \<Rightarrow> overview_poll \<Rightarrow> overview_poll"
where
  "selection_changed = (\<lambda>(p, c) s.
     ask_overview (s\<lparr>ov_project := p, ov_cluster := c, ov_run := Suc (ov_run s)\<rparr>))"

text \<open>An answer with the time it arrives at and the texts of the engine's own exceptions.\<close>

definition overview_answered :: "nat \<Rightarrow> engine_texts \<times> int \<times> reply \<Rightarrow> overview_poll \<Rightarrow> overview_poll" where
  "overview_answered n = (\<lambda>(txt, now, r) s.
     let s1 = s\<lparr>ov_asked := remove1 n (ov_asked s)\<rparr>
     in if n \<noteq> ov_run s then s1
        else s1\<lparr>ov_home := loadOverview txt now (ov_project s) (ov_cluster s) r (ov_home s)\<rparr>)"

interpretation overview_effect: polled_effect ov_run ov_asked ov_home selection_changed ask_overview
  overview_answered
  by unfold_locales
    (auto simp: selection_changed_def ask_overview_def overview_answered_def Let_def
      dest: set_remove1_subset [THEN subsetD] split: prod.splits if_splits)

definition init_overview :: "workspace_project option \<Rightarrow> workspace_cluster option \<Rightarrow> cluster_home \<Rightarrow> overview_poll" where
  "init_overview p c h =
     ask_overview \<lparr>ov_project = p, ov_cluster = c, ov_run = 0, ov_asked = [], ov_home = h\<rparr>"

lemma init_overview_asked: "\<forall>n \<in> set (ov_asked (init_overview p c h)). n \<le> ov_run (init_overview p c h)"
  by (simp add: init_overview_def ask_overview_def)

lemma home_after_change:
  "ov_home (selection_changed (p, c) s) =
     (if p = None \<or> c = None then set_overview [] [] (JNum (Fin 0)) (ov_home s) else ov_home s)"
  by (simp add: selection_changed_def ask_overview_def)

text \<open>
  After another cluster has been selected, the answers that were still under way for the old one,
  in whatever number and order, do not change the page: it keeps the overview it had, or an empty
  one if nothing is selected, until the new cluster's own answer.
\<close>

lemma late_overviews_ignored:
  assumes "s = poll_run selection_changed ask_overview overview_answered es (init_overview p0 c0 h)"
    and "\<forall>(n, r) \<in> set late. n \<in> set (ov_asked s)"
  shows "ov_home (poll_run selection_changed ask_overview overview_answered
      (Restart (p, c) # map (\<lambda>(n, r). Answer n r) late) s) =
    (if p = None \<or> c = None then set_overview [] [] (JNum (Fin 0)) (ov_home s) else ov_home s)"
proof -
  have "\<forall>n \<in> set (ov_asked s). n \<le> ov_run s"
    unfolding assms(1) by (rule overview_effect.asked_bounded [OF init_overview_asked])
  from overview_effect.late_answers [OF this assms(2), of "(p, c)"] show ?thesis
    by (simp only: home_after_change)
qed

text \<open>Of an overview, only the statuses of nodes of the selected cluster are shown.\<close>

lemma shown_statuses_belong: "x \<in> set (clusterStatuses (Some c) nodes) \<Longrightarrow> ns_id x \<in> nd_id ` set (cl_nodes c)"
  by (simp add: clusterStatuses_def)

text \<open>
  A double click on a node selects it in the page and activates it; the page's own handler for it,
  which connects and stores the connection's settings, is passed to the view but never called.
\<close>

definition handleNodeDoubleClick ::
  "workspace_cluster option \<Rightarrow> cluster_node \<Rightarrow> (ustr \<times> jsval) list \<Rightarrow> app_state \<Rightarrow> pg_state \<Rightarrow>
   app_state \<times> pg_state"
where
  "handleNodeDoubleClick c n fs a st = (case c of
     None \<Rightarrow> (a, st)
   | Some k \<Rightarrow>
       (let (st', v) = activateNode n NodeHome fs st
        in (a\<lparr>ap_selectedClusterId := cl_id k, ap_selectedNodeId := nd_id n, ap_currentView := v\<rparr>, st')))"

lemma double_click_keeps_config: "pg_conf (snd (handleNodeDoubleClick c n fs a st)) = pg_conf st"
  by (cases c) (simp_all add: handleNodeDoubleClick_def activateNode_def setDataDir_def setVersion_def
      setConnected_def setActiveNodeId_def Let_def)

end
