(* ===== verification/Pages.thy ===== *)
theory Pages
  imports JsValues
begin

text \<open>
  What the React components of the program have in common: the tree of elements a component
  returns, the actions a user can take on it, and handlers that wait for answers. An element keeps
  its tag, its text, its children and the properties that depend on the state or can be acted upon;
  fixed class names, styles, placeholders and icons are left out.
\<close>

section \<open>Elements\<close>

text \<open>
  The handlers of an element: a click, a click handled only if the element itself is the target
  (\<^verbatim>\<open>e.target === e.currentTarget\<close>), a click that is not passed on (\<^verbatim>\<open>e.stopPropagation()\<close>), a double
  click, the change of a text, of a number field read by \<^verbatim>\<open>Number(e.target.value)\<close>, of a box and of a choice
  among the values of the options, and a key combination. Number fields step by one and are taken
  to hold whole numbers; an empty one counts as 0.
\<close>

datatype 'a attribute =
    Attr string ustr
  | Disabled bool
  | OnClick 'a
  | OnClickSelf 'a
  | OnClickStop 'a
  | OnDoubleClick 'a
  | OnInput "ustr \<Rightarrow> 'a"
  | OnNumber "int \<Rightarrow> 'a"
  | OnCheck "bool \<Rightarrow> 'a"
  | OnKey string 'a
  | OnChoice "ustr list" "ustr \<Rightarrow> 'a"

datatype 'a element = Text ustr | El string "'a attribute list" "'a element list"

text \<open>\<^verbatim>\<open>condition && <element/>\<close> and \<^verbatim>\<open>text && <element/>\<close>, as a list of children.\<close>

definition shown_if :: "bool \<Rightarrow> 'a element list \<Rightarrow> 'a element list" where
  "shown_if c es = (if c then es else [])"

lemma set_shown_if [simp]: "set (shown_if c es) = (if c then set es else {})"
  by (simp add: shown_if_def)

definition button :: "'a \<Rightarrow> ustr \<Rightarrow> 'a element" where
  "button a t = El ''button'' [OnClick a] [Text t]"

definition input_of :: "ustr \<Rightarrow> (ustr \<Rightarrow> 'a) \<Rightarrow> 'a element" where
  "input_of v f = El ''input'' [Attr ''value'' v, OnInput f] []"

definition number_input :: "int \<Rightarrow> (int \<Rightarrow> 'a) \<Rightarrow> 'a element" where
  "number_input v f = El ''input'' [Attr ''value'' (int_str v), OnNumber f] []"

definition option_of :: "ustr \<times> ustr \<Rightarrow> 'a element" where
  "option_of kv = El ''option'' [Attr ''value'' (fst kv)] [Text (snd kv)]"

definition select_of :: "(ustr \<times> ustr) list \<Rightarrow> ustr \<Rightarrow> (ustr \<Rightarrow> 'a) \<Rightarrow> 'a element" where
  "select_of os v f = El ''select'' [Attr ''value'' v, OnChoice (map fst os) f] (map option_of os)"

definition checkbox :: "bool \<Rightarrow> (bool \<Rightarrow> 'a) \<Rightarrow> 'a element" where
  "checkbox b f = El ''input'' [Attr ''checked'' (if b then str ''true'' else []), OnCheck f] []"

text \<open>A box without properties, and one whose only property is a class that depends on the state.\<close>

definition box :: "'a element list \<Rightarrow> 'a element" where
  "box cs = El ''div'' [] cs"

definition classed :: "string \<Rightarrow> ustr \<Rightarrow> 'a element list \<Rightarrow> 'a element" where
  "classed tag c cs = El tag [Attr ''class'' c] cs"

definition span_of :: "ustr \<Rightarrow> 'a element" where
  "span_of t = El ''span'' [] [Text t]"

lemmas widgets = button_def input_of_def number_input_def option_of_def select_of_def checkbox_def box_def
  classed_def span_of_def

section \<open>What a user can do\<close>

text \<open>The browser does not deliver clicks on a disabled control.\<close>

fun is_disabled :: "'a attribute list \<Rightarrow> bool" where
  "is_disabled [] = False"
| "is_disabled (Disabled b # ps) = (b \<or> is_disabled ps)"
| "is_disabled (p # ps) = is_disabled ps"

fun own_clicks :: "'a attribute list \<Rightarrow> 'a list" where
  "own_clicks [] = []"
| "own_clicks (OnClick a # ps) = a # own_clicks ps"
| "own_clicks (OnClickStop a # ps) = a # own_clicks ps"
| "own_clicks (p # ps) = own_clicks ps"

fun self_clicks :: "'a attribute list \<Rightarrow> 'a list" where
  "self_clicks [] = []"
| "self_clicks (OnClick a # ps) = a # self_clicks ps"
| "self_clicks (OnClickStop a # ps) = a # self_clicks ps"
| "self_clicks (OnClickSelf a # ps) = a # self_clicks ps"
| "self_clicks (p # ps) = self_clicks ps"

fun stops :: "'a attribute list \<Rightarrow> bool" where
  "stops [] = False"
| "stops (OnClickStop a # ps) = True"
| "stops (p # ps) = stops ps"

text \<open>
  The actions of a click on each element, target first and then its ancestors (\<open>up\<close>), as far as the
  click is passed on; and the same for double clicks.
\<close>

fun clicks :: "'a list \<Rightarrow> 'a element \<Rightarrow> 'a list list" where
  "clicks up (Text t) = []"
| "clicks up (El tag ps cs) =
     (if is_disabled ps then []
      else (self_clicks ps @ (if stops ps then [] else up))
        # concat (map (clicks (own_clicks ps @ (if stops ps then [] else up))) cs))"

fun own_doubles :: "'a attribute list \<Rightarrow> 'a list" where
  "own_doubles [] = []"
| "own_doubles (OnDoubleClick a # ps) = a # own_doubles ps"
| "own_doubles (p # ps) = own_doubles ps"

fun doubles :: "'a list \<Rightarrow> 'a element \<Rightarrow> 'a list list" where
  "doubles up (Text t) = []"
| "doubles up (El tag ps cs) =
     (if is_disabled ps then []
      else (own_doubles ps @ up) # concat (map (doubles (own_doubles ps @ up)) cs))"

text \<open>The changes a control allows, with what can be entered, and the keys it listens to.\<close>

fun prop_edits :: "'a attribute \<Rightarrow> 'a set" where
  "prop_edits (OnInput f) = range f"
| "prop_edits (OnNumber f) = range f"
| "prop_edits (OnCheck f) = range f"
| "prop_edits (OnKey k a) = {a}"
| "prop_edits (OnChoice vs f) = f ` set vs"
| "prop_edits p = {}"

fun edits :: "'a element \<Rightarrow> 'a set" where
  "edits (Text t) = {}"
| "edits (El tag ps cs) =
     (if is_disabled ps then {} else (\<Union>p\<in>set ps. prop_edits p) \<union> (\<Union>c\<in>set cs. edits c))"

text \<open>One event of the user: the actions it makes the page take, in order.\<close>

definition offered :: "'a element \<Rightarrow> 'a list \<Rightarrow> bool" where
  "offered e as \<longleftrightarrow>
     as \<in> set (clicks [] e) \<or> as \<in> set (doubles [] e) \<or> (\<exists>a\<in>edits e. as = [a])"

text \<open>Every action that occurs in an enabled place of the tree.\<close>

fun prop_acts :: "'a attribute \<Rightarrow> 'a set" where
  "prop_acts (OnClick a) = {a}"
| "prop_acts (OnClickSelf a) = {a}"
| "prop_acts (OnClickStop a) = {a}"
| "prop_acts (OnDoubleClick a) = {a}"
| "prop_acts p = prop_edits p"

fun acts :: "'a element \<Rightarrow> 'a set" where
  "acts (Text t) = {}"
| "acts (El tag ps cs) =
     (if is_disabled ps then {} else (\<Union>p\<in>set ps. prop_acts p) \<union> (\<Union>c\<in>set cs. acts c))"

lemma own_clicks_acts: "set (own_clicks ps) \<subseteq> (\<Union>p\<in>set ps. prop_acts p)"
  by (induction ps rule: own_clicks.induct) auto

lemma self_clicks_acts: "set (self_clicks ps) \<subseteq> (\<Union>p\<in>set ps. prop_acts p)"
  by (induction ps rule: self_clicks.induct) auto

lemma own_doubles_acts: "set (own_doubles ps) \<subseteq> (\<Union>p\<in>set ps. prop_acts p)"
  by (induction ps rule: own_doubles.induct) auto

lemma prop_edits_acts: "prop_edits p \<subseteq> prop_acts p"
  by (cases p) auto

lemma clicks_acts: "as \<in> set (clicks up e) \<Longrightarrow> set as \<subseteq> set up \<union> acts e"
proof (induction up e rule: clicks.induct)
  case (2 up tag ps cs)
  show ?case
  proof (cases "as = self_clicks ps @ (if stops ps then [] else up)")
    case True
    with 2 self_clicks_acts [of ps] show ?thesis by (auto split: if_splits)
  next
    case False
    with 2 obtain c where "c \<in> set cs" "\<not> is_disabled ps"
      "set as \<subseteq> set (own_clicks ps @ (if stops ps then [] else up)) \<union> acts c"
      by (auto split: if_splits)
    with own_clicks_acts [of ps] show ?thesis by (fastforce split: if_splits)
  qed
qed simp

lemma doubles_acts: "as \<in> set (doubles up e) \<Longrightarrow> set as \<subseteq> set up \<union> acts e"
proof (induction up e rule: doubles.induct)
  case (2 up tag ps cs)
  show ?case
  proof (cases "as = own_doubles ps @ up")
    case True
    with 2 own_doubles_acts [of ps] show ?thesis by (auto split: if_splits)
  next
    case False
    with 2 obtain c where "c \<in> set cs" "\<not> is_disabled ps"
      "set as \<subseteq> set (own_doubles ps @ up) \<union> acts c"
      by (auto split: if_splits)
    with own_doubles_acts [of ps] show ?thesis by fastforce
  qed
qed simp

lemma edits_acts: "edits e \<subseteq> acts e"
  by (induction e rule: edits.induct) (use prop_edits_acts in fastforce)+

lemma offered_acts: "offered e as \<Longrightarrow> set as \<subseteq> acts e"
  unfolding offered_def using clicks_acts [of as "[]" e] doubles_acts [of as "[]" e] edits_acts [of e]
  by auto

text \<open>
  A page on which no handler of clicks surrounds another one that passes its click on, and the same
  for double clicks: then a click takes at most one action.
\<close>

fun unnested :: "bool \<Rightarrow> bool \<Rightarrow> 'a element \<Rightarrow> bool" where
  "unnested c d (Text t) = True"
| "unnested c d (El tag ps cs) \<longleftrightarrow>
     is_disabled ps \<or>
     (length (self_clicks ps) \<le> 1 \<and> length (own_doubles ps) \<le> 1 \<and>
      (c \<longrightarrow> self_clicks ps = [] \<or> stops ps) \<and> (d \<longrightarrow> own_doubles ps = []) \<and>
      (\<forall>x\<in>set cs. unnested (c \<or> own_clicks ps \<noteq> []) (d \<or> own_doubles ps \<noteq> []) x))"

lemma own_clicks_self: "length (own_clicks ps) \<le> length (self_clicks ps)"
  by (induction ps rule: own_clicks.induct) auto

lemma unnested_clicks:
  "unnested c d e \<Longrightarrow> length up \<le> 1 \<Longrightarrow> (up \<noteq> [] \<longrightarrow> c) \<Longrightarrow> as \<in> set (clicks up e) \<Longrightarrow>
     length as \<le> 1"
proof (induction up e arbitrary: c d rule: clicks.induct)
  case (2 up tag ps cs)
  let ?up = "own_clicks ps @ (if stops ps then [] else up)"
  from "2.prems" have nd: "\<not> is_disabled ps" by (auto split: if_splits)
  with "2.prems"(1) have l: "length (self_clicks ps) \<le> 1"
    and u: "c \<longrightarrow> self_clicks ps = [] \<or> stops ps"
    and ch: "\<And>x. x \<in> set cs \<Longrightarrow> unnested (c \<or> own_clicks ps \<noteq> []) (d \<or> own_doubles ps \<noteq> []) x"
    by auto
  have up: "length ?up \<le> 1" "?up \<noteq> [] \<longrightarrow> c \<or> own_clicks ps \<noteq> []"
    using l u "2.prems"(2,3) own_clicks_self [of ps] by (auto split: if_splits)
  from "2.prems"(4) nd consider "as = self_clicks ps @ (if stops ps then [] else up)"
    | x where "x \<in> set cs" "as \<in> set (clicks ?up x)" by auto
  then show ?case
  proof cases
    case 1
    then show ?thesis using l u "2.prems"(2,3) by (auto split: if_splits)
  next
    case (2 x)
    then show ?thesis using "2.IH" [OF nd _ ch up] by blast
  qed
qed simp

lemma unnested_doubles:
  "unnested c d e \<Longrightarrow> length up \<le> 1 \<Longrightarrow> (up \<noteq> [] \<longrightarrow> d) \<Longrightarrow> as \<in> set (doubles up e) \<Longrightarrow>
     length as \<le> 1"
proof (induction up e arbitrary: c d rule: doubles.induct)
  case (2 up tag ps cs)
  let ?up = "own_doubles ps @ up"
  from "2.prems" have nd: "\<not> is_disabled ps" by (auto split: if_splits)
  with "2.prems"(1) have l: "length (own_doubles ps) \<le> 1"
    and u: "d \<longrightarrow> own_doubles ps = []"
    and ch: "\<And>x. x \<in> set cs \<Longrightarrow> unnested (c \<or> own_clicks ps \<noteq> []) (d \<or> own_doubles ps \<noteq> []) x"
    by auto
  have up: "length ?up \<le> 1" "?up \<noteq> [] \<longrightarrow> d \<or> own_doubles ps \<noteq> []"
    using l u "2.prems"(2,3) by auto
  from "2.prems"(4) nd consider "as = ?up" | x where "x \<in> set cs" "as \<in> set (doubles ?up x)" by auto
  then show ?case
  proof cases
    case 1
    with up(1) show ?thesis by simp
  next
    case (2 x)
    then show ?thesis using "2.IH" [OF nd _ ch up] by blast
  qed
qed simp

abbreviation plain_page :: "'a element \<Rightarrow> bool" where
  "plain_page \<equiv> unnested False False"

lemma unnested_single: "plain_page e \<Longrightarrow> offered e as \<Longrightarrow> length as \<le> 1"
  unfolding offered_def
  using unnested_clicks [of False False e "[]" as] unnested_doubles [of False False e "[]" as] by auto

lemma unnested_widgets [simp]:
  "unnested u d (input_of v f)" "unnested u d (number_input n h)" "unnested u d (option_of kv)"
  "unnested u d (select_of os v f)" "unnested u d (checkbox b g)" "unnested u d (span_of t)"
  "unnested u d (box cs) = (\<forall>c\<in>set cs. unnested u d c)"
  "unnested u d (classed tag c cs) = (\<forall>c\<in>set cs. unnested u d c)" "unnested u d (button a t) = (\<not> u)"
  by (auto simp: widgets)

lemma acts_widgets [simp]:
  "acts (input_of v f) = range f" "acts (number_input n h) = range h" "acts (option_of kv) = {}"
  "acts (select_of os v f) = f ` fst ` set os"
  "acts (checkbox b g) = range g" "acts (span_of t) = {}" "acts (box cs) = (\<Union>c\<in>set cs. acts c)"
  "acts (classed tag c cs) = (\<Union>c\<in>set cs. acts c)" "acts (button a t) = {a}"
  by (auto simp: widgets)

text \<open>On such a page every enabled action can be taken, by itself.\<close>

lemma self_clicks_iff: "a \<in> set (self_clicks ps) \<longleftrightarrow> OnClick a \<in> set ps \<or> OnClickSelf a \<in> set ps \<or> OnClickStop a \<in> set ps"
  by (induction ps rule: self_clicks.induct) auto

lemma own_doubles_iff: "a \<in> set (own_doubles ps) \<longleftrightarrow> OnDoubleClick a \<in> set ps"
  by (induction ps rule: own_doubles.induct) auto

lemma prop_acts_cases:
  "a \<in> prop_acts p \<Longrightarrow> p = OnClick a \<or> p = OnClickSelf a \<or> p = OnClickStop a \<or> p = OnDoubleClick a \<or>
     a \<in> prop_edits p"
  by (cases p) auto

lemma single_member: "a \<in> set xs \<Longrightarrow> length xs \<le> 1 \<Longrightarrow> xs = [a]"
  by (cases xs) auto

lemma stops_own: "stops ps \<Longrightarrow> own_clicks ps \<noteq> []"
  by (induction ps rule: stops.induct) auto

lemma unnested_acts:
  "unnested c d e \<Longrightarrow> (c = (up \<noteq> [])) \<Longrightarrow> (d = (dup \<noteq> [])) \<Longrightarrow> a \<in> acts e \<Longrightarrow>
     [a] \<in> set (clicks up e) \<or> [a] \<in> set (doubles dup e) \<or> a \<in> edits e"
proof (induction e arbitrary: c d up dup)
  case (El tag ps cs)
  let ?up = "own_clicks ps @ (if stops ps then [] else up)" and ?dup = "own_doubles ps @ dup"
  have nd: "\<not> is_disabled ps" using El.prems(4) by (auto split: if_splits)
  with El.prems(1) have l: "length (self_clicks ps) \<le> 1" "length (own_doubles ps) \<le> 1"
    and u: "c \<longrightarrow> self_clicks ps = [] \<or> stops ps" and v: "d \<longrightarrow> own_doubles ps = []"
    and ch: "\<And>x. x \<in> set cs \<Longrightarrow> unnested (c \<or> own_clicks ps \<noteq> []) (d \<or> own_doubles ps \<noteq> []) x"
    by auto
  from El.prems(4) nd consider p where "p \<in> set ps" "a \<in> prop_acts p" | x where "x \<in> set cs" "a \<in> acts x"
    by auto
  then show ?case
  proof cases
    case 1
    then consider "a \<in> set (self_clicks ps)" | "a \<in> set (own_doubles ps)" | "a \<in> prop_edits p"
      using prop_acts_cases [of a p] self_clicks_iff [of a ps] own_doubles_iff [of a ps] by blast
    then show ?thesis
    proof cases
      case 1
      with l u El.prems(2) have "self_clicks ps @ (if stops ps then [] else up) = [a]"
        using single_member [of a "self_clicks ps"] by auto
      with nd show ?thesis by simp
    next
      case 2
      with l v El.prems(3) have "own_doubles ps @ dup = [a]"
        using single_member [of a "own_doubles ps"] by auto
      with nd show ?thesis by simp
    next
      case 3
      with nd \<open>p \<in> set ps\<close> show ?thesis by auto
    qed
  next
    case (2 x)
    show ?thesis
    proof (cases "stops ps \<and> own_clicks ps = [] \<and> c")
      case True
      then show ?thesis using stops_own [of ps] by simp
    next
      case False
      have "(c \<or> own_clicks ps \<noteq> []) = (?up \<noteq> [])" "(d \<or> own_doubles ps \<noteq> []) = (?dup \<noteq> [])"
        using False El.prems(2,3) stops_own [of ps] by auto
      from El.IH [OF 2(1) ch [OF 2(1)] this 2(2)] nd 2(1) show ?thesis by auto
    qed
  qed
qed simp

lemma acts_offered: "plain_page e \<Longrightarrow> a \<in> acts e \<Longrightarrow> offered e [a]"
  using unnested_acts [of False False e "[]" "[]" a] by (auto simp: offered_def)

text \<open>The text a user reads, in document order.\<close>

fun visible_text :: "'a element \<Rightarrow> ustr list" where
  "visible_text (Text t) = [t]"
| "visible_text (El tag ps cs) = concat (map visible_text cs)"

text \<open>A component inside a page: its actions are actions of the page.\<close>

lemma acts_map_attribute: "prop_acts (map_attribute f p) = f ` prop_acts p"
  by (cases p) (auto simp: image_image)

lemma disabled_map_attribute: "is_disabled (map (map_attribute f) ps) = is_disabled ps"
  by (induction ps rule: is_disabled.induct) auto

lemma acts_map_element: "acts (map_element f e) = f ` acts e"
proof (induction e)
  case (El tag ps cs)
  then show ?case by (simp add: acts_map_attribute disabled_map_attribute image_UN image_Un)
qed simp

end
