(* ===== verification/Handlers.thy ===== *)
theory Handlers
  imports Pages
begin

text \<open>
  A page as a machine: the user acts on what is rendered, handlers send requests and wait, and
  answers arrive in any order, between any two actions of the user. The theory holds handlers as
  processes, the machine, and two contracts: an invariant of the page together with what it may
  send, and a flag that keeps a kind of action from being started twice.
\<close>

section \<open>Handlers that wait\<close>

text \<open>
  The rest of an asynchronous handler: nothing, an update of the state, a look at the environment
  (the clock, a fresh identifier), or a request whose answer the handler awaits. What the handler
  read when it was called is part of the process.
\<close>

datatype ('s, 'e, 'q, 'r) job =
    Done
  | Do "'s \<Rightarrow> 's" "('s, 'e, 'q, 'r) job"
  | Sample "'e \<Rightarrow> ('s, 'e, 'q, 'r) job"
  | Await 'q "'r \<Rightarrow> ('s, 'e, 'q, 'r) job"

text \<open>Run up to the next request or to the end, in one step, in a given environment.\<close>

primrec advance ::
  "'e \<Rightarrow> ('s, 'e, 'q, 'r) job \<Rightarrow> 's \<Rightarrow> 's \<times> ('q \<times> ('r \<Rightarrow> ('s, 'e, 'q, 'r) job)) option"
where
  "advance e Done s = (s, None)"
| "advance e (Do f j) s = advance e j (f s)"
| "advance e (Sample g) s = advance e (g e) s"
| "advance e (Await q k) s = (s, Some (q, k))"

text \<open>
  Run to the end, undisturbed and in one environment, with the given answers; the requests are
  returned, too.
\<close>

primrec undisturbed ::
  "'e \<Rightarrow> ('s, 'e, 'q, 'r) job \<Rightarrow> 'r list \<Rightarrow> 's \<Rightarrow> 's \<times> 'q list"
where
  "undisturbed e Done rs s = (s, [])"
| "undisturbed e (Do f j) rs s = undisturbed e j rs (f s)"
| "undisturbed e (Sample g) rs s = undisturbed e (g e) rs s"
| "undisturbed e (Await q k) rs s = (case rs of
     [] \<Rightarrow> (s, [q])
   | r # rs' \<Rightarrow> (let (s', qs) = undisturbed e (k r) rs' s in (s', q # qs)))"

section \<open>The machine\<close>

text \<open>
  The state of the component, the handlers that wait (with the action that started each and the
  request it sent), and all requests sent so far, oldest first.
\<close>

record ('s, 'a, 'e, 'q, 'r) page =
  pg_state :: 's
  pg_waiting :: "('a \<times> 'q \<times> ('r \<Rightarrow> ('s, 'e, 'q, 'r) job)) list"
  pg_sent :: "('a \<times> 'q) list"

definition proceed ::
  "'e \<Rightarrow> 'a \<Rightarrow> ('s, 'e, 'q, 'r) job \<Rightarrow> ('s, 'a, 'e, 'q, 'r) page \<Rightarrow> ('s, 'a, 'e, 'q, 'r) page"
where
  "proceed e a j c = (case advance e j (pg_state c) of
     (s, None) \<Rightarrow> c\<lparr>pg_state := s\<rparr>
   | (s, Some (q, k)) \<Rightarrow>
       c\<lparr>pg_state := s, pg_waiting := pg_waiting c @ [(a, q, k)], pg_sent := pg_sent c @ [(a, q)]\<rparr>)"

text \<open>Handlers read the state of the render they were created in.\<close>

definition take_actions ::
  "('a \<Rightarrow> 's \<Rightarrow> ('s, 'e, 'q, 'r) job) \<Rightarrow> 'e \<Rightarrow> 'a list \<Rightarrow> ('s, 'a, 'e, 'q, 'r) page \<Rightarrow>
   ('s, 'a, 'e, 'q, 'r) page"
where
  "take_actions perform e as c = fold (\<lambda>a. proceed e a (perform a (pg_state c))) as c"

definition drop_nth :: "nat \<Rightarrow> 'x list \<Rightarrow> 'x list" where
  "drop_nth i xs = take i xs @ drop (Suc i) xs"

definition answered :: "'e \<Rightarrow> nat \<Rightarrow> 'r \<Rightarrow> ('s, 'a, 'e, 'q, 'r) page \<Rightarrow> ('s, 'a, 'e, 'q, 'r) page" where
  "answered e i r c =
     (case pg_waiting c ! i of (a, q, k) \<Rightarrow>
        proceed e a (k r) (c\<lparr>pg_waiting := drop_nth i (pg_waiting c)\<rparr>))"

definition opened ::
  "('a \<Rightarrow> 's \<Rightarrow> ('s, 'e, 'q, 'r) job) \<Rightarrow> 'e \<Rightarrow> 'a \<Rightarrow> 's \<Rightarrow> ('s, 'a, 'e, 'q, 'r) page"
where
  "opened perform e a s = proceed e a (perform a s) \<lparr>pg_state = s, pg_waiting = [], pg_sent = []\<rparr>"

text \<open>
  A component that is not shown, or whose rendering fails (\<open>None\<close>), offers nothing. Besides the user and
  the answers there are events from outside: timers, and what other components bring about.
\<close>

inductive page_step ::
  "('s \<Rightarrow> 'a element option) \<Rightarrow> ('s \<Rightarrow> 'a set) \<Rightarrow> ('a \<Rightarrow> 's \<Rightarrow> ('s, 'e, 'q, 'r) job) \<Rightarrow>
   ('s, 'a, 'e, 'q, 'r) page \<Rightarrow> ('s, 'a, 'e, 'q, 'r) page \<Rightarrow> bool"
  for view :: "'s \<Rightarrow> 'a element option" and outside :: "'s \<Rightarrow> 'a set" and perform :: "'a \<Rightarrow> 's \<Rightarrow> ('s, 'e, 'q, 'r) job"
where
  by_user: "view (pg_state c) = Some el \<Longrightarrow> offered el as \<Longrightarrow>
    page_step view outside perform c (take_actions perform e as c)"
| by_outside: "a \<in> outside (pg_state c) \<Longrightarrow> page_step view outside perform c (take_actions perform e [a] c)"
| by_answer: "i < length (pg_waiting c) \<Longrightarrow> page_step view outside perform c (answered e i r c)"

inductive page_reach ::
  "('s \<Rightarrow> 'a element option) \<Rightarrow> ('s \<Rightarrow> 'a set) \<Rightarrow> ('a \<Rightarrow> 's \<Rightarrow> ('s, 'e, 'q, 'r) job) \<Rightarrow>
   ('s, 'a, 'e, 'q, 'r) page \<Rightarrow> ('s, 'a, 'e, 'q, 'r) page \<Rightarrow> bool"
  for view :: "'s \<Rightarrow> 'a element option" and outside :: "'s \<Rightarrow> 'a set" and perform :: "'a \<Rightarrow> 's \<Rightarrow> ('s, 'e, 'q, 'r) job" and c0
where
  reach_start: "page_reach view outside perform c0 c0"
| reach_step: "page_reach view outside perform c0 c \<Longrightarrow> page_step view outside perform c c' \<Longrightarrow>
    page_reach view outside perform c0 c'"

lemma reach_user:
  assumes "page_reach view outside perform c0 c" "view (pg_state c) = Some el" "offered el as"
  shows "page_reach view outside perform c0 (take_actions perform e as c)"
  using assms by (blast intro: reach_step by_user)

lemma reach_act:
  assumes "page_reach view outside perform c0 c" "view (pg_state c) = Some el" "plain_page el" "a \<in> acts el"
  shows "page_reach view outside perform c0 (proceed e a (perform a (pg_state c)) c)"
  using reach_user [OF assms(1,2) acts_offered [OF assms(3,4)]] by (simp add: take_actions_def)

lemma reach_outside:
  assumes "page_reach view outside perform c0 c" "a \<in> outside (pg_state c)"
  shows "page_reach view outside perform c0 (proceed e a (perform a (pg_state c)) c)"
proof -
  have "page_step view outside perform c (take_actions perform e [a] c)"
    by (rule by_outside) (rule assms(2))
  from reach_step [OF assms(1) this] show ?thesis by (simp add: take_actions_def)
qed

lemma reach_answer:
  assumes "page_reach view outside perform c0 c" "i < length (pg_waiting c)"
  shows "page_reach view outside perform c0 (answered e i r c)"
  using assms by (blast intro: reach_step by_answer)

lemma set_drop_nth: "set (drop_nth i xs) \<subseteq> set xs"
  by (auto simp: drop_nth_def dest: in_set_takeD in_set_dropD)

lemma filter_drop_nth:
  assumes "i < length xs"
  shows "length (filter P (drop_nth i xs)) + (if P (xs ! i) then 1 else 0) = length (filter P xs)"
proof -
  have "xs = take i xs @ xs ! i # drop (Suc i) xs" using assms by (simp add: id_take_nth_drop)
  then have "filter P xs = filter P (take i xs) @ filter P (xs ! i # drop (Suc i) xs)"
    by (metis filter_append)
  then show ?thesis by (simp add: drop_nth_def)
qed

section \<open>An invariant and what may be sent\<close>

primrec sound :: "('s \<Rightarrow> bool) \<Rightarrow> ('q \<Rightarrow> bool) \<Rightarrow> ('s, 'e, 'q, 'r) job \<Rightarrow> bool" where
  "sound good allowed Done = True"
| "sound good allowed (Do f j) = ((\<forall>s. good s \<longrightarrow> good (f s)) \<and> sound good allowed j)"
| "sound good allowed (Sample g) = (\<forall>e. sound good allowed (g e))"
| "sound good allowed (Await q k) = (allowed q \<and> (\<forall>r. sound good allowed (k r)))"

lemma advance_sound:
  assumes "sound good allowed j" "good s" "advance e j s = (s', rest)"
  shows "good s' \<and> (\<forall>q k. rest = Some (q, k) \<longrightarrow> allowed q \<and> (\<forall>r. sound good allowed (k r)))"
  using assms
proof (induction j arbitrary: s)
  case (Sample g)
  then show ?case using Sample.IH [of "g e" s] by auto
qed auto

locale page_contract =
  fixes view :: "'s \<Rightarrow> 'a element option"
    and outside :: "'s \<Rightarrow> 'a set"
    and perform :: "'a \<Rightarrow> 's \<Rightarrow> ('s, 'e, 'q, 'r) job"
    and first :: 'a
    and start :: 's
    and good :: "'s \<Rightarrow> bool"
    and allowed :: "'q \<Rightarrow> bool"
  assumes start_inv: "good start"
    and first_sound: "sound good allowed (perform first start)"
    and offered_sound: "good s \<Longrightarrow> view s = Some e \<Longrightarrow> a \<in> acts e \<Longrightarrow> sound good allowed (perform a s)"
    and outside_sound: "good s \<Longrightarrow> a \<in> outside s \<Longrightarrow> sound good allowed (perform a s)"
begin

definition page_ok :: "('s, 'a, 'e, 'q, 'r) page \<Rightarrow> bool" where
  "page_ok c \<longleftrightarrow> good (pg_state c) \<and> (\<forall>(a, q)\<in>set (pg_sent c). allowed q) \<and>
     (\<forall>(a, q, k)\<in>set (pg_waiting c). \<forall>r. sound good allowed (k r))"

lemma proceed_ok: "page_ok c \<Longrightarrow> sound good allowed j \<Longrightarrow> page_ok (proceed e a j c)"
  using advance_sound [of good allowed j "pg_state c" e]
  by (fastforce simp: page_ok_def proceed_def split: prod.split option.split)

lemma actions_ok:
  assumes "page_ok c" "\<forall>a\<in>set as. sound good allowed (perform a s)"
  shows "page_ok (fold (\<lambda>a. proceed e a (perform a s)) as c)"
  using assms by (induction as arbitrary: c) (simp_all add: proceed_ok)

lemma answered_ok:
  assumes "page_ok c" "i < length (pg_waiting c)"
  shows "page_ok (answered e i r c)"
proof -
  obtain a q k where w: "pg_waiting c ! i = (a, q, k)" by (cases "pg_waiting c ! i")
  with assms have "(a, q, k) \<in> set (pg_waiting c)" by (metis nth_mem)
  with assms(1) have "sound good allowed (k r)" by (auto simp: page_ok_def)
  moreover have "page_ok (c\<lparr>pg_waiting := drop_nth i (pg_waiting c)\<rparr>)"
    using assms(1) set_drop_nth [of i "pg_waiting c"] unfolding page_ok_def by fastforce
  ultimately show ?thesis by (simp add: answered_def w proceed_ok)
qed

lemma opened_ok: "page_ok (opened perform e0 first start)"
  unfolding opened_def by (rule proceed_ok [OF _ first_sound]) (simp add: page_ok_def start_inv)

theorem reachable_ok: "page_reach view outside perform (opened perform e0 first start) c \<Longrightarrow> page_ok c"
proof (induction rule: page_reach.induct)
  case reach_start
  show ?case by (rule opened_ok)
next
  case (reach_step c c')
  from reach_step.hyps(2) show ?case
  proof cases
    case (by_user el as e)
    then show ?thesis using reach_step.IH offered_acts [of el as] offered_sound [of "pg_state c" el]
      by (auto simp: take_actions_def page_ok_def intro!: actions_ok [unfolded page_ok_def])
  next
    case (by_outside a e)
    with reach_step.IH have "sound good allowed (perform a (pg_state c))"
      by (simp add: page_ok_def outside_sound)
    with by_outside reach_step.IH show ?thesis by (simp add: take_actions_def proceed_ok)
  next
    case by_answer
    then show ?thesis using reach_step.IH answered_ok by blast
  qed
qed

lemma reachable_state:
  assumes "page_reach view outside perform (opened perform e0 first start) c"
  shows "good (pg_state c)" "(a, q) \<in> set (pg_sent c) \<Longrightarrow> allowed q"
  using reachable_ok [OF assms] by (auto simp: page_ok_def)

end

section \<open>A flag that guards a kind of action\<close>

text \<open>
  \<open>untouched\<close>: the handler never changes the flag; \<open>held\<close>: it holds the flag and its last update but for
  others clears it; \<open>brief\<close>: it ends without a request and leaves the flag alone; \<open>taking\<close>: it
  sets the flag before its first request.
\<close>

primrec untouched :: "('s \<Rightarrow> bool) \<Rightarrow> ('s, 'e, 'q, 'r) job \<Rightarrow> bool" where
  "untouched busy Done = True"
| "untouched busy (Do f j) = ((\<forall>s. busy (f s) = busy s) \<and> untouched busy j)"
| "untouched busy (Sample g) = (\<forall>e. untouched busy (g e))"
| "untouched busy (Await q k) = (\<forall>r. untouched busy (k r))"

primrec brief :: "('s \<Rightarrow> bool) \<Rightarrow> ('s, 'e, 'q, 'r) job \<Rightarrow> bool" where
  "brief busy Done = True"
| "brief busy (Do f j) = ((\<forall>s. busy (f s) = busy s) \<and> brief busy j)"
| "brief busy (Sample g) = (\<forall>e. brief busy (g e))"
| "brief busy (Await q k) = False"

primrec held :: "('s \<Rightarrow> bool) \<Rightarrow> ('s, 'e, 'q, 'r) job \<Rightarrow> bool" where
  "held busy Done = False"
| "held busy (Do f j) =
     ((\<forall>s. busy (f s) = busy s) \<and> held busy j \<or> (\<forall>s. \<not> busy (f s)) \<and> brief busy j)"
| "held busy (Sample g) = (\<forall>e. held busy (g e))"
| "held busy (Await q k) = (\<forall>r. held busy (k r))"

primrec taking :: "('s \<Rightarrow> bool) \<Rightarrow> ('s, 'e, 'q, 'r) job \<Rightarrow> bool" where
  "taking busy Done = False"
| "taking busy (Do f j) =
     ((\<forall>s. busy (f s)) \<and> held busy j \<or> (\<forall>s. busy (f s) = busy s) \<and> taking busy j)"
| "taking busy (Sample g) = (\<forall>e. taking busy (g e))"
| "taking busy (Await q k) = False"

lemma advance_untouched:
  "untouched busy j \<Longrightarrow> advance e j s = (s', rest) \<Longrightarrow>
     busy s' = busy s \<and> (\<forall>q k. rest = Some (q, k) \<longrightarrow> (\<forall>r. untouched busy (k r)))"
proof (induction j arbitrary: s)
  case (Sample g)
  then show ?case using Sample.IH [of "g e" s] by auto
qed auto

lemma advance_brief: "brief busy j \<Longrightarrow> advance e j s = (s', rest) \<Longrightarrow> busy s' = busy s \<and> rest = None"
proof (induction j arbitrary: s)
  case (Sample g)
  then show ?case using Sample.IH [of "g e" s] by auto
qed auto

lemma advance_held:
  "held busy j \<Longrightarrow> busy s \<Longrightarrow> advance e j s = (s', rest) \<Longrightarrow>
     (case rest of None \<Rightarrow> \<not> busy s' | Some (q, k) \<Rightarrow> busy s' \<and> (\<forall>r. held busy (k r)))"
proof (induction j arbitrary: s)
  case (Do f j)
  from Do.prems(1) consider "\<forall>s. busy (f s) = busy s" "held busy j" | "\<forall>s. \<not> busy (f s)" "brief busy j"
    by auto
  then show ?case
  proof cases
    case 1
    then show ?thesis using Do.IH [of "f s"] Do.prems by simp
  next
    case 2
    then show ?thesis using advance_brief [of busy j e "f s" s' rest] Do.prems by simp
  qed
next
  case (Sample g)
  then show ?case using Sample.IH [of "g e" s] by auto
qed auto

lemma advance_taking:
  "taking busy j \<Longrightarrow> advance e j s = (s', rest) \<Longrightarrow>
     (case rest of None \<Rightarrow> \<not> busy s' | Some (q, k) \<Rightarrow> busy s' \<and> (\<forall>r. held busy (k r)))"
proof (induction j arbitrary: s)
  case (Do f j)
  then show ?case using advance_held [of busy j "f s" e s' rest] by auto
next
  case (Sample g)
  then show ?case using Sample.IH [of "g e" s] by auto
qed auto

locale busy_guard =
  fixes view :: "'s \<Rightarrow> 'a element option"
    and outside :: "'s \<Rightarrow> 'a set"
    and perform :: "'a \<Rightarrow> 's \<Rightarrow> ('s, 'e, 'q, 'r) job"
    and first :: 'a
    and start :: 's
    and busy :: "'s \<Rightarrow> bool"
    and kind :: "'a \<Rightarrow> bool"
  assumes start_free: "\<not> busy start" "\<not> kind first"
    and flat: "view s = Some e \<Longrightarrow> plain_page e"
    and guarded: "view s = Some e \<Longrightarrow> a \<in> acts e \<Longrightarrow> kind a \<Longrightarrow> \<not> busy s"
    and outside_free: "a \<in> outside s \<Longrightarrow> \<not> kind a"
    and takes: "kind a \<Longrightarrow> brief busy (perform a s) \<or> taking busy (perform a s)"
    and leaves: "\<not> kind a \<Longrightarrow> untouched busy (perform a s)"
begin

definition guard_ok :: "('s, 'a, 'e, 'q, 'r) page \<Rightarrow> bool" where
  "guard_ok c \<longleftrightarrow>
     (\<forall>(a, q, k)\<in>set (pg_waiting c). \<forall>r. if kind a then held busy (k r) else untouched busy (k r)) \<and>
     length (filter (kind \<circ> fst) (pg_waiting c)) = (if busy (pg_state c) then 1 else 0)"

lemma proceed_untouched:
  assumes "guard_ok c" "\<not> kind a" "untouched busy j"
  shows "guard_ok (proceed e a j c)"
  using assms advance_untouched [of busy j e "pg_state c"]
  by (fastforce simp: guard_ok_def proceed_def split: prod.split option.split)

lemma proceed_kind:
  assumes "\<forall>(a, q, k)\<in>set (pg_waiting c). \<forall>r. if kind a then held busy (k r) else untouched busy (k r)"
    "filter (kind \<circ> fst) (pg_waiting c) = []" "kind a"
    "case advance e j (pg_state c) of (s', None) \<Rightarrow> \<not> busy s'
     | (s', Some (q, k)) \<Rightarrow> busy s' \<and> (\<forall>r. held busy (k r))"
  shows "guard_ok (proceed e a j c)"
  using assms by (auto simp: guard_ok_def proceed_def split: prod.split option.split)

lemma act_ok:
  assumes "guard_ok c" "view (pg_state c) = Some el" "offered el as"
  shows "guard_ok (take_actions perform e as c)"
proof (cases as)
  case (Cons a bs)
  with unnested_single [OF flat [OF assms(2)] assms(3)] have as: "as = [a]" by simp
  have "a \<in> acts el" using offered_acts [OF assms(3)] as by auto
  show ?thesis
  proof (cases "kind a")
    case True
    then have free: "\<not> busy (pg_state c)" using guarded assms(2) \<open>a \<in> acts el\<close> by blast
    obtain s' rest where adv: "advance e (perform a (pg_state c)) (pg_state c) = (s', rest)" by fastforce
    have "case rest of None \<Rightarrow> \<not> busy s' | Some (q, k) \<Rightarrow> busy s' \<and> (\<forall>r. held busy (k r))"
      using takes [OF True, of "pg_state c"]
    proof
      assume "brief busy (perform a (pg_state c))"
      from advance_brief [OF this adv] free show ?thesis by simp
    next
      assume "taking busy (perform a (pg_state c))"
      from advance_taking [OF this adv] show ?thesis by simp
    qed
    then have "case advance e (perform a (pg_state c)) (pg_state c) of (s', None) \<Rightarrow> \<not> busy s'
        | (s', Some (q, k)) \<Rightarrow> busy s' \<and> (\<forall>r. held busy (k r))"
      by (auto simp: adv split: option.splits)
    moreover have "filter (kind \<circ> fst) (pg_waiting c) = []" using assms(1) free by (simp add: guard_ok_def)
    moreover have "\<forall>(a, q, k)\<in>set (pg_waiting c).
        \<forall>r. if kind a then held busy (k r) else untouched busy (k r)"
      using assms(1) by (simp add: guard_ok_def)
    ultimately have "guard_ok (proceed e a (perform a (pg_state c)) c)"
      using True by (intro proceed_kind) auto
    then show ?thesis by (simp add: as take_actions_def)
  next
    case False
    then show ?thesis using proceed_untouched [OF assms(1) False leaves [OF False]]
      by (simp add: as take_actions_def)
  qed
qed (simp add: take_actions_def assms)

lemma outside_ok:
  assumes "guard_ok c" "a \<in> outside (pg_state c)"
  shows "guard_ok (take_actions perform e [a] c)"
  using proceed_untouched [OF assms(1) outside_free [OF assms(2)] leaves [OF outside_free [OF assms(2)]]]
  by (simp add: take_actions_def)

lemma answer_ok:
  assumes "guard_ok c" "i < length (pg_waiting c)"
  shows "guard_ok (answered e i r c)"
proof -
  obtain a q k where w: "pg_waiting c ! i = (a, q, k)" by (cases "pg_waiting c ! i")
  let ?c = "c\<lparr>pg_waiting := drop_nth i (pg_waiting c)\<rparr>"
  have k: "if kind a then held busy (k r) else untouched busy (k r)"
    using assms w by (force simp: guard_ok_def dest: nth_mem)
  have each: "\<forall>(a, q, k)\<in>set (pg_waiting ?c). \<forall>r. if kind a then held busy (k r) else untouched busy (k r)"
    using assms(1) set_drop_nth [of i "pg_waiting c"] unfolding guard_ok_def by fastforce
  have count: "length (filter (kind \<circ> fst) (drop_nth i (pg_waiting c))) + (if kind a then 1 else 0) =
      (if busy (pg_state c) then 1 else 0)"
    using filter_drop_nth [OF assms(2), of "kind \<circ> fst"] assms(1) w by (simp add: guard_ok_def)
  show ?thesis
  proof (cases "kind a")
    case True
    with count have b: "busy (pg_state c)" and e: "filter (kind \<circ> fst) (drop_nth i (pg_waiting c)) = []"
      by (auto split: if_splits)
    obtain s' rest where adv: "advance e (k r) (pg_state c) = (s', rest)" by fastforce
    from k True have "held busy (k r)" by simp
    from advance_held [OF this b adv] have "case advance e (k r) (pg_state ?c) of (s', None) \<Rightarrow> \<not> busy s'
        | (s', Some (q, k)) \<Rightarrow> busy s' \<and> (\<forall>r. held busy (k r))"
      by (auto simp: adv split: option.splits)
    with each e True have "guard_ok (proceed e a (k r) ?c)" by (intro proceed_kind) auto
    then show ?thesis by (simp add: answered_def w)
  next
    case False
    with count each have "guard_ok ?c" by (simp add: guard_ok_def)
    with k False show ?thesis by (simp add: answered_def w proceed_untouched)
  qed
qed

lemma opened_guard: "guard_ok (opened perform e0 first start)"
  unfolding opened_def
  by (rule proceed_untouched [OF _ start_free(2) leaves [OF start_free(2)]])
    (simp add: guard_ok_def start_free)

text \<open>
  In every reachable state at most one handler of the kind waits for an answer, and the flag tells
  exactly whether one does.
\<close>

theorem one_at_a_time:
  "page_reach view outside perform (opened perform e0 first start) c \<Longrightarrow>
     length (filter (kind \<circ> fst) (pg_waiting c)) = (if busy (pg_state c) then 1 else 0)"
proof -
  assume "page_reach view outside perform (opened perform e0 first start) c"
  then have "guard_ok c"
  proof (induction rule: page_reach.induct)
    case reach_start
    show ?case by (rule opened_guard)
  next
    case (reach_step c c')
    from reach_step.hyps(2) show ?case
      by cases (use reach_step.IH act_ok outside_ok answer_ok in blast)+
  qed
  then show ?thesis by (simp add: guard_ok_def)
qed

end

end
