(* ===== verification/HostView.thy ===== *)
theory HostView
  imports HostManagement Handlers
begin

text \<open>
  The host management page as a machine: what \<^verbatim>\<open>components/workspace/HostManagementView.tsx\<close> renders
  in each state, and its handlers with every wait for an answer. The handlers run undisturbed are
  those of theory \<open>HostManagement\<close>; here answers arrive while the user goes on.
\<close>

section \<open>Numbers typed into a field\<close>

text \<open>
  \<^verbatim>\<open>parseInt(text) || d\<close>, with exact integers: beyond \<open>2 ^ 53\<close> the browser rounds.
\<close>

definition parse_digits :: "nat \<Rightarrow> ustr \<Rightarrow> int option" where
  "parse_digits base t =
     map_option int (radix_value base (takeWhile (\<lambda>c. digit_in base c \<noteq> None) t))"

definition parse_int :: "ustr \<Rightarrow> int option" where
  "parse_int text =
     (let t = dropWhile is_space text;
          u = (case t of c # r \<Rightarrow> if c = 45 \<or> c = 43 then r else t | [] \<Rightarrow> t);
          hex = starts_with (str ''0x'') u \<or> starts_with (str ''0X'') u;
          n = (if hex then parse_digits 16 (drop 2 u) else parse_digits 10 u)
      in (if starts_with (str ''-'') t then map_option uminus n else n))"

definition parse_int_or :: "int \<Rightarrow> ustr \<Rightarrow> int" where
  "parse_int_or d text = (case parse_int text of None \<Rightarrow> d | Some i \<Rightarrow> if i = 0 then d else i)"

section \<open>What the backend sent\<close>

text \<open>
  The page reads the hosts and the scanned instance as values of their declared types, without a
  check. Where an answer is not of the declared type, what is rendered is not modelled.
\<close>

definition host_of :: "jsval \<Rightarrow> workspace_host option" where
  "host_of v = (case v of
     JObj fs \<Rightarrow> do {
       i \<leftarrow> as_str (field fs ''id'');
       n \<leftarrow> as_str (field fs ''name'');
       h \<leftarrow> as_str (field fs ''host'');
       p \<leftarrow> as_int (field fs ''port'');
       u \<leftarrow> as_str (field fs ''sshUser'');
       k \<leftarrow> opt_field as_str (field fs ''sshKey'');
       c \<leftarrow> as_num (field fs ''createdAt'');
       Some \<lparr>wh_id = i, wh_name = n, wh_host = h, wh_port = p, wh_sshUser = u, wh_sshKey = k,
         wh_createdAt = c\<rparr> }
   | _ \<Rightarrow> None)"

definition hosts_of :: "jsval \<Rightarrow> workspace_host list option" where
  "hosts_of = as_list host_of"

record discovery_host =
  dh_host :: ustr
  dh_port :: int
  dh_service :: ustr
  dh_version :: "ustr option"
  dh_confidence :: ustr

definition found_of :: "jsval \<Rightarrow> discovery_host option" where
  "found_of v = (case v of
     JObj fs \<Rightarrow> do {
       h \<leftarrow> as_str (field fs ''host'');
       p \<leftarrow> as_int (field fs ''port'');
       s \<leftarrow> as_str (field fs ''service'');
       w \<leftarrow> opt_field as_str (field fs ''version'');
       c \<leftarrow> as_str (field fs ''confidence'');
       Some \<lparr>dh_host = h, dh_port = p, dh_service = s, dh_version = w, dh_confidence = c\<rparr> }
   | _ \<Rightarrow> None)"

section \<open>Rendering\<close>

datatype host_action =
    PageOpened
  | GoBack
  | ShowAdd
  | HideAdd
  | SetScanHost ustr
  | SetScanPort ustr
  | RunScan
  | ImportFound discovery_host
  | SetFormName ustr
  | SetFormHost ustr
  | SetFormPort ustr
  | SetFormUser ustr
  | SetFormKey ustr
  | SaveHost ustr
  | LeaveEdit
  | StartEdit workspace_host
  | DeleteHost ustr
  | SubmitHost

definition labelled :: "ustr \<Rightarrow> 'a element \<Rightarrow> 'a element" where
  "labelled t e = El ''label'' [] [Text t, e]"

definition host_toolbar :: "host_action element" where
  "host_toolbar = box
     [button GoBack [0x2190, 0x20, 0x8FD4, 0x56DE], El ''h2'' [] [Text [0x4E3B, 0x673A, 0x7BA1, 0x7406]],
      button ShowAdd [0x2B, 0x20, 0x6DFB, 0x52A0, 0x4E3B, 0x673A]]"

text \<open>\<^verbatim>\<open>{host}:{port}\<close>.\<close>

definition host_port :: "ustr \<Rightarrow> int \<Rightarrow> ustr" where
  "host_port h p = h @ str '':'' @ int_str p"

definition found_box :: "discovery_host \<Rightarrow> host_action element" where
  "found_box d = box
     [box [El ''strong'' [] [Text (str ''Host:'')], Text (str '' '' @ host_port (dh_host d) (dh_port d))],
      box [El ''strong'' [] [Text (str ''Service:'')], Text (str '' '' @ dh_service d)],
      box [El ''strong'' [] [Text (str ''Version:'')],
        Text (str '' '' @ (case dh_version d of Some v \<Rightarrow> v | None \<Rightarrow> str ''N/A''))],
      box [El ''strong'' [] [Text (str ''Confidence:'')], Text (str '' ''),
        El ''span'' [Attr ''color'' (if dh_confidence d = str ''high'' then str ''var(--green)''
            else if dh_confidence d = str ''medium'' then str ''var(--yellow)'' else str ''var(--red)'')]
          [Text (dh_confidence d)]],
      button (ImportFound d) [0x5BFC, 0x5165, 0x5230, 0x4E3B, 0x673A, 0x5217, 0x8868]]"

definition scan_section :: "host_page \<Rightarrow> discovery_host option \<Rightarrow> host_action element" where
  "scan_section s found = box
     ([box [Text [0x4E3B, 0x673A, 0x626B, 0x63CF]],
       box [labelled [0x4E3B, 0x673A, 0x5730, 0x5740] (input_of (hm_scanHost s) SetScanHost),
         labelled [0x7AEF, 0x53E3] (input_of (int_str (hm_scanPort s)) SetScanPort),
         El ''button'' [OnClick RunScan, Disabled (hm_scanning s)]
           [Text (if hm_scanning s then [0x626B, 0x63CF, 0x4E2D, 0x2026] else [0x626B, 0x63CF])]]] @
      (case found of None \<Rightarrow> [] | Some d \<Rightarrow> [found_box d]))"

definition edit_row :: "host_page \<Rightarrow> workspace_host \<Rightarrow> host_action element" where
  "edit_row s h = box
     [box [labelled [0x540D, 0x79F0] (input_of (hm_formName s) SetFormName),
        labelled [0x4E3B, 0x673A, 0x5730, 0x5740] (input_of (hm_formHost s) SetFormHost),
        labelled (str ''SSH '' @ [0x7AEF, 0x53E3]) (input_of (int_str (hm_formPort s)) SetFormPort),
        labelled (str ''SSH '' @ [0x7528, 0x6237]) (input_of (hm_formUser s) SetFormUser)],
      labelled (str ''SSH '' @ [0x79C1, 0x94A5, 0xFF08, 0x53EF, 0x9009, 0xFF09]) (input_of (hm_formKey s) SetFormKey),
      box [button (SaveHost (wh_id h)) [0x4FDD, 0x5B58], button LeaveEdit [0x53D6, 0x6D88]]]"

definition show_row :: "workspace_host \<Rightarrow> host_action element" where
  "show_row h = box
     [box [box [Text (wh_name h)],
        box [Text (host_port (wh_host h) (wh_port h))],
        box [Text (str ''SSH: '' @ wh_sshUser h @ str ''@'' @ host_port (wh_host h) (wh_port h)),
          Text (if or_default (wh_sshKey h) [] = [] then [] else [0x20, 0xD83D, 0xDD11])]],
      box [button (StartEdit h) [0x7F16, 0x8F91], button (DeleteHost (wh_id h)) [0x5220, 0x9664]]]"

definition host_row :: "host_page \<Rightarrow> workspace_host \<Rightarrow> host_action element" where
  "host_row s h =
     box [if hm_editingId s = Some (wh_id h) then edit_row s h else show_row h]"

definition host_list :: "host_page \<Rightarrow> workspace_host list \<Rightarrow> host_action element" where
  "host_list s hs =
     (if hm_loading s then box [Text [0x52A0, 0x8F7D, 0x4E2D, 0x2026]]
      else if hs = [] then box [Text [0x6682, 0x65E0, 0x4E3B, 0x673A, 0xFF0C, 0x8BF7, 0x6DFB, 0x52A0, 0x6216, 0x626B, 0x63CF, 0x5BFC, 0x5165]]
      else box (map (host_row s) hs))"

definition add_dialog :: "host_page \<Rightarrow> host_action element" where
  "add_dialog s = El ''div'' [OnClickSelf HideAdd]
     [box [El ''h3'' [] [Text [0x6DFB, 0x52A0, 0x4E3B, 0x673A]],
        box [labelled [0x540D, 0x79F0, 0x20, 0x2A] (input_of (hm_formName s) SetFormName),
          labelled [0x4E3B, 0x673A, 0x5730, 0x5740, 0x20, 0x2A] (input_of (hm_formHost s) SetFormHost),
          box [labelled (str ''SSH '' @ [0x7AEF, 0x53E3]) (input_of (int_str (hm_formPort s)) SetFormPort),
            labelled (str ''SSH '' @ [0x7528, 0x6237]) (input_of (hm_formUser s) SetFormUser)],
          labelled (str ''SSH '' @ [0x79C1, 0x94A5, 0x5185, 0x5BB9, 0xFF08, 0x53EF, 0x9009, 0xFF0C, 0x7528, 0x4E8E, 0x8FDC, 0x7A0B, 0x4E3B, 0x673A, 0xFF09]) (input_of (hm_formKey s) SetFormKey)],
        box [button HideAdd [0x53D6, 0x6D88],
          El ''button'' [OnClick SubmitHost,
              Disabled (hm_formSubmitting s \<or> trim (hm_formName s) = [] \<or> trim (hm_formHost s) = [])]
            [Text (if hm_formSubmitting s then [0x6DFB, 0x52A0, 0x4E2D, 0x2026] else [0x6DFB, 0x52A0])]]]]"

definition host_view :: "host_page \<Rightarrow> host_action element option" where
  "host_view s = do {
     hs \<leftarrow> hosts_of (hm_hosts s);
     found \<leftarrow> (if truthy (hm_scanResult s) then map_option Some (found_of (hm_scanResult s)) else Some None);
     Some (box
       ([host_toolbar] @ shown_if (hm_error s \<noteq> []) [box [Text (hm_error s)]] @
        [scan_section s found, host_list s hs] @ shown_if (hm_showAdd s) [add_dialog s])) }"

section \<open>Handlers\<close>

type_synonym host_job = "(host_page, unit, host_call, reply) job"

text \<open>\<^verbatim>\<open>await loadHosts()\<close>, followed by the rest of the handler that awaits it.\<close>

definition loadHosts_then :: "host_job \<Rightarrow> host_job" where
  "loadHosts_then rest =
     Do (\<lambda>s. s\<lparr>hm_loading := True, hm_error := []\<rparr>)
     (Await \<lparr>hc_method = GET, hc_url = hosts_url, hc_body = JUndef\<rparr> (\<lambda>r.
     Do (\<lambda>s. case confirmed r of
           Some (JObj fs) \<Rightarrow> s\<lparr>hm_hosts := coalesce (field fs ''hosts'') (JArr [])\<rparr>
         | _ \<Rightarrow> s\<lparr>hm_error := load_failed\<rparr>)
     (Do (\<lambda>s. s\<lparr>hm_loading := False\<rparr>) rest)))"

definition addHost_job :: "host_page \<Rightarrow> host_job" where
  "addHost_job s0 =
     (if trim (hm_formName s0) = [] \<or> trim (hm_formHost s0) = [] then Done
      else
        Do (\<lambda>s. s\<lparr>hm_formSubmitting := True\<rparr>)
        (Await \<lparr>hc_method = POST, hc_url = hosts_url, hc_body = host_form s0\<rparr> (\<lambda>r.
        case confirmed r of
          None \<Rightarrow> Do (\<lambda>s. s\<lparr>hm_error := add_failed\<rparr>) (Do (\<lambda>s. s\<lparr>hm_formSubmitting := False\<rparr>) Done)
        | Some _ \<Rightarrow> loadHosts_then
            (Do (\<lambda>s. reset_form (s\<lparr>hm_showAdd := False\<rparr>)) (Do (\<lambda>s. s\<lparr>hm_formSubmitting := False\<rparr>) Done)))))"

definition deleteHost_job :: "ustr \<Rightarrow> host_job" where
  "deleteHost_job i =
     Await \<lparr>hc_method = DELETE, hc_url = host_url i, hc_body = JUndef\<rparr> (\<lambda>r.
     case confirmed r of
       None \<Rightarrow> Do (\<lambda>s. s\<lparr>hm_error := delete_failed\<rparr>) Done
     | Some _ \<Rightarrow> loadHosts_then Done)"

definition updateHost_job :: "ustr \<Rightarrow> host_page \<Rightarrow> host_job" where
  "updateHost_job i s0 =
     Await \<lparr>hc_method = PUT, hc_url = host_url i, hc_body = host_form s0\<rparr> (\<lambda>r.
     case confirmed r of
       None \<Rightarrow> Do (\<lambda>s. s\<lparr>hm_error := update_failed\<rparr>) Done
     | Some _ \<Rightarrow> loadHosts_then (Do (\<lambda>s. reset_form (s\<lparr>hm_editingId := None\<rparr>)) Done))"

definition scan_job :: "host_page \<Rightarrow> host_job" where
  "scan_job s0 =
     (if trim (hm_scanHost s0) = [] then Done
      else
        Do (\<lambda>s. s\<lparr>hm_scanning := True, hm_scanResult := JNull\<rparr>)
        (Await \<lparr>hc_method = POST, hc_url = str ''/api/discovery/host/scan'',
            hc_body = JObj [(str ''host'', JStr (trim (hm_scanHost s0))),
              (str ''ssh'', JObj [(str ''port'',
                 JNum (jsint (if 0 < hm_scanPort s0 then hm_scanPort s0 else 5432)))])]\<rparr> (\<lambda>r.
        Do (\<lambda>s. case confirmed r of
              Some (JObj fs) \<Rightarrow> s\<lparr>hm_scanResult := first_instance (field fs ''instances'')\<rparr>
            | _ \<Rightarrow> s\<lparr>hm_error := scan_host_failed\<rparr>)
        (Do (\<lambda>s. s\<lparr>hm_scanning := False\<rparr>) Done))))"

text \<open>Every handler of the page; the way back is the page's callback and leaves its state alone.\<close>

definition host_perform :: "host_action \<Rightarrow> host_page \<Rightarrow> host_job" where
  "host_perform a s0 = (case a of
     PageOpened \<Rightarrow> loadHosts_then Done
   | GoBack \<Rightarrow> Done
   | ShowAdd \<Rightarrow> Do openAdd Done
   | HideAdd \<Rightarrow> Do cancelAdd Done
   | SetScanHost v \<Rightarrow> Do (\<lambda>s. s\<lparr>hm_scanHost := v\<rparr>) Done
   | SetScanPort v \<Rightarrow> Do (\<lambda>s. s\<lparr>hm_scanPort := parse_int_or 5432 v\<rparr>) Done
   | RunScan \<Rightarrow> scan_job s0
   | ImportFound d \<Rightarrow> Do (importScanned (dh_host d) (dh_port d)) Done
   | SetFormName v \<Rightarrow> Do (\<lambda>s. s\<lparr>hm_formName := v\<rparr>) Done
   | SetFormHost v \<Rightarrow> Do (\<lambda>s. s\<lparr>hm_formHost := v\<rparr>) Done
   | SetFormPort v \<Rightarrow> Do (\<lambda>s. s\<lparr>hm_formPort := parse_int_or 22 v\<rparr>) Done
   | SetFormUser v \<Rightarrow> Do (\<lambda>s. s\<lparr>hm_formUser := v\<rparr>) Done
   | SetFormKey v \<Rightarrow> Do (\<lambda>s. s\<lparr>hm_formKey := v\<rparr>) Done
   | SaveHost i \<Rightarrow> updateHost_job i s0
   | LeaveEdit \<Rightarrow> Do cancelEdit Done
   | StartEdit h \<Rightarrow> Do (startEdit h) Done
   | DeleteHost i \<Rightarrow> deleteHost_job i
   | SubmitHost \<Rightarrow> addHost_job s0)"

abbreviation host_page_reach :: "(host_page, host_action, unit, host_call, reply) page \<Rightarrow> bool" where
  "host_page_reach \<equiv> page_reach host_view (\<lambda>_. {}) host_perform (opened host_perform () PageOpened init_host_page)"

section \<open>The handlers run undisturbed\<close>

lemmas host_jobs = addHost_job_def deleteHost_job_def updateHost_job_def scan_job_def loadHosts_then_def

lemma undisturbed_loadHosts:
  "undisturbed e (loadHosts_then rest) (l # rs) s =
     (let (s', cs) = loadHosts l s; (s'', ds) = undisturbed e rest rs s' in (s'', cs @ ds))"
  by (simp add: loadHosts_then_def loadHosts_def Let_def split: option.split jsval.split)

lemma undisturbed_load: "undisturbed e (loadHosts_then Done) [l] s = loadHosts l s"
  by (simp add: undisturbed_loadHosts split_beta)

lemma undisturbed_add: "undisturbed e (addHost_job s) [r, l] s = handleAddHost r l s"
  by (cases "confirmed r")
    (simp_all add: addHost_job_def handleAddHost_def undisturbed_loadHosts split_beta Let_def)

lemma undisturbed_delete: "undisturbed e (deleteHost_job i) [r, l] s = handleDeleteHost i r l s"
  by (cases "confirmed r")
    (simp_all add: deleteHost_job_def handleDeleteHost_def undisturbed_loadHosts split_beta Let_def)

lemma undisturbed_update: "undisturbed e (updateHost_job i s) [r, l] s = handleUpdateHost i r l s"
  by (cases "confirmed r")
    (simp_all add: updateHost_job_def handleUpdateHost_def undisturbed_loadHosts split_beta Let_def)

lemma undisturbed_scan: "undisturbed e (scan_job s) [r] s = handleScan r s"
  by (simp add: scan_job_def handleScan_def Let_def)

section \<open>What can be clicked\<close>

lemma acts_labelled [simp]: "acts (labelled t e) = acts e"
  by (simp add: labelled_def)

lemma unnested_labelled [simp]: "unnested u d (labelled t e) = unnested u d e"
  by (simp add: labelled_def)

lemma acts_toolbar [simp]: "acts host_toolbar = {GoBack, ShowAdd}"
  by (auto simp: host_toolbar_def)

lemma acts_found [simp]: "acts (found_box d) = {ImportFound d}"
  by (simp add: found_box_def)

lemma acts_scan [simp]:
  "acts (scan_section s found) = range SetScanHost \<union> range SetScanPort \<union>
     (if hm_scanning s then {} else {RunScan}) \<union> ImportFound ` set_option found"
  by (auto simp: scan_section_def split: option.split)

abbreviation form_acts :: "host_action set" where
  "form_acts \<equiv> range SetFormName \<union> range SetFormHost \<union> range SetFormPort \<union> range SetFormUser \<union>
     range SetFormKey"

lemma acts_row [simp]:
  "acts (host_row s h) =
     (if hm_editingId s = Some (wh_id h) then form_acts \<union> {SaveHost (wh_id h), LeaveEdit}
      else {StartEdit h, DeleteHost (wh_id h)})"
  by (auto simp: host_row_def edit_row_def show_row_def)

lemma acts_list [simp]:
  "acts (host_list s hs) = (if hm_loading s then {} else (\<Union>h\<in>set hs. acts (host_row s h)))"
  by (simp add: host_list_def del: acts_row)

lemma acts_add [simp]:
  "acts (add_dialog s) = form_acts \<union> {HideAdd} \<union>
     (if hm_formSubmitting s \<or> trim (hm_formName s) = [] \<or> trim (hm_formHost s) = [] then {}
      else {SubmitHost})"
  by (auto simp: add_dialog_def)

lemma unnested_toolbar [simp]: "plain_page host_toolbar"
  by (simp add: host_toolbar_def)

lemma unnested_found [simp]: "plain_page (found_box d)"
  by (simp add: found_box_def)

lemma unnested_scan [simp]: "plain_page (scan_section s found)"
  by (cases found) (simp_all add: scan_section_def)

lemma unnested_row [simp]: "plain_page (host_row s h)"
  by (simp add: host_row_def edit_row_def show_row_def)

lemma unnested_list [simp]: "plain_page (host_list s hs)"
  by (simp add: host_list_def)

lemma unnested_add [simp]: "plain_page (add_dialog s)"
  by (simp add: add_dialog_def)

lemma host_viewE:
  assumes "host_view s = Some e"
  obtains hs found where "hosts_of (hm_hosts s) = Some hs"
    "e = box ([host_toolbar] @ shown_if (hm_error s \<noteq> []) [box [Text (hm_error s)]] @
       [scan_section s found, host_list s hs] @ shown_if (hm_showAdd s) [add_dialog s])"
  using assms by (auto simp: host_view_def split: Option.bind_splits)

lemma host_view_unnested: "host_view s = Some e \<Longrightarrow> plain_page e"
  by (erule host_viewE) simp

lemma acts_host_view:
  assumes "host_view s = Some e"
  obtains hs found where "acts e = {GoBack, ShowAdd} \<union> acts (scan_section s found) \<union> acts (host_list s hs)
    \<union> (if hm_showAdd s then acts (add_dialog s) else {})" "hosts_of (hm_hosts s) = Some hs"
proof -
  from assms obtain hs found where hs: "hosts_of (hm_hosts s) = Some hs"
    and e: "e = box ([host_toolbar] @ shown_if (hm_error s \<noteq> []) [box [Text (hm_error s)]] @
       [scan_section s found, host_list s hs] @ shown_if (hm_showAdd s) [add_dialog s])"
    by (rule host_viewE)
  have "acts e = {GoBack, ShowAdd} \<union> acts (scan_section s found) \<union> acts (host_list s hs)
    \<union> (if hm_showAdd s then acts (add_dialog s) else {})"
    unfolding e by (auto simp del: acts_scan acts_list acts_add)
  with hs show ?thesis using that by blast
qed

lemma host_view_acts:
  assumes "host_view s = Some e"
  shows offered_submit: "SubmitHost \<in> acts e \<Longrightarrow> \<not> hm_formSubmitting s \<and> hm_showAdd s \<and>
      trim (hm_formName s) \<noteq> [] \<and> trim (hm_formHost s) \<noteq> []"
    and offered_scan: "RunScan \<in> acts e \<Longrightarrow> \<not> hm_scanning s"
    and offered_save: "SaveHost i \<in> acts e \<Longrightarrow> hm_editingId s = Some i"
    and offered_opened: "PageOpened \<notin> acts e"
  by (rule acts_host_view [OF assms]; force split: if_splits)+

section \<open>One creation and one scan at a time\<close>

lemma creation_flag_untouched:
  "a \<noteq> SubmitHost \<Longrightarrow> untouched hm_formSubmitting (host_perform a s)"
  by (cases a)
    (auto simp: host_perform_def openAdd_def cancelAdd_def importScanned_def cancelEdit_def
      startEdit_def reset_form_def deleteHost_job_def updateHost_job_def loadHosts_then_def scan_job_def
      split: option.split jsval.split)

lemma scan_flag_untouched: "a \<noteq> RunScan \<Longrightarrow> untouched hm_scanning (host_perform a s)"
  by (cases a)
    (auto simp: host_perform_def openAdd_def cancelAdd_def importScanned_def cancelEdit_def
      startEdit_def reset_form_def deleteHost_job_def updateHost_job_def loadHosts_then_def addHost_job_def
      split: option.split jsval.split)

interpretation creating: busy_guard host_view "\<lambda>_. {}" host_perform PageOpened init_host_page hm_formSubmitting
  "\<lambda>a. a = SubmitHost"
proof unfold_locales
  fix a s
  show "a = SubmitHost \<Longrightarrow> brief hm_formSubmitting (host_perform a s) \<or>
      taking hm_formSubmitting (host_perform a s)"
    by (simp add: host_perform_def addHost_job_def loadHosts_then_def reset_form_def
        split: option.split jsval.split)
qed (auto simp: init_host_page_def creation_flag_untouched dest: offered_submit host_view_unnested)

interpretation scanning: busy_guard host_view "\<lambda>_. {}" host_perform PageOpened init_host_page hm_scanning
  "\<lambda>a. a = RunScan"
proof unfold_locales
  fix a s
  show "a = RunScan \<Longrightarrow> brief hm_scanning (host_perform a s) \<or> taking hm_scanning (host_perform a s)"
    by (simp add: host_perform_def scan_job_def split: option.split jsval.split)
qed (auto simp: init_host_page_def scan_flag_untouched dest: offered_scan host_view_unnested)

definition in_flight :: "host_action \<Rightarrow> (host_page, host_action, unit, host_call, reply) page \<Rightarrow> nat" where
  "in_flight a c = length (filter (\<lambda>w. fst w = a) (pg_waiting c))"

text \<open>
  C16. However fast the user clicks and however late the answers come, at most one creation of a
  host and at most one scan wait for an answer, and the flags that disable their buttons tell
  exactly whether one does.
\<close>

theorem one_creation_one_scan:
  assumes "host_page_reach c"
  shows "in_flight SubmitHost c = (if hm_formSubmitting (pg_state c) then 1 else 0) \<and>
    in_flight RunScan c = (if hm_scanning (pg_state c) then 1 else 0)"
  using creating.one_at_a_time [OF assms] scanning.one_at_a_time [OF assms]
  by (simp add: in_flight_def comp_def)

text \<open>
  A user who opens the page, then the dialog, fills it in and submits, while the list of hosts is
  still on its way.
\<close>

definition host_do ::
  "host_action \<Rightarrow> (host_page, host_action, unit, host_call, reply) page \<Rightarrow>
   (host_page, host_action, unit, host_call, reply) page"
where
  "host_do a c = proceed () a (host_perform a (pg_state c)) c"

definition host_demo :: "(host_page, host_action, unit, host_call, reply) page" where
  "host_demo = fold host_do [ShowAdd, SetFormName (str ''db''), SetFormHost (str ''h''), SubmitHost]
     (opened host_perform () PageOpened init_host_page)"

lemma host_do_reach:
  "host_page_reach c \<Longrightarrow> host_view (pg_state c) = Some e \<Longrightarrow> a \<in> acts e \<Longrightarrow> host_page_reach (host_do a c)"
  unfolding host_do_def by (rule reach_act) (auto dest: host_view_unnested)

lemma host_do_dialog:
  assumes "host_page_reach c" "hosts_of (hm_hosts (pg_state c)) \<noteq> None" "hm_scanResult (pg_state c) = JNull"
    "a = ShowAdd \<or> hm_showAdd (pg_state c) \<and> a \<in> acts (add_dialog (pg_state c))"
  shows "host_page_reach (host_do a c)"
proof -
  obtain e where e: "host_view (pg_state c) = Some e" using assms(2,3) by (auto simp: host_view_def)
  obtain hs found where "acts e = {GoBack, ShowAdd} \<union> acts (scan_section (pg_state c) found) \<union>
      acts (host_list (pg_state c) hs) \<union> (if hm_showAdd (pg_state c) then acts (add_dialog (pg_state c)) else {})"
    by (rule acts_host_view [OF e])
  with assms(4) have "a \<in> acts e" by auto
  with assms(1) e show ?thesis by (rule host_do_reach)
qed

lemma host_demo_reach: "host_page_reach host_demo"
  unfolding host_demo_def
  by (simp, (rule host_do_dialog reach_start)+;
      simp add: host_do_def host_perform_def addHost_job_def loadHosts_then_def opened_def proceed_def
        openAdd_def init_host_page_def hosts_of_def as_list_def trim_def is_space_def str_def)

theorem one_creation_one_scan_witness:
  "in_flight SubmitHost host_demo = 1 \<and> hm_formSubmitting (pg_state host_demo)"
  using one_creation_one_scan [OF host_demo_reach]
  by (simp add: host_demo_def host_do_def host_perform_def addHost_job_def loadHosts_then_def opened_def
      proceed_def openAdd_def init_host_page_def trim_def is_space_def str_def split: if_splits)

section \<open>What the page asks the backend for\<close>

text \<open>
  A well-formed request: hosts are created with a name and an address and scanned at an address
  and a port that is positive; everything else names one host.
\<close>

fun str_field :: "string \<Rightarrow> jsval \<Rightarrow> ustr" where
  "str_field k (JObj fs) = (case field fs k of JStr s \<Rightarrow> s | _ \<Rightarrow> [])"
| "str_field k v = []"

definition request_ok :: "host_call \<Rightarrow> bool" where
  "request_ok q \<longleftrightarrow>
     (hc_method q = GET \<and> hc_url q = hosts_url) \<or>
     (hc_method q = POST \<and> hc_url q = hosts_url \<and> str_field ''name'' (hc_body q) \<noteq> [] \<and>
        str_field ''host'' (hc_body q) \<noteq> [] \<and> str_field ''sshUser'' (hc_body q) \<noteq> []) \<or>
     (hc_method q = POST \<and> hc_url q = str ''/api/discovery/host/scan'' \<and>
        str_field ''host'' (hc_body q) \<noteq> []) \<or>
     (hc_method q \<in> {PUT, DELETE} \<and> (\<exists>i. hc_url q = host_url i))"

lemma form_request_ok:
  "trim (hm_formName s) \<noteq> [] \<Longrightarrow> trim (hm_formHost s) \<noteq> [] \<Longrightarrow>
     request_ok \<lparr>hc_method = POST, hc_url = hosts_url, hc_body = host_form s\<rparr>"
  by (simp add: request_ok_def host_form_def field_def str_def)

lemma host_requests_sound: "sound (\<lambda>s. True) request_ok (host_perform a s)"
  by (cases a)
    (auto simp: host_perform_def host_jobs form_request_ok split: option.split,
     auto simp: request_ok_def field_def str_def)

interpretation requests: page_contract host_view "\<lambda>_. {}" host_perform PageOpened init_host_page "\<lambda>s. True" request_ok
  by unfold_locales (simp_all add: host_requests_sound)

text \<open>
  C15. Every request the page ever sends is well-formed: no host is created without a name and an
  address, and no scan is made without an address.
\<close>

theorem host_requests_wellformed:
  assumes "host_page_reach c" "(a, q) \<in> set (pg_sent c)"
  shows "request_ok q"
  by (rule requests.reachable_state(2) [OF assms])

theorem host_requests_wellformed_witness:
  "request_ok \<lparr>hc_method = POST, hc_url = hosts_url, hc_body = JObj
     [(str ''name'', JStr (str ''db'')), (str ''host'', JStr (str ''h'')), (str ''port'', JNum (jsint 22)),
      (str ''sshUser'', JStr (str ''root'')), (str ''sshKey'', JUndef)]\<rparr>"
proof -
  have "(SubmitHost, \<lparr>hc_method = POST, hc_url = hosts_url, hc_body = JObj
     [(str ''name'', JStr (str ''db'')), (str ''host'', JStr (str ''h'')), (str ''port'', JNum (jsint 22)),
      (str ''sshUser'', JStr (str ''root'')), (str ''sshKey'', JUndef)]\<rparr>) \<in> set (pg_sent host_demo)"
    by (simp add: host_demo_def host_do_def host_perform_def addHost_job_def loadHosts_then_def opened_def
        proceed_def openAdd_def init_host_page_def host_form_def trim_def is_space_def str_def)
  from host_requests_wellformed [OF host_demo_reach this] show ?thesis .
qed

section \<open>Late answers\<close>

text \<open>
  Saving an edit does not disable anything. The answer to it resets the form and leaves the editor
  whatever is being edited by then: an edit of another host, begun while the answer was on its way,
  is lost.
\<close>

lemma late_answer_closes_editor:
  assumes "confirmed r \<noteq> None"
  shows "hm_editingId (fst (undisturbed e (case updateHost_job i s0 of Await q k \<Rightarrow> k r | _ \<Rightarrow> Done) [l]
      (startEdit h s))) = None"
  using assms by (auto simp: updateHost_job_def undisturbed_loadHosts reset_form_def split_beta)

end
