(* ===== verification/Site.thy ===== *)
theory Site
  imports HostView ClusterHome
begin

text \<open>
  A view of the page of the application: its own state together with the state of the page and the
  connection store, which its handlers change through callbacks, and what its handlers look up.
\<close>

record 'p site =
  cs_app :: app_state
  cs_store :: pg_state
  cs_page :: 'p

abbreviation site_project :: "'p site \<Rightarrow> workspace_project option" where
  "site_project s \<equiv> selectedProject (cs_app s)"

text \<open>What a handler looks up when it runs: the clock, fresh identifiers, the engine's own texts.\<close>

record page_env =
  en_now :: int
  en_id :: "nat \<Rightarrow> ustr"
  en_texts :: engine_texts

definition on_page :: "('p \<Rightarrow> 'p) \<Rightarrow> 'p site \<Rightarrow> 'p site" where
  "on_page f s = s\<lparr>cs_page := f (cs_page s)\<rparr>"

text \<open>The effects of the page that follow a change of its state or of the store.\<close>

definition app_effects :: "pg_state \<Rightarrow> app_state \<Rightarrow> app_state" where
  "app_effects st a = selection_effect (if pg_connected st then a\<lparr>ap_connected := True\<rparr> else a)"

definition on_app :: "(app_state \<Rightarrow> app_state) \<Rightarrow> 'p site \<Rightarrow> 'p site" where
  "on_app f s = s\<lparr>cs_app := app_effects (cs_store s) (f (cs_app s))\<rparr>"

definition site_op :: "workspace_op \<Rightarrow> 'p site \<Rightarrow> 'p site" where
  "site_op x s = on_app (app_op (pg_conf (cs_store s)) x) s"

text \<open>The callback \<^verbatim>\<open>onNavigate\<close>.\<close>

definition go :: "view \<Rightarrow> 'p site \<Rightarrow> 'p site" where
  "go v = on_app (\<lambda>a. a\<lparr>ap_currentView := v\<rparr>)"

lemma site_simps [simp]:
  "cs_page (on_app g s) = cs_page s" "cs_store (on_app g s) = cs_store s"
  "cs_page (site_op x s) = cs_page s" "cs_store (site_op x s) = cs_store s"
  "cs_page (go v s) = cs_page s" "cs_store (go v s) = cs_store s"
  "cs_app (on_page h s) = cs_app s" "cs_store (on_page h s) = cs_store s"
  "cs_page (on_page h s) = h (cs_page s)"
  by (simp_all add: on_page_def on_app_def site_op_def go_def)

end
