(* ===== verification/ClusterView.thy ===== *)
theory ClusterView
  imports Site Overview Topology
begin

text \<open>
  What \<^verbatim>\<open>components/workspace/ClusterHomeView.tsx\<close> renders: the header, the numbers, the cards of the
  clusters with their edit form, and of the selected cluster its topology, its nodes and the ways to
  add one. The handlers follow in theory \<open>ClusterActions\<close>.
\<close>

section \<open>State\<close>

datatype cluster_tab = TopologyTab | NodesTab | AddTab

text \<open>The hooks of the component that theory \<open>ClusterHome\<close> does not need.\<close>

record cluster_page =
  cv_home :: cluster_home
  cv_selectedEdgeKey :: ustr
  cv_selectedNodeId :: ustr
  cv_activeTab :: cluster_tab
  cv_sourceFilter :: ustr
  cv_scanHost :: ustr
  cv_scanPort :: int
  cv_dsn :: ustr
  cv_importUser :: ustr
  cv_importDatabase :: ustr
  cv_autoConnectAfterImport :: bool

definition init_cluster_page :: cluster_page where
  "init_cluster_page = \<lparr>cv_home = empty_home, cv_selectedEdgeKey = [], cv_selectedNodeId = [],
     cv_activeTab = TopologyTab, cv_sourceFilter = str ''all'', cv_scanHost = str ''127.0.0.1'',
     cv_scanPort = 5432, cv_dsn = [], cv_importUser = str ''postgres'',
     cv_importDatabase = str ''postgres'', cv_autoConnectAfterImport = False\<rparr>"

type_synonym cluster_site = "cluster_page site"

definition site_cluster :: "cluster_site \<Rightarrow> workspace_cluster option" where
  "site_cluster s = home_cluster (site_project s) (ap_selectedClusterId (cs_app s))"

section \<open>What the backend sent\<close>

definition as_bool :: "jsval \<Rightarrow> bool option" where
  "as_bool v = (case v of JBool b \<Rightarrow> Some b | _ \<Rightarrow> None)"

definition channel_of :: "jsval \<Rightarrow> replication_channel option" where
  "channel_of v = do {
     fs \<leftarrow> as_obj v;
     n \<leftarrow> as_str (field fs ''name''); st \<leftarrow> as_str (field fs ''state'');
     sy \<leftarrow> as_str (field fs ''sync_state''); l1 \<leftarrow> opt_field as_str (field fs ''sent_lsn'');
     l2 \<leftarrow> opt_field as_str (field fs ''write_lsn''); l3 \<leftarrow> opt_field as_str (field fs ''flush_lsn'');
     l4 \<leftarrow> opt_field as_str (field fs ''replay_lsn''); b \<leftarrow> opt_field as_num (field fs ''lag_bytes'');
     g1 \<leftarrow> opt_field as_str (field fs ''write_lag''); g2 \<leftarrow> opt_field as_str (field fs ''flush_lag'');
     g3 \<leftarrow> opt_field as_str (field fs ''replay_lag'');
     Some \<lparr>ch_name = n, ch_state = st, ch_sync_state = sy, ch_sent_lsn = l1, ch_write_lsn = l2,
       ch_flush_lsn = l3, ch_replay_lsn = l4, ch_lag_bytes = b, ch_write_lag = g1, ch_flush_lag = g2,
       ch_replay_lag = g3\<rparr> }"

definition subscription_of :: "jsval \<Rightarrow> logical_subscription option" where
  "subscription_of v = do {
     fs \<leftarrow> as_obj v;
     n \<leftarrow> as_str (field fs ''name''); e \<leftarrow> as_bool (field fs ''enabled'');
     w \<leftarrow> opt_field as_str (field fs ''worker_type'');
     r \<leftarrow> opt_field as_str (field fs ''received_lsn'');
     l \<leftarrow> opt_field as_str (field fs ''latest_end_lsn'');
     t \<leftarrow> opt_field as_str (field fs ''latest_end_time'');
     Some \<lparr>ls_name = n, ls_enabled = e, ls_worker_type = w, ls_received_lsn = r,
       ls_latest_end_lsn = l, ls_latest_end_time = t\<rparr> }"

definition status_of :: "jsval \<Rightarrow> cluster_node_status option" where
  "status_of v = do {
     fs \<leftarrow> as_obj v;
     i \<leftarrow> as_str (field fs ''id''); n \<leftarrow> as_str (field fs ''name'');
     h \<leftarrow> as_str (field fs ''host''); p \<leftarrow> as_int (field fs ''port'');
     d \<leftarrow> as_str (field fs ''database''); t \<leftarrow> as_type (field fs ''cluster_type'');
     r \<leftarrow> as_str (field fs ''role''); c \<leftarrow> as_bool (field fs ''connected'');
     e \<leftarrow> opt_field as_str (field fs ''error''); w \<leftarrow> opt_field as_str (field fs ''version'');
     y \<leftarrow> as_bool (field fs ''in_recovery''); st \<leftarrow> as_str (field fs ''connectionStatus'');
     le \<leftarrow> opt_field as_str (field fs ''lastError'');
     cl \<leftarrow> opt_field as_str (field fs ''current_lsn'');
     rl \<leftarrow> opt_field as_str (field fs ''replay_lsn'');
     wr \<leftarrow> opt_field as_str (field fs ''wal_receiver_status'');
     ph \<leftarrow> opt_field (as_list channel_of) (field fs ''physical_replication'');
     ls \<leftarrow> as_num (field fs ''logical_slots''); pb \<leftarrow> as_num (field fs ''publications'');
     sb \<leftarrow> opt_field (as_list subscription_of) (field fs ''subscriptions'');
     Some \<lparr>ns_id = i, ns_name = n, ns_host = h, ns_port = p, ns_database = d, ns_cluster_type = t,
       ns_role = r, ns_connected = c, ns_error = e, ns_version = w, ns_in_recovery = y,
       ns_connectionStatus = st, ns_lastError = le, ns_current_lsn = cl, ns_replay_lsn = rl,
       ns_wal_receiver_status = wr, ns_physical_replication = ph, ns_logical_slots = ls,
       ns_publications = pb, ns_subscriptions = sb\<rparr> }"

text \<open>A discovered instance, with the value itself, which is sent back when it is imported.\<close>

record found_instance = discovered_instance +
  fi_version :: "ustr option"
  fi_service :: "ustr option"
  fi_confidence :: "ustr option"
  fi_raw :: jsval

definition instance_of :: "jsval \<Rightarrow> found_instance option" where
  "instance_of v = do {
     fs \<leftarrow> as_obj v;
     h \<leftarrow> as_str (field fs ''host''); p \<leftarrow> as_int (field fs ''port'');
     w \<leftarrow> opt_field as_str (field fs ''version''); s \<leftarrow> opt_field as_str (field fs ''service'');
     c \<leftarrow> opt_field as_str (field fs ''confidence'');
     Some \<lparr>di_host = h, di_port = p, fi_version = w, fi_service = s, fi_confidence = c, fi_raw = v\<rparr> }"

section \<open>Actions\<close>

datatype cluster_action =
    ClusterOpened
  | BackToProjects
  | NewCluster
  | SelectCluster ustr
  | EditCluster ustr
  | DeleteCluster ustr
  | SetClusterName ustr
  | SetClusterThreshold int
  | SaveCluster
  | CancelCluster
  | ShowTab cluster_tab
  | SelectEdge ustr
  | SelectNode ustr
  | DoubleClickNode cluster_node
  | SetSourceFilter ustr
  | AddNodeHere ustr
  | AddNodeAndShow ustr
  | EditNode cluster_node
  | DeleteNode ustr ustr
  | Activate cluster_node view
  | SetNodeName ustr
  | SetNodeHost ustr
  | SetNodePort int
  | SetNodeUser ustr
  | SetNodeDatabase ustr
  | SetNodeRole ustr
  | SaveNode
  | CancelNode
  | SetImportUser ustr
  | SetImportDatabase ustr
  | SetHostToScan ustr
  | SetPortToScan int
  | ScanHost
  | SetAutoConnect bool
  | ImportInstance found_instance
  | SetDsn ustr
  | ImportDsn
  | ClearLog
  | OverviewPolled reply
  | HighlightExpired

section \<open>Header and numbers\<close>

definition page_header :: "workspace_project option \<Rightarrow> workspace_cluster option \<Rightarrow> cluster_action element" where
  "page_header p c = box
     [box [button BackToProjects [0x8FD4, 0x56DE, 0x9879, 0x76EE],
        box [El ''h2'' [] [Text (case c of Some k \<Rightarrow> cl_name k | None \<Rightarrow> [0x96C6, 0x7FA4, 0x603B, 0x89C8])],
          El ''p'' [] [Text ((case p of Some q \<Rightarrow> pj_name q | None \<Rightarrow> []) @ (str '' / '' @ [0x96C6, 0x7FA4, 0x7BA1, 0x7406]))]]],
      button NewCluster [0x2B, 0x20, 0x65B0, 0x5EFA, 0x96C6, 0x7FA4]]"

definition stat_card :: "ustr \<Rightarrow> ustr \<Rightarrow> 'a element" where
  "stat_card v l = box [box [Text v], box [Text l]]"

definition coloured_card :: "ustr \<Rightarrow> ustr \<Rightarrow> ustr \<Rightarrow> 'a element" where
  "coloured_card colour v l = box [El ''div'' [Attr ''color'' colour] [Text v], box [Text l]]"

definition cluster_stats :: "home_summary \<Rightarrow> cluster_action element" where
  "cluster_stats h = box
     [stat_card (nat_str (hs_totalClusters h)) [0x96C6, 0x7FA4],
      stat_card (nat_str (hs_totalNodes h)) [0x8282, 0x70B9],
      stat_card (nat_str (hs_connectedNodes h)) [0x5728, 0x7EBF],
      coloured_card (if 0 < hs_unhealthyNodes h then str ''var(--red)'' else str ''inherit'')
        (nat_str (hs_unhealthyNodes h)) [0x5F02, 0x5E38],
      stat_card (nat_str (hs_primaryCount h)) (str ''Primary''),
      stat_card (nat_str (hs_standbyCount h)) (str ''Standby'')]"

section \<open>The cards of the clusters\<close>

definition replication_label :: "cluster_type \<Rightarrow> ustr" where
  "replication_label t = (if t = Physical then [0x7269, 0x7406] else [0x903B, 0x8F91])"

definition badge_class :: "cluster_type \<Rightarrow> ustr" where
  "badge_class t = (if t = Physical then str ''badge-info'' else str ''badge-warning'')"

definition threshold_text :: "workspace_cluster \<Rightarrow> ustr" where
  "threshold_text c = num_str (case cl_alertThresholdSec c of Some v \<Rightarrow> v | None \<Rightarrow> Fin 30) @ str ''s''"

definition cluster_form :: "cluster_home \<Rightarrow> cluster_action element" where
  "cluster_form h = box
     [box [El ''label'' [] [Text [0x96C6, 0x7FA4, 0x540D, 0x79F0]], input_of (ch_editingClusterName h) SetClusterName],
      box [El ''label'' [] [Text [0x544A, 0x8B66, 0x9608, 0x503C, 0x20, 0x28, 0x79D2, 0x29]],
        El ''input'' [Attr ''value'' (num_str (ch_editingClusterThreshold h)), OnNumber SetClusterThreshold] []],
      box [button SaveCluster [0x4FDD, 0x5B58], button CancelCluster [0x53D6, 0x6D88]]]"

definition stat_of :: "ustr \<Rightarrow> ustr \<Rightarrow> 'a element" where
  "stat_of v l = box [span_of v, span_of l]"

definition cluster_card_body ::
  "workspace_cluster \<Rightarrow> nat \<Rightarrow> cluster_action element list"
where
  "cluster_card_body c online =
     [box [box [span_of (cl_name c),
          classed ''span'' (badge_class (cl_replicationType c)) [Text (replication_label (cl_replicationType c))]],
        El ''button'' [OnClickStop (EditCluster (cl_id c))] [Text [0x7F16, 0x8F91]],
        El ''button'' [OnClickStop (DeleteCluster (cl_id c))] [Text [0x5220, 0x9664]]],
      box [stat_of (nat_str (length (cl_nodes c))) [0x8282, 0x70B9],
        box [El ''span'' [Attr ''color'' (if 0 < online then str ''var(--green)'' else str ''inherit'')]
            [Text (nat_str online)], span_of [0x5728, 0x7EBF]],
        stat_of (threshold_text c) [0x544A, 0x8B66]]]"

definition cluster_card ::
  "cluster_home \<Rightarrow> cluster_node_status list \<Rightarrow> workspace_cluster option \<Rightarrow> workspace_cluster \<Rightarrow>
   cluster_action element"
where
  "cluster_card h nodes selected c =
     (let editing = (cl_id c = ch_editingClusterId h)
      in El ''div''
           ([Attr ''class'' (if map_option cl_id selected = Some (cl_id c) then str ''entity-card-selected'' else [])] @
            (if editing then [] else [OnClick (SelectCluster (cl_id c))]))
           (if editing then [cluster_form h] else cluster_card_body c (online_count c nodes)))"

section \<open>The topology of a cluster\<close>

definition px :: "rat \<Rightarrow> ustr" where
  "px q = num_str (Fin q)"

definition edge_line :: "cluster_node list \<Rightarrow> ustr \<Rightarrow> edge_info \<Rightarrow> cluster_action element list" where
  "edge_line nodes selected e = (case topology_line_of nodes selected e of
     None \<Rightarrow> []
   | Some l \<Rightarrow>
       (let colour = (if tl_active l then str ''#60a5fa'' else str ''#94a3b8'')
        in [El ''g'' [OnClick (SelectEdge (tl_key l))]
              [El ''line'' [Attr ''x1'' (px (tl_x1 l)), Attr ''y1'' (px (tl_y l)), Attr ''x2'' (px (tl_x2 l)),
                 Attr ''y2'' (px (tl_y l)), Attr ''stroke'' colour,
                 Attr ''strokeWidth'' (if tl_active l then str ''2.5'' else str ''1.5'')] [],
               El ''text'' [Attr ''x'' (px (tl_label_x l)), Attr ''y'' (px (tl_y l - 8)), Attr ''fill'' colour]
                 [Text (tl_label l)]]]))"

definition node_figure ::
  "cluster_node_status list \<Rightarrow> ustr \<Rightarrow> rat \<Rightarrow> cluster_node \<Rightarrow> cluster_action element"
where
  "node_figure statuses selected x n =
     (let ok = status_connected (rev statuses) n; active = (selected = nd_id n)
      in El ''g'' [OnClick (SelectNode (nd_id n)), OnDoubleClick (DoubleClickNode n)]
           [El ''rect'' [Attr ''x'' (px x), Attr ''y'' (px 90),
              Attr ''fill'' (if ok then str ''rgba(34,197,94,0.12)'' else str ''rgba(248,81,73,0.1)''),
              Attr ''stroke'' (if active then str ''#60a5fa'' else if ok then str ''#22c55e'' else str ''#f87171''),
              Attr ''strokeWidth'' (if active then str ''2'' else str ''1.2'')] [],
            El ''text'' [Attr ''x'' (px (x + 10)), Attr ''y'' (px 108)] [Text (nd_name n)],
            El ''text'' [Attr ''x'' (px (x + 10)), Attr ''y'' (px 124)] [Text (nd_role n)]])"

definition topology_map ::
  "cluster_node list \<Rightarrow> cluster_node_status list \<Rightarrow> edge_info list \<Rightarrow> ustr \<Rightarrow> ustr \<Rightarrow> cluster_action element"
where
  "topology_map nodes statuses edges selected_edge node_id = El ''svg'' []
     (concat (map (edge_line nodes selected_edge) edges) @
      map (\<lambda>(n, x). node_figure statuses node_id x n) (zip nodes (map snd (topology_positions nodes))))"

definition edge_panel :: "edge_detail \<Rightarrow> cluster_action element" where
  "edge_panel d = box
     [box [span_of (ed_from d @ [0x20, 0x2192, 0x20] @ ed_to d),
        classed ''span'' (if ed_isAlert d then str ''badge-error'' else str ''badge-success'')
          [Text (if ed_isAlert d then [0x544A, 0x8B66] else [0x6B63, 0x5E38])]],
      box [Text (ed_mode d @ [0x20, 0xB7, 0x20] @ ed_state d @ [0x20, 0xB7, 0x20] @ ed_syncState d)]]"

text \<open>\<^verbatim>\<open>(x).toFixed(2)\<close> of a number below \<open>10 ^ 21\<close>: the nearest, of two the larger in size.\<close>

definition to_fixed2 :: "rat \<Rightarrow> ustr" where
  "to_fixed2 q =
     (let n = nat \<lfloor>\<bar>q\<bar> * 100 + 1 / 2\<rfloor>
      in (if q < 0 then str ''-'' else []) @ nat_str (n div 100) @ str ''.'' @ nat_str (n mod 100 div 10) @
         nat_str (n mod 10))"

definition lag_text :: "edge_detail option \<Rightarrow> ustr" where
  "lag_text d = (case d of
     None \<Rightarrow> str ''0 MB''
   | Some e \<Rightarrow> (case ed_lagBytes e of Fin q \<Rightarrow> to_fixed2 (q / 1024 / 1024) | v \<Rightarrow> num_str v) @ str '' MB'')"

definition diagram_node :: "ustr \<Rightarrow> cluster_node \<Rightarrow> bool \<Rightarrow> cluster_action element" where
  "diagram_node l n ok = box
     [span_of l, span_of (host_port (nd_host n) (nd_port n)),
      classed ''span'' (if ok then str ''connected'' else str ''disconnected'')
        [Text (if ok then str ''Connected'' else str ''Disconnected'')]]"

definition replication_figure ::
  "cluster_type \<Rightarrow> replication_pair \<Rightarrow> edge_detail option \<Rightarrow> cluster_action element"
where
  "replication_figure t r d = box
     [diagram_node (str ''Primary'') (rp_primary r) (rp_primaryConnected r),
      box [span_of (if t = Physical then str ''<-- replication -->'' else str ''--logical replication->''),
        span_of (str ''LAG: '' @ lag_text d)],
      diagram_node (if t = Physical then str ''Standby'' else str ''Subscriber'') (rp_secondary r)
        (rp_secondaryConnected r)]"

definition topology_tab ::
  "cluster_page \<Rightarrow> workspace_cluster \<Rightarrow> cluster_node_status list \<Rightarrow> cluster_action element"
where
  "topology_tab s c overview =
     (let statuses = clusterStatuses (Some c) overview;
          detail = selectedEdgeDetail (Some c) overview (cv_selectedEdgeKey s)
      in if cl_nodes c = [] then box [box [Text [0x6682, 0x65E0, 0x8282, 0x70B9, 0xFF0C, 0x8BF7, 0x5148, 0x6DFB, 0x52A0]]]
         else box
           ([topology_map (cl_nodes c) statuses (topologyEdges (Some c)) (cv_selectedEdgeKey s) (cv_selectedNodeId s)] @
            (case detail of None \<Rightarrow> [] | Some d \<Rightarrow> [edge_panel d]) @
            (case replication_diagram c statuses detail of
               None \<Rightarrow> [] | Some r \<Rightarrow> [replication_figure (cl_replicationType c) r detail])))"

section \<open>The nodes of a cluster\<close>

definition source_options :: "(ustr \<times> ustr) list" where
  "source_options = [(str ''all'', [0x5168, 0x90E8]), (str ''provisioned'', [0x81EA, 0x52A8, 0x62C9, 0x8D77]),
     (str ''discovered'', [0x4E3B, 0x673A, 0x63A2, 0x6D4B]), (str ''dsn'', (str ''DSN '' @ [0x5BFC, 0x5165])), (str ''manual'', [0x624B, 0x52A8, 0x914D, 0x7F6E])]"

definition role_options :: "(ustr \<times> ustr) list" where
  "role_options = [(str ''primary'', str ''Primary''), (str ''standby'', str ''Standby''),
     (str ''publisher'', str ''Publisher''), (str ''subscriber'', str ''Subscriber'')]"

definition grouped :: "ustr \<Rightarrow> 'a element \<Rightarrow> 'a element" where
  "grouped l e = box [El ''label'' [] [Text l], e]"

definition node_form :: "node_patch \<Rightarrow> cluster_action element" where
  "node_form d = box
     [grouped [0x8282, 0x70B9, 0x540D, 0x79F0] (input_of (or_default (np_name d) []) SetNodeName),
      box [grouped [0x4E3B, 0x673A] (input_of (or_default (np_host d) []) SetNodeHost),
        grouped [0x7AEF, 0x53E3] (number_input (or_default (np_port d) 0) SetNodePort)],
      box [grouped [0x7528, 0x6237] (input_of (or_default (np_user d) []) SetNodeUser)],
      box [grouped [0x6570, 0x636E, 0x5E93] (input_of (or_default (np_database d) []) SetNodeDatabase),
        grouped [0x89D2, 0x8272] (select_of role_options (or_default (np_role d) []) SetNodeRole)],
      box [button SaveNode [0x4FDD, 0x5B58], button CancelNode [0x53D6, 0x6D88]]]"

definition info_row :: "ustr \<Rightarrow> ustr \<Rightarrow> 'a element" where
  "info_row l v = box [span_of l, span_of v]"

definition node_card_body ::
  "ustr \<Rightarrow> cluster_node_status option \<Rightarrow> cluster_node \<Rightarrow> cluster_action element list"
where
  "node_card_body cluster_id st n =
     (let on = (map_option ns_connected st = Some True)
      in [box [box [classed ''span'' (if on then str ''status-online'' else str ''status-offline'') [],
               span_of (nd_name n)],
             classed ''span'' (if on then str ''badge-success'' else str ''badge-error'')
               [Text (if on then [0x5728, 0x7EBF] else [0x79BB, 0x7EBF])]],
          box [info_row [0x4E3B, 0x673A] (host_port (nd_host n) (nd_port n)), info_row [0x89D2, 0x8272] (nd_role n),
            info_row [0x7248, 0x672C] (or_dash (Option.bind st ns_version))],
          box [button (EditNode n) [0x7F16, 0x8F91], button (Activate n NodeHome) [0x6FC0, 0x6D3B],
            button (Activate n SqlView) (str ''SQL''), button (DeleteNode cluster_id (nd_id n)) [0x79FB, 0x9664]]])"

definition node_card ::
  "cluster_home \<Rightarrow> ustr \<Rightarrow> cluster_node_status list \<Rightarrow> cluster_node \<Rightarrow> cluster_action element"
where
  "node_card h cluster_id statuses n =
     (let editing = (nd_id n = ch_editingNodeId h)
      in El ''div''
           ([Attr ''data-node-id'' (nd_id n),
             Attr ''class'' (if ch_highlightNodeId h = JStr (nd_id n) then str ''node-card-highlight'' else [])] @
            (if editing then [] else [OnDoubleClick (DoubleClickNode n)]))
           (if editing then [node_form (ch_editingNodeData h)]
            else node_card_body cluster_id (find_first (\<lambda>s. ns_id s = nd_id n) statuses) n))"

definition shown_nodes :: "cluster_page \<Rightarrow> workspace_cluster \<Rightarrow> cluster_node list" where
  "shown_nodes s c = filteredNodes (Some c)
     (if cv_sourceFilter s = str ''all'' then None else Some (cv_sourceFilter s))"

definition nodes_tab ::
  "cluster_page \<Rightarrow> workspace_cluster \<Rightarrow> cluster_node_status list \<Rightarrow> cluster_action element"
where
  "nodes_tab s c overview = box
     [box [box [span_of [0x6765, 0x6E90, 0x7B5B, 0x9009, 0xFF1A], select_of source_options (cv_sourceFilter s) SetSourceFilter],
        button (AddNodeAndShow (cl_id c)) [0x2B, 0x20, 0x6DFB, 0x52A0, 0x8282, 0x70B9]],
      (if shown_nodes s c = [] then box [Text [0x6682, 0x65E0, 0x8282, 0x70B9]]
       else box (map (node_card (cv_home s) (cl_id c) (clusterStatuses (Some c) overview)) (shown_nodes s c)))]"

section \<open>Adding nodes\<close>

definition instance_row :: "found_instance \<Rightarrow> cluster_action element" where
  "instance_row i = box
     [El ''span'' []
        [Text (host_port (di_host i) (di_port i)),
         Text (if or_default (fi_version i) [] = [] then [0x20, 0xB7, 0x20, 0x4E0D, 0x53EF, 0x8FBE] else [0x20, 0xB7, 0x20] @ or_default (fi_version i) []),
         Text (if fi_confidence i = Some (str ''high'') then [0x20, 0x2713]
               else if fi_confidence i = Some (str ''low'') then [0x20, 0x2717] else [])],
      button (ImportInstance i) [0x5BFC, 0x5165]]"

definition scan_option :: "cluster_page \<Rightarrow> found_instance list \<Rightarrow> cluster_action element" where
  "scan_option s ins = box
     ([box [Text [0x4E3B, 0x673A, 0x63A2, 0x6D4B, 0x5BFC, 0x5165]], box [Text ([0x626B, 0x63CF, 0x7F51, 0x7EDC, 0x53D1, 0x73B0] @ str '' PostgreSQL '' @ [0x5B9E, 0x4F8B])],
       box [box [input_of (cv_importUser s) SetImportUser, input_of (cv_importDatabase s) SetImportDatabase],
         box [input_of (cv_scanHost s) SetHostToScan, number_input (cv_scanPort s) SetPortToScan,
           El ''button'' [OnClick ScanHost, Disabled (ch_scanLoading (cv_home s))]
             [Text (if ch_scanLoading (cv_home s) then [0x63A2, 0x6D4B, 0x4E2D] else [0x626B, 0x63CF])]],
         El ''label'' [] [checkbox (cv_autoConnectAfterImport s) SetAutoConnect, Text [0x5BFC, 0x5165, 0x540E, 0x81EA, 0x52A8, 0x8FDE, 0x63A5]]]] @
      shown_if (ch_scanError (cv_home s) \<noteq> []) [box [Text (ch_scanError (cv_home s))]] @
      shown_if (ins \<noteq> []) [box (map instance_row ins)])"

definition dsn_option :: "cluster_page \<Rightarrow> cluster_action element" where
  "dsn_option s = box
     ([box [Text (str ''DSN '' @ [0x5BFC, 0x5165])], box [Text [0x8F93, 0x5165, 0x8FDE, 0x63A5, 0x5B57, 0x7B26, 0x4E32, 0x81EA, 0x52A8, 0x89E3, 0x6790]], input_of (cv_dsn s) SetDsn,
       El ''button'' [OnClick ImportDsn, Disabled (ch_dsnLoading (cv_home s))]
         [Text (if ch_dsnLoading (cv_home s) then [0x5904, 0x7406, 0x4E2D] else [0x6821, 0x9A8C, 0x5E76, 0x5BFC, 0x5165])]] @
      shown_if (ch_dsnMessage (cv_home s) \<noteq> [])
        [classed ''div'' (if str_includes [0x6210, 0x529F] (ch_dsnMessage (cv_home s)) then str ''alert-success''
            else str ''alert-error'') [Text (ch_dsnMessage (cv_home s))]])"

text \<open>The text of a time of day is the browser's.\<close>

definition log_panel :: "(int \<Rightarrow> ustr) \<Rightarrow> import_log_entry list \<Rightarrow> cluster_action element" where
  "log_panel time logs = box
     (box [span_of [0x64CD, 0x4F5C, 0x65E5, 0x5FD7], button ClearLog [0x6E05, 0x7A7A]] #
      map (\<lambda>x. classed ''div'' (str ''log-'' @ il_level x) [span_of (time (il_ts x)), span_of (il_message x)]) logs)"

definition add_tab ::
  "(int \<Rightarrow> ustr) \<Rightarrow> cluster_page \<Rightarrow> workspace_cluster \<Rightarrow> found_instance list \<Rightarrow> cluster_action element"
where
  "add_tab time s c ins = box
     ([box [El ''div'' [OnClick (AddNodeHere (cl_id c))]
            [box [Text [0x5FEB, 0x901F, 0x6DFB, 0x52A0, 0x8282, 0x70B9]], box [Text [0x521B, 0x5EFA, 0x7A7A, 0x767D, 0x8282, 0x70B9, 0xFF0C, 0x914D, 0x7F6E, 0x8FDE, 0x63A5, 0x4FE1, 0x606F, 0x540E, 0x4F7F, 0x7528]]],
          scan_option s ins, dsn_option s]] @
      shown_if (ch_importLogs (cv_home s) \<noteq> []) [log_panel time (ch_importLogs (cv_home s))])"

section \<open>The page\<close>

definition tab_button :: "cluster_page \<Rightarrow> cluster_tab \<Rightarrow> ustr \<Rightarrow> cluster_action element" where
  "tab_button s t l = El ''button''
     [Attr ''class'' (if cv_activeTab s = t then str ''cluster-tab-active'' else []), OnClick (ShowTab t)] [Text l]"

definition cluster_detail ::
  "(int \<Rightarrow> ustr) \<Rightarrow> cluster_page \<Rightarrow> workspace_cluster \<Rightarrow> cluster_node_status list \<Rightarrow> found_instance list \<Rightarrow>
   cluster_action element"
where
  "cluster_detail time s c overview ins = box
     [box [El ''h3'' [] [Text (cl_name c)],
        box [tab_button s TopologyTab [0x62D3, 0x6251],
          tab_button s NodesTab ([0x8282, 0x70B9, 0x20, 0x28] @ nat_str (length (cl_nodes c)) @ str '')''),
          tab_button s AddTab [0x6DFB, 0x52A0]]],
      (case cv_activeTab s of
         TopologyTab \<Rightarrow> topology_tab s c overview
       | NodesTab \<Rightarrow> nodes_tab s c overview
       | AddTab \<Rightarrow> add_tab time s c ins)]"

definition cluster_body ::
  "(int \<Rightarrow> ustr) \<Rightarrow> cluster_page \<Rightarrow> workspace_project option \<Rightarrow> workspace_cluster option \<Rightarrow>
   cluster_node_status list \<Rightarrow> found_instance list \<Rightarrow> cluster_action element list"
where
  "cluster_body time s project c overview ins = (case project of
     None \<Rightarrow> [box [El ''p'' [] [Text [0x8BF7, 0x5148, 0x9009, 0x62E9, 0x9879, 0x76EE]]]]
   | Some p \<Rightarrow>
       if pj_clusters p = [] then
         [box [El ''p'' [] [Text [0x6682, 0x65E0, 0x96C6, 0x7FA4]], El ''p'' [] [Text [0x70B9, 0x51FB, 0x4E0A, 0x65B9, 0x6309, 0x94AE, 0x521B, 0x5EFA, 0x7B2C, 0x4E00, 0x4E2A, 0x96C6, 0x7FA4]]]]
       else
         box (map (cluster_card (cv_home s) overview c) (pj_clusters p))
           # (case c of None \<Rightarrow> [] | Some k \<Rightarrow> [cluster_detail time s k overview ins]))"

definition cluster_view :: "(int \<Rightarrow> ustr) \<Rightarrow> cluster_site \<Rightarrow> cluster_action element option" where
  "cluster_view time s =
     (if shown_view (cs_app s) \<noteq> Some ClusterHome then None
      else do {
        overview \<leftarrow> mapM status_of (ch_nodes (cv_home (cs_page s)));
        ins \<leftarrow> mapM instance_of (ch_instances (cv_home (cs_page s)));
        Some (box
          ([page_header (site_project s) (site_cluster s),
            cluster_stats (home_summary_of (site_project s) (site_cluster s) overview)] @
           cluster_body time (cs_page s) (site_project s) (site_cluster s) overview ins)) })"

section \<open>What can be clicked\<close>

lemma acts_grouped [simp]: "acts (grouped l e) = acts e"
  by (simp add: grouped_def)

lemma acts_plain [simp]:
  "acts (stat_card v l) = {}" "acts (coloured_card col v l) = {}" "acts (stat_of v l) = {}"
  "acts (info_row l v) = {}"
  by (simp_all add: stat_card_def coloured_card_def stat_of_def info_row_def)

lemma unnested_plain [simp]:
  "unnested u d (stat_card v l)" "unnested u d (coloured_card col v l)" "unnested u d (stat_of v l)"
  "unnested u d (info_row l v)" "unnested u d (grouped l e) = unnested u d e"
  by (simp_all add: stat_card_def coloured_card_def stat_of_def info_row_def grouped_def)

lemma plain_header [simp]: "plain_page (page_header p c)" "plain_page (cluster_stats h)"
  by (simp_all add: page_header_def cluster_stats_def)

lemma acts_header [simp]: "acts (page_header p c) = {BackToProjects, NewCluster}" "acts (cluster_stats h) = {}"
  by (auto simp: page_header_def cluster_stats_def)

lemma plain_cluster_card [simp]: "plain_page (cluster_card h nodes selected c)"
  by (simp add: cluster_card_def cluster_form_def cluster_card_body_def Let_def)

lemma acts_cluster_card [simp]:
  "acts (cluster_card h nodes selected c) =
     (if cl_id c = ch_editingClusterId h
      then range SetClusterName \<union> range SetClusterThreshold \<union> {SaveCluster, CancelCluster}
      else {SelectCluster (cl_id c), EditCluster (cl_id c), DeleteCluster (cl_id c)})"
  by (auto simp: cluster_card_def cluster_form_def cluster_card_body_def Let_def)

lemma plain_edge_line [simp]: "x \<in> set (edge_line nodes k e) \<Longrightarrow> plain_page x"
  by (auto simp: edge_line_def Let_def split: option.splits)

lemma acts_edge_line: "x \<in> set (edge_line nodes k e) \<Longrightarrow> acts x \<subseteq> range SelectEdge"
  by (auto simp: edge_line_def Let_def split: option.splits)

lemma plain_node_figure [simp]: "plain_page (node_figure st k x n)"
  by (simp add: node_figure_def Let_def)

lemma acts_node_figure [simp]: "acts (node_figure st k x n) = {SelectNode (nd_id n), DoubleClickNode n}"
  by (auto simp: node_figure_def Let_def)

lemma plain_topology_map [simp]: "plain_page (topology_map nodes st edges k n)"
  by (auto simp: topology_map_def)

lemma acts_topology_map:
  "acts (topology_map nodes st edges k n) \<subseteq>
     range SelectEdge \<union> (\<Union>x\<in>set nodes. {SelectNode (nd_id x), DoubleClickNode x})"
  using acts_edge_line by (fastforce simp: topology_map_def dest: set_zip_leftD)

lemma topology_figures [simp]:
  "acts (edge_panel d) = {}" "acts (replication_figure t r k) = {}"
  "plain_page (edge_panel d)" "plain_page (replication_figure t r k)"
  by (simp_all add: edge_panel_def replication_figure_def diagram_node_def)

lemma topology_box:
  "acts (box ([m] @ (case d of None \<Rightarrow> [] | Some x \<Rightarrow> [edge_panel x]) @
     (case r of None \<Rightarrow> [] | Some y \<Rightarrow> [replication_figure t y d]))) = acts m"
  "plain_page (box ([m] @ (case d of None \<Rightarrow> [] | Some x \<Rightarrow> [edge_panel x]) @
     (case r of None \<Rightarrow> [] | Some y \<Rightarrow> [replication_figure t y d]))) = plain_page m"
  by (cases d; cases r; simp)+

lemma plain_topology_tab [simp]: "plain_page (topology_tab s c overview)"
proof (cases "cl_nodes c = []")
  case True
  then show ?thesis by (simp add: topology_tab_def)
next
  case False
  then show ?thesis by (simp only: topology_tab_def Let_def topology_box(2) if_False plain_topology_map)
qed

lemma acts_topology_tab:
  "acts (topology_tab s c overview) \<subseteq>
     range SelectEdge \<union> (\<Union>x\<in>set (cl_nodes c). {SelectNode (nd_id x), DoubleClickNode x})"
proof (cases "cl_nodes c = []")
  case True
  then show ?thesis by (simp add: topology_tab_def)
next
  case False
  then have "acts (topology_tab s c overview) = acts (topology_map (cl_nodes c)
      (clusterStatuses (Some c) overview) (topologyEdges (Some c)) (cv_selectedEdgeKey s) (cv_selectedNodeId s))"
    by (simp only: topology_tab_def Let_def topology_box(1) if_False)
  then show ?thesis using acts_topology_map by simp
qed

abbreviation node_inputs :: "cluster_action set" where
  "node_inputs \<equiv> range SetNodeName \<union> range SetNodeHost \<union> range SetNodePort \<union> range SetNodeUser \<union>
     range SetNodeDatabase \<union> SetNodeRole ` fst ` set role_options"

lemma plain_node_card [simp]: "plain_page (node_card h cid st n)"
  by (simp add: node_card_def node_form_def node_card_body_def Let_def)

lemma acts_node_card [simp]:
  "acts (node_card h cid st n) =
     (if nd_id n = ch_editingNodeId h then node_inputs \<union> {SaveNode, CancelNode}
      else {DoubleClickNode n, EditNode n, Activate n NodeHome, Activate n SqlView, DeleteNode cid (nd_id n)})"
  by (auto simp: node_card_def node_form_def node_card_body_def Let_def)

lemma shown_nodes_subset: "set (shown_nodes s c) \<subseteq> set (cl_nodes c)"
  by (auto simp: shown_nodes_def filteredNodes_def split: if_splits)

lemma plain_nodes_tab [simp]: "plain_page (nodes_tab s c overview)"
  by (simp add: nodes_tab_def)

lemma acts_nodes_tab:
  "acts (nodes_tab s c overview) = SetSourceFilter ` fst ` set source_options \<union> {AddNodeAndShow (cl_id c)} \<union>
     (\<Union>n\<in>set (shown_nodes s c). acts (node_card (cv_home s) (cl_id c) (clusterStatuses (Some c) overview) n))"
  by (simp add: nodes_tab_def image_image del: acts_node_card)

lemma acts_instance_row [simp]: "acts (instance_row i) = {ImportInstance i}"
  by (simp add: instance_row_def)

lemma plain_instance_row [simp]: "plain_page (instance_row i)"
  by (simp add: instance_row_def)

lemma acts_scan_option:
  "acts (scan_option s ins) = range SetImportUser \<union> range SetImportDatabase \<union> range SetHostToScan \<union>
     range SetPortToScan \<union> (if ch_scanLoading (cv_home s) then {} else {ScanHost}) \<union> range SetAutoConnect \<union>
     (if ins = [] then {} else ImportInstance ` set ins)"
  by (simp add: scan_option_def Un_assoc UNION_singleton_eq_range)

lemma plain_scan_option [simp]: "plain_page (scan_option s ins)"
  by (simp add: scan_option_def)

lemma acts_dsn_option:
  "acts (dsn_option s) = range SetDsn \<union> (if ch_dsnLoading (cv_home s) then {} else {ImportDsn})"
  by (simp add: dsn_option_def)

lemma plain_dsn_option [simp]: "plain_page (dsn_option s)"
  by (simp add: dsn_option_def)

lemma log_panel_simps [simp]: "acts (log_panel time logs) = {ClearLog}" "plain_page (log_panel time logs)"
  by (simp_all add: log_panel_def)

lemma plain_add_tab [simp]: "plain_page (add_tab time s c ins)"
  by (simp add: add_tab_def)

lemma acts_add_tab:
  "acts (add_tab time s c ins) = {AddNodeHere (cl_id c)} \<union> acts (scan_option s ins) \<union> acts (dsn_option s) \<union>
     (if ch_importLogs (cv_home s) = [] then {} else {ClearLog})"
  by (simp add: add_tab_def Un_assoc)

lemma plain_cluster_detail [simp]: "plain_page (cluster_detail time s c overview ins)"
  by (cases "cv_activeTab s") (simp_all add: cluster_detail_def tab_button_def)

lemma acts_cluster_detail:
  "acts (cluster_detail time s c overview ins) = range ShowTab \<union>
     (case cv_activeTab s of TopologyTab \<Rightarrow> acts (topology_tab s c overview)
      | NodesTab \<Rightarrow> acts (nodes_tab s c overview) | AddTab \<Rightarrow> acts (add_tab time s c ins))"
proof -
  have "range ShowTab = {ShowTab TopologyTab, ShowTab NodesTab, ShowTab AddTab}"
    by (auto simp: image_iff) (metis cluster_tab.exhaust)
  then show ?thesis
    by (cases "cv_activeTab s") (simp_all add: cluster_detail_def tab_button_def insert_commute)
qed

lemma cluster_viewE:
  assumes "cluster_view time s = Some e"
  obtains overview ins where
    "mapM status_of (ch_nodes (cv_home (cs_page s))) = Some overview"
    "mapM instance_of (ch_instances (cv_home (cs_page s))) = Some ins"
    "e = box ([page_header (site_project s) (site_cluster s),
        cluster_stats (home_summary_of (site_project s) (site_cluster s) overview)] @
       cluster_body time (cs_page s) (site_project s) (site_cluster s) overview ins)"
    "shown_view (cs_app s) = Some ClusterHome"
  using assms by (auto simp: cluster_view_def split: Option.bind_splits if_splits)

lemma plain_cluster_body: "x \<in> set (cluster_body time s p c overview ins) \<Longrightarrow> plain_page x"
  by (auto simp: cluster_body_def split: option.splits if_splits)

lemma plain_cluster_view: "cluster_view time s = Some e \<Longrightarrow> plain_page e"
  by (erule cluster_viewE) (auto dest: plain_cluster_body)

lemma acts_cluster_body:
  "(\<Union>x\<in>set (cluster_body time s p c overview ins). acts x) \<subseteq>
     (\<Union>q\<in>set_option p. \<Union>k\<in>set (pj_clusters q). acts (cluster_card (cv_home s) overview c k)) \<union>
     (\<Union>k\<in>set_option c. acts (cluster_detail time s k overview ins))"
  by (auto simp del: acts_cluster_card simp: cluster_body_def split: option.splits if_splits)

lemma subset_parts: "E = H \<union> B \<Longrightarrow> B \<subseteq> C \<union> D \<Longrightarrow> E \<subseteq> H \<union> C \<union> D"
  by blast

lemma acts_cluster_view:
  assumes "cluster_view time s = Some e"
  obtains overview ins where
    "acts e \<subseteq> {BackToProjects, NewCluster} \<union>
       (\<Union>q\<in>set_option (site_project s). \<Union>k\<in>set (pj_clusters q). acts (cluster_card (cv_home (cs_page s)) overview (site_cluster s) k)) \<union>
       (\<Union>k\<in>set_option (site_cluster s). acts (cluster_detail time (cs_page s) k overview ins))"
proof -
  from assms obtain overview ins where
    e: "e = box ([page_header (site_project s) (site_cluster s),
        cluster_stats (home_summary_of (site_project s) (site_cluster s) overview)] @
       cluster_body time (cs_page s) (site_project s) (site_cluster s) overview ins)"
    by (rule cluster_viewE)
  have acts_e: "acts e = {BackToProjects, NewCluster} \<union>
      (\<Union>x\<in>set (cluster_body time (cs_page s) (site_project s) (site_cluster s) overview ins). acts x)"
    by (simp add: e)
  show ?thesis by (rule that [OF subset_parts [OF acts_e acts_cluster_body]])
qed

text \<open>The buttons that start a scan or an import of a data source name are disabled while one runs.\<close>

lemma exchanges_not_elsewhere:
  "{ScanHost, ImportDsn} \<inter> acts (cluster_card h overview c k) = {}"
  "{ScanHost, ImportDsn} \<inter> acts (topology_tab s c' overview) = {}"
  "{ScanHost, ImportDsn} \<inter> acts (nodes_tab s c' overview) = {}"
  using acts_topology_tab [of s c' overview] by (auto simp: acts_nodes_tab split: if_splits)

lemma scan_in_add_tab: "ScanHost \<in> acts (add_tab time s c ins) \<Longrightarrow> \<not> ch_scanLoading (cv_home s)"
  unfolding acts_add_tab acts_scan_option acts_dsn_option by (auto split: if_splits)

lemma dsn_in_add_tab: "ImportDsn \<in> acts (add_tab time s c ins) \<Longrightarrow> \<not> ch_dsnLoading (cv_home s)"
  unfolding acts_add_tab acts_scan_option acts_dsn_option by (auto split: if_splits)

lemma scan_in_detail:
  "ScanHost \<in> acts (cluster_detail time s c overview ins) \<Longrightarrow> \<not> ch_scanLoading (cv_home s)"
  using exchanges_not_elsewhere(2,3) [of s c overview] scan_in_add_tab [of time s c ins]
  unfolding acts_cluster_detail by (cases "cv_activeTab s") auto

lemma dsn_in_detail:
  "ImportDsn \<in> acts (cluster_detail time s c overview ins) \<Longrightarrow> \<not> ch_dsnLoading (cv_home s)"
  using exchanges_not_elsewhere(2,3) [of s c overview] dsn_in_add_tab [of time s c ins]
  unfolding acts_cluster_detail by (cases "cv_activeTab s") auto

lemma exchanges_offered:
  assumes "cluster_view time s = Some e"
  shows "ScanHost \<in> acts e \<Longrightarrow> \<not> ch_scanLoading (cv_home (cs_page s))"
    and "ImportDsn \<in> acts e \<Longrightarrow> \<not> ch_dsnLoading (cv_home (cs_page s))"
proof -
  from assms obtain overview ins where
    a: "acts e \<subseteq> {BackToProjects, NewCluster} \<union>
       (\<Union>q\<in>set_option (site_project s). \<Union>k\<in>set (pj_clusters q). acts (cluster_card (cv_home (cs_page s)) overview (site_cluster s) k)) \<union>
       (\<Union>k\<in>set_option (site_cluster s). acts (cluster_detail time (cs_page s) k overview ins))"
    by (rule acts_cluster_view)
  note card = exchanges_not_elsewhere(1) [of "cv_home (cs_page s)" overview "site_cluster s"]
  show "ScanHost \<in> acts e \<Longrightarrow> \<not> ch_scanLoading (cv_home (cs_page s))"
    using a card scan_in_detail by blast
  show "ImportDsn \<in> acts e \<Longrightarrow> \<not> ch_dsnLoading (cv_home (cs_page s))"
    using a card dsn_in_detail by blast
qed

text \<open>What the selected cluster offers is offered by the page.\<close>

lemma detail_in_view:
  assumes "cluster_view time s = Some e" "site_project s = Some p" "pj_clusters p \<noteq> []"
    "site_cluster s = Some k"
  obtains overview ins where "acts (cluster_detail time (cs_page s) k overview ins) \<subseteq> acts e"
proof -
  from assms(1) obtain overview ins where
    e: "e = box ([page_header (site_project s) (site_cluster s),
        cluster_stats (home_summary_of (site_project s) (site_cluster s) overview)] @
       cluster_body time (cs_page s) (site_project s) (site_cluster s) overview ins)"
    by (rule cluster_viewE)
  have "cluster_detail time (cs_page s) k overview ins \<in>
      set (cluster_body time (cs_page s) (site_project s) (site_cluster s) overview ins)"
    using assms(2-4) by (simp add: cluster_body_def)
  then have "acts (cluster_detail time (cs_page s) k overview ins) \<subseteq> acts e"
    unfolding e by auto
  then show ?thesis by (rule that)
qed

lemma detail_offered:
  assumes "cluster_view time s = Some e" "site_project s = Some p" "pj_clusters p \<noteq> []"
    "site_cluster s = Some k"
  obtains overview ins where "range ShowTab \<subseteq> acts e"
    "cv_activeTab (cs_page s) = AddTab \<longrightarrow> acts (scan_option (cs_page s) ins) \<subseteq> acts e"
proof -
  from detail_in_view [OF assms] obtain overview ins where
    sub: "acts (cluster_detail time (cs_page s) k overview ins) \<subseteq> acts e" by blast
  have "range ShowTab \<subseteq> acts (cluster_detail time (cs_page s) k overview ins)"
    "cv_activeTab (cs_page s) = AddTab \<longrightarrow>
       acts (scan_option (cs_page s) ins) \<subseteq> acts (cluster_detail time (cs_page s) k overview ins)"
    by (auto simp: acts_cluster_detail acts_add_tab)
  with sub show ?thesis using that [of ins] by blast
qed

lemma activation_offered:
  assumes "cluster_view time s = Some e" "site_project s = Some p" "pj_clusters p \<noteq> []" "site_cluster s = Some k"
    "cv_activeTab (cs_page s) = NodesTab" "n \<in> set (shown_nodes (cs_page s) k)"
    "nd_id n \<noteq> ch_editingNodeId (cv_home (cs_page s))"
  shows "Activate n NodeHome \<in> acts e"
proof -
  from detail_in_view [OF assms(1-4)] obtain overview ins where
    "acts (cluster_detail time (cs_page s) k overview ins) \<subseteq> acts e" by blast
  moreover have "Activate n NodeHome \<in> acts (cluster_detail time (cs_page s) k overview ins)"
    using assms(5-7) by (auto simp: acts_cluster_detail acts_nodes_tab)
  ultimately show ?thesis by blast
qed

end
