(* ===== verification/ClusterActions.thy ===== *)
theory ClusterActions
  imports ClusterView
begin

text \<open>
  The handlers of \<^verbatim>\<open>ClusterHomeView.tsx\<close> with their waits: activating a node, scanning a host,
  importing an instance or a data source name. The page around the component follows at once, with
  its own effects. Run undisturbed they are the handlers of theory \<open>ClusterHome\<close>.
\<close>

section \<open>State\<close>

type_synonym cluster_job = "(cluster_site, page_env, host_call, reply) job"

definition on_home :: "(cluster_home \<Rightarrow> cluster_home) \<Rightarrow> cluster_site \<Rightarrow> cluster_site" where
  "on_home f = on_page (\<lambda>p. p\<lparr>cv_home := f (cv_home p)\<rparr>)"

section \<open>Activation\<close>

definition activate_job :: "cluster_node \<Rightarrow> view \<Rightarrow> cluster_job" where
  "activate_job n v =
     Await \<lparr>hc_method = POST, hc_url = str ''/api/nodes/'' @ nd_id n @ str ''/activate'', hc_body = JUndef\<rparr> (\<lambda>r.
     Sample (\<lambda>e. case answer (en_texts e) r of
       Inl _ \<Rightarrow> Done
     | Inr (_, fs) \<Rightarrow>
         Do (\<lambda>s. s\<lparr>cs_store := fst (activateNode n v fs (cs_store s))\<rparr>)
         (Do (go v) Done)))"

definition double_click_job :: "cluster_node \<Rightarrow> cluster_site \<Rightarrow> cluster_job" where
  "double_click_job n s0 = (case site_cluster s0 of
     None \<Rightarrow> Done
   | Some c \<Rightarrow>
       Do (on_app (\<lambda>a. a\<lparr>ap_selectedClusterId := cl_id c, ap_selectedNodeId := nd_id n\<rparr>))
       (activate_job n NodeHome))"

section \<open>Scanning and importing\<close>

definition logged :: "ustr \<Rightarrow> ustr \<Rightarrow> cluster_job \<Rightarrow> cluster_job" where
  "logged level message rest = Sample (\<lambda>e. Do (on_home (addLog (en_now e) level message)) rest)"

definition host_scan_job :: "cluster_site \<Rightarrow> cluster_job" where
  "host_scan_job s0 =
     (let host = cv_scanHost (cs_page s0); port = cv_scanPort (cs_page s0)
      in Do (on_home (\<lambda>h. h\<lparr>ch_scanLoading := True, ch_scanError := []\<rparr>))
        (logged log_info ([0x5F00, 0x59CB, 0x63A2, 0x6D4B, 0x4E3B, 0x673A, 0x20] @ or_text (trim host) (str ''-'') @ [0x7AEF, 0x53E3, 0x20] @ int_str port)
        (Await \<lparr>hc_method = POST, hc_url = str ''/api/discovery/host/scan'',
            hc_body = JObj [(str ''host'', JStr (trim host)), (str ''port'', JNum (jsint port))]\<rparr> (\<lambda>r.
        Sample (\<lambda>e. case successful http_text (answer (en_texts e) r) of
          Inl err \<Rightarrow>
            Do (on_home (\<lambda>h. h\<lparr>ch_scanError := or_default err scan_failed\<rparr>))
            (logged log_error (scan_failed @ colon @ or_default err unknown_error)
            (Do (on_home (\<lambda>h. h\<lparr>ch_scanLoading := False\<rparr>)) Done))
        | Inr fs \<Rightarrow>
            (let found = (case field fs ''instances'' of JArr vs \<Rightarrow> vs | _ \<Rightarrow> [])
             in Do (on_home (\<lambda>h. h\<lparr>ch_instances := found\<rparr>))
               (logged log_success ([0x53D1, 0x73B0, 0x20] @ nat_str (length found) @ [0x20, 0x4E2A, 0x5019, 0x9009, 0x5B9E, 0x4F8B])
               (Do (on_home (\<lambda>h. h\<lparr>ch_scanLoading := False\<rparr>)) Done))))))))"

text \<open>\<^verbatim>\<open>await props.onReloadWorkspace()\<close>: the selection is the one of the render that was left.\<close>

definition reload_then :: "ustr \<Rightarrow> cluster_job \<Rightarrow> cluster_job" where
  "reload_then selected rest =
     Await \<lparr>hc_method = GET, hc_url = str ''/api/workspace/projects'', hc_body = JUndef\<rparr> (\<lambda>l.
     Do (on_app (\<lambda>a. if loadProjectsFromBackend l = None then a
           else reloadWorkspaceFromBackend l (a\<lparr>ap_selectedProjectId := selected\<rparr>))) rest)"

definition import_job :: "found_instance \<Rightarrow> cluster_site \<Rightarrow> cluster_job" where
  "import_job i s0 = (case (site_project s0, site_cluster s0) of
     (Some p, Some c) \<Rightarrow>
       (let page = cs_page s0; name = instance_text (discovered_instance.truncate i)
        in logged log_info ([0x5F00, 0x59CB, 0x5BFC, 0x5165, 0x20] @ name)
          (Await \<lparr>hc_method = POST, hc_url = str ''/api/discovery/host/import'',
              hc_body = JObj [(str ''projectId'', JStr (pj_id p)), (str ''clusterId'', JStr (cl_id c)),
                (str ''instance'', fi_raw i), (str ''autoConnect'', JBool (cv_autoConnectAfterImport page)),
                (str ''user'', JStr (cv_importUser page)), (str ''database'', JStr (cv_importDatabase page))]\<rparr> (\<lambda>r.
          Sample (\<lambda>e. case successful http_text (answer (en_texts e) r) of
            Inl err \<Rightarrow>
              Do (on_home (\<lambda>h. h\<lparr>ch_scanError := or_default err import_failed\<rparr>))
              (logged log_error (import_failed @ colon @ or_default err unknown_error) Done)
          | Inr fs \<Rightarrow>
              reload_then (ap_selectedProjectId (cs_app s0))
              (logged log_success ([0x5BFC, 0x5165, 0x6210, 0x529F, 0x20] @ name)
              (Do (on_home (highlight (field fs ''nodeId''))) Done))))))
   | _ \<Rightarrow> Done)"

definition dsn_failed :: "ustr option \<Rightarrow> cluster_job" where
  "dsn_failed err =
     Do (on_home (\<lambda>h. h\<lparr>ch_dsnMessage := or_default err dsn_import_failed\<rparr>))
     (logged log_error (import_failed @ colon @ or_default err unknown_error)
     (Do (on_home (\<lambda>h. h\<lparr>ch_dsnLoading := False\<rparr>)) Done))"

text \<open>The outcome of the validation: the fields of the answer, or the error that is thrown.\<close>

definition dsn_valid :: "engine_texts \<Rightarrow> reply \<Rightarrow> ustr option + (ustr \<times> jsval) list" where
  "dsn_valid txt r = (case successful (\<lambda>_. JStr dsn_invalid) (answer txt r) of
     Inl err \<Rightarrow> Inl err
   | Inr fs \<Rightarrow> if truthy (field fs ''reachable'') then Inr fs
       else Inl (Some (to_str (or_js (field fs ''error'') (JStr dsn_invalid)))))"

definition dsn_import_job :: "ustr \<Rightarrow> workspace_project \<Rightarrow> workspace_cluster \<Rightarrow> cluster_site \<Rightarrow>
  (ustr \<times> jsval) list \<Rightarrow> cluster_job"
where
  "dsn_import_job dsn p c s0 vfs =
     logged log_success ((str ''DSN '' @ [0x6821, 0x9A8C, 0x901A, 0x8FC7, 0xFF0C, 0x7248, 0x672C, 0x20]) @ version_text vfs)
     (Await \<lparr>hc_method = POST, hc_url = str ''/api/discovery/dsn/import'',
         hc_body = JObj [(str ''projectId'', JStr (pj_id p)), (str ''clusterId'', JStr (cl_id c)),
           (str ''dsn'', JStr dsn), (str ''autoConnect'', JBool (cv_autoConnectAfterImport (cs_page s0)))]\<rparr> (\<lambda>r.
     Sample (\<lambda>e. case successful (\<lambda>_. JStr dsn_import_failed) (answer (en_texts e) r) of
       Inl err \<Rightarrow> dsn_failed err
     | Inr fs \<Rightarrow>
         Do (on_home (\<lambda>h. h\<lparr>ch_dsnMessage := [0x5BFC, 0x5165, 0x6210, 0x529F, 0xFF0C, 0x7248, 0x672C, 0x20] @ version_text vfs\<rparr>))
         (reload_then (ap_selectedProjectId (cs_app s0))
         (logged log_success (str ''DSN '' @ [0x5BFC, 0x5165, 0x6210, 0x529F])
         (Do (on_home (highlight (field fs ''nodeId'')))
         (Do (on_home (\<lambda>h. h\<lparr>ch_dsnLoading := False\<rparr>)) Done)))))))"

definition dsn_job :: "cluster_site \<Rightarrow> cluster_job" where
  "dsn_job s0 = (case (site_project s0, site_cluster s0) of
     (Some p, Some c) \<Rightarrow>
       (let dsn = trim (cv_dsn (cs_page s0))
        in if dsn = [] then Done
           else
             Do (on_home (\<lambda>h. h\<lparr>ch_dsnLoading := True, ch_dsnMessage := []\<rparr>))
             (logged log_info ([0x6821, 0x9A8C] @ str '' DSN'')
             (Await \<lparr>hc_method = POST, hc_url = str ''/api/discovery/dsn/validate'',
                 hc_body = JObj [(str ''dsn'', JStr dsn)]\<rparr> (\<lambda>r.
             Sample (\<lambda>e. case dsn_valid (en_texts e) r of
               Inl err \<Rightarrow> dsn_failed err
             | Inr vfs \<Rightarrow> dsn_import_job dsn p c s0 vfs)))))
   | _ \<Rightarrow> Done)"

section \<open>All handlers\<close>

definition cluster_saved :: "(cluster_home \<Rightarrow> cluster_home \<times> (ustr \<times> ustr \<times> node_patch) option) \<Rightarrow>
  cluster_site \<Rightarrow> cluster_site"
where
  "cluster_saved save s =
     (case save (cv_home (cs_page s)) of
        (h, None) \<Rightarrow> on_home (\<lambda>_. h) s
      | (h, Some (c, n, u)) \<Rightarrow> on_home (\<lambda>_. h) (site_op (UpdateClusterNode c n u) s))"

definition type_node_data :: "(node_patch \<Rightarrow> node_patch) \<Rightarrow> cluster_job" where
  "type_node_data f = Do (on_home (typeNode f)) Done"

text \<open>The inputs of the component.\<close>

fun cluster_input :: "cluster_action \<Rightarrow> cluster_job" where
  "cluster_input (SetClusterName v) = Do (on_home (typeCluster (Inl v))) Done"
| "cluster_input (SetClusterThreshold v) = Do (on_home (typeCluster (Inr (jsint v)))) Done"
| "cluster_input (SetSourceFilter v) = Do (on_page (\<lambda>p. p\<lparr>cv_sourceFilter := v\<rparr>)) Done"
| "cluster_input (SetNodeName v) = type_node_data (\<lambda>d. d\<lparr>np_name := Some v\<rparr>)"
| "cluster_input (SetNodeHost v) = type_node_data (\<lambda>d. d\<lparr>np_host := Some v\<rparr>)"
| "cluster_input (SetNodePort v) = type_node_data (\<lambda>d. d\<lparr>np_port := Some v\<rparr>)"
| "cluster_input (SetNodeUser v) = type_node_data (\<lambda>d. d\<lparr>np_user := Some v\<rparr>)"
| "cluster_input (SetNodeDatabase v) = type_node_data (\<lambda>d. d\<lparr>np_database := Some v\<rparr>)"
| "cluster_input (SetNodeRole v) = type_node_data (\<lambda>d. d\<lparr>np_role := Some v\<rparr>)"
| "cluster_input (SetImportUser v) = Do (on_page (\<lambda>p. p\<lparr>cv_importUser := v\<rparr>)) Done"
| "cluster_input (SetImportDatabase v) = Do (on_page (\<lambda>p. p\<lparr>cv_importDatabase := v\<rparr>)) Done"
| "cluster_input (SetHostToScan v) = Do (on_page (\<lambda>p. p\<lparr>cv_scanHost := v\<rparr>)) Done"
| "cluster_input (SetPortToScan v) = Do (on_page (\<lambda>p. p\<lparr>cv_scanPort := v\<rparr>)) Done"
| "cluster_input (SetAutoConnect b) = Do (on_page (\<lambda>p. p\<lparr>cv_autoConnectAfterImport := b\<rparr>)) Done"
| "cluster_input (SetDsn v) = Do (on_page (\<lambda>p. p\<lparr>cv_dsn := v\<rparr>)) Done"
| "cluster_input _ = Done"

definition cluster_perform :: "cluster_action \<Rightarrow> cluster_site \<Rightarrow> cluster_job" where
  "cluster_perform a s0 = (case a of
     BackToProjects \<Rightarrow> Do (go ProjectHome) Done
   | NewCluster \<Rightarrow> Sample (\<lambda>e. Do (site_op (CreateCluster (en_id e 0) (en_id e 1))) Done)
   | SelectCluster i \<Rightarrow> Do (on_app (\<lambda>a. a\<lparr>ap_selectedClusterId := i\<rparr>)) Done
   | EditCluster i \<Rightarrow> Do (on_home (startEditCluster (site_project s0) i)) Done
   | DeleteCluster i \<Rightarrow> Do (site_op (RemoveCluster i)) Done
   | SaveCluster \<Rightarrow> Do (cluster_saved saveEditCluster) Done
   | CancelCluster \<Rightarrow> Do (on_home cancelEditCluster) Done
   | ShowTab t \<Rightarrow> Do (on_page (\<lambda>p. p\<lparr>cv_activeTab := t\<rparr>)) Done
   | SelectEdge k \<Rightarrow> Do (on_page (\<lambda>p. p\<lparr>cv_selectedEdgeKey := k, cv_selectedNodeId := []\<rparr>)) Done
   | SelectNode i \<Rightarrow> Do (on_page (\<lambda>p. p\<lparr>cv_selectedNodeId := i, cv_selectedEdgeKey := []\<rparr>)) Done
   | DoubleClickNode n \<Rightarrow> double_click_job n s0
   | AddNodeHere c \<Rightarrow> Sample (\<lambda>e. Do (site_op (AddNode (en_id e 0) c)) Done)
   | AddNodeAndShow c \<Rightarrow>
       Sample (\<lambda>e. Do (site_op (AddNode (en_id e 0) c)) (Do (on_page (\<lambda>p. p\<lparr>cv_activeTab := AddTab\<rparr>)) Done))
   | EditNode n \<Rightarrow> Do (on_home (startEditNode n)) Done
   | DeleteNode c n \<Rightarrow> Do (site_op (RemoveNode c n)) Done
   | Activate n v \<Rightarrow> activate_job n v
   | SaveNode \<Rightarrow> Do (cluster_saved (saveEditNode (site_cluster s0))) Done
   | CancelNode \<Rightarrow> Do (on_home cancelEditNode) Done
   | ScanHost \<Rightarrow> host_scan_job s0
   | ImportInstance i \<Rightarrow> import_job i s0
   | ImportDsn \<Rightarrow> dsn_job s0
   | ClearLog \<Rightarrow> Do (on_home (\<lambda>h. h\<lparr>ch_importLogs := []\<rparr>)) Done
   | OverviewPolled r \<Rightarrow> Sample (\<lambda>e. Do (\<lambda>s. on_home
       (loadOverview (en_texts e) (en_now e) (site_project s) (site_cluster s) r) s) Done)
   | HighlightExpired \<Rightarrow> Do (on_home (\<lambda>h. h\<lparr>ch_highlightNodeId := JStr []\<rparr>)) Done
   | _ \<Rightarrow> cluster_input a)"

text \<open>
  The polled overview comes from outside; which of its answers count is the subject of theory
  \<open>Overview\<close>. So does the timer that ends the highlight of an imported node, while there is one.
\<close>

definition cluster_outside :: "cluster_site \<Rightarrow> cluster_action set" where
  "cluster_outside s = range OverviewPolled \<union>
     (if truthy (ch_highlightNodeId (cv_home (cs_page s))) then {HighlightExpired} else {})"

section \<open>The handlers run undisturbed\<close>

lemma on_home_simps [simp]:
  "cv_home (cs_page (on_home f s)) = f (cv_home (cs_page s))" "cs_app (on_home f s) = cs_app s"
  "cs_store (on_home f s) = cs_store s"
  by (simp_all add: on_home_def)

lemma undisturbed_logged [simp]:
  "undisturbed e (logged l m rest) rs s = undisturbed e rest rs (on_home (addLog (en_now e) l m) s)"
  by (simp add: logged_def)

lemma str_space: "str '' '' = [32]"
  by (simp add: str_def)

lemma undisturbed_host_scan:
  "cv_home (cs_page (fst (undisturbed e (host_scan_job s) [r] s))) =
     runHostScan (en_texts e) (en_now e) (cv_scanHost (cs_page s)) (cv_scanPort (cs_page s)) r
       (cv_home (cs_page s))"
  by (cases "successful http_text (answer (en_texts e) r)")
    (simp_all add: host_scan_job_def runHostScan_def str_space Let_def)

lemma undisturbed_import:
  assumes "site_project s = Some p" "site_cluster s = Some c"
  shows "cv_home (cs_page (fst (undisturbed e (import_job i s) [r, l] s))) =
      fst (importDiscovered (en_texts e) (en_now e) (Some p) (Some c) (discovered_instance.truncate i) r
        (cv_home (cs_page s)))"
    and "length (snd (undisturbed e (import_job i s) [r, l] s)) =
      (if snd (importDiscovered (en_texts e) (en_now e) (Some p) (Some c) (discovered_instance.truncate i) r
        (cv_home (cs_page s))) then 2 else 1)"
  using assms
  by (cases "successful http_text (answer (en_texts e) r)";
      simp add: import_job_def importDiscovered_def reload_then_def str_space Let_def split_beta)+

lemma undisturbed_dsn:
  assumes "site_project s = Some p" "site_cluster s = Some c"
  shows "cv_home (cs_page (fst (undisturbed e (dsn_job s) [r1, r2, l] s))) =
      fst (validateAndImportDSN (en_texts e) (en_now e) (Some p) (Some c) (cv_dsn (cs_page s)) r1 r2
        (cv_home (cs_page s)))"
  using assms
  by (cases "dsn_valid (en_texts e) r1"; cases "successful (\<lambda>_. JStr dsn_import_failed) (answer (en_texts e) r2)")
    (simp_all add: dsn_job_def dsn_import_job_def dsn_failed_def validateAndImportDSN_def dsn_error_def
      reload_then_def dsn_valid_def str_space Let_def split_beta split: sum.splits if_splits)

section \<open>One scan and one import of a data source name at a time\<close>

abbreviation site_home :: "cluster_site \<Rightarrow> cluster_home" where
  "site_home s \<equiv> cv_home (cs_page s)"

text \<open>Handlers that keep both flags: everything but the exchanges that own them.\<close>

abbreviation keeps_flags :: "cluster_job \<Rightarrow> bool" where
  "keeps_flags j \<equiv> untouched (\<lambda>s. ch_scanLoading (site_home s)) j \<and> untouched (\<lambda>s. ch_dsnLoading (site_home s)) j"

lemma home_handlers_keep_flags [simp]:
  "ch_scanLoading (startEditCluster p i h) = ch_scanLoading h" "ch_dsnLoading (startEditCluster p i h) = ch_dsnLoading h"
  "ch_scanLoading (cancelEditCluster h) = ch_scanLoading h" "ch_dsnLoading (cancelEditCluster h) = ch_dsnLoading h"
  "ch_scanLoading (startEditNode n h) = ch_scanLoading h" "ch_dsnLoading (startEditNode n h) = ch_dsnLoading h"
  "ch_scanLoading (cancelEditNode h) = ch_scanLoading h" "ch_dsnLoading (cancelEditNode h) = ch_dsnLoading h"
  "ch_scanLoading (typeCluster v h) = ch_scanLoading h" "ch_dsnLoading (typeCluster v h) = ch_dsnLoading h"
  "ch_scanLoading (typeNode f h) = ch_scanLoading h" "ch_dsnLoading (typeNode f h) = ch_dsnLoading h"
  "ch_scanLoading (fst (saveEditCluster h)) = ch_scanLoading h" "ch_dsnLoading (fst (saveEditCluster h)) = ch_dsnLoading h"
  "ch_scanLoading (fst (saveEditNode c h)) = ch_scanLoading h" "ch_dsnLoading (fst (saveEditNode c h)) = ch_dsnLoading h"
  by (simp_all add: startEditCluster_def cancelEditCluster_def startEditNode_def cancelEditNode_def
      typeCluster_def typeNode_def saveEditCluster_def saveEditNode_def split: option.split sum.split)

lemma overview_keeps_flags [simp]:
  "ch_scanLoading (loadOverview txt now p c r h) = ch_scanLoading h"
  "ch_dsnLoading (loadOverview txt now p c r h) = ch_dsnLoading h"
  by (simp_all add: loadOverview_def set_overview_def split: sum.split reply.split)

lemma cluster_saved_page: "cs_page (cluster_saved save s) = (cs_page s)\<lparr>cv_home := fst (save (site_home s))\<rparr>"
  by (simp add: cluster_saved_def on_home_def on_page_def split: prod.split option.split)

lemma logged_flags [simp]:
  "untouched (\<lambda>s. ch_scanLoading (site_home s)) (logged l m rest) = untouched (\<lambda>s. ch_scanLoading (site_home s)) rest"
  "untouched (\<lambda>s. ch_dsnLoading (site_home s)) (logged l m rest) = untouched (\<lambda>s. ch_dsnLoading (site_home s)) rest"
  "held (\<lambda>s. ch_scanLoading (site_home s)) rest \<Longrightarrow> held (\<lambda>s. ch_scanLoading (site_home s)) (logged l m rest)"
  "held (\<lambda>s. ch_dsnLoading (site_home s)) rest \<Longrightarrow> held (\<lambda>s. ch_dsnLoading (site_home s)) (logged l m rest)"
  by (simp_all add: logged_def)

lemma activate_keeps: "keeps_flags (activate_job n v)"
  by (auto simp: activate_job_def split: sum.split)

lemma reload_keeps: "keeps_flags rest \<Longrightarrow> keeps_flags (reload_then i rest)"
  by (simp add: reload_then_def)

lemma import_keeps: "keeps_flags (import_job i s0)"
  by (auto simp: import_job_def reload_then_def Let_def split: option.split sum.split)

lemma input_keeps: "keeps_flags (cluster_input a)"
  by (cases a) (simp_all add: type_node_data_def)

lemma scan_takes: "taking (\<lambda>s. ch_scanLoading (site_home s)) (host_scan_job s0)"
  by (auto simp: host_scan_job_def logged_def Let_def split: sum.split)

lemma scan_keeps_dsn: "untouched (\<lambda>s. ch_dsnLoading (site_home s)) (host_scan_job s0)"
  by (auto simp: host_scan_job_def Let_def split: sum.split)

lemma dsn_failed_held: "held (\<lambda>s. ch_dsnLoading (site_home s)) (dsn_failed err)"
  by (simp add: dsn_failed_def logged_def)

lemma dsn_import_held: "held (\<lambda>s. ch_dsnLoading (site_home s)) (dsn_import_job d p c s0 vfs)"
  by (auto simp: dsn_import_job_def reload_then_def dsn_failed_held split: sum.split)

lemma dsn_takes:
  "brief (\<lambda>s. ch_dsnLoading (site_home s)) (dsn_job s0) \<or> taking (\<lambda>s. ch_dsnLoading (site_home s)) (dsn_job s0)"
  by (auto simp: dsn_job_def logged_def dsn_failed_held dsn_import_held Let_def split: option.split sum.split)

lemma dsn_keeps_scan: "untouched (\<lambda>s. ch_scanLoading (site_home s)) (dsn_job s0)"
  by (auto simp: dsn_job_def dsn_import_job_def dsn_failed_def reload_then_def Let_def
      split: option.split sum.split)

lemma others_keep:
  assumes "a \<noteq> ScanHost" "a \<noteq> ImportDsn"
  shows "keeps_flags (cluster_perform a s0)"
  using assms activate_keeps import_keeps input_keeps
  by (cases a) (simp_all add: cluster_perform_def double_click_job_def cluster_saved_page type_node_data_def split: option.split)

interpretation host_scans: busy_guard "cluster_view time" cluster_outside cluster_perform ClusterOpened
  "\<lparr>cs_app = a0, cs_store = st0, cs_page = init_cluster_page\<rparr>"
  "\<lambda>s. ch_scanLoading (site_home s)" "\<lambda>a. a = ScanHost" for time a0 st0
proof unfold_locales
  fix a and s :: cluster_site
  show "a \<noteq> ScanHost \<Longrightarrow> untouched (\<lambda>s. ch_scanLoading (site_home s)) (cluster_perform a s)"
    using others_keep [of a s] dsn_keeps_scan [of s] by (cases "a = ImportDsn") (simp_all add: cluster_perform_def)
  show "a = ScanHost \<Longrightarrow> brief (\<lambda>s. ch_scanLoading (site_home s)) (cluster_perform a s) \<or>
      taking (\<lambda>s. ch_scanLoading (site_home s)) (cluster_perform a s)"
    using scan_takes by (simp add: cluster_perform_def)
qed (auto simp: init_cluster_page_def empty_home_def cluster_outside_def plain_cluster_view
    split: if_splits dest: exchanges_offered(1))

interpretation dsn_imports: busy_guard "cluster_view time" cluster_outside cluster_perform ClusterOpened
  "\<lparr>cs_app = a0, cs_store = st0, cs_page = init_cluster_page\<rparr>"
  "\<lambda>s. ch_dsnLoading (site_home s)" "\<lambda>a. a = ImportDsn" for time a0 st0
proof unfold_locales
  fix a and s :: cluster_site
  show "a \<noteq> ImportDsn \<Longrightarrow> untouched (\<lambda>s. ch_dsnLoading (site_home s)) (cluster_perform a s)"
    using others_keep [of a s] scan_keeps_dsn [of s] by (cases "a = ScanHost") (simp_all add: cluster_perform_def)
  show "a = ImportDsn \<Longrightarrow> brief (\<lambda>s. ch_dsnLoading (site_home s)) (cluster_perform a s) \<or>
      taking (\<lambda>s. ch_dsnLoading (site_home s)) (cluster_perform a s)"
    using dsn_takes by (simp add: cluster_perform_def)
qed (auto simp: init_cluster_page_def empty_home_def cluster_outside_def plain_cluster_view
    split: if_splits dest: exchanges_offered(2))

text \<open>
  C7. However the user acts and in whatever order the answers come, the cluster page has at most
  one scan and at most one import of a data source name under way, and the flags that disable
  their buttons tell exactly whether it does.
\<close>

theorem one_scan_one_dsn_import:
  assumes "page_reach (cluster_view time) cluster_outside cluster_perform
    (opened cluster_perform e ClusterOpened \<lparr>cs_app = a0, cs_store = st0, cs_page = init_cluster_page\<rparr>) c"
  shows "length (filter (\<lambda>w. fst w = ScanHost) (pg_waiting c)) =
      (if ch_scanLoading (site_home (pg_state c)) then 1 else 0) \<and>
    length (filter (\<lambda>w. fst w = ImportDsn) (pg_waiting c)) =
      (if ch_dsnLoading (site_home (pg_state c)) then 1 else 0)"
  using host_scans.one_at_a_time [OF assms] dsn_imports.one_at_a_time [OF assms] by (simp add: comp_def)

text \<open>A user who goes to the tab for adding nodes and starts a scan.\<close>

definition scan_env :: page_env where
  "scan_env = \<lparr>en_now = 0, en_id = (\<lambda>_. []), en_texts = \<lparr>et_syntax = id, et_type_error = [], et_aborted = []\<rparr>\<rparr>"

definition scan_site :: cluster_site where
  "scan_site = \<lparr>cs_app = (init_app None)\<lparr>ap_currentView := ClusterHome, ap_projects := [sample_project]\<rparr>,
     cs_store = init_pg_state, cs_page = init_cluster_page\<rparr>"

definition cluster_do ::
  "cluster_action \<Rightarrow> (cluster_site, cluster_action, page_env, host_call, reply) page \<Rightarrow>
   (cluster_site, cluster_action, page_env, host_call, reply) page"
where
  "cluster_do a c = proceed scan_env a (cluster_perform a (pg_state c)) c"

definition scan_demo :: "(cluster_site, cluster_action, page_env, host_call, reply) page" where
  "scan_demo = fold cluster_do [ShowTab AddTab, ScanHost] (opened cluster_perform scan_env ClusterOpened scan_site)"

lemma cluster_do_reach:
  assumes "page_reach (cluster_view time) cluster_outside cluster_perform c0 c"
    "shown_view (cs_app (pg_state c)) = Some ClusterHome" "ch_nodes (cv_home (cs_page (pg_state c))) = []"
    "ch_instances (cv_home (cs_page (pg_state c))) = []" "site_project (pg_state c) = Some sample_project"
    "site_cluster (pg_state c) = Some (hd (pj_clusters sample_project))"
    "a \<in> range ShowTab \<or> a = ScanHost \<and> cv_activeTab (cs_page (pg_state c)) = AddTab \<and>
      \<not> ch_scanLoading (cv_home (cs_page (pg_state c)))"
  shows "page_reach (cluster_view time) cluster_outside cluster_perform c0 (cluster_do a c)"
proof -
  obtain e where e: "cluster_view time (pg_state c) = Some e"
    using assms(2-4) by (auto simp: cluster_view_def)
  obtain ins where "range ShowTab \<subseteq> acts e"
    "cv_activeTab (cs_page (pg_state c)) = AddTab \<longrightarrow> acts (scan_option (cs_page (pg_state c)) ins) \<subseteq> acts e"
    using detail_offered [OF e assms(5) _ assms(6)] by (auto simp: sample_project_def)
  with assms(7) have "a \<in> acts e" by (auto simp: acts_scan_option)
  then show ?thesis
    unfolding cluster_do_def using reach_act [OF assms(1) e plain_cluster_view [OF e]] by blast
qed

lemma scan_demo_reach:
  "page_reach (cluster_view time) cluster_outside cluster_perform
     (opened cluster_perform scan_env ClusterOpened scan_site) scan_demo"
  unfolding scan_demo_def
  by (simp, (rule cluster_do_reach reach_start)+;
      simp add: cluster_do_def cluster_perform_def opened_def proceed_def on_page_def scan_site_def
        init_cluster_page_def empty_home_def shown_view_def init_app_def selectedProject_def sample_project_def
        site_cluster_def home_cluster_def str_def find_first_def head_opt_def or_else_def)

theorem one_scan_one_dsn_import_witness:
  "length (filter (\<lambda>w. fst w = ScanHost) (pg_waiting scan_demo)) = 1 \<and>
     ch_scanLoading (site_home (pg_state scan_demo))"
  using one_scan_one_dsn_import [OF scan_demo_reach [unfolded scan_site_def]]
  by (simp add: scan_demo_def cluster_do_def cluster_perform_def host_scan_job_def logged_def opened_def
      proceed_def on_page_def on_home_def scan_site_def init_cluster_page_def empty_home_def addLog_def Let_def)

end
