(* ===== verification/ManagerView.thy ===== *)
theory ManagerView
  imports Connections HostView
begin

text \<open>
  The connection manager as a machine: what \<^verbatim>\<open>components/connection/ConnectionManager.tsx\<close> renders,
  and its handlers with the wait for the API client, which answers with a failure or the parsed body.
  Run undisturbed the connect is that of theory \<open>Connections\<close>.
\<close>

section \<open>State\<close>

text \<open>The component, the store it shares with the page, and the callbacks it has made.\<close>

record manager_site =
  mg_store :: pg_state
  mg_manager :: connection_manager
  mg_called :: "callback list"

definition init_manager_site :: "pg_state \<Rightarrow> manager_site" where
  "init_manager_site st = \<lparr>mg_store = st, mg_manager = init_connection_manager, mg_called = []\<rparr>"

datatype manager_action =
    ManagerOpened
  | AddProfile
  | ConnectProfile connection_profile
  | EditProfile connection_profile
  | DropProfile ustr
  | ProfileName ustr
  | ProfileHost ustr
  | ProfilePort int
  | ProfileUser ustr
  | ProfilePassword ustr
  | ProfileDatabase ustr
  | KeepProfile
  | LeaveProfile
  | StoreSet pg_state

section \<open>Rendering\<close>

definition form_title :: "partial_profile \<Rightarrow> connection_profile list \<Rightarrow> ustr" where
  "form_title e ps =
     (if or_field (pp_id e) [] \<noteq> [] \<and> (\<exists>q\<in>set ps. Some (pr_id q) = pp_id e) then str ''Edit Connection''
      else str ''New Connection'')"

definition grouped_input :: "ustr \<Rightarrow> manager_action element \<Rightarrow> manager_action element" where
  "grouped_input l e = box [El ''label'' [] [Text l], e]"

definition profile_form :: "partial_profile \<Rightarrow> connection_profile list \<Rightarrow> manager_action element" where
  "profile_form e ps = box
     [El ''h2'' [] [Text (form_title e ps)],
      box
        [grouped_input (str ''Profile Name'') (input_of (or_field (pp_name e) []) ProfileName),
         box [grouped_input (str ''Host'') (input_of (or_field (pp_host e) []) ProfileHost),
           grouped_input (str ''Port'') (number_input
             (case pp_port e of Some n \<Rightarrow> if n = 0 then 5432 else n | None \<Rightarrow> 5432) ProfilePort)],
         box [grouped_input (str ''User'') (input_of (or_field (pp_user e) []) ProfileUser),
           grouped_input (str ''Password'') (input_of (or_field (pp_password e) []) ProfilePassword)],
         grouped_input (str ''Database'') (input_of (or_field (pp_database e) []) ProfileDatabase),
         box [button KeepProfile (str ''Save''), button LeaveProfile (str ''Cancel'')]]]"

definition profile_card :: "manager_site \<Rightarrow> connection_profile \<Rightarrow> manager_action element" where
  "profile_card s p =
     (let active = shown_connected (mg_store s) (mg_manager s) p; busy = cm_connecting (mg_manager s)
      in classed ''div'' (if active then str ''card-active'' else [])
        [box [box [Text (pr_name p)],
           box [Text (host_port (pr_host p) (pr_port p) @ str ''/'' @ pr_database p)],
           box [Text (str ''user: '' @ pr_user p)]],
         box
           ([if active then El ''span'' [] [Text (str ''Connected'')]
             else El ''button'' [OnClick (ConnectProfile p), Disabled busy]
               [Text (if busy then str ''Connecting...'' else str ''Connect'')],
             button (EditProfile p) (str ''Edit'')] @
            shown_if (pr_id p \<noteq> str ''default'') [button (DropProfile (pr_id p)) (str ''Del'')])])"

definition tips :: "ustr list" where
  "tips = [str ''Make sure PostgreSQL is running and accessible'',
     str ''Check pg_hba.conf for authentication settings'',
     str ''For remote hosts, ensure listen_addresses includes the interface'']"

definition manager_list :: "manager_site \<Rightarrow> manager_action element" where
  "manager_list s = box
     ([box [box [El ''h1'' [] [Text (str ''PostgreSQL Kernel Visualizer'')],
          El ''p'' [] [Text (str ''Select a server to connect'')]],
        button AddProfile (str ''+ New Connection'')]] @
      shown_if (cm_error (mg_manager s) \<noteq> []) [box [Text (cm_error (mg_manager s))]] @
      [box (map (profile_card s) (cm_profiles (mg_manager s))),
       box [El ''h3'' [] [Text (str ''Quick Tips'')],
         El ''ul'' [] (map (\<lambda>t. El ''li'' [] [span_of [0x2192], Text t]) tips)]])"

definition manager_view :: "manager_site \<Rightarrow> manager_action element" where
  "manager_view s = (case cm_editingProfile (mg_manager s) of
     Some e \<Rightarrow> if cm_isEditing (mg_manager s) then profile_form e (cm_profiles (mg_manager s)) else manager_list s
   | None \<Rightarrow> manager_list s)"

section \<open>Handlers\<close>

text \<open>
  The environment of a handler: a fresh id, which is not empty (its first unit and the rest), and
  the engine's message for reading a property of \<^verbatim>\<open>undefined\<close>.
\<close>

type_synonym manager_env = "(nat \<times> ustr) \<times> ustr"
type_synonym manager_job = "(manager_site, manager_env, host_call, api_failure + jsval) job"

definition on_manager :: "(connection_manager \<Rightarrow> connection_manager) \<Rightarrow> manager_site \<Rightarrow> manager_site" where
  "on_manager f s = s\<lparr>mg_manager := f (mg_manager s)\<rparr>"

text \<open>A change of the store, with the effect that follows when the connection came or went.\<close>

definition store_set :: "pg_state \<Rightarrow> manager_site \<Rightarrow> manager_site" where
  "store_set pg s = s\<lparr>mg_store := pg,
     mg_manager := (if pg_connected pg = pg_connected (mg_store s) then mg_manager s
       else connected_effect pg (mg_manager s))\<rparr>"

definition connect_call :: "connection_profile \<Rightarrow> host_call" where
  "connect_call p = \<lparr>hc_method = POST, hc_url = str ''/api/connect'', hc_body = connect_body p\<rparr>"

definition manager_answered ::
  "ustr \<Rightarrow> connection_profile \<Rightarrow> api_failure + jsval \<Rightarrow> manager_site \<Rightarrow> manager_site"
where
  "manager_answered te p r s = (case connect_answered te p r (mg_manager s) (mg_store s) of
     (m, pg, cs) \<Rightarrow> store_set pg (s\<lparr>mg_manager := m, mg_called := mg_called s @ cs\<rparr>))"

definition connect_job :: "connection_profile \<Rightarrow> manager_job" where
  "connect_job p =
     Do (on_manager (\<lambda>m. m\<lparr>cm_connecting := True, cm_error := []\<rparr>))
     (Await (connect_call p) (\<lambda>r.
     Sample (\<lambda>e.
     Do (manager_answered (snd e) p r)
     (Do (on_manager (\<lambda>m. m\<lparr>cm_connecting := False\<rparr>)) Done))))"

definition type_profile :: "(partial_profile \<Rightarrow> partial_profile) \<Rightarrow> manager_job" where
  "type_profile f = Do (on_manager (\<lambda>m. m\<lparr>cm_editingProfile := map_option f (cm_editingProfile m)\<rparr>)) Done"

definition manager_perform :: "manager_action \<Rightarrow> manager_site \<Rightarrow> manager_job" where
  "manager_perform a s0 = (case a of
     ManagerOpened \<Rightarrow> Do (\<lambda>s. on_manager (connected_effect (mg_store s)) s) Done
   | AddProfile \<Rightarrow> Do (\<lambda>s. on_manager (startAdd (mg_store s)) s) Done
   | ConnectProfile p \<Rightarrow> connect_job p
   | EditProfile p \<Rightarrow> Do (on_manager (startEditProfile p)) Done
   | DropProfile i \<Rightarrow> Do (on_manager (handleDeleteProfile i)) Done
   | ProfileName v \<Rightarrow> type_profile (\<lambda>e. e\<lparr>pp_name := Some v\<rparr>)
   | ProfileHost v \<Rightarrow> type_profile (\<lambda>e. e\<lparr>pp_host := Some v\<rparr>)
   | ProfilePort v \<Rightarrow> type_profile (\<lambda>e. e\<lparr>pp_port := Some v\<rparr>)
   | ProfileUser v \<Rightarrow> type_profile (\<lambda>e. e\<lparr>pp_user := Some v\<rparr>)
   | ProfilePassword v \<Rightarrow> type_profile (\<lambda>e. e\<lparr>pp_password := Some v\<rparr>)
   | ProfileDatabase v \<Rightarrow> type_profile (\<lambda>e. e\<lparr>pp_database := Some v\<rparr>)
   | KeepProfile \<Rightarrow> Sample (\<lambda>e. Do (on_manager (handleSaveProfile (fst (fst e) # snd (fst e)))) Done)
   | LeaveProfile \<Rightarrow> Do (on_manager cancelEditProfile) Done
   | StoreSet pg \<Rightarrow> Do (store_set pg) Done)"

abbreviation manager_reach ::
  "pg_state \<Rightarrow> manager_env \<Rightarrow> (manager_site, manager_action, manager_env, host_call, api_failure + jsval) page \<Rightarrow> bool"
where
  "manager_reach st e0 \<equiv> page_reach (\<lambda>s. Some (manager_view s)) (\<lambda>_. range StoreSet) manager_perform
     (opened manager_perform e0 ManagerOpened (init_manager_site st))"

lemma undisturbed_connect:
  "undisturbed (i, te) (connect_job p) [snd (api_post w cfg (str ''/api/connect'') (connect_body p) no_options)] s =
     (case handleConnect w cfg te p (mg_manager s) (mg_store s) of (m, pg, cs) \<Rightarrow>
        (s\<lparr>mg_store := pg, mg_called := mg_called s @ cs,
           mg_manager := (if pg_connected pg = pg_connected (mg_store s) then m else connected_effect pg m)\<rparr>,
         [connect_call p]))"
  by (auto simp: connect_job_def handleConnect_def manager_answered_def store_set_def on_manager_def
      connected_effect_def Let_def split: prod.split)

section \<open>What can be clicked\<close>

lemma grouped_input_simps [simp]:
  "acts (grouped_input l e) = acts e" "unnested c d (grouped_input l e) = unnested c d e"
  by (simp_all add: grouped_input_def)

abbreviation profile_inputs :: "manager_action set" where
  "profile_inputs \<equiv> range ProfileName \<union> range ProfileHost \<union> range ProfilePort \<union> range ProfileUser \<union>
     range ProfilePassword \<union> range ProfileDatabase"

lemma acts_profile_form: "acts (profile_form e ps) = profile_inputs \<union> {KeepProfile, LeaveProfile}"
  by (auto simp: profile_form_def)

lemma acts_profile_card:
  "acts (profile_card s p) =
     (if shown_connected (mg_store s) (mg_manager s) p \<or> cm_connecting (mg_manager s) then {} else {ConnectProfile p}) \<union>
     {EditProfile p} \<union> (if pr_id p = str ''default'' then {} else {DropProfile (pr_id p)})"
  by (auto simp: profile_card_def Let_def)

lemma acts_manager_list:
  "acts (manager_list s) = {AddProfile} \<union> (\<Union>p\<in>set (cm_profiles (mg_manager s)). acts (profile_card s p))"
  by (auto simp: manager_list_def)

lemma plain_profile_form [simp]: "plain_page (profile_form e ps)"
  by (simp add: profile_form_def)

lemma plain_profile_card [simp]: "plain_page (profile_card s p)"
  by (simp add: profile_card_def Let_def)

lemma plain_manager_view [simp]: "plain_page (manager_view s)"
  by (simp add: manager_view_def manager_list_def split: option.split)

lemma connect_offered:
  "ConnectProfile p \<in> acts (manager_view s) \<Longrightarrow>
     p \<in> set (cm_profiles (mg_manager s)) \<and> \<not> cm_connecting (mg_manager s)"
  by (auto simp: manager_view_def acts_profile_form acts_manager_list acts_profile_card
      split: option.splits if_splits)

lemma manager_opened_not_offered: "ManagerOpened \<notin> acts (manager_view s)"
  by (auto simp: manager_view_def acts_profile_form acts_manager_list acts_profile_card
      split: option.splits if_splits)

section \<open>One connect at a time, of a well-formed profile\<close>

lemma connect_answered_connecting [simp]:
  "cm_connecting (fst (connect_answered te p r m pg)) = cm_connecting m"
  "cm_profiles (fst (connect_answered te p r m pg)) = cm_profiles m"
  by (simp_all add: connect_answered_def Let_def split: sum.split api_failure.split option.split)

lemma connected_effect_simps [simp]:
  "cm_connecting (connected_effect pg m) = cm_connecting m"
  "cm_profiles (connected_effect pg m) = cm_profiles m"
  by (simp_all add: connected_effect_def)

lemma store_set_simps [simp]:
  "cm_connecting (mg_manager (store_set pg s)) = cm_connecting (mg_manager s)"
  "cm_profiles (mg_manager (store_set pg s)) = cm_profiles (mg_manager s)"
  by (simp_all add: store_set_def)

lemma manager_answered_simps [simp]:
  "cm_connecting (mg_manager (manager_answered te p r s)) = cm_connecting (mg_manager s)"
  "cm_profiles (mg_manager (manager_answered te p r s)) = cm_profiles (mg_manager s)"
  using connect_answered_connecting [of te p r "mg_manager s" "mg_store s"]
  by (cases "connect_answered te p r (mg_manager s) (mg_store s)"; simp add: manager_answered_def)+

lemma profiles_ok_cong: "cm_profiles m = cm_profiles n \<Longrightarrow> profiles_ok m = profiles_ok n"
  by (simp add: profiles_ok_def)

abbreviation site_ok :: "manager_site \<Rightarrow> bool" where
  "site_ok s \<equiv> profiles_ok (mg_manager s)"

definition connect_allowed :: "host_call \<Rightarrow> bool" where
  "connect_allowed q \<longleftrightarrow> (\<exists>p. profile_ok p \<and> q = connect_call p)"

lemma manager_perform_sound:
  assumes "\<And>p. a = ConnectProfile p \<Longrightarrow> profile_ok p"
  shows "sound site_ok connect_allowed (manager_perform a s0)"
proof (cases a)
  case (ConnectProfile p)
  with assms show ?thesis
    by (auto simp: manager_perform_def connect_job_def connect_allowed_def on_manager_def profiles_ok_def)
next
  case KeepProfile
  then show ?thesis by (simp add: manager_perform_def on_manager_def save_keeps_ok)
next
  case (DropProfile i)
  then show ?thesis by (simp add: manager_perform_def on_manager_def delete_keeps_ok)
qed (simp_all add: manager_perform_def type_profile_def on_manager_def profiles_ok_def startAdd_def
    startEditProfile_def cancelEditProfile_def Let_def)

lemma manager_flag_untouched:
  "(\<And>p. a \<noteq> ConnectProfile p) \<Longrightarrow> untouched (\<lambda>s. cm_connecting (mg_manager s)) (manager_perform a s0)"
  by (cases a) (auto simp: manager_perform_def type_profile_def on_manager_def startAdd_def
    startEditProfile_def cancelEditProfile_def handleSaveProfile_def handleDeleteProfile_def Let_def
    split: option.split)

interpretation manager: page_contract "\<lambda>s. Some (manager_view s)" "\<lambda>_. range StoreSet" manager_perform
  ManagerOpened "init_manager_site st" site_ok connect_allowed for st
proof unfold_locales
  fix s e a
  assume "site_ok s" "Some (manager_view s) = Some e" "a \<in> acts e"
  then show "sound site_ok connect_allowed (manager_perform a s)"
    using connect_offered [of _ s]
    by (intro manager_perform_sound) (auto simp: profiles_ok_def list_all_iff)
next
  show "site_ok (init_manager_site st)"
    by (simp add: init_manager_site_def init_connection_manager_def profiles_ok_def)
qed (auto intro: manager_perform_sound)

interpretation connects: busy_guard "\<lambda>s. Some (manager_view s)" "\<lambda>_. range StoreSet" manager_perform
  ManagerOpened "init_manager_site st" "\<lambda>s. cm_connecting (mg_manager s)" "\<lambda>a. \<exists>p. a = ConnectProfile p" for st
proof unfold_locales
  fix a and s :: manager_site
  show "\<exists>p. a = ConnectProfile p \<Longrightarrow> brief (\<lambda>s. cm_connecting (mg_manager s)) (manager_perform a s) \<or>
      taking (\<lambda>s. cm_connecting (mg_manager s)) (manager_perform a s)"
    by (auto simp: manager_perform_def connect_job_def on_manager_def)
  show "\<nexists>p. a = ConnectProfile p \<Longrightarrow> untouched (\<lambda>s. cm_connecting (mg_manager s)) (manager_perform a s)"
    by (rule manager_flag_untouched) blast
qed (auto simp: init_manager_site_def init_connection_manager_def dest: connect_offered)

text \<open>
  C27. In every state the connection manager can get into, the profiles are well formed, at most one
  connect is under way, which the flag that disables the buttons tells, and every connect that was
  ever sent was made for a well-formed profile.
\<close>

theorem manager_connects_one_profile:
  assumes "manager_reach st e0 c"
  shows "profiles_ok (mg_manager (pg_state c)) \<and>
    length (filter (\<lambda>w. \<exists>p. fst w = ConnectProfile p) (pg_waiting c)) =
      (if cm_connecting (mg_manager (pg_state c)) then 1 else 0) \<and>
    (\<forall>(a, q)\<in>set (pg_sent c). \<exists>p. profile_ok p \<and> q = connect_call p)"
  using manager.reachable_state [OF assms] connects.one_at_a_time [OF assms]
  by (auto simp: comp_def connect_allowed_def)


text \<open>A user who adds a profile and connects through it.\<close>

definition manager_do ::
  "manager_action \<Rightarrow> (manager_site, manager_action, manager_env, host_call, api_failure + jsval) page \<Rightarrow>
   (manager_site, manager_action, manager_env, host_call, api_failure + jsval) page"
where
  "manager_do a c = proceed ((117, []), []) a (manager_perform a (pg_state c)) c"

definition first_profile :: connection_profile where
  "first_profile = \<lparr>pr_id = str ''u'', pr_name = str ''a'', pr_host = str ''pgv-postgres'', pr_port = 5432,
     pr_user = str ''postgres'', pr_password = [], pr_database = str ''postgres''\<rparr>"

definition manager_demo :: "(manager_site, manager_action, manager_env, host_call, api_failure + jsval) page" where
  "manager_demo = fold manager_do [AddProfile, ProfileName (str ''a''), KeepProfile, ConnectProfile first_profile]
     (opened manager_perform ((117, []), []) ManagerOpened (init_manager_site init_pg_state))"

lemma manager_do_reach:
  "manager_reach st e0 c \<Longrightarrow> a \<in> acts (manager_view (pg_state c)) \<Longrightarrow> manager_reach st e0 (manager_do a c)"
  unfolding manager_do_def by (rule reach_act) auto

lemmas manager_evaluation = manager_do_def manager_perform_def opened_def proceed_def on_manager_def
  type_profile_def init_manager_site_def init_connection_manager_def init_pg_state_def connected_effect_def
  startAdd_def handleSaveProfile_def store_profile_def profile_of_def or_field_def connect_job_def
  first_profile_def

lemma manager_demo_reach: "manager_reach init_pg_state ((117, []), []) manager_demo"
  unfolding manager_demo_def
  by (simp, (rule manager_do_reach reach_start)+;
      simp add: manager_evaluation manager_view_def acts_manager_list acts_profile_form acts_profile_card
        shown_connected_def str_def)

theorem manager_connects_one_profile_witness:
  "cm_connecting (mg_manager (pg_state manager_demo)) \<and>
     length (filter (\<lambda>w. \<exists>p. fst w = ConnectProfile p) (pg_waiting manager_demo)) = 1"
  using manager_connects_one_profile [OF manager_demo_reach]
  by (simp add: manager_demo_def manager_evaluation str_def split: if_splits)

end
