(* ===== verification/ProjectView.thy ===== *)
theory ProjectView
  imports ProjectPage ClusterView
begin

text \<open>
  What \<^verbatim>\<open>components/workspace/ProjectHomeView.tsx\<close> renders and what its handlers do, with the callbacks
  composed with the handlers of the page of the application.
\<close>

type_synonym project_site = "project_page site"

datatype project_action =
    OpenTemplates
  | NewProject
  | PickProject ustr
  | RenameProject workspace_project
  | TypeProject ustr
  | SaveProject
  | KeepName
  | DropProject ustr
  | ClusterIn ustr
  | ComponentIn ustr
  | OpenCluster ustr ustr

section \<open>Rendering\<close>

definition project_header :: "project_action element" where
  "project_header = box
     [box [El ''h2'' [] [Text [0x9879, 0x76EE, 0x603B, 0x89C8]], El ''p'' [] [Text [0x7BA1, 0x7406, 0x6240, 0x6709, 0x9879, 0x76EE, 0x3001, 0x96C6, 0x7FA4, 0x548C, 0x7EC4, 0x4EF6]]],
      box [button OpenTemplates [0x4ECE, 0x6A21, 0x677F, 0x521B, 0x5EFA], button NewProject [0x65B0, 0x5EFA, 0x9879, 0x76EE]]]"

definition totals_grid :: "total_stats \<Rightarrow> project_action element" where
  "totals_grid t = box
     [stat_card (nat_str (ts_projects t)) [0x9879, 0x76EE], stat_card (nat_str (ts_clusters t)) [0x96C6, 0x7FA4],
      stat_card (nat_str (ts_nodes t)) [0x8282, 0x70B9], stat_card (nat_str (ts_components t)) [0x7EC4, 0x4EF6]]"

definition project_form_box :: "project_page \<Rightarrow> project_action element" where
  "project_form_box s = box
     [box [El ''label'' [] [Text [0x9879, 0x76EE, 0x540D, 0x79F0]], input_of (pg_editingProjectName s) TypeProject],
      box [button SaveProject [0x4FDD, 0x5B58], button KeepName [0x53D6, 0x6D88]]]"

definition stop_button :: "'a \<Rightarrow> ustr \<Rightarrow> 'a element" where
  "stop_button a t = El ''button'' [OnClickStop a] [Text t]"

definition cluster_chip :: "ustr \<Rightarrow> workspace_cluster \<Rightarrow> project_action element" where
  "cluster_chip project_id c = El ''div'' [OnClickStop (OpenCluster project_id (cl_id c))]
     [span_of (cl_name c),
      classed ''span'' (badge_class (cl_replicationType c)) [Text (replication_label (cl_replicationType c))]]"

definition component_chip :: "workspace_component \<Rightarrow> project_action element" where
  "component_chip c = box [span_of (cp_name c), span_of (cp_componentType c)]"

definition chips :: "ustr \<Rightarrow> 'a element list \<Rightarrow> 'a element" where
  "chips none cs = (if cs = [] then box [Text none] else box cs)"

definition project_card_body :: "bool \<Rightarrow> workspace_project \<Rightarrow> project_action element" where
  "project_card_body selected p =
     (let stats = getProjectStats p
      in box
        [box [box (span_of (pj_name p) # shown_if selected [span_of [0x5DF2, 0x9009, 0x4E2D]]),
           stop_button (RenameProject p) [0x7F16, 0x8F91], stop_button (DropProject (pj_id p)) [0x5220, 0x9664]],
         box [stat_of (nat_str (ps_clusterCount stats)) [0x96C6, 0x7FA4], stat_of (nat_str (ps_nodeCount stats)) [0x8282, 0x70B9],
           stat_of (nat_str (ps_componentCount stats)) [0x7EC4, 0x4EF6]],
         box [stop_button (ClusterIn (pj_id p)) [0x2B, 0x20, 0x96C6, 0x7FA4], stop_button (ComponentIn (pj_id p)) [0x2B, 0x20, 0x7EC4, 0x4EF6]],
         box [box [Text [0x96C6, 0x7FA4]], chips [0x6682, 0x65E0, 0x96C6, 0x7FA4] (map (cluster_chip (pj_id p)) (pj_clusters p))],
         box [box [Text [0x7EC4, 0x4EF6]], chips [0x6682, 0x65E0, 0x7EC4, 0x4EF6] (map component_chip (pj_components p))]])"

definition project_card :: "project_page \<Rightarrow> app_state \<Rightarrow> workspace_project \<Rightarrow> project_action element" where
  "project_card s a p =
     (let editing = (pj_id p = pg_editingProjectId s)
      in El ''div''
        ([Attr ''class'' (if isSelected p a then str ''entity-card-selected'' else [])] @
         (if editing then [] else [OnClick (PickProject (pj_id p))]))
        [if editing then project_form_box s else project_card_body (isSelected p a) p])"

definition project_view :: "project_site \<Rightarrow> project_action element" where
  "project_view s =
     (let ps = ap_projects (cs_app s)
      in box
        [project_header, totals_grid (totalStats ps),
         (if ps = [] then box [El ''p'' [] [Text [0x6682, 0x65E0, 0x9879, 0x76EE]], El ''p'' [] [Text [0x70B9, 0x51FB, 0x4E0A, 0x65B9, 0x6309, 0x94AE, 0x521B, 0x5EFA, 0x7B2C, 0x4E00, 0x4E2A, 0x9879, 0x76EE]]]
          else box (map (project_card (cs_page s) (cs_app s)) ps))])"

section \<open>Handlers\<close>

type_synonym project_job = "(project_site, page_env, host_call, reply) job"

definition project_saved :: "project_site \<Rightarrow> project_site" where
  "project_saved s = (case saveEditProject (cs_page s) of
     (p, None) \<Rightarrow> on_page (\<lambda>_. p) s
   | (p, Some (i, n)) \<Rightarrow> on_page (\<lambda>_. p) (site_op (UpdateProject i (Some n)) s))"

definition project_perform :: "project_action \<Rightarrow> project_site \<Rightarrow> project_job" where
  "project_perform a s0 = (case a of
     OpenTemplates \<Rightarrow> Do (on_app (\<lambda>a. a\<lparr>ap_showTemplateDialog := True\<rparr>)) Done
   | NewProject \<Rightarrow> Sample (\<lambda>e. Do (site_op (CreateProject (en_id e 0))) Done)
   | PickProject i \<Rightarrow> Do (on_app (\<lambda>a. a\<lparr>ap_selectedProjectId := i\<rparr>)) Done
   | RenameProject p \<Rightarrow> Do (on_page (startEditProject p)) Done
   | TypeProject v \<Rightarrow> Do (on_page (typeProjectName v)) Done
   | SaveProject \<Rightarrow> Do project_saved Done
   | KeepName \<Rightarrow> Do (on_page cancelEditProject) Done
   | DropProject i \<Rightarrow> Do (site_op (RemoveProject i)) Done
   | ClusterIn p \<Rightarrow> Sample (\<lambda>e.
       Do (\<lambda>s. on_app (create_cluster_in (pg_conf (cs_store s)) (en_id e 0) (en_id e 1) p) s) Done)
   | ComponentIn p \<Rightarrow> Sample (\<lambda>e. Do (on_app (create_component_in (en_id e 0) p)) Done)
   | OpenCluster p c \<Rightarrow> Do (on_app (handleClusterClick p c)) Done)"

section \<open>What can be clicked\<close>

lemma stop_button_simps [simp]:
  "acts (stop_button a t) = {a}" "unnested c False (stop_button a t)"
  by (simp_all add: stop_button_def)

lemma chips_simps [simp]:
  "acts (chips n cs) = (\<Union>x\<in>set cs. acts x)" "unnested c d (chips n cs) = (\<forall>x\<in>set cs. unnested c d x)"
  by (simp_all add: chips_def)

lemma chip_simps [simp]:
  "acts (cluster_chip p c) = {OpenCluster p (cl_id c)}" "acts (component_chip m) = {}"
  "unnested u False (cluster_chip p c)" "unnested u d (component_chip m)"
  by (simp_all add: cluster_chip_def component_chip_def)

lemma acts_project_card:
  "acts (project_card s a p) =
     (if pj_id p = pg_editingProjectId s then range TypeProject \<union> {SaveProject, KeepName}
      else {PickProject (pj_id p), RenameProject p, DropProject (pj_id p), ClusterIn (pj_id p),
        ComponentIn (pj_id p)} \<union> (\<lambda>c. OpenCluster (pj_id p) (cl_id c)) ` set (pj_clusters p))"
  by (auto simp: project_card_def project_form_box_def project_card_body_def Let_def)

lemma plain_project_card [simp]: "plain_page (project_card s a p)"
  by (simp add: project_card_def project_form_box_def project_card_body_def Let_def)

lemma acts_project_view:
  "acts (project_view s) = {OpenTemplates, NewProject} \<union>
     (\<Union>p\<in>set (ap_projects (cs_app s)). acts (project_card (cs_page s) (cs_app s) p))"
  by (auto simp: project_view_def project_header_def totals_grid_def Let_def)

lemma plain_project_view [simp]: "plain_page (project_view s)"
  by (simp add: project_view_def project_header_def totals_grid_def Let_def)

end
