(* ===== verification/ComponentView.thy ===== *)
theory ComponentView
  imports ComponentPage ProjectView
begin

text \<open>
  What \<^verbatim>\<open>components/workspace/ComponentHomeView.tsx\<close> renders, the tree, the map, the matrix and the
  details, and what its handlers do.
\<close>

section \<open>State\<close>

text \<open>The effect that opens the tree runs on mounting and when the project has another id.\<close>

record component_board =
  cb_form :: component_page
  cb_expanded :: tree_state
  cb_focused :: ustr
  cb_project :: "ustr option"

type_synonym component_site = "component_board site"

definition init_component_board :: component_board where
  "init_component_board = \<lparr>cb_form = init_component_page, cb_expanded = (\<lambda>_. None), cb_focused = [],
     cb_project = None\<rparr>"

definition board_effect :: "component_site \<Rightarrow> component_site" where
  "board_effect s =
     (let i = map_option pj_id (site_project s)
      in if i = cb_project (cs_page s) then s
         else on_page (\<lambda>b. b\<lparr>cb_project := i, cb_expanded := expand_effect (site_project s) (cb_expanded b)\<rparr>) s)"

datatype component_action =
    BoardOpened
  | NewComponent
  | ToggleRow ustr
  | ActivateInTree ustr ustr
  | FocusComponent ustr
  | OpenMapCluster ustr
  | ToggleLinkOf ustr ustr
  | TypeComponentName ustr
  | TypeComponentType ustr
  | SaveComponentForm
  | CancelComponentForm
  | EditComponent workspace_component
  | DropComponent ustr

section \<open>The tree\<close>

definition component_row :: "bool \<Rightarrow> bool \<Rightarrow> workspace_component \<Rightarrow> component_action element" where
  "component_row highlighted shown c = El ''div''
     [Attr ''background'' (if highlighted then str ''rgba(59,130,246,0.12)'' else str ''transparent''),
      Attr ''border'' (if highlighted then str ''1px solid var(--accent)'' else str ''1px solid transparent''),
      OnClick (ToggleRow (cp_id c))]
     [span_of (if shown then str ''-'' else str ''+''), span_of (str ''o''), span_of (cp_name c),
      span_of (cp_componentType c)]"

definition node_row :: "ustr \<Rightarrow> cluster_node \<Rightarrow> component_action element" where
  "node_row cluster_id n = El ''div''
     [OnClick (ActivateInTree cluster_id (nd_id n)), Attr ''title'' ([0x8FDB, 0x5165, 0x8282, 0x70B9, 0x20] @ nd_name n)]
     [El ''span'' [Attr ''background'' (nodeDot_color (nd_role n))] [], span_of (nd_name n),
      span_of (roleLabel (nd_role n))]"

definition cluster_row :: "tree_state \<Rightarrow> workspace_cluster \<Rightarrow> component_action element" where
  "cluster_row m k = box
     (El ''div'' [OnClick (ToggleRow (cl_id k))]
        [span_of (if is_open m (cl_id k) then str ''-'' else str ''+''), span_of (str ''o''), span_of (cl_name k),
         span_of (replication_label (cl_replicationType k)), span_of (nat_str (length (cl_nodes k)) @ [0x20, 0x8282, 0x70B9])] #
      shown_if (is_open m (cl_id k)) (map (node_row (cl_id k)) (cl_nodes k)))"

definition component_tree ::
  "ustr list \<Rightarrow> tree_state \<Rightarrow> workspace_project \<Rightarrow> component_action element"
where
  "component_tree highlights m p = box
     (El ''h3'' [] [Text [0x7EC4, 0x4EF6, 0x20, 0x5230, 0x20, 0x96C6, 0x7FA4, 0x20, 0x5230, 0x20, 0x8282, 0x70B9]] #
      shown_if (pj_components p = []) [box [Text [0x6682, 0x65E0, 0x7EC4, 0x4EF6, 0xFF0C, 0x8BF7, 0x5148, 0x521B, 0x5EFA, 0x3002]]] @
      map (\<lambda>c. box (component_row (cp_id c \<in> set highlights) (is_open m (cp_id c)) c #
        shown_if (is_open m (cp_id c)) (map (cluster_row m) (linkedClusters p c)))) (pj_components p))"

section \<open>The map\<close>

definition map_line_element :: "map_line \<Rightarrow> component_action element" where
  "map_line_element l = El ''line''
     [Attr ''x1'' (px (ml_x1 l)), Attr ''y1'' (px (ml_y1 l)), Attr ''x2'' (px (ml_x2 l)), Attr ''y2'' (px (ml_y2 l)),
      Attr ''stroke'' (if ml_active l then str ''#60a5fa'' else str ''#64748b''),
      Attr ''strokeOpacity'' (if ml_active l then str ''0.95'' else str ''0.35''),
      Attr ''strokeWidth'' (if ml_active l then str ''1.5'' else str ''1'')] []"

definition component_figure :: "ustr \<Rightarrow> rat \<Rightarrow> workspace_component \<Rightarrow> component_action element" where
  "component_figure focused x c =
     (let here = (focused = cp_id c)
      in El ''g'' [OnClick (FocusComponent (cp_id c))]
        [El ''rect'' [Attr ''x'' (px x), Attr ''y'' (px 46),
           Attr ''fill'' (if here then str ''rgba(59,130,246,0.28)'' else str ''rgba(59,130,246,0.14)''),
           Attr ''stroke'' (if here then str ''#2563eb'' else str ''#3b82f6''),
           Attr ''strokeWidth'' (if here then str ''2'' else str ''1'')] [],
         El ''text'' [Attr ''x'' (px (x + 8)), Attr ''y'' (px 67)] [Text (cp_name c)]])"

definition cluster_figure :: "rat \<Rightarrow> workspace_cluster \<Rightarrow> component_action element" where
  "cluster_figure x k = El ''g'' [OnClick (OpenMapCluster (cl_id k))]
     [El ''rect'' [Attr ''x'' (px x), Attr ''y'' (px 150)] [],
      El ''text'' [Attr ''x'' (px (x + 8)), Attr ''y'' (px 171)] [Text (cl_name k)]]"

text \<open>The boxes in their order, each at its place.\<close>

definition placed :: "(rat \<Rightarrow> 'x \<Rightarrow> 'a element) \<Rightarrow> 'x list \<Rightarrow> 'a element list" where
  "placed f xs = map2 f (map (map_x (length xs)) [0..<length xs]) xs"

definition component_map :: "ustr \<Rightarrow> workspace_project \<Rightarrow> component_action element" where
  "component_map focused p = El ''svg'' []
     (map map_line_element (map_lines p focused) @ placed (component_figure focused) (pj_components p) @
      placed cluster_figure (pj_clusters p))"

section \<open>The matrix and the details\<close>

definition link_button :: "workspace_component \<Rightarrow> workspace_cluster \<Rightarrow> component_action element" where
  "link_button c k =
     (let linked = (cl_id k \<in> set (cp_linkedClusterIds c))
      in El ''button'' [OnClick (ToggleLinkOf (cp_id c) (cl_id k)),
           Attr ''background'' (if linked then str ''var(--accent)'' else str ''var(--bg)''),
           Attr ''color'' (if linked then str ''#fff'' else str ''var(--text-muted)''),
           Attr ''borderColor'' (if linked then str ''var(--accent)'' else str ''var(--border)'')]
         [Text (matrix_cell c k)])"

definition matrix_row :: "ustr list \<Rightarrow> workspace_cluster list \<Rightarrow> workspace_component \<Rightarrow> component_action element" where
  "matrix_row highlights ks c = El ''tr''
     [Attr ''background'' (if cp_id c \<in> set highlights then str ''rgba(59,130,246,0.08)'' else [])]
     (El ''td'' [] [span_of (cp_name c)] # map (\<lambda>k. El ''td'' [] [link_button c k]) ks)"

definition link_matrix :: "ustr list \<Rightarrow> workspace_project \<Rightarrow> component_action element" where
  "link_matrix highlights p = box
     (El ''h3'' [] [Text [0x7EC4, 0x4EF6, 0x5230, 0x96C6, 0x7FA4, 0x5173, 0x8054, 0x77E9, 0x9635]] #
      shown_if (pj_clusters p \<noteq> [])
        [box [El ''table'' []
          [El ''thead'' [] [El ''tr'' []
             (El ''th'' [] [Text [0x7EC4, 0x4EF6]] # map (\<lambda>k. El ''th'' [] [Text (cl_name k)]) (pj_clusters p))],
           El ''tbody'' [] (map (matrix_row highlights (pj_clusters p)) (pj_components p))]]])"

definition type_options :: "(ustr \<times> ustr) list" where
  "type_options = zip offered_types [[0x6570, 0x636E, 0x91C7, 0x96C6, 0x5668], [0x76D1, 0x63A7, 0x544A, 0x8B66], [0x5907, 0x4EFD, 0x5DE5, 0x5177], [0x4EE3, 0x7406, 0x670D, 0x52A1], [0x7F51, 0x5173, 0x670D, 0x52A1]]"

definition component_form_box :: "component_page \<Rightarrow> component_action element" where
  "component_form_box f = box
     [box [El ''label'' [] [Text [0x7EC4, 0x4EF6, 0x540D, 0x79F0]], input_of (cf_editingComponentName f) TypeComponentName],
      box [El ''label'' [] [Text [0x7EC4, 0x4EF6, 0x7C7B, 0x578B]],
        select_of type_options (cf_editingComponentType f) TypeComponentType],
      box [button SaveComponentForm [0x4FDD, 0x5B58], button CancelComponentForm [0x53D6, 0x6D88]]]"

definition component_summary :: "workspace_project \<Rightarrow> workspace_component \<Rightarrow> component_action element" where
  "component_summary p c = box
     [box [box [Text (cp_name c)],
        box [Text ([0x7C7B, 0x578B, 0x3A, 0x20] @ cp_componentType c @ (str '' | '' @ [0x5173, 0x8054, 0x96C6, 0x7FA4, 0x3A, 0x20]) @
          nat_str (length (linkedClusters p c)) @ [0x20, 0x4E2A])]],
      box [button (EditComponent c) [0x7F16, 0x8F91], button (DropComponent (cp_id c)) [0x5220, 0x9664]]]"

definition detail_row ::
  "ustr list \<Rightarrow> component_page \<Rightarrow> workspace_project \<Rightarrow> workspace_component \<Rightarrow> component_action element"
where
  "detail_row highlights f p c = El ''div''
     [Attr ''borderColor'' (if cp_id c \<in> set highlights then str ''var(--accent)'' else str ''var(--border)'')]
     [if cp_id c = cf_editingComponentId f then component_form_box f else component_summary p c]"

definition component_details ::
  "ustr list \<Rightarrow> component_page \<Rightarrow> workspace_project \<Rightarrow> component_action element"
where
  "component_details highlights f p = box
     (El ''h3'' [] [Text [0x7EC4, 0x4EF6, 0x8BE6, 0x60C5]] # map (detail_row highlights f p) (pj_components p))"

definition component_view :: "component_site \<Rightarrow> component_action element" where
  "component_view s =
     (let b = cs_page s; hs = ap_highlightedComponentIds (cs_app s)
      in box
        (box [El ''h2'' [] [Text [0x7EC4, 0x4EF6, 0x4E3B, 0x9875]], button NewComponent [0x2B, 0x20, 0x65B0, 0x5EFA, 0x7EC4, 0x4EF6]] #
         (case site_project s of
            None \<Rightarrow> [box [Text [0x8BF7, 0x5148, 0x5728, 0x9879, 0x76EE, 0x4E3B, 0x9875, 0x521B, 0x5EFA, 0x5E76, 0x9009, 0x62E9, 0x9879, 0x76EE, 0x3002]]]
          | Some p \<Rightarrow>
              [box [component_tree hs (cb_expanded b) p,
                 box [box [El ''h3'' [] [Text [0x7EC4, 0x4EF6, 0x8DE8, 0x96C6, 0x7FA4, 0x5173, 0x7CFB, 0x56FE]], component_map (cb_focused b) p],
                   link_matrix hs p, component_details hs (cb_form b) p]]])))"

section \<open>Handlers\<close>

type_synonym component_job = "(component_site, page_env, host_call, reply) job"

definition on_form :: "(component_page \<Rightarrow> component_page) \<Rightarrow> component_site \<Rightarrow> component_site" where
  "on_form f = on_page (\<lambda>b. b\<lparr>cb_form := f (cb_form b)\<rparr>)"

definition form_saved :: "component_site \<Rightarrow> component_site" where
  "form_saved s = (case saveEditComponent (cb_form (cs_page s)) of
     (f, None) \<Rightarrow> on_form (\<lambda>_. f) s
   | (f, Some (i, n, t)) \<Rightarrow> on_form (\<lambda>_. f) (site_op (UpdateComponent i (Some n) (Some t)) s))"

definition board_perform :: "component_action \<Rightarrow> component_site \<Rightarrow> component_job" where
  "board_perform a s0 = (case a of
     BoardOpened \<Rightarrow> Do id Done
   | NewComponent \<Rightarrow> Sample (\<lambda>e. Do (site_op (CreateComponent (en_id e 0))) Done)
   | ToggleRow i \<Rightarrow> Do (on_page (\<lambda>b. b\<lparr>cb_expanded := toggle_row i (cb_expanded b)\<rparr>)) Done
   | ActivateInTree c n \<Rightarrow> Do (on_app (activate_in_tree c)) Done
   | FocusComponent i \<Rightarrow> Do (on_page (\<lambda>b. b\<lparr>cb_focused := i\<rparr>)) Done
   | OpenMapCluster i \<Rightarrow> (case site_project s0 of
       None \<Rightarrow> Done | Some p \<Rightarrow> Do (on_app (map_cluster_clicked p i)) Done)
   | ToggleLinkOf c k \<Rightarrow> Do (site_op (ToggleLink c k)) Done
   | TypeComponentName v \<Rightarrow> Do (on_form (changeComponent (Inl v))) Done
   | TypeComponentType v \<Rightarrow> Do (on_form (changeComponent (Inr v))) Done
   | SaveComponentForm \<Rightarrow> Do form_saved Done
   | CancelComponentForm \<Rightarrow> Do (on_form cancelEditComponent) Done
   | EditComponent c \<Rightarrow> Do (on_form (startEditComponent c)) Done
   | DropComponent i \<Rightarrow> Do (site_op (RemoveComponent i)) Done)"

text \<open>Every handler ends in a new render, after which the effect runs.\<close>

primrec with_effect :: "('s \<Rightarrow> 's) \<Rightarrow> ('s, 'e, 'q, 'r) job \<Rightarrow> ('s, 'e, 'q, 'r) job" where
  "with_effect f Done = Done"
| "with_effect f (Do g j) = Do (\<lambda>s. f (g s)) (with_effect f j)"
| "with_effect f (Sample g) = Sample (\<lambda>e. with_effect f (g e))"
| "with_effect f (Await q k) = Await q (\<lambda>r. with_effect f (k r))"

definition component_perform :: "component_action \<Rightarrow> component_site \<Rightarrow> component_job" where
  "component_perform a s0 = with_effect board_effect (board_perform a s0)"

section \<open>What can be clicked\<close>

lemma acts_component_row [simp]: "acts (component_row h u c) = {ToggleRow (cp_id c)}"
  by (simp add: component_row_def)

lemma acts_node_row [simp]: "acts (node_row k n) = {ActivateInTree k (nd_id n)}"
  by (simp add: node_row_def)

lemma acts_cluster_row:
  "acts (cluster_row m k) = {ToggleRow (cl_id k)} \<union>
     (if is_open m (cl_id k) then (\<lambda>n. ActivateInTree (cl_id k) (nd_id n)) ` set (cl_nodes k) else {})"
  by (auto simp: cluster_row_def)

lemma acts_tree:
  "acts (component_tree hs m p) \<subseteq> range ToggleRow \<union>
     (\<Union>k\<in>set (pj_clusters p). (\<lambda>n. ActivateInTree (cl_id k) (nd_id n)) ` set (cl_nodes k))"
  by (auto simp: component_tree_def acts_cluster_row linkedClusters_def split: if_splits)

lemma acts_placed:
  assumes "\<And>y x. acts (f y x) = g x"
  shows "(\<Union>e\<in>set (placed f xs). acts e) = (\<Union>x\<in>set xs. g x)"
proof -
  have "acts \<circ> (\<lambda>(x, y). f x y) = g \<circ> snd" by (auto simp: assms)
  then have "map acts (placed f xs) = map g (map snd (zip (map (map_x (length xs)) [0..<length xs]) xs))"
    by (simp only: placed_def map_map)
  also have "\<dots> = map g xs" by (subst map_snd_zip) simp_all
  finally have "\<Union>(set (map acts (placed f xs))) = \<Union>(set (map g xs))" by (simp only:)
  then show ?thesis by simp
qed

lemma acts_component_map:
  "acts (component_map f p) = (FocusComponent \<circ> cp_id) ` set (pj_components p) \<union>
     (OpenMapCluster \<circ> cl_id) ` set (pj_clusters p)"
proof -
  have "(\<Union>e\<in>set (placed (component_figure f) (pj_components p)). acts e) =
      (\<Union>c\<in>set (pj_components p). {FocusComponent (cp_id c)})"
    by (rule acts_placed) (simp add: component_figure_def Let_def)
  moreover have "(\<Union>e\<in>set (placed cluster_figure (pj_clusters p)). acts e) =
      (\<Union>k\<in>set (pj_clusters p). {OpenMapCluster (cl_id k)})"
    by (rule acts_placed) (simp add: cluster_figure_def)
  ultimately show ?thesis by (auto simp: component_map_def map_line_element_def)
qed

lemma acts_matrix:
  "acts (link_matrix hs p) =
     (\<Union>c\<in>set (pj_components p). \<Union>k\<in>set (pj_clusters p). {ToggleLinkOf (cp_id c) (cl_id k)})"
  by (auto simp: link_matrix_def matrix_row_def link_button_def Let_def)

lemma acts_detail_row:
  "acts (detail_row hs f p c) =
     (if cp_id c = cf_editingComponentId f
      then range TypeComponentName \<union> TypeComponentType ` fst ` set type_options \<union>
        {SaveComponentForm, CancelComponentForm}
      else {EditComponent c, DropComponent (cp_id c)})"
proof -
  have "acts (component_form_box f) = range TypeComponentName \<union> TypeComponentType ` fst ` set type_options \<union>
      {SaveComponentForm, CancelComponentForm}"
    by (auto simp: component_form_box_def)
  moreover have "acts (component_summary p c) = {EditComponent c, DropComponent (cp_id c)}"
    by (auto simp: component_summary_def)
  ultimately show ?thesis by (simp add: detail_row_def)
qed

lemma acts_details:
  "acts (component_details hs f p) = (\<Union>c\<in>set (pj_components p). acts (detail_row hs f p c))"
  by (simp add: component_details_def)

lemma acts_component_view:
  "acts (component_view s) = {NewComponent} \<union> (\<Union>p\<in>set_option (site_project s).
     acts (component_tree (ap_highlightedComponentIds (cs_app s)) (cb_expanded (cs_page s)) p) \<union>
     acts (component_map (cb_focused (cs_page s)) p) \<union> acts (link_matrix (ap_highlightedComponentIds (cs_app s)) p) \<union>
     acts (component_details (ap_highlightedComponentIds (cs_app s)) (cb_form (cs_page s)) p))"
  by (cases "site_project s") (simp_all add: component_view_def Let_def Un_assoc)

lemma plain_component_tree [simp]: "plain_page (component_tree hs m p)"
  by (simp add: component_tree_def component_row_def cluster_row_def node_row_def)

lemma plain_component_map [simp]: "plain_page (component_map f p)"
  by (auto simp: component_map_def map_line_element_def placed_def component_figure_def cluster_figure_def
      Let_def set_zip)

lemma plain_link_matrix [simp]: "plain_page (link_matrix hs p)"
  by (simp add: link_matrix_def matrix_row_def link_button_def Let_def)

lemma plain_component_details [simp]: "plain_page (component_details hs f p)"
  by (simp add: component_details_def detail_row_def component_form_box_def component_summary_def)

lemma plain_component_view [simp]: "plain_page (component_view s)"
  by (simp add: component_view_def Let_def split: option.split)

text \<open>
  The views and their handlers agree on the links: a cell of the matrix toggles the link whose state it
  shows, and only links of the shown project can be toggled.
\<close>

lemma toggles_in_parts:
  "ToggleLinkOf m k \<notin> acts (component_tree hs e p)" "ToggleLinkOf m k \<notin> acts (component_map f p)"
  "ToggleLinkOf m k \<notin> acts (component_details hs g p)"
  using acts_tree [of hs e p]
  by (auto simp: acts_component_map acts_details acts_detail_row split: if_splits)

lemma toggles_shown_links:
  assumes "ToggleLinkOf m k \<in> acts (component_view s)"
  obtains p where "site_project s = Some p" "m \<in> cp_id ` set (pj_components p)" "k \<in> cl_id ` set (pj_clusters p)"
proof -
  from assms obtain p where p: "site_project s = Some p"
    "ToggleLinkOf m k \<in> acts (link_matrix (ap_highlightedComponentIds (cs_app s)) p)"
    unfolding acts_component_view using toggles_in_parts by auto
  then show ?thesis using that [of p] by (auto simp: acts_matrix)
qed

end
