(* ===== verification/NodeViews.thy ===== *)
theory NodeViews
  imports NodePages NodePage HostView
begin

text \<open>
  The pages of theory \<open>NodePages\<close> as machines: what \<^verbatim>\<open>SQLConsole.tsx\<close>, \<^verbatim>\<open>WALViewer.tsx\<close> and
  \<^verbatim>\<open>CLOGViewer.tsx\<close> render and their handlers with the wait for the answer, under the common header
  \<^verbatim>\<open>NodePageHeader.tsx\<close>. The text of the time of the last render is an argument.
\<close>

section \<open>The header of a page\<close>

definition node_header ::
  "ustr \<Rightarrow> ustr option \<Rightarrow> ustr option \<Rightarrow> 'a element list \<Rightarrow> 'a option \<Rightarrow> 'a element"
where
  "node_header title source updated right back = box
     [box (El ''h2'' [] [Text title] #
        (case header_subtitle source updated of None \<Rightarrow> [] | Some t \<Rightarrow> [box [Text t]])),
      box (shown_if (right \<noteq> []) [box right] @
        (case back of None \<Rightarrow> [] | Some a \<Rightarrow> [button a [0x8FD4, 0x56DE, 0x96C6, 0x7FA4]]))]"

lemma acts_node_header [simp]:
  "acts (node_header t s u r b) = (\<Union>e\<in>set r. acts e) \<union> set_option b"
  by (auto simp: node_header_def split: option.splits if_splits)

lemma plain_node_header [simp]:
  "plain_page (node_header t s u r b) = (\<forall>e\<in>set r. plain_page e)"
  by (auto simp: node_header_def split: option.split)

section \<open>The SQL console\<close>

record console_site =
  cn_store :: pg_state
  cn_console :: sql_console

datatype console_action = ConsoleOpened | ConsoleBack | TypeSql ustr | RunSql | RunSqlByKey | ClearSql
  | StoreChanged pg_state

definition connection_bar :: "pg_state \<Rightarrow> console_action element" where
  "connection_bar st = El ''div''
     [Attr ''background'' (if pg_connected st then str ''var(--green)'' else str ''var(--bg-tertiary)'')]
     [Text (if pg_connected st then [0x5DF2, 0x8FDE, 0x63A5, 0x3A, 0x20] @ nodeLabel (pg_conf st) else [0x672A, 0x8FDE, 0x63A5, 0x8282, 0x70B9])]"

definition console_input :: "pg_state \<Rightarrow> sql_console \<Rightarrow> console_action element" where
  "console_input st s = box
     [El ''textarea'' [Attr ''value'' (sq_sql s), OnInput TypeSql, OnKey ''Ctrl+Enter'' RunSqlByKey] [],
      box [El ''button'' [OnClick RunSql, Disabled (sq_loading s \<or> \<not> pg_connected st)]
             [Text (if sq_loading s then ([0x6267, 0x884C, 0x4E2D] @ str ''...'') else ([0x6267, 0x884C] @ str '' (Ctrl+Enter)''))],
           button ClearSql [0x6E05, 0x7A7A]]]"

definition console_output :: "sql_console \<Rightarrow> console_action element" where
  "console_output s = box
     [box [Text [0x6267, 0x884C, 0x7ED3, 0x679C]],
      El ''pre'' [Attr ''color'' (if starts_with (str ''ERROR'') (sq_output s) then str ''var(--red)''
          else str ''var(--text)'')]
        [Text (if sq_output s = [] then [0x6682, 0x65E0, 0x8F93, 0x51FA] else sq_output s)]]"

definition console_view :: "ustr \<Rightarrow> console_site \<Rightarrow> console_action element" where
  "console_view now s = box
     [node_header (str ''SQL '' @ [0x63A7, 0x5236, 0x53F0]) (Some (str ''/api/execute'')) (Some now) [] (Some ConsoleBack),
      connection_bar (cn_store s), console_input (cn_store s) (cn_console s), console_output (cn_console s)]"

type_synonym console_job = "(console_site, reply \<Rightarrow> ustr, host_call, reply) job"

definition on_console :: "(sql_console \<Rightarrow> sql_console) \<Rightarrow> console_site \<Rightarrow> console_site" where
  "on_console f s = s\<lparr>cn_console := f (cn_console s)\<rparr>"

text \<open>The environment gives the text of whatever exception an answer leads to.\<close>

definition execute_job :: "ustr \<Rightarrow> sql_console \<Rightarrow> console_job" where
  "execute_job base s0 =
     (if trim (sq_sql s0) = [] then Done
      else
        Do (on_console (\<lambda>s. s\<lparr>sq_loading := True, sq_output := []\<rparr>))
        (Await \<lparr>hc_method = POST, hc_url = base @ str ''/api/execute'',
            hc_body = JObj [(str ''sql'', JStr (trim (sq_sql s0)))]\<rparr> (\<lambda>r.
        Sample (\<lambda>exc.
        Do (on_console (\<lambda>s. case any_json r \<bind> normalizeResponse \<bind> response_text of
              Some out \<Rightarrow> s\<lparr>sq_output := out\<rparr>
            | None \<Rightarrow> s\<lparr>sq_output := request_failed (exc r)\<rparr>))
        (Do (on_console (\<lambda>s. s\<lparr>sq_loading := False\<rparr>)) Done)))))"

definition console_perform :: "ustr \<Rightarrow> console_action \<Rightarrow> console_site \<Rightarrow> console_job" where
  "console_perform base a s0 = (case a of
     TypeSql v \<Rightarrow> Do (on_console (\<lambda>s. s\<lparr>sq_sql := v\<rparr>)) Done
   | RunSql \<Rightarrow> execute_job base (cn_console s0)
   | RunSqlByKey \<Rightarrow> execute_job base (cn_console s0)
   | ClearSql \<Rightarrow> Do (on_console (\<lambda>s. s\<lparr>sq_sql := []\<rparr>)) Done
   | StoreChanged st \<Rightarrow> Do (\<lambda>s. s\<lparr>cn_store := st\<rparr>) Done
   | _ \<Rightarrow> Done)"

lemma undisturbed_execute:
  "undisturbed exc (execute_job base (cn_console s)) [r] s =
     (s\<lparr>cn_console := fst (handleExecute exc r (cn_console s))\<rparr>,
      case snd (handleExecute exc r (cn_console s)) of None \<Rightarrow> []
      | Some b \<Rightarrow> [\<lparr>hc_method = POST, hc_url = base @ str ''/api/execute'', hc_body = b\<rparr>])"
  by (simp add: execute_job_def handleExecute_def on_console_def Let_def split: option.split)

lemma plain_console_view [simp]: "plain_page (console_view now s)"
  by (simp add: console_view_def connection_bar_def console_input_def console_output_def)

lemma acts_console_view:
  "acts (console_view now s) = {ConsoleBack, RunSqlByKey, ClearSql} \<union> range TypeSql \<union>
     (if sq_loading (cn_console s) \<or> \<not> pg_connected (cn_store s) then {} else {RunSql})"
  by (auto simp: console_view_def connection_bar_def console_input_def console_output_def)

abbreviation console_reach ::
  "ustr \<Rightarrow> ustr \<Rightarrow> pg_state \<Rightarrow> (console_site, console_action, reply \<Rightarrow> ustr, host_call, reply) page \<Rightarrow> bool"
where
  "console_reach base now st \<equiv>
     page_reach (\<lambda>s. Some (console_view now s)) (\<lambda>_. range StoreChanged) (console_perform base)
       (opened (console_perform base) (\<lambda>_. []) ConsoleOpened
          \<lparr>cn_store = st, cn_console = init_sql_console\<rparr>)"

text \<open>A statement as it is sent: not blank, and without space around it.\<close>

definition statement_call :: "ustr \<Rightarrow> host_call \<Rightarrow> bool" where
  "statement_call base q \<longleftrightarrow> (\<exists>t. t \<noteq> [] \<and> trim t = t \<and>
     q = \<lparr>hc_method = POST, hc_url = base @ str ''/api/execute'', hc_body = JObj [(str ''sql'', JStr t)]\<rparr>)"

lemma execute_sound: "sound (\<lambda>_. True) (statement_call base) (execute_job base s)"
  by (auto simp: execute_job_def statement_call_def intro!: exI [of _ "trim (sq_sql s)"])

interpretation console: page_contract "\<lambda>s. Some (console_view now s)" "\<lambda>_. range StoreChanged"
  "console_perform base" ConsoleOpened "\<lparr>cn_store = st, cn_console = init_sql_console\<rparr>" "\<lambda>_. True"
  "statement_call base" for now base st
proof -
  have "sound (\<lambda>_. True) (statement_call base) (console_perform base a s)" for a s
    by (cases a) (simp_all add: console_perform_def execute_sound)
  then show "page_contract (\<lambda>s. Some (console_view now s)) (\<lambda>_. range StoreChanged) (console_perform base)
      ConsoleOpened \<lparr>cn_store = st, cn_console = init_sql_console\<rparr> (\<lambda>_. True) (statement_call base)"
    by unfold_locales simp_all
qed

text \<open>
  C25. Whatever is typed, clicked and pressed, in whatever order answers come and connections change,
  all that the console ever sends is statements: not blank and without space around them.
\<close>

theorem console_sends_statements:
  assumes "console_reach base now st c" "(a, q) \<in> set (pg_sent c)"
  shows "\<exists>t. t \<noteq> [] \<and> trim t = t \<and>
    q = \<lparr>hc_method = POST, hc_url = base @ str ''/api/execute'', hc_body = JObj [(str ''sql'', JStr t)]\<rparr>"
  using console.reachable_state(2) [OF assms] by (simp add: statement_call_def)

text \<open>
  Two presses of the key in a console without a connection: the button is disabled, the key is not.
\<close>

definition console_do ::
  "console_action \<Rightarrow> (console_site, console_action, reply \<Rightarrow> ustr, host_call, reply) page \<Rightarrow>
   (console_site, console_action, reply \<Rightarrow> ustr, host_call, reply) page"
where
  "console_do a c = proceed (\<lambda>_. []) a (console_perform [] a (pg_state c)) c"

definition twice_by_key :: "(console_site, console_action, reply \<Rightarrow> ustr, host_call, reply) page" where
  "twice_by_key = fold console_do [RunSqlByKey, RunSqlByKey] (opened (console_perform []) (\<lambda>_. [])
     ConsoleOpened \<lparr>cn_store = init_pg_state, cn_console = init_sql_console\<rparr>)"

lemma console_do_reach:
  "console_reach [] now st c \<Longrightarrow> a \<in> acts (console_view now (pg_state c)) \<Longrightarrow>
     console_reach [] now st (console_do a c)"
  unfolding console_do_def by (rule reach_act) auto

lemma twice_by_key_reach: "console_reach [] now init_pg_state twice_by_key"
proof -
  have key: "RunSqlByKey \<in> acts (console_view now s)" for s by (simp add: acts_console_view)
  have "console_reach [] now init_pg_state (console_do RunSqlByKey (console_do RunSqlByKey
      (opened (console_perform []) (\<lambda>_. []) ConsoleOpened \<lparr>cn_store = init_pg_state, cn_console = init_sql_console\<rparr>)))"
    by (intro console_do_reach key reach_start)
  then show ?thesis by (simp add: twice_by_key_def)
qed

lemmas console_evaluation = twice_by_key_def console_do_def console_perform_def execute_job_def opened_def
  proceed_def on_console_def init_sql_console_def init_pg_state_def trim_def is_space_def str_def

lemma key_runs_while_disconnected:
  "length (pg_waiting twice_by_key) = 2 \<and> \<not> pg_connected (cn_store (pg_state twice_by_key))"
  by (simp add: console_evaluation)

text \<open>The answer to one of them ends the display of waiting for both.\<close>

lemma first_answer_ends_waiting:
  "length (pg_waiting (answered (\<lambda>_. []) 0 r twice_by_key)) = 1 \<and>
     \<not> sq_loading (cn_console (pg_state (answered (\<lambda>_. []) 0 r twice_by_key)))"
  by (simp add: answered_def drop_nth_def console_evaluation split: option.split)

theorem console_sends_statements_witness:
  "\<exists>t. t \<noteq> [] \<and> trim t = t \<and> \<lparr>hc_method = POST, hc_url = str ''/api/execute'',
     hc_body = JObj [(str ''sql'', JStr (str ''SELECT 1;''))]\<rparr> =
       \<lparr>hc_method = POST, hc_url = [] @ str ''/api/execute'', hc_body = JObj [(str ''sql'', JStr t)]\<rparr>"
proof -
  have "(RunSqlByKey, \<lparr>hc_method = POST, hc_url = str ''/api/execute'',
      hc_body = JObj [(str ''sql'', JStr (str ''SELECT 1;''))]\<rparr>) \<in> set (pg_sent twice_by_key)"
    by (simp add: console_evaluation)
  from console_sends_statements [OF twice_by_key_reach this] show ?thesis .
qed

section \<open>The WAL viewer\<close>

datatype wal_action = WalOpened | WalBack | TypeLsn ustr | RefreshWal

definition wal_heads :: "ustr list" where
  "wal_heads = [str ''LSN'', str ''RMGR'', str ''Operation'', str ''Info'', str ''XID'', str ''Length'',
     str ''Blocks'']"

text \<open>\<^verbatim>\<open>String(rec.k ?? '')\<close>; a record that is \<^verbatim>\<open>null\<close> makes the rendering fail.\<close>

definition wal_row :: "jsval \<Rightarrow> wal_action element option" where
  "wal_row rec = do {
     cells \<leftarrow> mapM (\<lambda>k. map_option str_or_empty (js_prop rec k))
       [''lsn'', ''rmgrName'', ''operation'', ''info'', ''xid''];
     len \<leftarrow> js_prop rec ''recordLen'';
     payload \<leftarrow> js_prop rec ''payloadLen'';
     blocks \<leftarrow> js_prop rec ''blocks'' \<bind> formatBlocks;
     Some (El ''tr'' [] (map (\<lambda>t. El ''td'' [] [Text t])
       (cells @ [str_or_empty len @ str '' / '' @ to_str (coalesce payload (JNum (jsint 0))), blocks]))) }"

definition wal_body :: "wal_viewer \<Rightarrow> wal_action element option" where
  "wal_body s =
     (if wl_loading s then Some (box [Text ([0x52A0, 0x8F7D, 0x4E2D] @ str ''...'')])
      else if wl_records s = [] then
        Some (box [Text ([0x6682, 0x65E0] @ str '' WAL '' @ [0x6570, 0x636E, 0x3002, 0x8BF7, 0x5148, 0x8FDE, 0x63A5, 0x8282, 0x70B9, 0x5E76, 0x6267, 0x884C, 0x5199, 0x5165] @ str '' SQL'' @ [0xFF08, 0x5982] @ str '' INSERT/UPDATE/DELETE'' @ [0xFF09, 0x3002])])
      else do {
        rows \<leftarrow> mapM wal_row (wl_records s);
        Some (box [El ''table'' []
          [El ''thead'' [] [El ''tr'' [] (map (\<lambda>t. El ''th'' [] [Text t]) wal_heads)],
           El ''tbody'' [] rows]]) })"

definition wal_view :: "ustr \<Rightarrow> wal_viewer \<Rightarrow> wal_action element option" where
  "wal_view now s = do {
     body \<leftarrow> wal_body s;
     Some (box
       [node_header (str ''WAL '' @ [0x8BB0, 0x5F55, 0x67E5, 0x770B]) (Some (str ''/api/wal'')) (Some now) [] (Some WalBack),
        box [input_of (wl_lsn s) TypeLsn, button RefreshWal [0x5237, 0x65B0]], body]) }"

type_synonym wal_job = "(wal_viewer, unit, host_call, reply) job"

definition wal_records_job :: "ustr \<Rightarrow> wal_viewer \<Rightarrow> wal_job" where
  "wal_records_job base s0 =
     Do (\<lambda>s. s\<lparr>wl_loading := True\<rparr>)
     (Await \<lparr>hc_method = GET, hc_url = wal_url base s0, hc_body = JUndef\<rparr> (\<lambda>r.
     Do (\<lambda>s. s\<lparr>wl_records := (case any_json r \<bind> (\<lambda>d. js_prop d ''records'') of
           Some (JArr vs) \<Rightarrow> vs | _ \<Rightarrow> [])\<rparr>)
     (Do (\<lambda>s. s\<lparr>wl_loading := False\<rparr>) Done)))"

definition wal_perform :: "ustr \<Rightarrow> wal_action \<Rightarrow> wal_viewer \<Rightarrow> wal_job" where
  "wal_perform base a s0 = (case a of
     WalOpened \<Rightarrow> wal_records_job base s0
   | WalBack \<Rightarrow> Done
   | TypeLsn v \<Rightarrow> Do (\<lambda>s. s\<lparr>wl_lsn := v\<rparr>) Done
   | RefreshWal \<Rightarrow> wal_records_job base s0)"

lemma undisturbed_wal:
  "undisturbed e (wal_records_job base s) [r] s =
     (fetchWALRecords r s, [\<lparr>hc_method = GET, hc_url = wal_url base s, hc_body = JUndef\<rparr>])"
  by (simp add: wal_records_job_def fetchWALRecords_def split: option.split jsval.split)

lemma wal_row_inert: "wal_row rec = Some x \<Longrightarrow> acts x = {} \<and> unnested c d x"
  by (auto simp: wal_row_def split: Option.bind_splits)

lemma acts_wal_body:
  assumes "wal_body s = Some e"
  shows "acts e = {} \<and> unnested c d e"
proof -
  have "acts y = {} \<and> unnested c d y" if "mapM wal_row (wl_records s) = Some rows" "y \<in> set rows" for rows y
    using mapM_all [OF that(1) _ that(2), of "\<lambda>y. acts y = {} \<and> unnested c d y"] wal_row_inert by blast
  then show ?thesis using assms by (auto simp: wal_body_def split: if_splits Option.bind_splits)
qed

lemma plain_wal_view: "wal_view now s = Some e \<Longrightarrow> plain_page e"
  using acts_wal_body by (auto simp: wal_view_def split: Option.bind_splits)

lemma acts_wal_view: "wal_view now s = Some e \<Longrightarrow> acts e = {WalBack, RefreshWal} \<union> range TypeLsn"
  using acts_wal_body by (auto simp: wal_view_def split: Option.bind_splits)

text \<open>
  The position that is shown and the records need not belong together: the answer to an earlier
  request may come last, and brings the records of the position asked for then.
\<close>

definition wal_do ::
  "wal_action \<Rightarrow> (wal_viewer, wal_action, unit, host_call, reply) page \<Rightarrow>
   (wal_viewer, wal_action, unit, host_call, reply) page"
where
  "wal_do a c = proceed () a (wal_perform [] a (pg_state c)) c"

definition init_wal_viewer :: wal_viewer where
  "init_wal_viewer = \<lparr>wl_records = [], wl_loading = False, wl_lsn = []\<rparr>"

definition two_positions :: "(wal_viewer, wal_action, unit, host_call, reply) page" where
  "two_positions = fold wal_do [TypeLsn (str ''0/2''), RefreshWal]
     (opened (wal_perform []) () WalOpened init_wal_viewer)"

definition records_answer :: "jsval list \<Rightarrow> reply" where
  "records_answer vs = Responded 200 (json_stringify (JObj [(str ''records'', JArr vs)])) []"

lemma late_answer_shows_other_position:
  assumes "json_ok (JObj [(str ''records'', JArr vs)])" "json_ok (JObj [(str ''records'', JArr ws)])"
  shows "map (hc_url \<circ> snd) (pg_sent two_positions) = [str ''/api/wal?lsn='', str ''/api/wal?lsn=0/2'']"
    and "wl_records (pg_state (answered () 0 (records_answer vs) (answered () 1 (records_answer ws) two_positions))) = vs"
    and "wl_lsn (pg_state (answered () 0 (records_answer vs) (answered () 1 (records_answer ws) two_positions))) =
      str ''0/2''"
  using json_parse_stringify [OF assms(1)] json_parse_stringify [OF assms(2)]
  by (simp_all add: two_positions_def wal_do_def wal_perform_def wal_records_job_def opened_def proceed_def
      init_wal_viewer_def wal_url_def answered_def drop_nth_def records_answer_def any_json_def js_prop_def
      field_def str_def)

text \<open>A record that is \<^verbatim>\<open>null\<close> makes the page fail.\<close>

lemma null_record_breaks_page:
  "wl_records s = [JNull] \<Longrightarrow> \<not> wl_loading s \<Longrightarrow> wal_view now s = None"
  by (simp add: wal_view_def wal_body_def wal_row_def js_prop_def)

section \<open>The CLOG viewer\<close>

datatype clog_action = ClogTick | ClogBack

text \<open>\<^verbatim>\<open>STATUS_COLORS[key] || '#7d8590'\<close>; the names every object inherits are not looked for.\<close>

definition status_colors :: "(ustr \<times> ustr) list" where
  "status_colors = [(str ''in-progress'', str ''#7d8590''), (str ''committed'', str ''#3fb950''),
     (str ''aborted'', str ''#f85149''), (str ''subtrans'', str ''#d29922'')]"

definition status_color :: "ustr \<Rightarrow> ustr" where
  "status_color key = (case map_of status_colors key of Some c \<Rightarrow> c | None \<Rightarrow> str ''#7d8590'')"

definition status_label_texts :: "ustr list" where
  "status_label_texts = [[0x8FDB, 0x884C, 0x4E2D], [0x5DF2, 0x63D0, 0x4EA4], [0x5DF2, 0x4E2D, 0x6B62], [0x5B50, 0x4E8B, 0x52A1]]"

definition clog_card :: "clog_stats \<Rightarrow> ustr \<times> ustr \<Rightarrow> clog_action element" where
  "clog_card st kl = box
     [El ''div'' [Attr ''color'' (status_color (fst kl))] [Text (nat_str (card_count st (fst kl)))],
      box [Text (snd kl)]]"

definition transaction_cell :: "jsval \<Rightarrow> clog_action element option" where
  "transaction_cell tx = do {
     xid \<leftarrow> js_prop tx ''xid'';
     st \<leftarrow> js_prop tx ''status'';
     Some (El ''div'' [Attr ''title'' (str ''XID '' @ to_str xid @ str '': '' @ to_str st),
       Attr ''background'' (status_color (to_str st))] []) }"

definition legend_entry :: "ustr \<times> ustr \<Rightarrow> clog_action element" where
  "legend_entry kl = El ''span'' []
     [El ''span'' [Attr ''background'' (status_color (fst kl))] [], Text (str '' '' @ snd kl)]"

definition clog_body :: "clog_viewer \<Rightarrow> clog_action element option" where
  "clog_body s =
     (if cv_loading s then Some (box [Text ([0x52A0, 0x8F7D, 0x4E2D] @ str ''...'')])
      else if cv_transactions s = [] then
        Some (box [Text ([0x6682, 0x65E0] @ str '' CLOG '' @ [0x6570, 0x636E, 0x3002, 0x8BF7, 0x5148, 0x8FDE, 0x63A5, 0x8282, 0x70B9, 0x5E76, 0x6267, 0x884C, 0x4E8B, 0x52A1, 0x63D0, 0x4EA4, 0x2F, 0x56DE, 0x6EDA, 0x64CD, 0x4F5C, 0x3002])])
      else do {
        cells \<leftarrow> mapM transaction_cell (cv_transactions s);
        Some (box [box [Text [0x4E8B, 0x52A1, 0x72B6, 0x6001, 0x77E9, 0x9635, 0xFF08, 0x6BCF, 0x4E2A, 0x65B9, 0x5757, 0x8868, 0x793A, 0x4E00, 0x4E2A, 0x4E8B, 0x52A1, 0xFF09]], box cells,
          box (map legend_entry (zip status_labels status_label_texts))]) })"

definition clog_view :: "ustr \<Rightarrow> clog_viewer \<Rightarrow> clog_action element option" where
  "clog_view now s = do {
     body \<leftarrow> clog_body s;
     Some (box
       [node_header (str ''CLOG '' @ [0x4E8B, 0x52A1, 0x72B6, 0x6001]) (Some (str ''/api/clog'')) (Some now) [] (Some ClogBack),
        box (map (clog_card (cv_stats s)) (zip status_labels status_label_texts)), body]) }"

type_synonym clog_job = "(clog_viewer, unit, host_call, reply) job"

definition clog_answered :: "reply \<Rightarrow> clog_viewer \<Rightarrow> clog_viewer" where
  "clog_answered r s = (fetchCLOGStats r s)\<lparr>cv_loading := cv_loading s\<rparr>"

definition clog_stats_job :: "ustr \<Rightarrow> clog_job" where
  "clog_stats_job base =
     Do (\<lambda>s. s\<lparr>cv_loading := True\<rparr>)
     (Await \<lparr>hc_method = GET, hc_url = base @ str ''/api/clog'', hc_body = JUndef\<rparr> (\<lambda>r.
     Do (clog_answered r)
     (Do (\<lambda>s. s\<lparr>cv_loading := False\<rparr>) Done)))"

definition clog_perform :: "ustr \<Rightarrow> clog_action \<Rightarrow> clog_viewer \<Rightarrow> clog_job" where
  "clog_perform base a s0 = (case a of ClogTick \<Rightarrow> clog_stats_job base | ClogBack \<Rightarrow> Done)"

definition init_clog_viewer :: clog_viewer where
  "init_clog_viewer = \<lparr>cv_stats = no_clog_stats, cv_loading = False, cv_transactions = []\<rparr>"

text \<open>The timer of five seconds asks anew whether or not the last answer has come.\<close>

abbreviation clog_reach ::
  "ustr \<Rightarrow> ustr \<Rightarrow> (clog_viewer, clog_action, unit, host_call, reply) page \<Rightarrow> bool"
where
  "clog_reach base now \<equiv> page_reach (clog_view now) (\<lambda>_. {ClogTick}) (clog_perform base)
     (opened (clog_perform base) () ClogTick init_clog_viewer)"

lemma undisturbed_clog:
  "undisturbed e (clog_stats_job base) [r] s =
     (fetchCLOGStats r s, [\<lparr>hc_method = GET, hc_url = base @ str ''/api/clog'', hc_body = JUndef\<rparr>])"
  by (simp add: clog_stats_job_def clog_answered_def fetchCLOGStats_def split: option.split jsval.split
      Option.bind_split)

text \<open>The numbers shown are those of the transactions shown, each of which has a status.\<close>

definition clog_consistent :: "clog_viewer \<Rightarrow> bool" where
  "clog_consistent s \<longleftrightarrow> (\<exists>sts. mapM (\<lambda>v. js_prop v ''status'') (cv_transactions s) = Some sts \<and>
     cv_stats s = fold count_status sts (no_clog_stats\<lparr>cg_total := length (cv_transactions s)\<rparr>))"

lemma clog_answered_consistent: "clog_consistent s \<Longrightarrow> clog_consistent (clog_answered r s)"
  by (auto simp: clog_answered_def fetchCLOGStats_def clog_consistent_def no_clog_stats_def
      split: option.split Option.bind_splits jsval.splits if_splits)


lemma transaction_cell_total:
  "js_prop v ''status'' = Some st \<Longrightarrow> \<exists>e. transaction_cell v = Some e"
  by (auto simp: transaction_cell_def js_prop_def split: jsval.splits)

lemma consistent_renders:
  assumes "clog_consistent s"
  obtains e where "clog_view now s = Some e"
proof -
  obtain sts where "mapM (\<lambda>v. js_prop v ''status'') (cv_transactions s) = Some sts"
    using assms by (auto simp: clog_consistent_def)
  then have "\<exists>st. js_prop v ''status'' = Some st" if "v \<in> set (cv_transactions s)" for v
    using mapM_defined [OF _ that] by blast
  then obtain cells where "mapM transaction_cell (cv_transactions s) = Some cells"
    using mapM_total [of "cv_transactions s" transaction_cell] transaction_cell_total by blast
  then have "clog_view now s \<noteq> None" by (simp add: clog_view_def clog_body_def)
  then show ?thesis using that by blast
qed

interpretation clog: page_contract "clog_view now" "\<lambda>_. {ClogTick}" "clog_perform base" ClogTick
  init_clog_viewer clog_consistent "\<lambda>q. q = \<lparr>hc_method = GET, hc_url = base @ str ''/api/clog'', hc_body = JUndef\<rparr>"
  for now base
proof -
  have "sound clog_consistent (\<lambda>q. q = \<lparr>hc_method = GET, hc_url = base @ str ''/api/clog'', hc_body = JUndef\<rparr>)
      (clog_perform base a s)" for a s
    by (cases a) (auto simp: clog_perform_def clog_stats_job_def clog_answered_consistent,
      auto simp: clog_consistent_def)
  then show "page_contract (clog_view now) (\<lambda>_. {ClogTick}) (clog_perform base) ClogTick init_clog_viewer
      clog_consistent (\<lambda>q. q = \<lparr>hc_method = GET, hc_url = base @ str ''/api/clog'', hc_body = JUndef\<rparr>)"
    by unfold_locales (simp_all add: clog_consistent_def init_clog_viewer_def no_clog_stats_def)
qed


definition clog_demo :: "reply \<Rightarrow> (clog_viewer, clog_action, unit, host_call, reply) page" where
  "clog_demo r = answered () 0 r (opened (clog_perform []) () ClogTick init_clog_viewer)"

lemma clog_demo_reach: "clog_reach [] now (clog_demo r)"
  unfolding clog_demo_def
  by (intro reach_answer reach_start)
    (simp add: opened_def proceed_def clog_perform_def clog_stats_job_def)

definition two_transactions :: jsval where
  "two_transactions = JObj [(str ''transactions'',
     JArr [JObj [(str ''xid'', JNum (jsint 7)), (str ''status'', JStr (str ''committed''))],
       JObj [(str ''xid'', JNum (jsint 8)), (str ''status'', JStr (str ''aborted''))]])]"


end
