(* ===== verification/NodeHomeView.thy ===== *)
theory NodeHomeView
  imports NodeViews ProjectView
begin

text \<open>
  What \<^verbatim>\<open>components/node/NodeHomeView.tsx\<close> renders and what its handlers do: the numbers of the node, its
  edit form, and the cards that lead to the pages of the connected node.
\<close>

type_synonym node_site = "node_page site"

datatype node_action =
    NodeBack
  | OpenNodeForm
  | TypeInNode node_input
  | SaveNodeForm
  | LeaveNodeForm
  | OpenModule view

section \<open>Rendering\<close>

definition node_page_header :: "node_page \<Rightarrow> cluster_node option \<Rightarrow> ustr \<Rightarrow> node_action element" where
  "node_page_header s n lbl = box
     (box [button NodeBack [0x8FD4, 0x56DE, 0x96C6, 0x7FA4],
        box [El ''h2'' [] [Text (case n of Some x \<Rightarrow> nd_name x | None \<Rightarrow> [0x8282, 0x70B9, 0x603B, 0x89C8])],
          El ''p'' [] [Text lbl]]] #
      shown_if (\<not> nf_isEditing s \<and> n \<noteq> None) [button OpenNodeForm [0x7F16, 0x8F91, 0x8282, 0x70B9]])"

text \<open>The icon and the colour of the first card follow the connection, the class of the second the length of the version.\<close>

definition version_card :: "ustr \<Rightarrow> node_action element" where
  "version_card v = box
     [classed ''div'' (if 20 < length v then str ''version-long'' else []) [Text (if v = [] then str ''-'' else v)],
      box [Text [0x7248, 0x672C]]]"

definition node_stats ::
  "pg_state \<Rightarrow> cluster_node option \<Rightarrow> cluster_node_status option \<Rightarrow> node_action element"
where
  "node_stats st n status = box
     [coloured_card (if pg_connected st then str ''var(--green)'' else str ''var(--red)'')
        (if pg_connected st then [0x5728, 0x7EBF] else [0x79BB, 0x7EBF]) [0x8FDE, 0x63A5, 0x72B6, 0x6001],
      version_card (pg_version st),
      stat_card (case n of Some x \<Rightarrow> nd_role x | None \<Rightarrow> str ''-'') [0x89D2, 0x8272],
      stat_card (if map_option nd_cluster_type n = Some Physical then [0x7269, 0x7406] else [0x903B, 0x8F91]) [0x590D, 0x5236, 0x7C7B, 0x578B],
      stat_card (if map_option ns_in_recovery status = Some True then [0x6062, 0x590D, 0x4E2D] else [0x6B63, 0x5E38]) [0x6062, 0x590D, 0x72B6, 0x6001],
      stat_card (case Option.bind status ns_current_lsn of Some l \<Rightarrow> l | None \<Rightarrow> str ''-'') ([0x5F53, 0x524D] @ str '' LSN'')]"

definition node_form_box :: "node_page \<Rightarrow> node_action element" where
  "node_form_box s = box
     [grouped [0x8282, 0x70B9, 0x540D, 0x79F0] (input_of (nf_editName s) (TypeInNode \<circ> InName)),
      box [grouped [0x4E3B, 0x673A] (input_of (nf_editHost s) (TypeInNode \<circ> InHost)),
        grouped [0x7AEF, 0x53E3] (number_input (nf_editPort s) (TypeInNode \<circ> InPort))],
      box [grouped [0x7528, 0x6237] (input_of (nf_editUser s) (TypeInNode \<circ> InUser)),
        grouped [0x5BC6, 0x7801] (input_of (nf_editPassword s) (TypeInNode \<circ> InPassword))],
      box [grouped [0x6570, 0x636E, 0x5E93] (input_of (nf_editDatabase s) (TypeInNode \<circ> InDatabase)),
        grouped [0x89D2, 0x8272] (select_of role_options (nf_editRole s) (TypeInNode \<circ> InRole))],
      box [button SaveNodeForm [0x4FDD, 0x5B58], button LeaveNodeForm [0x53D6, 0x6D88]]]"

definition node_info :: "pg_config \<Rightarrow> cluster_node_status option \<Rightarrow> node_action element" where
  "node_info cfg status = box
     [box [span_of (host_port (cfg_host cfg) (cfg_port cfg)), span_of (cfg_database cfg)],
      box [stat_of (cfg_user cfg) [0x7528, 0x6237],
        stat_of (case status of Some x \<Rightarrow> num_str (ns_logical_slots x) | None \<Rightarrow> str ''-'') [0x903B, 0x8F91, 0x69FD],
        stat_of (case status of Some x \<Rightarrow> num_str (ns_publications x) | None \<Rightarrow> str ''-'') [0x53D1, 0x5E03]]]"

definition module_texts :: "(ustr \<times> ustr) list" where
  "module_texts =
     [((str ''SQL '' @ [0x63A7, 0x5236, 0x53F0]), ([0x6267, 0x884C] @ str '' SQL'' @ [0xFF0C, 0x67E5, 0x770B, 0x7ED3, 0x679C, 0x4E0E, 0x8017, 0x65F6])), ((str ''WAL '' @ [0x67E5, 0x770B]), (str ''WAL '' @ [0x8BB0, 0x5F55, 0x3001] @ str ''LSN '' @ [0x4F4D, 0x70B9, 0x4E0E, 0x590D, 0x5236, 0x4FE1, 0x606F])),
      ((str ''CLOG '' @ [0x67E5, 0x770B]), [0x4E8B, 0x52A1, 0x63D0, 0x4EA4, 0x2F, 0x56DE, 0x6EDA, 0x72B6, 0x6001, 0x4E0E, 0x7EC6, 0x8282]), ([0x5199, 0x5165, 0x94FE, 0x8DEF], [0x5199, 0x5165, 0x8DEF, 0x5F84, 0x5404, 0x9636, 0x6BB5, 0x72B6, 0x6001, 0x4E0E, 0x8017, 0x65F6]),
      ([0x8BFB, 0x53D6, 0x94FE, 0x8DEF], [0x8BFB, 0x53D6, 0x8DEF, 0x5F84, 0x9636, 0x6BB5, 0x72B6, 0x6001, 0x4E0E, 0x4E8B, 0x4EF6, 0x660E, 0x7EC6]), ([0x4E8B, 0x52A1, 0x94FE, 0x8DEF], [0x4E8B, 0x52A1, 0x6267, 0x884C, 0x94FE, 0x8DEF, 0x9636, 0x6BB5, 0x4E0E, 0x5173, 0x952E, 0x7EC6, 0x8282]),
      ((str ''Buffer '' @ [0x70ED, 0x56FE]), (str ''Buffer '' @ [0x547D, 0x4E2D, 0x3001, 0x810F, 0x9875, 0x4E0E] @ str '' pinned '' @ [0x5206, 0x5E03])), ([0x9501, 0x7B49, 0x5F85, 0x56FE], [0x9501, 0x7B49, 0x5F85, 0x5173, 0x7CFB, 0x3001, 0x963B, 0x585E, 0x94FE, 0x8DEF, 0x4E0E, 0x70ED, 0x70B9]),
      ([0x4E8B, 0x52A1, 0x72B6, 0x6001, 0x673A], [0x4E8B, 0x52A1, 0x72B6, 0x6001, 0x6D41, 0x8F6C, 0x4E0E, 0x5173, 0x952E, 0x9636, 0x6BB5]), ([0x5185, 0x5B58, 0x7ED3, 0x6784], (str ''PGPROC / PGXACT / BufferDesc '' @ [0x7ED3, 0x6784])),
      ([0x6267, 0x884C, 0x8BA1, 0x5212, 0x6811], (str ''EXPLAIN '' @ [0x8BA1, 0x5212, 0x6811, 0x7ED3, 0x6784, 0x4E0E, 0x6210, 0x672C]))]"

definition module_card :: "view \<times> ustr \<times> ustr \<Rightarrow> node_action element" where
  "module_card m = El ''button'' [OnClick (OpenModule (fst m))]
     [box [Text (fst (snd m))], box [Text (snd (snd m))]]"

text \<open>The page of the application passes an empty list of statuses.\<close>

definition node_home_view :: "cluster_node_status list \<Rightarrow> node_site \<Rightarrow> node_action element" where
  "node_home_view statuses s =
     (let cfg = pg_conf (cs_store s); n = selectedNodeConfig (cs_app s); status = nodeStatus cfg statuses
      in box
        [node_page_header (cs_page s) n (nodeLabel cfg), node_stats (cs_store s) n status,
         box [if nf_isEditing (cs_page s) then node_form_box (cs_page s) else node_info cfg status],
         box (map module_card (zip node_modules module_texts))])"

section \<open>Handlers\<close>

type_synonym node_job = "(node_site, page_env, host_call, reply) job"

definition node_form_saved :: "node_site \<Rightarrow> node_site" where
  "node_form_saved s = (case saveEdit (selectedNodeConfig (cs_app s)) (cs_page s) of
     (p, None) \<Rightarrow> on_page (\<lambda>_. p) s
   | (p, Some v) \<Rightarrow> on_page (\<lambda>_. p) (on_app (node_saved (pg_conf (cs_store s)) v) s))"

definition node_home_perform :: "node_action \<Rightarrow> node_site \<Rightarrow> node_job" where
  "node_home_perform a s0 = (case a of
     NodeBack \<Rightarrow> Do (go ClusterHome) Done
   | OpenNodeForm \<Rightarrow> Do (\<lambda>s. on_page (NodePage.startEdit (selectedNodeConfig (cs_app s)) (pg_conf (cs_store s))) s) Done
   | TypeInNode i \<Rightarrow> Do (on_page (type_node i)) Done
   | SaveNodeForm \<Rightarrow> Do node_form_saved Done
   | LeaveNodeForm \<Rightarrow> Do (on_page NodePage.cancelEdit) Done
   | OpenModule v \<Rightarrow> Do (go v) Done)"

section \<open>What can be clicked\<close>

lemma acts_node_page_header [simp]:
  "acts (node_page_header s n l) = {NodeBack} \<union> (if \<not> nf_isEditing s \<and> n \<noteq> None then {OpenNodeForm} else {})"
  by (auto simp: node_page_header_def)

lemma acts_node_numbers [simp]: "acts (node_stats st n status) = {}" "acts (node_info cfg status) = {}"
  by (simp_all add: node_stats_def node_info_def version_card_def)

lemma acts_node_form_box:
  "acts (node_form_box s) \<subseteq> range TypeInNode \<union> {SaveNodeForm, LeaveNodeForm}"
  by (auto simp: node_form_box_def)

lemma acts_modules:
  "(\<Union>m\<in>set (zip node_modules module_texts). acts (module_card m)) = OpenModule ` set node_modules"
proof -
  have "set node_modules = fst ` set (zip node_modules module_texts)"
    by (simp add: node_modules_def module_texts_def)
  then show ?thesis by (auto simp: module_card_def)
qed

lemma acts_node_home_view:
  "acts (node_home_view sts s) = {NodeBack} \<union>
     (if \<not> nf_isEditing (cs_page s) \<and> selectedNodeConfig (cs_app s) \<noteq> None then {OpenNodeForm} else {}) \<union>
     (if nf_isEditing (cs_page s) then acts (node_form_box (cs_page s)) else {}) \<union> OpenModule ` set node_modules"
  using acts_modules by (simp add: node_home_view_def Let_def Un_assoc)

lemma plain_node_home_view [simp]: "plain_page (node_home_view sts s)"
  by (simp add: node_home_view_def node_page_header_def node_stats_def node_info_def node_form_box_def
      version_card_def module_card_def Let_def)

end
