(* ===== verification/DialogView.thy ===== *)
theory DialogView
  imports Dialog HostView
begin

text \<open>
  What \<^verbatim>\<open>components/workspace/TemplateDialog.tsx\<close> renders. A range input offers the values between
  its bounds on its step; the text of a value is a whole decimal number.
\<close>

datatype dialog_action =
    CancelDialog
  | PickTemplate replication_template
  | TypeDialogName ustr
  | SlideNodes int
  | SlideThreshold int
  | TickCollector bool
  | TickAnalyzer bool
  | TickStorage bool
  | TypePattern ustr
  | PickMode create_mode
  | ConfirmDialog

text \<open>All templates, in the order of \<^verbatim>\<open>ALL_TEMPLATES\<close>, and their texts.\<close>

definition ALL_TEMPLATES :: "replication_template list" where
  "ALL_TEMPLATES = [Single, PhysicalRepl, LogicalRepl]"

definition template_description :: "replication_template \<Rightarrow> ustr" where
  "template_description t = (case t of
     PhysicalRepl \<Rightarrow> ([0x4E00, 0x4E3B, 0x591A, 0x4ECE, 0x6D41, 0x590D, 0x5236, 0x67B6, 0x6784, 0xFF0C, 0x652F, 0x6301] @ str '' WAL '' @ [0x91C7, 0x96C6, 0x4E0E, 0x590D, 0x5236, 0x5EF6, 0x8FDF, 0x89C2, 0x6D4B, 0x3002])
   | Single \<Rightarrow> ([0x5355, 0x8282, 0x70B9] @ str '' PostgreSQL'' @ [0xFF0C, 0x9002, 0x5408, 0x5FEB, 0x901F, 0x542F, 0x52A8, 0x4E0E, 0x672C, 0x5730, 0x89C2, 0x6D4B, 0x3002])
   | LogicalRepl \<Rightarrow> ([0x53D1, 0x5E03, 0x2F, 0x8BA2, 0x9605, 0x903B, 0x8F91, 0x590D, 0x5236, 0x67B6, 0x6784, 0xFF0C, 0x652F, 0x6301] @ str '' CDC '' @ [0x573A, 0x666F, 0x89C2, 0x6D4B, 0x3002]))"

definition template_preview :: "replication_template \<Rightarrow> ustr" where
  "template_preview t = (case t of
     PhysicalRepl \<Rightarrow> str ''primary --> standby1'' @ [10] @ str ''primary --> standby2''
   | Single \<Rightarrow> str ''single(primary)''
   | LogicalRepl \<Rightarrow> str ''publisher --> subscriber'')"

definition template_hint :: "replication_template \<Rightarrow> ustr" where
  "template_hint t = (case t of Single \<Rightarrow> [0x5355, 0x8282, 0x70B9, 0x5FEB, 0x901F, 0x89C2, 0x6D4B] | PhysicalRepl \<Rightarrow> [0x4E00, 0x4E3B, 0x591A, 0x4ECE, 0x6D41, 0x590D, 0x5236]
     | LogicalRepl \<Rightarrow> [0x53D1, 0x5E03, 0x8BA2, 0x9605, 0x903B, 0x8F91, 0x590D, 0x5236])"

definition template_card :: "replication_template \<Rightarrow> replication_template \<Rightarrow> dialog_action element" where
  "template_card selected t = El ''div''
     [OnClick (PickTemplate t),
      Attr ''borderColor'' (if selected = t then str ''var(--accent)'' else str ''var(--border)''),
      Attr ''background'' (if selected = t then str ''var(--bg-tertiary)'' else str ''var(--bg)'')]
     ([box [Text (template_name t)], box [Text (template_hint t)]] @
      shown_if (selected = t) [box [Text [0x5DF2, 0x9009, 0x62E9]]])"

definition range_input :: "int list \<Rightarrow> int \<Rightarrow> (int \<Rightarrow> dialog_action) \<Rightarrow> dialog_action element" where
  "range_input vs v f = El ''input''
     [Attr ''value'' (int_str v), OnChoice (map int_str vs) (\<lambda>x. f (int (dec_value x)))] []"

definition node_range :: "template_dialog \<Rightarrow> int list" where
  "node_range d = [min_nodes (td_selected d)..8]"

definition threshold_range :: "int list" where
  "threshold_range = map (\<lambda>i. 5 * i) [1..60]"

definition threshold_value :: "template_dialog \<Rightarrow> int" where
  "threshold_value d = (case tp_alertThresholdSec (td_params d) of Fin q \<Rightarrow> \<lfloor>q\<rfloor> | _ \<Rightarrow> 0)"

definition tick_row :: "bool \<Rightarrow> (bool \<Rightarrow> dialog_action) \<Rightarrow> ustr \<Rightarrow> dialog_action element" where
  "tick_row b f t = El ''label'' [] [checkbox b f, span_of t]"

definition mode_row ::
  "create_mode \<Rightarrow> create_mode \<Rightarrow> ustr \<Rightarrow> ustr \<Rightarrow> dialog_action element"
where
  "mode_row m mode t hint = El ''label'' []
     [El ''input'' [Attr ''checked'' (if m = mode then str ''true'' else []), OnChoice [[]] (\<lambda>_. PickMode m)] [],
      box [box [Text t], box [Text hint]]]"

definition dialog_params :: "template_dialog \<Rightarrow> dialog_action element" where
  "dialog_params d =
     (let p = td_params d
      in box
        [box [Text [0x53C2, 0x6570, 0x914D, 0x7F6E]],
         box [box [span_of [0x8282, 0x70B9, 0x6570, 0x91CF], span_of (int_str (tp_nodeCount p))],
           range_input (node_range d) (tp_nodeCount p) SlideNodes,
           box [span_of (int_str (min_nodes (td_selected d))), span_of (str ''8'')]],
         box [box [span_of [0x590D, 0x5236, 0x5EF6, 0x8FDF, 0x544A, 0x8B66, 0x9608, 0x503C], span_of (num_str (tp_alertThresholdSec p) @ str ''s'')],
           range_input threshold_range (threshold_value d) SlideThreshold,
           box [span_of (str ''5s''), span_of (str ''300s'')]],
         box [box [Text [0x81EA, 0x52A8, 0x521B, 0x5EFA, 0x7EC4, 0x4EF6]], tick_row (tp_createCollector p) TickCollector ([0x91C7, 0x96C6, 0x7EC4, 0x4EF6, 0xFF08] @ str ''collector'' @ [0xFF09]),
           tick_row (tp_createAnalyzer p) TickAnalyzer ([0x5206, 0x6790, 0x7EC4, 0x4EF6, 0xFF08] @ str ''analyzer'' @ [0xFF09]),
           tick_row (tp_createStorage p) TickStorage ([0x5B58, 0x50A8, 0x7EC4, 0x4EF6, 0xFF08] @ str ''storage'' @ [0xFF09])],
         box [box [Text [0x7EC4, 0x4EF6, 0x547D, 0x540D, 0x89C4, 0x5219]], input_of (tp_componentNamePattern p) TypePattern,
           box [Text ([0x53EF, 0x7528, 0x53D8, 0x91CF, 0xFF1A] @ str ''{project}'' @ [0x3001] @ str ''{type}'' @ [0xFF0C, 0x4F8B, 0x5982, 0xFF1A] @ str ''{project}-{type}'')]]])"

definition dialog_view :: "template_dialog \<Rightarrow> dialog_action element" where
  "dialog_view d = El ''div'' [OnClickSelf CancelDialog]
     [box
       [box [El ''h3'' [] [Text [0x521B, 0x5EFA, 0x96C6, 0x7FA4, 0x9879, 0x76EE]], button CancelDialog [0xD7]],
        box
          [box (map (template_card (td_selected d)) ALL_TEMPLATES),
           box [box [Text [0x8BF4, 0x660E]], box [Text (template_description (td_selected d))]],
           box [box [Text [0x62D3, 0x6251, 0x9884, 0x89C8]], box [Text (template_preview (td_selected d))]],
           box [box [Text [0x9879, 0x76EE, 0x540D, 0x79F0]], input_of (td_name d) TypeDialogName],
           dialog_params d,
           box [box [Text [0x521B, 0x5EFA, 0x65B9, 0x5F0F]],
             mode_row CreateMode (td_mode d) [0x771F, 0x5B9E, 0x521B, 0x5EFA, 0x96C6, 0x7FA4] ([0x8C03, 0x7528, 0x540E, 0x7AEF] @ str '' provision'' @ [0xFF0C, 0x62C9, 0x8D77, 0x771F, 0x5B9E] @ str '' PostgreSQL '' @ [0x5BB9, 0x5668]),
             mode_row PreviewMode (td_mode d) [0x4EC5, 0x9884, 0x89C8, 0x6A21, 0x677F] ([0x67E5, 0x770B, 0x96C6, 0x7FA4, 0x62D3, 0x6251, 0x7ED3, 0x6784, 0xFF0C, 0x4E0D, 0x8C03, 0x7528, 0x540E, 0x7AEF, 0xFF0C, 0x4E0D, 0x5199, 0x5165] @ str '' workspace'')]],
        box [button CancelDialog [0x53D6, 0x6D88],
          button ConfirmDialog (if td_mode d = PreviewMode then [0x9884, 0x89C8] else [0x521B, 0x5EFA])]]]"

text \<open>What the inputs do to the dialog itself; leaving it is the page's business.\<close>

definition dialog_input :: "dialog_action \<Rightarrow> template_dialog \<Rightarrow> template_dialog" where
  "dialog_input a d = (case a of
     PickTemplate t \<Rightarrow> handleSelect t d
   | TypeDialogName v \<Rightarrow> typeName v d
   | SlideNodes v \<Rightarrow> slideNodes v d
   | SlideThreshold v \<Rightarrow> slideThreshold v d
   | TickCollector b \<Rightarrow> checkCollector b d
   | TickAnalyzer b \<Rightarrow> checkAnalyzer b d
   | TickStorage b \<Rightarrow> checkStorage b d
   | TypePattern v \<Rightarrow> typePattern v d
   | PickMode m \<Rightarrow> chooseMode m d
   | _ \<Rightarrow> d)"

section \<open>What can be entered\<close>

lemma plain_dialog_view [simp]: "plain_page (dialog_view d)"
  by (simp add: dialog_view_def template_card_def dialog_params_def range_input_def tick_row_def mode_row_def Let_def)


lemma acts_range_input: "\<forall>v\<in>set vs. 0 \<le> v \<Longrightarrow> acts (range_input vs w f) = f ` set vs"
proof -
  assume nonneg: "\<forall>v\<in>set vs. 0 \<le> v"
  then have "(\<lambda>v. f (int (dec_value (int_str v)))) ` set vs = f ` set vs"
    by (intro image_cong refl) (auto simp: int_str_def)
  then show ?thesis by (simp add: range_input_def image_image)
qed

lemma acts_sliders:
  "acts (range_input (node_range d) v SlideNodes) = SlideNodes ` set (node_range d)"
  "acts (range_input threshold_range v SlideThreshold) = SlideThreshold ` set threshold_range"
  by (rule acts_range_input; simp add: node_range_def min_nodes_def threshold_range_def)+

lemma acts_dialog_params:
  "acts (dialog_params d) = SlideNodes ` set (node_range d) \<union> SlideThreshold ` set threshold_range \<union>
     range TickCollector \<union> range TickAnalyzer \<union> range TickStorage \<union> range TypePattern"
  by (simp add: dialog_params_def tick_row_def acts_sliders Let_def Un_assoc)

lemma dialog_cards: "acts (template_card s t) = {PickTemplate t}"
  by (auto simp: template_card_def)

lemma acts_dialog_view:
  assumes "a \<in> acts (dialog_view d)"
  shows "a \<in> {CancelDialog, ConfirmDialog} \<union> range PickTemplate \<union> range TypeDialogName \<union> range PickMode \<union>
    acts (dialog_params d)"
  using assms by (auto simp: dialog_view_def dialog_cards mode_row_def)

lemma threshold_range_values: "v \<in> set threshold_range \<Longrightarrow> 5 \<le> v \<and> v \<le> 300 \<and> 5 dvd v"
  by (auto simp: threshold_range_def)

text \<open>Everything the rendered dialog offers is a step of theory \<open>Dialog\<close>: the sliders keep their bounds.\<close>

lemma dialog_actions_step:
  assumes "a \<in> acts (dialog_view d)" "a \<notin> {CancelDialog, ConfirmDialog}"
  shows "dialog_step d (dialog_input a d)"
proof -
  consider t where "a = PickTemplate t" | v where "a = TypeDialogName v" | m where "a = PickMode m"
    | "a \<in> acts (dialog_params d)"
    using acts_dialog_view [OF assms(1)] assms(2) by auto
  then show ?thesis
  proof cases
    case 4
    then consider v where "a = SlideNodes v" "v \<in> set (node_range d)"
      | v where "a = SlideThreshold v" "v \<in> set threshold_range" | b where "a = TickCollector b"
      | b where "a = TickAnalyzer b" | b where "a = TickStorage b" | v where "a = TypePattern v"
      unfolding acts_dialog_params by auto
    then show ?thesis
      by cases (use threshold_range_values in
        \<open>auto simp: dialog_input_def node_range_def intro!: dialog_step.intros\<close>)
  qed (auto simp: dialog_input_def intro: dialog_step.intros)
qed

end
