(* ===== verification/FrameView.thy ===== *)
theory FrameView
  imports NodePage TaskPanel Handlers
begin

text \<open>
  What \<^verbatim>\<open>App.tsx\<close> puts around every page, header, bar of the task with the panel of recent tasks,
  notice, breadcrumb, the button of the panel and footer, and \<^verbatim>\<open>ToastNotification.tsx\<close>.
\<close>

datatype frame_action =
    RefreshTask
  | FlipPanel
  | CloseTask
  | ChooseTasks task_filter
  | LeaveForClusters

section \<open>Header and footer\<close>

definition header_view :: "bool \<Rightarrow> ustr \<Rightarrow> bool \<Rightarrow> 'a element" where
  "header_view conn version ws = El ''header'' []
     [box [span_of (str ''PG Kernel Visualizer'')],
      box [span_of (header_version version),
        El ''span'' [Attr ''background'' (if conn then str ''var(--green)'' else str ''var(--red)'')] [],
        span_of (if conn then [0x5DF2, 0x8FDE, 0x63A5] else [0x672A, 0x8FDE, 0x63A5]),
        El ''span'' [Attr ''background'' (if ws then str ''var(--accent)'' else str ''var(--text-muted)'')] [],
        span_of (if ws then [0x4E8B, 0x4EF6, 0x6D41, 0x5728, 0x7EBF] else [0x4E8B, 0x4EF6, 0x6D41, 0x79BB, 0x7EBF])]]"

definition footer_view :: "bool \<Rightarrow> bool \<Rightarrow> nat \<Rightarrow> ustr \<Rightarrow> ustr \<Rightarrow> 'a element" where
  "footer_view conn ws count mode last_type = El ''footer'' []
     [span_of (str ''PG Kernel Visualizer v0.1.0''), span_of (status_text conn ws count mode last_type)]"

section \<open>The bar of the task\<close>

text \<open>
  A value among the children of an element: text and numbers are shown, \<^verbatim>\<open>undefined\<close>, \<^verbatim>\<open>null\<close> and
  truth values are not; what other values lead to is not modelled. Inside a template literal every
  value has its text.
\<close>

definition child_text :: "jsval \<Rightarrow> ustr option" where
  "child_text v = (case v of
     JUndef \<Rightarrow> Some [] | JNull \<Rightarrow> Some [] | JBool b \<Rightarrow> Some [] | JNum n \<Rightarrow> Some (num_str n)
   | JStr s \<Rightarrow> Some s | _ \<Rightarrow> None)"

definition label_text :: "jsval \<Rightarrow> ustr option" where
  "label_text st = (case st of JStr s \<Rightarrow> Some (taskStatusLabel s) | _ \<Rightarrow> child_text st)"

text \<open>Times are whole milliseconds; with others the duration is not modelled.\<close>

definition as_time :: "jsval \<Rightarrow> int option option" where
  "as_time v = (case v of JUndef \<Rightarrow> Some None | JNull \<Rightarrow> Some None | _ \<Rightarrow> map_option Some (as_int v))"

definition duration_of :: "int \<Rightarrow> provision_task \<Rightarrow> int option" where
  "duration_of now t = do {
     a \<leftarrow> as_time (pv_startedAt t);
     b \<leftarrow> as_time (pv_finishedAt t);
     Some (taskDurationSec now a b) }"

definition elapsed_text :: "int \<Rightarrow> provision_task \<Rightarrow> ustr option" where
  "elapsed_text now t =
     (if truthy (pv_startedAt t) then map_option (\<lambda>d. [0x8017, 0x65F6, 0x20] @ int_str d @ str ''s'') (duration_of now t)
      else Some [])"

definition bar_class :: "jsval \<Rightarrow> ustr" where
  "bar_class st = (if st = JStr (str ''failed'') then str ''task-bar-failed''
     else if st = JStr (str ''success'') then str ''task-bar-success'' else str ''task-bar-running'')"

definition dot :: ustr where "dot = [0x20, 0xB7, 0x20]"

definition filter_options :: "(task_filter \<times> ustr) list" where
  "filter_options = [(AllTasks, [0x5168, 0x90E8]), (RunningTasks, [0x8FDB, 0x884C, 0x4E2D]), (SuccessTasks, [0x6210, 0x529F]), (FailedTasks, [0x5931, 0x8D25])]"

text \<open>The values of the options, which are not the texts sent to the backend.\<close>

definition filter_value :: "task_filter \<Rightarrow> ustr" where
  "filter_value f = (case f of AllTasks \<Rightarrow> str ''all'' | RunningTasks \<Rightarrow> str ''running''
     | SuccessTasks \<Rightarrow> str ''success'' | FailedTasks \<Rightarrow> str ''failed'')"

definition filter_of :: "ustr \<Rightarrow> task_filter" where
  "filter_of v = (if v = str ''running'' then RunningTasks else if v = str ''success'' then SuccessTasks
     else if v = str ''failed'' then FailedTasks else AllTasks)"

definition task_item :: "int \<Rightarrow> provision_task \<Rightarrow> frame_action element option" where
  "task_item now t = do {
     i \<leftarrow> child_text (pv_taskId t);
     st \<leftarrow> label_text (pv_status t);
     pg \<leftarrow> child_text (pv_progress t);
     m \<leftarrow> child_text (or_js (pv_message t) (JStr (str ''-'')));
     d \<leftarrow> duration_of now t;
     Some (classed ''div'' (if pv_status t = JStr (str ''failed'') then str ''task-item-failed'' else [])
       [box [Text (i @ dot @ st @ dot @ pg @ str ''%'')], box [Text m],
        box [Text ([0x8017, 0x65F6, 0x3A, 0x20] @ int_str d @ str ''s'' @
          (if truthy (pv_projectId t) then dot @ [0x9879, 0x76EE, 0x3A, 0x20] @ to_str (pv_projectId t) else []) @
          (if truthy (pv_clusterId t) then dot @ [0x96C6, 0x7FA4, 0x3A, 0x20] @ to_str (pv_clusterId t) else []))]]) }"

definition recent_panel :: "int \<Rightarrow> task_filter \<Rightarrow> provision_task list \<Rightarrow> frame_action element option" where
  "recent_panel now f tasks = do {
     items \<leftarrow> mapM (task_item now) tasks;
     Some (box
       ([box [span_of [0x7B5B, 0x9009], select_of (map (\<lambda>(g, t). (filter_value g, t)) filter_options) (filter_value f)
            (ChooseTasks \<circ> filter_of)]] @
        shown_if (tasks = []) [box [Text [0x6682, 0x65E0, 0x5386, 0x53F2, 0x4EFB, 0x52A1]]] @ items)) }"

text \<open>The width of the progress bar, for a progress that is a whole number.\<close>

definition bar_width :: "jsval \<Rightarrow> ustr option" where
  "bar_width v = map_option (\<lambda>p. int_str (progress_percent p) @ str ''%'') (as_int v)"

definition task_bar :: "int \<Rightarrow> app_state \<Rightarrow> provision_task \<Rightarrow> frame_action element option" where
  "task_bar now a t = do {
     i \<leftarrow> child_text (pv_taskId t);
     st \<leftarrow> label_text (pv_status t);
     pg \<leftarrow> child_text (pv_progress t);
     m \<leftarrow> child_text (pv_message t);
     e \<leftarrow> elapsed_text now t;
     w \<leftarrow> bar_width (pv_progress t);
     panel \<leftarrow> (if ap_showRecentTasks a
       then map_option (\<lambda>x. [x]) (recent_panel now (ap_recentTaskFilter a) (ap_recentTasks a)) else Some []);
     Some (classed ''div'' (bar_class (pv_status t))
       ([box [Text ([0x4EFB, 0x52A1, 0x20] @ i @ dot @ st @ dot @ pg @ str ''%'' @ dot @ m)],
         box [span_of e, box [button RefreshTask [0x5237, 0x65B0], button FlipPanel [0x6700, 0x8FD1, 0x4EFB, 0x52A1], button CloseTask [0x5173, 0x95ED]]],
         box [El ''div'' [Attr ''width'' w] []]] @ panel)) }"

section \<open>The frame\<close>

definition panel_button :: "app_state \<Rightarrow> frame_action element" where
  "panel_button a =
     (let n = length (filter (\<lambda>t. pv_status t = JStr (str ''running'')) (ap_recentTasks a))
      in button FlipPanel ([0x4EFB, 0x52A1, 0x20] @ (if 0 < n then str ''('' @ nat_str n @ str '')'' else [])))"

definition no_node_page :: "frame_action element" where
  "no_node_page = box
     [El ''h2'' [] [Text [0x5F53, 0x524D, 0x6CA1, 0x6709, 0x6FC0, 0x6D3B, 0x8282, 0x70B9]], El ''p'' [] [Text [0x8BF7, 0x5148, 0x5728, 0x96C6, 0x7FA4, 0x4E3B, 0x9875, 0x6FC0, 0x6D3B, 0x8282, 0x70B9, 0xFF0C, 0x518D, 0x8FDB, 0x5165, 0x8282, 0x70B9, 0x89C2, 0x6D4B, 0x6A21, 0x5757, 0x3002]],
      button LeaveForClusters [0x8FD4, 0x56DE, 0x96C6, 0x7FA4, 0x4E3B, 0x9875]]"

definition above_page :: "int \<Rightarrow> pg_config \<Rightarrow> app_state \<Rightarrow> frame_action element list option" where
  "above_page now cfg a = do {
     bar \<leftarrow> (case ap_provisionTask a of None \<Rightarrow> Some [] | Some t \<Rightarrow> map_option (\<lambda>x. [x]) (task_bar now a t));
     Some (bar @ shown_if (ap_workspaceSyncError a \<noteq> []) [box [Text (ap_workspaceSyncError a)]] @
       [box [Text (breadcrumb_text cfg a)]]) }"

section \<open>The toast\<close>

definition toast_colour :: "provision_task option \<Rightarrow> string \<Rightarrow> ustr" where
  "toast_colour t suffix =
     (if has_status ''running'' t then str (''var(--blue'' @ suffix @ '')'')
      else if has_status ''success'' t then str (''var(--green'' @ suffix @ '')'')
      else str (''var(--red'' @ suffix @ '')''))"

text \<open>The first eight units of the id of the project, which is taken to be a string.\<close>

definition short_project :: "provision_task option \<Rightarrow> ustr" where
  "short_project t = (case map_option pv_projectId t of
     Some (JStr s) \<Rightarrow> if s = [] then str ''-'' else take 8 s @ str ''...'' | _ \<Rightarrow> str ''-'')"

definition toast_view :: "toast \<Rightarrow> unit element option option" where
  "toast_view s =
     (if \<not> to_visible s then Some None
      else
        (let t = to_task s; running = has_status ''running'' t;
             progress = (case t of Some x \<Rightarrow> coalesce (pv_progress x) (JNum (jsint 0)) | None \<Rightarrow> JNum (jsint 0))
         in do {
           m \<leftarrow> child_text (or_js (case t of Some x \<Rightarrow> pv_message x | None \<Rightarrow> JUndef) (JStr ([0x5904, 0x7406, 0x4E2D] @ str ''...'')));
           pg \<leftarrow> child_text progress;
           Some (Some (El ''div''
             [Attr ''opacity'' (if to_exiting s then str ''0'' else str ''1''),
              Attr ''transform'' (if to_exiting s then str ''translateX(120%)'' else str ''translateX(0)'')]
             [El ''div'' [Attr ''background'' (toast_colour t ''-bg'')]
                [El ''span'' [Attr ''color'' (toast_colour t '''')]
                   [Text (if running then [0x8FDB, 0x884C, 0x4E2D] else if has_status ''success'' t then [0x6210, 0x529F] else [0x5931, 0x8D25])],
                 button () [0xD7]],
              box ([box [Text m]] @
                shown_if running
                  [box [El ''div'' [Attr ''width'' (to_str progress @ str ''%'')] []],
                   box [span_of (pg @ str ''%''), span_of ([0x9879, 0x76EE, 0x3A, 0x20] @ short_project t)]] @
                shown_if (has_status ''failed'' t) [box [Text [0x70B9, 0x51FB, 0x67E5, 0x770B, 0x8BE6, 0x60C5]]] @
                shown_if (has_status ''success'' t) [box [Text [0x4EFB, 0x52A1, 0x5DF2, 0x5B8C, 0x6210]]])])) }))"

section \<open>What can be clicked\<close>

lemma filter_value_of [simp]: "filter_of (filter_value f) = f"
  by (cases f) (simp_all add: filter_of_def filter_value_def str_def)

lemma task_item_inert: "task_item now t = Some e \<Longrightarrow> acts e = {} \<and> unnested c d e"
  by (auto simp: task_item_def split: Option.bind_splits)

lemma recent_panel_acts:
  assumes "recent_panel now f tasks = Some e"
  shows "acts e = range ChooseTasks \<and> unnested c d e"
proof -
  from assms obtain items where items: "mapM (task_item now) tasks = Some items"
    and e: "e = box
       ([box [span_of [0x7B5B, 0x9009], select_of (map (\<lambda>(g, t). (filter_value g, t)) filter_options) (filter_value f)
            (ChooseTasks \<circ> filter_of)]] @
        shown_if (tasks = []) [box [Text [0x6682, 0x65E0, 0x5386, 0x53F2, 0x4EFB, 0x52A1]]] @ items)"
    by (auto simp: recent_panel_def split: Option.bind_splits)
  have "acts x = {} \<and> unnested c d x" if "x \<in> set items" for x
    using mapM_all [OF items _ that, of "\<lambda>x. acts x = {} \<and> unnested c d x"] task_item_inert by blast
  moreover have "range ChooseTasks = {ChooseTasks AllTasks, ChooseTasks RunningTasks, ChooseTasks SuccessTasks,
      ChooseTasks FailedTasks}"
    by (auto simp: image_iff) (metis task_filter.exhaust)
  ultimately show ?thesis by (auto simp: e filter_options_def)
qed

lemma task_bar_acts:
  assumes "task_bar now a t = Some e"
  shows "acts e = {RefreshTask, FlipPanel, CloseTask} \<union> (if ap_showRecentTasks a then range ChooseTasks else {})"
    and "plain_page e"
  using assms recent_panel_acts
  by (auto simp: task_bar_def split: Option.bind_splits if_splits)

lemma above_page_acts:
  assumes "above_page now cfg a = Some es"
  shows "(\<Union>e\<in>set es. acts e) = (if ap_provisionTask a = None then {} else {RefreshTask, FlipPanel, CloseTask} \<union>
      (if ap_showRecentTasks a then range ChooseTasks else {}))"
    and "\<forall>e\<in>set es. plain_page e"
  using assms task_bar_acts
  by (auto simp: above_page_def split: Option.bind_splits option.splits if_splits)

lemma toast_acts: "toast_view s = Some (Some e) \<Longrightarrow> acts e = {()} \<and> plain_page e"
  by (auto simp: toast_view_def Let_def split: Option.bind_splits if_splits)

text \<open>
  The panel of recent tasks is part of the bar of the current task: without a task the button that
  opens it shows nothing, although the requests of the open panel go on.
\<close>

lemma panel_needs_task:
  "ap_provisionTask a = None \<Longrightarrow> above_page now cfg a = Some es \<Longrightarrow> ChooseTasks f \<notin> (\<Union>e\<in>set es. acts e)"
  using above_page_acts(1) by fastforce

end
