(* ===== verification/Drawings.thy ===== *)
theory Drawings
  imports Handlers
begin

text \<open>
  Drawings that an effect makes in an \<^verbatim>\<open>svg\<close> element after a render: the shapes that d3 appends,
  with their numbers, their colours and their handlers, and the rule of \<^verbatim>\<open>useEffect\<close> that decides
  when a drawing is made anew. Interpolators, outlines and forces of d3 are arguments where a
  drawing uses them.
\<close>

section \<open>Shapes\<close>

text \<open>Tag, numeric attributes, other attributes, handlers by event, text and parts.\<close>

datatype 'a figure =
  Shape string "(string \<times> rat) list" "(string \<times> ustr) list" "(string \<times> 'a) list" ustr "'a figure list"

text \<open>Handlers of the pointer other than a click are kept by the name of their event.\<close>

definition event_attr :: "string \<times> 'a \<Rightarrow> 'a attribute" where
  "event_attr ka = (if fst ka = ''click'' then OnClick (snd ka) else OnKey (fst ka) (snd ka))"

definition paint_attr :: "string \<times> ustr \<Rightarrow> 'a attribute" where
  "paint_attr kv = Attr (fst kv) (snd kv)"

fun figure_element :: "'a figure \<Rightarrow> 'a element" where
  "figure_element (Shape t geo paint on txt fs) =
     El t (map paint_attr paint @ map event_attr on)
       (shown_if (txt \<noteq> []) [Text txt] @ map figure_element fs)"

fun figure_acts :: "'a figure \<Rightarrow> 'a set" where
  "figure_acts (Shape t geo paint on txt fs) = snd ` set on \<union> (\<Union>f\<in>set fs. figure_acts f)"

fun flat_figure :: "bool \<Rightarrow> 'a figure \<Rightarrow> bool" where
  "flat_figure c (Shape t geo paint on txt fs) \<longleftrightarrow>
     length (filter (\<lambda>ka. fst ka = ''click'') on) \<le> 1 \<and>
     (c \<longrightarrow> filter (\<lambda>ka. fst ka = ''click'') on = []) \<and>
     (\<forall>f\<in>set fs. flat_figure (c \<or> filter (\<lambda>ka. fst ka = ''click'') on \<noteq> []) f)"

lemma figure_enabled: "\<not> is_disabled (map paint_attr ps @ map event_attr qs)"
proof -
  have "\<not> is_disabled (map event_attr qs)" by (induction qs) (simp_all add: event_attr_def)
  then show ?thesis by (induction ps) (simp_all add: paint_attr_def)
qed

lemma figure_clicks:
  "self_clicks (map paint_attr ps @ map event_attr qs) = map snd (filter (\<lambda>ka. fst ka = ''click'') qs)"
  "own_clicks (map paint_attr ps @ map event_attr qs) = map snd (filter (\<lambda>ka. fst ka = ''click'') qs)"
  "own_doubles (map paint_attr ps @ map event_attr qs) = []"
  "\<not> stops (map paint_attr ps @ map event_attr qs)"
proof -
  have "self_clicks (map event_attr qs) = map snd (filter (\<lambda>ka. fst ka = ''click'') qs)"
    "own_clicks (map event_attr qs) = map snd (filter (\<lambda>ka. fst ka = ''click'') qs)"
    "own_doubles (map event_attr qs) = []" "\<not> stops (map event_attr qs)"
    by (induction qs) (simp_all add: event_attr_def)
  then show "self_clicks (map paint_attr ps @ map event_attr qs) = map snd (filter (\<lambda>ka. fst ka = ''click'') qs)"
    "own_clicks (map paint_attr ps @ map event_attr qs) = map snd (filter (\<lambda>ka. fst ka = ''click'') qs)"
    "own_doubles (map paint_attr ps @ map event_attr qs) = []"
    "\<not> stops (map paint_attr ps @ map event_attr qs)"
    by (induction ps) (simp_all add: paint_attr_def)
qed

lemma figure_prop_acts: "prop_acts (event_attr ka) = {snd ka}" "prop_acts (paint_attr kv) = {}"
  by (simp_all add: event_attr_def paint_attr_def)

lemma acts_figure [simp]: "acts (figure_element f) = figure_acts f"
  by (induction f) (auto simp: figure_enabled figure_prop_acts)

lemma unnested_figure [simp]: "flat_figure c f \<Longrightarrow> unnested c False (figure_element f)"
  by (induction f arbitrary: c) (auto simp: figure_enabled figure_clicks)

section \<open>Effects\<close>

text \<open>
  What is drawn in the \<^verbatim>\<open>svg\<close> (\<open>None\<close> while the element is not rendered) and the dependencies of the
  effect at the last render. A new element is empty. The effect runs when the dependencies have
  changed, also while there is nothing to draw in.
\<close>

record ('d, 'a) canvas =
  ca_drawn :: "'a figure list option"
  ca_deps :: "'d option"

definition blank :: "('d, 'a) canvas" where
  "blank = \<lparr>ca_drawn = None, ca_deps = None\<rparr>"

definition commit :: "bool \<Rightarrow> 'd \<Rightarrow> 'a figure list \<Rightarrow> ('d, 'a) canvas \<Rightarrow> ('d, 'a) canvas" where
  "commit shown deps picture c =
     \<lparr>ca_drawn =
        (if \<not> shown then None
         else if ca_deps c \<noteq> Some deps then Some picture
         else case ca_drawn c of None \<Rightarrow> Some [] | Some fs \<Rightarrow> Some fs),
      ca_deps = Some deps\<rparr>"

definition drawn :: "('d, 'a) canvas \<Rightarrow> 'a figure list" where
  "drawn c = (case ca_drawn c of None \<Rightarrow> [] | Some fs \<Rightarrow> fs)"

definition svg_of :: "('d, 'a) canvas \<Rightarrow> 'a element" where
  "svg_of c = El ''svg'' [] (map figure_element (drawn c))"

lemma acts_svg [simp]: "acts (svg_of c) = (\<Union>f\<in>set (drawn c). figure_acts f)"
  by (simp add: svg_of_def)

lemma plain_svg: "(\<forall>f\<in>set (drawn c). flat_figure False f) \<Longrightarrow> plain_page (svg_of c)"
  by (simp add: svg_of_def)

lemma ca_deps_commit [simp]: "ca_deps (commit shown deps picture c) = Some deps"
  by (simp add: commit_def)

lemma drawn_blank [simp]: "drawn blank = []" "ca_deps blank = None"
  by (simp_all add: drawn_def blank_def)

lemma drawn_commit: "drawn (commit shown deps picture c) =
     (if \<not> shown then [] else if ca_deps c \<noteq> Some deps then picture else drawn c)"
  by (simp add: drawn_def commit_def split: option.split)

text \<open>
  A chart of a component: whether its element is rendered, what its effect depends on, and what the
  effect draws. The picture shown is the current one or none at all; it is never an outdated one.
\<close>

locale chart =
  fixes rendered :: "'s \<Rightarrow> bool"
    and deps :: "'s \<Rightarrow> 'd"
    and picture :: "'s \<Rightarrow> 'a figure list"
  assumes same_picture: "deps s = deps t \<Longrightarrow> picture s = picture t"
begin

definition settled :: "'s \<Rightarrow> ('d, 'a) canvas \<Rightarrow> bool" where
  "settled s c \<longleftrightarrow> ca_deps c = Some (deps s) \<and>
     (if rendered s then ca_drawn c \<in> {Some [], Some (picture s)} else ca_drawn c = None)"

lemma settled_blank: "settled s (commit (rendered s) (deps s) (picture s) blank)"
  by (simp add: settled_def commit_def blank_def)

lemma settled_commit: "settled s c \<Longrightarrow> settled t (commit (rendered t) (deps t) (picture t) c)"
  using same_picture [of s t] by (auto simp: settled_def commit_def split: option.split if_splits)

text \<open>The page that holds the new canvas shows the same as the page the canvas was made for.\<close>

lemma settled_cong:
  "rendered s = rendered t \<Longrightarrow> deps s = deps t \<Longrightarrow> settled s c = settled t c"
  using same_picture [of s t] by (simp add: settled_def)

lemma settled_drawn: "settled s c \<Longrightarrow> drawn c = [] \<or> rendered s \<and> drawn c = picture s"
  by (auto simp: settled_def drawn_def split: if_splits)

end

text \<open>If the element can only appear along with new dependencies, the picture is always there.\<close>

locale steady_chart = chart +
  assumes steady: "deps s = deps t \<Longrightarrow> rendered s = rendered t"
begin

definition complete where
  "complete s c \<longleftrightarrow> ca_deps c = Some (deps s) \<and>
     ca_drawn c = (if rendered s then Some (picture s) else None)"

lemma complete_blank: "complete s (commit (rendered s) (deps s) (picture s) blank)"
  by (simp add: complete_def commit_def blank_def)

lemma complete_commit: "complete s c \<Longrightarrow> complete t (commit (rendered t) (deps t) (picture t) c)"
  using same_picture [of s t] steady [of s t] by (auto simp: complete_def commit_def split: option.split)

lemma complete_cong: "deps s = deps t \<Longrightarrow> complete s c = complete t c"
  using same_picture [of s t] steady [of s t] by (simp add: complete_def)

lemma complete_drawn: "complete s c \<Longrightarrow> rendered s \<Longrightarrow> drawn c = picture s"
  by (simp add: complete_def drawn_def)

end

end
