(* ===== verification/ChartViews.thy ===== *)
theory ChartViews
  imports Charts NodeViews Drawings
begin

text \<open>
  The pages \<^verbatim>\<open>BufferHeatmapView.tsx\<close>, \<^verbatim>\<open>TransactionStateView.tsx\<close> and \<^verbatim>\<open>PipelineView.tsx\<close> as
  machines: what they render, what their effects draw, and what the user and new data change. Data
  given by the parent carries the identity of its list, by which React compares it. Every update is
  followed by a render and its effects.
\<close>

section \<open>Pages without requests\<close>

type_synonym 's local_job = "('s, unit, host_call, reply) job"

definition local_perform :: "('a \<Rightarrow> 's \<Rightarrow> 's) \<Rightarrow> 'a \<Rightarrow> 's \<Rightarrow> 's local_job" where
  "local_perform step a s = Do (step a) Done"

lemma opened_local [simp]: "pg_state (opened (local_perform step) e a s) = step a s"
  by (simp add: opened_def proceed_def local_perform_def)

text \<open>\<^verbatim>\<open>x.toFixed(1)\<close>, as \<^verbatim>\<open>toFixed(2)\<close> of the cluster page.\<close>

definition to_fixed1 :: "rat \<Rightarrow> ustr" where
  "to_fixed1 q =
     (let n = nat \<lfloor>\<bar>q\<bar> * 10 + 1 / 2\<rfloor>
      in (if q < 0 then str ''-'' else []) @ nat_str (n div 10) @ str ''.'' @ nat_str (n mod 10))"

definition notice :: "ustr \<Rightarrow> 'a element" where
  "notice t = box [Text t]"

definition label_value :: "ustr \<Rightarrow> ustr \<Rightarrow> 'a element" where
  "label_value l v = box [span_of l, span_of v]"

lemma acts_notice [simp]: "acts (notice t) = {}" "acts (label_value l v) = {}"
  by (simp_all add: notice_def label_value_def)

lemma plain_notice [simp]: "unnested c d (notice t)" "unnested c d (label_value l v)"
  by (simp_all add: notice_def label_value_def)

definition num_or_dash :: "jsnum \<Rightarrow> ustr" where
  "num_or_dash v = (if num_truthy v then num_str v else str ''-'')"

definition text_or_dash :: "ustr \<Rightarrow> ustr" where
  "text_or_dash t = (if t = [] then str ''-'' else t)"

definition data_table :: "ustr list \<Rightarrow> ustr list list \<Rightarrow> 'a element" where
  "data_table heads rows = box [El ''table'' []
     [El ''thead'' [] [El ''tr'' [] (map (\<lambda>t. El ''th'' [] [Text t]) heads)],
      El ''tbody'' [] (map (\<lambda>r. El ''tr'' [] (map (\<lambda>t. El ''td'' [] [Text t]) r)) rows)]]"

lemma data_table_inert [simp]: "acts (data_table hs rs) = {}" "unnested c d (data_table hs rs)"
  by (auto simp: data_table_def)

section \<open>The heat map\<close>

type_synonym 'x given_data = "nat \<times> 'x list option"

definition given :: "'x given_data \<Rightarrow> 'x list" where
  "given p = (case snd p of None \<Rightarrow> [] | Some xs \<Rightarrow> xs)"

datatype heat_action = HeatOpened | HeatBack | HighlightDirty bool | Hover "buffer_cell option"
  | NewBuffers "buffer_cell given_data"

type_synonym heat_deps = "buffer_cell given_data \<times> bool"

record heat_page =
  hm_buffers :: "buffer_cell given_data"
  hm_hovered :: "buffer_cell option"
  hm_showDirty :: bool
  hm_grid :: "(heat_deps, heat_action) canvas"
  hm_spark :: "(buffer_cell given_data, heat_action) canvas"

text \<open>The two interpolators of d3 and the width of the container are arguments.\<close>

record palette =
  pa_oranges :: "rat \<Rightarrow> ustr"
  pa_blues :: "rat \<Rightarrow> ustr"
  pa_width :: int

definition fill_color :: "palette \<Rightarrow> fill \<Rightarrow> ustr" where
  "fill_color p f = (case f of
     Unused \<Rightarrow> str ''#21262d'' | Oranges q \<Rightarrow> pa_oranges p q | Blues q \<Rightarrow> pa_blues p q)"

definition cell_frame :: "rect \<Rightarrow> (string \<times> rat) list" where
  "cell_frame r = [(''x'', of_int (rc_x r)), (''y'', of_int (rc_y r)), (''width'', of_int (rc_w r)),
     (''height'', of_int (rc_h r))]"

definition cell_group ::
  "palette \<Rightarrow> buffer_cell list \<Rightarrow> bool \<Rightarrow> nat \<Rightarrow> buffer_cell \<Rightarrow> heat_action figure"
where
  "cell_group p data showDirty i b =
     (let r = cell_rect (pa_width p) i; s = cell_size (pa_width p)
      in Shape ''g'' [] [] [(''mouseover'', Hover (Some b)), (''mouseout'', Hover None)] []
        ([Shape ''rect'' (cell_frame r) [(''fill'', fill_color p (cell_fill data showDirty b))] [] [] []] @
         (if bc_is_dirty b then
            [Shape ''rect'' (cell_frame r @ [(''stroke-width'', if 12 < s then 2 else 1)])
              [(''fill'', str ''none''), (''stroke'', str ''#f85149'')] [] [] []] else []) @
         (if bc_is_pinned b then
            [Shape ''circle'' [(''cx'', of_int (rc_x r + s - 4)), (''cy'', of_int (rc_y r + 4)), (''r'', 2)]
              [(''fill'', str ''#58a6ff'')] [] [] []] else [])))"

definition heat_picture :: "palette \<Rightarrow> buffer_cell list \<Rightarrow> bool \<Rightarrow> heat_action figure list" where
  "heat_picture p data showDirty =
     map (\<lambda>(i, b). cell_group p data showDirty i b) (enumerate 0 data) @
     [Shape ''text'' [(''x'', 20), (''y'', of_int (grid_height (pa_width p) (length data) - 4))] [] []
        ((str ''Buffer '' @ [0x603B, 0x6570, 0x20]) @ nat_str (length data) @ (str '' | '' @ [0x7EA2, 0x6846, 0x3D, 0x810F, 0x9875] @ str '' | '' @ [0x84DD, 0x70B9] @ str ''=pinned'')) []]"

text \<open>The outlines of area and line, which d3 computes from the used buffers, are left out.\<close>

definition spark_picture :: "buffer_cell list \<Rightarrow> heat_action figure list" where
  "spark_picture data =
     (if sparkline_data data = [] then []
      else [Shape ''path'' [(''opacity'', 1 / 4)] [(''fill'', str ''#58a6ff'')] [] [] [],
        Shape ''path'' [(''stroke-width'', 3 / 2)] [(''fill'', str ''none''), (''stroke'', str ''#58a6ff'')] [] [] []])"

definition heat_commit :: "palette \<Rightarrow> heat_page \<Rightarrow> heat_page" where
  "heat_commit p s =
     (let data = given (hm_buffers s)
      in s\<lparr>hm_grid := commit (data \<noteq> []) (hm_buffers s, hm_showDirty s)
            (heat_picture p data (hm_showDirty s)) (hm_grid s),
          hm_spark := commit (data \<noteq> []) (hm_buffers s) (spark_picture data) (hm_spark s)\<rparr>)"

definition heat_update :: "heat_action \<Rightarrow> heat_page \<Rightarrow> heat_page" where
  "heat_update a s = (case a of
     HighlightDirty b \<Rightarrow> s\<lparr>hm_showDirty := b\<rparr>
   | Hover c \<Rightarrow> s\<lparr>hm_hovered := c\<rparr>
   | NewBuffers d \<Rightarrow> s\<lparr>hm_buffers := d\<rparr>
   | _ \<Rightarrow> s)"

definition heat_step :: "palette \<Rightarrow> heat_action \<Rightarrow> heat_page \<Rightarrow> heat_page" where
  "heat_step p a s = heat_commit p (heat_update a s)"

definition heat_header :: "ustr \<Rightarrow> heat_page \<Rightarrow> heat_action element" where
  "heat_header now s = node_header (str ''Buffer Pool '' @ [0x70ED, 0x56FE]) (Some (str ''buffer_pin '' @ [0x4E8B, 0x4EF6, 0x6D41])) (Some now)
     [El ''label'' [] [checkbox (hm_showDirty s) HighlightDirty, Text [0x9AD8, 0x4EAE, 0x810F, 0x9875]]] (Some HeatBack)"

definition heat_cards :: "heat_stats \<Rightarrow> (ustr \<times> ustr) list" where
  "heat_cards st =
     [(([0x603B] @ str '' Buffer''), nat_str (hs_total st)),
      ([0x4F7F, 0x7528, 0x4E2D], nat_str (hs_used st) @ str '' ('' @ to_fixed1 (hs_usedPct st) @ str ''%)''),
      ([0x810F, 0x9875], nat_str (hs_dirty st) @ str '' ('' @ to_fixed1 (hs_dirtyPct st) @ str ''%)''),
      (str ''Pinned'', nat_str (hs_pinned st)),
      ([0x5E73, 0x5747, 0x547D, 0x4E2D], to_fixed1 (hs_avgHit st))]"

definition position_text :: "buffer_cell \<Rightarrow> ustr" where
  "position_text b = (case hovered_position b of
     Some (row, c) \<Rightarrow> int_str row @ str '','' @ num_str (Fin c)
   | None \<Rightarrow> num_str (bc_id b) @ str '',NaN'')"

definition yes_no :: "bool \<Rightarrow> ustr" where
  "yes_no b = (if b then [0x662F] else [0x5426])"

definition hover_panel :: "buffer_cell \<Rightarrow> heat_action element" where
  "hover_panel b = box
     [label_value (str ''Buffer ID: '') (num_str (bc_id b)),
      label_value [0x547D, 0x4E2D, 0x6B21, 0x6570, 0x3A, 0x20] (nat_str (bc_hit_count b)),
      label_value (str ''RelFileNode: '') (num_or_dash (bc_relfilenode b)),
      label_value [0x810F, 0x9875, 0x3A, 0x20] (yes_no (bc_is_dirty b)),
      label_value (str ''Pinned: '') (yes_no (bc_is_pinned b)),
      label_value [0x884C, 0x5217, 0x3A, 0x20] (position_text b)]"

definition heat_view :: "ustr \<Rightarrow> heat_page \<Rightarrow> heat_action element" where
  "heat_view now s =
     (if given (hm_buffers s) = [] then
        box [heat_header now s,
          notice ([0x6682, 0x65E0, 0x771F, 0x5B9E] @ str '' Buffer '' @ [0x6570, 0x636E, 0x3002, 0x8BF7, 0x5148, 0x6FC0, 0x6D3B, 0x8282, 0x70B9, 0x5E76, 0x4EA7, 0x751F] @ str '' `buffer_pin` / '' @ [0x76F8, 0x5173, 0x91C7, 0x6837, 0x6570, 0x636E, 0x3002])]
      else
        box ([heat_header now s,
          box (map (\<lambda>(l, v). box [box [Text v], box [Text l]])
            (heat_cards (computeStats (given (hm_buffers s))))),
          box [svg_of (hm_spark s)], box [svg_of (hm_grid s)]] @
          (case hm_hovered s of None \<Rightarrow> [] | Some b \<Rightarrow> [hover_panel b])))"

text \<open>The page after its first render and the effects of it.\<close>

definition init_heat_page :: "palette \<Rightarrow> buffer_cell given_data \<Rightarrow> heat_page" where
  "init_heat_page p d = heat_commit p \<lparr>hm_buffers = d, hm_hovered = None, hm_showDirty = True,
     hm_grid = blank, hm_spark = blank\<rparr>"

abbreviation heat_reach ::
  "palette \<Rightarrow> ustr \<Rightarrow> buffer_cell given_data \<Rightarrow>
   (heat_page, heat_action, unit, host_call, reply) page \<Rightarrow> bool"
where
  "heat_reach p now d \<equiv> page_reach (\<lambda>s. Some (heat_view now s)) (\<lambda>_. range NewBuffers)
     (local_perform (heat_step p))
     (opened (local_perform (heat_step p)) () HeatOpened (init_heat_page p d))"

interpretation grid: steady_chart "\<lambda>s. given (hm_buffers s) \<noteq> []" "\<lambda>s. (hm_buffers s, hm_showDirty s)"
  "\<lambda>s. heat_picture p (given (hm_buffers s)) (hm_showDirty s)" for p
  by unfold_locales auto

interpretation spark: steady_chart "\<lambda>s. given (hm_buffers s) \<noteq> []" hm_buffers
  "\<lambda>s. spark_picture (given (hm_buffers s))"
  by unfold_locales auto

text \<open>What the theory claims of a page after its effects have run.\<close>

definition heat_good :: "palette \<Rightarrow> heat_page \<Rightarrow> bool" where
  "heat_good p s \<longleftrightarrow> grid.complete p s (hm_grid s) \<and> spark.complete s (hm_spark s)"

lemma heat_good_commit: "heat_good p s \<Longrightarrow> heat_good p (heat_step p a s)"
proof -
  assume g: "heat_good p s"
  let ?t = "heat_update a s"
  have c: "hm_grid ?t = hm_grid s" "hm_spark ?t = hm_spark s"
    by (cases a; simp add: heat_update_def)+
  from g c have "grid.complete p s (hm_grid ?t)" "spark.complete s (hm_spark ?t)"
    by (simp_all add: heat_good_def)
  from grid.complete_commit [OF this(1), of ?t] spark.complete_commit [OF this(2), of ?t]
  show ?thesis
    by (simp add: heat_good_def heat_step_def heat_commit_def Let_def grid.complete_def spark.complete_def)
qed


lemma heat_good_init: "heat_good p (init_heat_page p d)"
  using grid.complete_blank [of p "init_heat_page p d"] spark.complete_blank [of "init_heat_page p d"]
  by (simp add: heat_good_def init_heat_page_def heat_commit_def Let_def grid.complete_def spark.complete_def)

lemma local_sound: "(\<forall>s. good s \<longrightarrow> good (step a s)) \<Longrightarrow> sound good allowed (local_perform step a s)"
  by (simp add: local_perform_def)

lemma nothing_in: "(\<And>a q. (a, q) \<in> set xs \<Longrightarrow> False) \<Longrightarrow> xs = []"
  by (cases xs) auto

interpretation heat: page_contract "\<lambda>s. Some (heat_view now s)" "\<lambda>_. range NewBuffers"
  "local_perform (heat_step p)" HeatOpened "init_heat_page p d" "heat_good p" "\<lambda>_. False" for now p d
  by unfold_locales (simp_all add: heat_good_init local_sound heat_good_commit)

text \<open>
  C18. However the user moves over the heat map and switches the highlighting, and whatever buffers
  arrive, the cells drawn are those of the present buffers under the present setting, and nothing is
  ever sent.
\<close>

theorem heat_map_is_current:
  assumes "heat_reach p now d c" "given (hm_buffers (pg_state c)) \<noteq> []"
  shows "drawn (hm_grid (pg_state c)) =
      heat_picture p (given (hm_buffers (pg_state c))) (hm_showDirty (pg_state c)) \<and>
    drawn (hm_spark (pg_state c)) = spark_picture (given (hm_buffers (pg_state c))) \<and> pg_sent c = []"
proof -
  have "heat_good p (pg_state c)" by (rule heat.reachable_state(1) [OF assms(1)])
  moreover have "pg_sent c = []"
    by (rule nothing_in) (rule heat.reachable_state(2) [OF assms(1)])
  ultimately show ?thesis
    using grid.complete_drawn [of p "pg_state c"] spark.complete_drawn [of "pg_state c"] assms(2)
    by (simp add: heat_good_def)
qed


lemma flat_cell_group: "flat_figure c (cell_group p data sd i b)"
  by (auto simp: cell_group_def Let_def)

lemma figure_acts_cell: "figure_acts (cell_group p data sd i b) = {Hover (Some b), Hover None}"
  by (auto simp: cell_group_def Let_def)

lemma heat_picture_flat: "f \<in> set (heat_picture p data sd) \<Longrightarrow> flat_figure c f"
  by (auto simp: heat_picture_def flat_cell_group)

lemma heat_picture_acts:
  "(\<Union>f\<in>set (heat_picture p data sd). figure_acts f) =
     (\<Union>b\<in>set data. {Hover (Some b), Hover None})"
proof -
  have "(\<Union>f\<in>set (heat_picture p data sd). figure_acts f) =
      (\<Union>x\<in>set (enumerate 0 data). {Hover (Some (snd x)), Hover None})"
    by (auto simp: heat_picture_def figure_acts_cell)
  also have "\<dots> = (\<Union>b\<in>snd ` set (enumerate 0 data). {Hover (Some b), Hover None})" by auto
  also have "snd ` set (enumerate 0 data) = set data" by (simp add: set_map [symmetric] del: set_map)
  finally show ?thesis .
qed

lemma spark_picture_flat: "f \<in> set (spark_picture data) \<Longrightarrow> flat_figure c f \<and> figure_acts f = {}"
  by (auto simp: spark_picture_def split: if_splits)

lemma heat_header_parts:
  "acts (heat_header now s) = {HeatBack} \<union> range HighlightDirty" "plain_page (heat_header now s)"
  by (auto simp: heat_header_def)

lemma hover_panel_inert: "acts (hover_panel b) = {}" "unnested c d (hover_panel b)"
  by (auto simp: hover_panel_def)

lemma heat_view_plain:
  assumes "heat_good p s"
  shows "plain_page (heat_view now s)"
proof (cases "given (hm_buffers s) = []")
  case False
  with assms have "drawn (hm_grid s) = heat_picture p (given (hm_buffers s)) (hm_showDirty s)"
    "drawn (hm_spark s) = spark_picture (given (hm_buffers s))"
    by (simp_all add: heat_good_def grid.complete_drawn spark.complete_drawn)
  then have "plain_page (svg_of (hm_grid s))" "plain_page (svg_of (hm_spark s))"
    by (auto intro!: plain_svg simp: heat_picture_flat spark_picture_flat)
  with False show ?thesis
    by (auto simp: heat_view_def heat_header_parts hover_panel_inert split: option.split)
qed (simp add: heat_view_def heat_header_parts)

lemma heat_view_acts:
  assumes "heat_good p s" "given (hm_buffers s) \<noteq> []"
  shows "acts (heat_view now s) = {HeatBack, Hover None} \<union> range HighlightDirty \<union>
    (\<lambda>b. Hover (Some b)) ` set (given (hm_buffers s))"
proof -
  have d: "drawn (hm_grid s) = heat_picture p (given (hm_buffers s)) (hm_showDirty s)"
    "drawn (hm_spark s) = spark_picture (given (hm_buffers s))"
    using assms by (simp_all add: heat_good_def grid.complete_drawn spark.complete_drawn)
  have "acts (svg_of (hm_spark s)) = {}" using spark_picture_flat by (auto simp: d)
  moreover have "acts (svg_of (hm_grid s)) =
      {Hover None} \<union> (\<lambda>b. Hover (Some b)) ` set (given (hm_buffers s))"
    using assms(2) by (auto simp: d heat_picture_acts ex_in_conv)
  ultimately show ?thesis
    using assms(2) by (auto simp: heat_view_def heat_header_parts hover_panel_inert split: option.split)
qed

text \<open>
  The details of a cell stay on the page after its buffer is gone: the cell that would notice the
  pointer leaving is removed with the old drawing.
\<close>

definition sample_cell :: "int \<Rightarrow> buffer_cell" where
  "sample_cell k = \<lparr>bc_id = jsint k, bc_hit_count = 1, bc_is_dirty = True, bc_is_pinned = True,
     bc_relfilenode = Fin 0\<rparr>"

definition one_buffer :: "buffer_cell given_data" where
  "one_buffer = (1, Some [sample_cell 3])"

lemma given_one_buffer [simp]: "given one_buffer = [sample_cell 3]"
  by (simp add: one_buffer_def given_def)

definition heat_do ::
  "palette \<Rightarrow> heat_action \<Rightarrow> (heat_page, heat_action, unit, host_call, reply) page \<Rightarrow>
   (heat_page, heat_action, unit, host_call, reply) page"
where
  "heat_do p a c = proceed () a (local_perform (heat_step p) a (pg_state c)) c"

definition hovering :: "palette \<Rightarrow> (heat_page, heat_action, unit, host_call, reply) page" where
  "hovering p = heat_do p (Hover (Some (sample_cell 3))) (opened (local_perform (heat_step p)) () HeatOpened
     (init_heat_page p one_buffer))"

lemma state_heat_do [simp]: "pg_state (heat_do p a c) = heat_step p a (pg_state c)"
  by (simp add: heat_do_def local_perform_def proceed_def)

lemma heat_step_fields [simp]:
  "hm_buffers (heat_step p a s) = hm_buffers (heat_update a s)"
  "hm_hovered (heat_step p a s) = hm_hovered (heat_update a s)"
  "hm_showDirty (heat_step p a s) = hm_showDirty (heat_update a s)"
  by (simp_all add: heat_step_def heat_commit_def Let_def)

lemma init_heat_fields [simp]:
  "hm_buffers (init_heat_page p d) = d" "hm_hovered (init_heat_page p d) = None"
  "hm_showDirty (init_heat_page p d) = True"
  by (simp_all add: init_heat_page_def heat_commit_def Let_def)

lemma hovering_reach: "heat_reach p now one_buffer (hovering p)"
proof -
  let ?c = "opened (local_perform (heat_step p)) () HeatOpened (init_heat_page p one_buffer)"
  have r: "heat_reach p now one_buffer ?c" by (rule reach_start)
  have g: "heat_good p (pg_state ?c)" by (rule heat.reachable_state(1) [OF r])
  have "Hover (Some (sample_cell 3)) \<in> acts (heat_view now (pg_state ?c))"
    by (subst heat_view_acts [OF g]) (simp_all add: heat_update_def)
  from reach_act [OF r refl heat_view_plain [OF g] this] show ?thesis
    by (simp add: hovering_def heat_do_def)
qed

lemma details_outlive_their_buffer:
  "heat_reach p now one_buffer (heat_do p (NewBuffers (2, Some [sample_cell 5])) (hovering p))"
  "hm_hovered (pg_state (heat_do p (NewBuffers (2, Some [sample_cell 5])) (hovering p))) = Some (sample_cell 3)"
  "given (hm_buffers (pg_state (heat_do p (NewBuffers (2, Some [sample_cell 5])) (hovering p)))) = [sample_cell 5]"
proof -
  show "heat_reach p now one_buffer (heat_do p (NewBuffers (2, Some [sample_cell 5])) (hovering p))"
    unfolding heat_do_def by (rule reach_outside [OF hovering_reach]) simp
  show "hm_hovered (pg_state (heat_do p (NewBuffers (2, Some [sample_cell 5])) (hovering p))) = Some (sample_cell 3)"
    "given (hm_buffers (pg_state (heat_do p (NewBuffers (2, Some [sample_cell 5])) (hovering p)))) = [sample_cell 5]"
    by (simp_all add: hovering_def heat_update_def given_def)
qed

definition two_colours :: palette where
  "two_colours = \<lparr>pa_oranges = (\<lambda>_. str ''#f0883e''), pa_blues = (\<lambda>_. str ''#58a6ff''), pa_width = 800\<rparr>"

theorem heat_map_is_current_witness:
  "drawn (hm_grid (pg_state (hovering two_colours))) = heat_picture two_colours [sample_cell 3] True \<and>
   length (heat_picture two_colours [sample_cell 3] True) = 2"
proof -
  have "given (hm_buffers (pg_state (hovering two_colours))) = [sample_cell 3]"
    "hm_showDirty (pg_state (hovering two_colours))"
    by (simp_all add: hovering_def heat_update_def)
  with heat_map_is_current [OF hovering_reach [of "[]" two_colours]] show ?thesis by (simp add: heat_picture_def)
qed

end
