(* ===== verification/FlowViews.thy ===== *)
theory FlowViews
  imports ChartViews ClusterView
begin

text \<open>
  The pages \<^verbatim>\<open>TransactionStateView.tsx\<close> and \<^verbatim>\<open>PipelineView.tsx\<close> as machines. Both switch between a
  drawing and another display of the same data; the drawing lives in an element that is removed and
  created again by the switch.
\<close>

section \<open>The state machine of transactions\<close>

datatype diagram_mode = Fsm | Table

datatype xact_action = XactOpened | XactBack | XactMode diagram_mode | NewXacts "transaction_state list option"

record xact_page =
  xp_transactions :: "transaction_state list option"
  xp_viewMode :: diagram_mode
  xp_canvas :: "(int, xact_action) canvas"

definition xact_data :: "xact_page \<Rightarrow> transaction_state list" where
  "xact_data s = (case xp_transactions s of None \<Rightarrow> [] | Some ts \<Rightarrow> ts)"

definition status_name :: "xact_status \<Rightarrow> ustr" where
  "status_name t = (case t of Idle \<Rightarrow> str ''idle'' | Started \<Rightarrow> str ''started''
     | In_progress \<Rightarrow> str ''in_progress'' | Commit \<Rightarrow> str ''commit'' | Abort \<Rightarrow> str ''abort'')"

definition STATE_COLORS :: "xact_status \<Rightarrow> ustr" where
  "STATE_COLORS t = (case t of Idle \<Rightarrow> str ''#7d8590'' | Started \<Rightarrow> str ''#58a6ff''
     | In_progress \<Rightarrow> str ''#d29922'' | Commit \<Rightarrow> str ''#3fb950'' | Abort \<Rightarrow> str ''#f85149'')"

definition stateNames :: "xact_status \<Rightarrow> ustr" where
  "stateNames t = (case t of Idle \<Rightarrow> [0x7A7A, 0x95F2] | Started \<Rightarrow> [0x5DF2, 0x5F00, 0x59CB] | In_progress \<Rightarrow> [0x8FDB, 0x884C, 0x4E2D]
     | Commit \<Rightarrow> [0x5DF2, 0x63D0, 0x4EA4] | Abort \<Rightarrow> [0x5DF2, 0x56DE, 0x6EDA])"

definition upper_name :: "xact_status \<Rightarrow> ustr" where
  "upper_name t = (case t of Idle \<Rightarrow> str ''IDLE'' | Started \<Rightarrow> str ''STARTED''
     | In_progress \<Rightarrow> str ''IN_PROGRESS'' | Commit \<Rightarrow> str ''COMMIT'' | Abort \<Rightarrow> str ''ABORT'')"

definition transitions :: "(xact_status \<times> xact_status) list" where
  "transitions = [(Idle, Started), (Started, In_progress), (In_progress, Commit), (In_progress, Abort),
     (Commit, Idle), (Abort, Idle)]"

text \<open>The curve of a transition, by the coordinates of its path in order.\<close>

definition transition_curve :: "rat \<Rightarrow> xact_status \<times> xact_status \<Rightarrow> xact_action figure" where
  "transition_curve width d =
     (let sx = state_x width (fst d); tx = state_x width (snd d); centerY = 90
      in Shape ''path''
        [(''M.x'', sx), (''M.y'', centerY), (''Q.x1'', (sx + tx) / 2), (''Q.y1'', centerY - 30), (''Q.x'', tx),
         (''Q.y'', centerY), (''stroke-width'', 3 / 2)]
        [(''fill'', str ''none''), (''stroke'', str ''#30363d''), (''stroke-dasharray'', str ''4,2'')] [] [] [])"

definition state_shapes :: "rat \<Rightarrow> transaction_state list \<Rightarrow> xact_status \<Rightarrow> xact_action figure list" where
  "state_shapes width data t =
     (let x = state_x width t; centerY = 90
      in [Shape ''circle''
            [(''cx'', x), (''cy'', centerY), (''r'', if isCurrent data t then 28 else 24),
             (''stroke-width'', if isCurrent data t then 3 else 1),
             (''opacity'', if isActive data t then 1 else 7 / 20)]
            [(''fill'', STATE_COLORS t), (''stroke'', if isCurrent data t then str ''#fff'' else str ''#30363d'')]
            [] [] [],
          Shape ''text'' [(''x'', x), (''y'', centerY + 45)]
            [(''fill'', if isActive data t then str ''#e6edf3'' else str ''#7d8590'')] [] (upper_name t) [],
          Shape ''text'' [(''x'', x), (''y'', centerY + 60)] [(''fill'', str ''#7d8590'')] [] (stateNames t) []])"

definition xact_picture :: "rat \<Rightarrow> transaction_state list \<Rightarrow> xact_action figure list" where
  "xact_picture width data =
     Shape ''g'' [] [] [] [] (map (transition_curve width) transitions) #
     concat (map (state_shapes width data) STATE_ORDER)"

definition xact_commit :: "rat \<Rightarrow> xact_page \<Rightarrow> xact_page" where
  "xact_commit width s =
     s\<lparr>xp_canvas := commit (xact_data s \<noteq> [] \<and> xp_viewMode s = Fsm) (currentStep (xact_data s))
        (xact_picture width (xact_data s)) (xp_canvas s)\<rparr>"

definition xact_update :: "xact_action \<Rightarrow> xact_page \<Rightarrow> xact_page" where
  "xact_update a s = (case a of
     XactMode m \<Rightarrow> s\<lparr>xp_viewMode := m\<rparr>
   | NewXacts ts \<Rightarrow> s\<lparr>xp_transactions := ts\<rparr>
   | _ \<Rightarrow> s)"

definition xact_page_step :: "rat \<Rightarrow> xact_action \<Rightarrow> xact_page \<Rightarrow> xact_page" where
  "xact_page_step width a s = xact_commit width (xact_update a s)"

definition xact_heads :: "ustr list" where
  "xact_heads = [str ''XID'', str ''VXID'', [0x72B6, 0x6001], ([0x5F00, 0x59CB] @ str ''(us)''), ([0x7ED3, 0x675F] @ str ''(us)''), str ''LSN'']"

definition opt_num :: "jsnum option \<Rightarrow> ustr" where
  "opt_num v = (case v of None \<Rightarrow> str ''-'' | Some n \<Rightarrow> num_str n)"

definition xact_row :: "transaction_state \<Rightarrow> ustr list" where
  "xact_row t =
     [num_or_dash (tx_xid t), text_or_dash (tx_vxid t), status_name (tx_state t),
      opt_num (tx_start_time_us t), opt_num (tx_end_time_us t),
      (case tx_lsn t of None \<Rightarrow> str ''-'' | Some l \<Rightarrow> l)]"

definition mode_button :: "('m \<Rightarrow> 'a) \<Rightarrow> 'm \<Rightarrow> 'm \<times> ustr \<Rightarrow> 'a element" where
  "mode_button f current m = El ''button''
     [OnClick (f (fst m)),
      Attr ''background'' (if current = fst m then str ''var(--accent)'' else str ''var(--bg-tertiary)'')]
     [Text (snd m)]"

lemma mode_button_acts [simp]: "acts (mode_button f cur m) = {f (fst m)}" "plain_page (mode_button f cur m)"
  by (auto simp: mode_button_def)

definition xact_view :: "ustr \<Rightarrow> xact_page \<Rightarrow> xact_action element" where
  "xact_view now s = box
     ([node_header [0x4E8B, 0x52A1, 0x72B6, 0x6001, 0x673A] (Some (str ''/api/snapshot '' @ [0x6216] @ str '' xact_state '' @ [0x4E8B, 0x4EF6])) (Some now)
        [box (map (mode_button XactMode (xp_viewMode s)) [(Fsm, [0x72B6, 0x6001, 0x56FE]), (Table, [0x8868, 0x683C])])]
        (Some XactBack)] @
      shown_if (xact_data s = []) [notice ([0x6682, 0x65E0, 0x4E8B, 0x52A1, 0x72B6, 0x6001, 0x6570, 0x636E, 0xFF0C, 0x8BF7, 0x5148, 0x6267, 0x884C, 0x4E8B, 0x52A1, 0x76F8, 0x5173] @ str '' SQL'' @ [0x3002])] @
      shown_if (xact_data s \<noteq> [] \<and> xp_viewMode s = Fsm) [box [svg_of (xp_canvas s)]] @
      shown_if (xact_data s \<noteq> [] \<and> xp_viewMode s = Table)
        [data_table xact_heads (map xact_row (xact_data s))])"

definition init_xact_page :: "rat \<Rightarrow> transaction_state list option \<Rightarrow> xact_page" where
  "init_xact_page width ts =
     xact_commit width \<lparr>xp_transactions = ts, xp_viewMode = Fsm, xp_canvas = blank\<rparr>"

abbreviation xact_reach ::
  "rat \<Rightarrow> ustr \<Rightarrow> transaction_state list option \<Rightarrow>
   (xact_page, xact_action, unit, host_call, reply) page \<Rightarrow> bool"
where
  "xact_reach width now ts \<equiv> page_reach (\<lambda>s. Some (xact_view now s)) (\<lambda>_. range NewXacts)
     (local_perform (xact_page_step width))
     (opened (local_perform (xact_page_step width)) () XactOpened (init_xact_page width ts))"

lemma xact_picture_step:
  "currentStep d = currentStep e \<Longrightarrow> xact_picture width d = xact_picture width e"
  by (simp add: xact_picture_def state_shapes_def [abs_def] isCurrent_def isActive_def)

interpretation diagram: chart "\<lambda>s. xact_data s \<noteq> [] \<and> xp_viewMode s = Fsm" "\<lambda>s. currentStep (xact_data s)"
  "\<lambda>s. xact_picture width (xact_data s)" for width
  by unfold_locales (rule xact_picture_step)

abbreviation xact_good :: "rat \<Rightarrow> xact_page \<Rightarrow> bool" where
  "xact_good width s \<equiv> diagram.settled width s (xp_canvas s)"

lemma xact_data_canvas [simp]: "xact_data (s\<lparr>xp_canvas := c\<rparr>) = xact_data s"
  by (simp add: xact_data_def)

lemma xact_commit_fields [simp]:
  "xact_data (xact_commit width s) = xact_data s" "xp_viewMode (xact_commit width s) = xp_viewMode s"
  by (simp_all add: xact_commit_def)

lemma xact_good_commit:
  "xp_canvas s = blank \<or> (\<exists>r :: xact_page. diagram.settled width r (xp_canvas s)) \<Longrightarrow> xact_good width (xact_commit width s)"
  using diagram.settled_cong [of "xact_commit width s" s width] diagram.settled_blank [of width s]
    diagram.settled_commit [of width _ "xp_canvas s" s]
  by (auto simp: xact_commit_def)

lemma xact_good_init: "xact_good width (init_xact_page width ts)"
  by (simp add: init_xact_page_def xact_good_commit)

lemma xact_good_step: "xact_good width s \<Longrightarrow> xact_good width (xact_page_step width a s)"
proof -
  assume "xact_good width s"
  moreover have "xp_canvas (xact_update a s) = xp_canvas s" by (cases a; simp add: xact_update_def)
  ultimately show ?thesis by (auto simp: xact_page_step_def intro: xact_good_commit)
qed

interpretation xact: page_contract "\<lambda>s. Some (xact_view now s)" "\<lambda>_. range NewXacts"
  "local_perform (xact_page_step width)" XactOpened "init_xact_page width ts" "xact_good width" "\<lambda>_. False"
  for now width ts
  by unfold_locales (simp_all add: xact_good_init local_sound xact_good_step)

text \<open>
  C19. Whatever transactions arrive and whichever display is chosen, the state diagram that is drawn
  is either the one of the transactions present or none at all, never an outdated one.
\<close>

theorem state_diagram_never_outdated:
  assumes "xact_reach width now ts c"
  shows "drawn (xp_canvas (pg_state c)) \<in> {[], xact_picture width (xact_data (pg_state c))} \<and>
    (xact_data (pg_state c) = [] \<or> xp_viewMode (pg_state c) = Table \<longrightarrow> drawn (xp_canvas (pg_state c)) = [])"
  using diagram.settled_drawn [OF xact.reachable_state(1) [OF assms]]
    xact.reachable_state(1) [OF assms]
  by (auto simp: diagram.settled_def drawn_def)

lemma xact_view_acts:
  assumes "xact_good width s"
  shows "acts (xact_view now s) = {XactBack, XactMode Fsm, XactMode Table}" "plain_page (xact_view now s)"
proof -
  have fig: "flat_figure b f \<and> figure_acts f = {}" if "f \<in> set (xact_picture width d)" for f d b
    using that by (auto simp: xact_picture_def state_shapes_def transition_curve_def Let_def)
  then have "flat_figure b f \<and> figure_acts f = {}" if "f \<in> set (drawn (xp_canvas s))" for f b
    using that diagram.settled_drawn [OF assms] by auto
  then have "acts (svg_of (xp_canvas s)) = {}" "plain_page (svg_of (xp_canvas s))"
    by (auto intro: plain_svg)
  then show "acts (xact_view now s) = {XactBack, XactMode Fsm, XactMode Table}" "plain_page (xact_view now s)"
    by (auto simp: xact_view_def)
qed

text \<open>
  Switching to the table and back leaves the page without a diagram: the new element is empty, and
  the effect waits for a change of the state shown.
\<close>

definition xact_do ::
  "rat \<Rightarrow> xact_action \<Rightarrow> (xact_page, xact_action, unit, host_call, reply) page \<Rightarrow>
   (xact_page, xact_action, unit, host_call, reply) page"
where
  "xact_do width a c = proceed () a (local_perform (xact_page_step width) a (pg_state c)) c"

lemma state_xact_do [simp]: "pg_state (xact_do width a c) = xact_page_step width a (pg_state c)"
  by (simp add: xact_do_def local_perform_def proceed_def)

lemma xact_do_reach:
  assumes "xact_reach width now ts c" "a \<in> {XactBack, XactMode Fsm, XactMode Table}"
  shows "xact_reach width now ts (xact_do width a c)"
proof -
  have g: "xact_good width (pg_state c)" by (rule xact.reachable_state(1) [OF assms(1)])
  show ?thesis unfolding xact_do_def
    by (rule reach_act [OF assms(1) refl]) (use assms(2) in \<open>simp_all only: xact_view_acts [OF g]\<close>)
qed

definition sample_transaction :: transaction_state where
  "sample_transaction = \<lparr>tx_xid = Fin 7, tx_vxid = [], tx_state = Commit, tx_start_time_us = None,
     tx_end_time_us = None, tx_lsn = None\<rparr>"

definition there_and_back :: "rat \<Rightarrow> (xact_page, xact_action, unit, host_call, reply) page" where
  "there_and_back width = xact_do width (XactMode Fsm) (xact_do width (XactMode Table)
     (opened (local_perform (xact_page_step width)) () XactOpened
       (init_xact_page width (Some [sample_transaction]))))"

lemma there_and_back_reach: "xact_reach width now (Some [sample_transaction]) (there_and_back width)"
  unfolding there_and_back_def by (intro xact_do_reach reach_start) simp_all

lemma back_to_the_diagram_is_empty:
  "xp_viewMode (pg_state (there_and_back width)) = Fsm \<and>
   xact_data (pg_state (there_and_back width)) = [sample_transaction] \<and>
   drawn (xp_canvas (pg_state (there_and_back width))) = []"
  by (simp add: there_and_back_def xact_page_step_def xact_commit_def xact_update_def init_xact_page_def
      xact_data_def drawn_commit)

theorem state_diagram_never_outdated_witness:
  "drawn (xp_canvas (pg_state (there_and_back 800))) \<in> {[], xact_picture 800 [sample_transaction]} \<and>
   length (xact_picture 800 [sample_transaction]) = 16"
  using state_diagram_never_outdated [OF there_and_back_reach [of "[]" 800]] back_to_the_diagram_is_empty [of 800]
  by (simp add: xact_picture_def STATE_ORDER_def state_shapes_def Let_def)

section \<open>The pipelines\<close>

datatype pipeline_type = WritePipeline | ReadPipeline | TransactionPipeline

definition TITLES :: "pipeline_type \<Rightarrow> ustr" where
  "TITLES t = (case t of WritePipeline \<Rightarrow> ([0x6570, 0x636E, 0x5199, 0x5165] @ str '' Pipeline'') | ReadPipeline \<Rightarrow> ([0x6570, 0x636E, 0x8BFB, 0x53D6] @ str '' Pipeline'')
     | TransactionPipeline \<Rightarrow> ([0x4E8B, 0x52A1, 0x6267, 0x884C] @ str '' Pipeline''))"

datatype stage_mode = Nodes | Gantt

datatype flow_action = FlowOpened | FlowBack | FlowMode stage_mode | SelectStage "pipeline_stage option"
  | NewStages "pipeline_stage given_data"

type_synonym flow_deps = "pipeline_stage given_data \<times> pipeline_stage option"

text \<open>The rows of the Gantt chart are kept apart: their effect runs after every render.\<close>

record flow_page =
  fp_type :: pipeline_type
  fp_stages :: "pipeline_stage given_data"
  fp_selected :: "pipeline_stage option"
  fp_viewMode :: stage_mode
  fp_canvas :: "(flow_deps, flow_action) canvas"
  fp_gantt :: "flow_action figure list"

definition connector :: "rat \<Rightarrow> nat \<Rightarrow> nat \<Rightarrow> flow_action figure list" where
  "connector width n i =
     (let x1 = node_center width n i; x2 = node_center width n (Suc i); centerY = 70
      in [Shape ''line'' [(''x1'', x1), (''y1'', centerY), (''x2'', x2), (''y2'', centerY), (''stroke-width'', 2)]
            [(''stroke'', str ''#30363d'')] [] [] [],
          Shape ''polygon'' [(''p1.x'', x2), (''p1.y'', centerY), (''p2.x'', x2 - 8), (''p2.y'', centerY - 5),
              (''p3.x'', x2 - 8), (''p3.y'', centerY + 5)]
            [(''fill'', str ''#30363d'')] [] [] []])"

definition stage_shapes ::
  "rat \<Rightarrow> nat \<Rightarrow> pipeline_stage option \<Rightarrow> nat \<Rightarrow> pipeline_stage \<Rightarrow> flow_action figure list"
where
  "stage_shapes width n selected i s =
     (let x = node_center width n i; centerY = 70; isSelected = map_option st_id selected = Some (st_id s)
      in [Shape ''circle'' [(''cx'', x), (''cy'', centerY), (''r'', 17), (''stroke-width'', if isSelected then 3 else 2)]
            [(''fill'', stage_fill s), (''stroke'', if isSelected then str ''#58a6ff'' else stage_fill s)]
            [(''click'', SelectStage (click_stage s selected))] [] [],
          Shape ''text'' [(''x'', x), (''y'', centerY + 1)] [] [] (nat_str (i + 1)) [],
          Shape ''text'' [(''x'', x), (''y'', centerY + 30)] [] [] (st_label s) []])"

definition flow_picture :: "rat \<Rightarrow> pipeline_stage list \<Rightarrow> pipeline_stage option \<Rightarrow> flow_action figure list" where
  "flow_picture width stages selected =
     (let n = length stages
      in concat (map (connector width n) [0..<n - 1]) @
         concat (map (\<lambda>(i, s). stage_shapes width n selected i s) (enumerate 0 stages)))"

text \<open>
  The linear scale of d3 (domain from 0 to the first argument, range from 0 to the second) and its
  ticks are arguments.
\<close>

record gantt_scale =
  gs_scale :: "int \<Rightarrow> rat \<Rightarrow> rat \<Rightarrow> rat"
  gs_ticks :: "int \<Rightarrow> int \<Rightarrow> rat list"
  gs_number :: "rat \<Rightarrow> ustr"

definition or_one :: "int \<Rightarrow> int" where
  "or_one v = (if v = 0 then 1 else v)"

definition gantt_tick ::
  "gantt_scale \<Rightarrow> int \<Rightarrow> rat \<Rightarrow> rat \<Rightarrow> rat \<Rightarrow> flow_action figure \<times> flow_action figure"
where
  "gantt_tick g upto_us chartW height d =
     (let x = 160 + gs_scale g (or_one upto_us) chartW d
      in (Shape ''line'' [(''x1'', x), (''y1'', 10), (''x2'', x), (''y2'', height - 30), (''stroke-width'', 1)]
            [(''stroke'', str ''#21262d'')] [] [] [],
          Shape ''text'' [(''x'', x), (''y'', height - 10)] [] []
            (if 1000 \<le> upto_us then to_fixed1 (d / 1000) @ str ''ms'' else gs_number g d @ str ''us'') []))"

definition gantt_row ::
  "gantt_scale \<Rightarrow> rat \<Rightarrow> int \<Rightarrow> rat \<Rightarrow> nat \<Rightarrow> pipeline_stage \<Rightarrow> flow_action figure list"
where
  "gantt_row g width upto_us chartW i s =
     (let y = 10 + of_nat i * 28; scale = gs_scale g (or_one upto_us) chartW;
          barX = 160 + scale (of_int (st_start_us s)); barW = max 2 (scale (of_int (st_duration_us s)))
      in [Shape ''rect'' [(''x'', 0), (''y'', y), (''width'', width), (''height'', 28)]
            [(''fill'', if i mod 2 = 0 then str ''transparent'' else str ''#161b22'')] [] [] [],
          Shape ''text'' [(''x'', 152), (''y'', y + 15)] [(''fill'', gantt_fill s)] [] (st_label s) [],
          Shape ''rect'' [(''x'', barX), (''y'', y + 5), (''width'', barW), (''height'', 18)]
            [(''fill'', gantt_fill s)] [] [] []] @
         (if 40 < barW then
            [Shape ''text'' [(''x'', barX + barW / 2), (''y'', y + 15)] [(''fill'', str ''#fff'')] []
              (if 1000 \<le> st_duration_us s then to_fixed1 (of_int (st_duration_us s) / 1000) @ str ''ms''
               else int_str (st_duration_us s) @ str ''us'') []] else []))"

definition gantt_picture :: "gantt_scale \<Rightarrow> rat \<Rightarrow> pipeline_stage list \<Rightarrow> flow_action figure list" where
  "gantt_picture g width stages =
     (let rows = doneStages stages; upto_us = totalTime stages; chartW = max 240 (width - 160 - 40);
          height = of_nat (length rows) * 28 + 10 + 30;
          ticks = map (gantt_tick g upto_us chartW height)
            (gs_ticks g (or_one upto_us) (min 8 \<lceil>of_int upto_us / (1000 :: rat)\<rceil>))
      in Shape ''g'' [] [] [] [] (map fst ticks) # Shape ''g'' [] [] [] [] (map snd ticks) #
         concat (map (\<lambda>(i, s). gantt_row g width upto_us chartW i s) (enumerate 0 rows)))"

text \<open>
  After a render: the effect of the nodes runs when its dependencies changed and its element is
  there; that of the Gantt chart whenever the chart is shown and has rows, and what it drew stays
  until it runs again or the chart is left.
\<close>

definition flow_commit :: "rat \<Rightarrow> gantt_scale \<Rightarrow> flow_page \<Rightarrow> flow_page" where
  "flow_commit width g s =
     (let stages = given (fp_stages s)
      in s\<lparr>fp_canvas := commit (stages \<noteq> [] \<and> fp_viewMode s = Nodes) (fp_stages s, fp_selected s)
            (flow_picture width stages (fp_selected s)) (fp_canvas s),
          fp_gantt := (if stages = [] \<or> fp_viewMode s \<noteq> Gantt then []
            else if doneStages stages = [] then fp_gantt s else gantt_picture g width stages)\<rparr>)"

definition flow_update :: "flow_action \<Rightarrow> flow_page \<Rightarrow> flow_page" where
  "flow_update a s = (case a of
     FlowMode m \<Rightarrow> s\<lparr>fp_viewMode := m\<rparr>
   | SelectStage x \<Rightarrow> s\<lparr>fp_selected := x\<rparr>
   | NewStages d \<Rightarrow> s\<lparr>fp_stages := d\<rparr>
   | _ \<Rightarrow> s)"

definition flow_step :: "rat \<Rightarrow> gantt_scale \<Rightarrow> flow_action \<Rightarrow> flow_page \<Rightarrow> flow_page" where
  "flow_step width g a s = flow_commit width g (flow_update a s)"

definition stage_status_name :: "stage_status \<Rightarrow> ustr" where
  "stage_status_name t = (case t of Pending \<Rightarrow> str ''pending'' | Active \<Rightarrow> str ''active''
     | stage_status.Done \<Rightarrow> str ''done'' | stage_status.Error \<Rightarrow> str ''error'')"

definition in_ms :: "int \<Rightarrow> ustr" where
  "in_ms us = to_fixed2 (of_int us / 1000) @ str ''ms''"

definition stage_panel :: "pipeline_stage \<Rightarrow> flow_action element" where
  "stage_panel s = box
     [box [El ''h3'' [] [Text (st_name s)], span_of (st_label s)],
      box ([label_value [0x72B6, 0x6001, 0x3A, 0x20] (stage_status_name (st_status s)),
            label_value [0x8017, 0x65F6, 0x3A, 0x20] (if 0 < st_duration_us s then in_ms (st_duration_us s) else str ''-'')] @
        shown_if (0 < st_start_us s) [label_value [0x5F00, 0x59CB, 0x3A, 0x20] (in_ms (st_start_us s))] @
        shown_if (0 < st_end_us s) [label_value [0x7ED3, 0x675F, 0x3A, 0x20] (in_ms (st_end_us s))] @
        map (\<lambda>(k, v). label_value (k @ str '': '') (to_str v)) (st_details s))]"

definition flow_view :: "ustr \<Rightarrow> flow_page \<Rightarrow> flow_action element" where
  "flow_view now s =
     (let stages = given (fp_stages s)
      in box
        ([node_header (TITLES (fp_type s)) (Some (str ''collector '' @ [0x4E8B, 0x4EF6, 0x6D41] @ str '' / useVisualizationData'')) (Some now)
           [box (map (mode_button FlowMode (fp_viewMode s)) [(Nodes, [0x8282, 0x70B9]), (Gantt, str ''Gantt'')])]
           (Some FlowBack)] @
         shown_if (stages = []) [notice ([0x6682, 0x65E0, 0x771F, 0x5B9E] @ str '' Pipeline '' @ [0x6570, 0x636E, 0x3002, 0x8BF7, 0x5148, 0x89E6, 0x53D1, 0x5BF9, 0x5E94, 0x94FE, 0x8DEF, 0x5E76, 0x63A5, 0x5165, 0x9636, 0x6BB5, 0x4E8B, 0x4EF6, 0x3002])] @
         shown_if (stages \<noteq> [] \<and> fp_viewMode s = Nodes) [box [svg_of (fp_canvas s)]] @
         shown_if (stages \<noteq> [] \<and> fp_viewMode s = Gantt)
           [box [box [El ''svg'' [] (map figure_element (fp_gantt s))]]] @
         (case fp_selected s of None \<Rightarrow> [] | Some x \<Rightarrow> [stage_panel x])))"

definition init_flow_page ::
  "rat \<Rightarrow> gantt_scale \<Rightarrow> pipeline_type \<Rightarrow> pipeline_stage given_data \<Rightarrow> flow_page"
where
  "init_flow_page width g t d = flow_commit width g \<lparr>fp_type = t, fp_stages = d, fp_selected = None,
     fp_viewMode = Nodes, fp_canvas = blank, fp_gantt = []\<rparr>"

abbreviation flow_reach ::
  "rat \<Rightarrow> gantt_scale \<Rightarrow> ustr \<Rightarrow> pipeline_type \<Rightarrow> pipeline_stage given_data \<Rightarrow>
   (flow_page, flow_action, unit, host_call, reply) page \<Rightarrow> bool"
where
  "flow_reach width g now t d \<equiv> page_reach (\<lambda>s. Some (flow_view now s)) (\<lambda>_. range NewStages)
     (local_perform (flow_step width g))
     (opened (local_perform (flow_step width g)) () FlowOpened (init_flow_page width g t d))"

lemma gantt_picture_figures:
  assumes "f \<in> set (gantt_picture g width stages)"
  shows "flat_figure c f \<and> figure_acts f = {}"
proof -
  have row: "flat_figure c f \<and> figure_acts f = {}" if "f \<in> set (gantt_row g width u w i s)" for f u w i s
    using that by (auto simp: gantt_row_def Let_def split: if_splits)
  have tick: "flat_figure c (fst (gantt_tick g u w h d)) \<and> figure_acts (fst (gantt_tick g u w h d)) = {}"
    "flat_figure c (snd (gantt_tick g u w h d)) \<and> figure_acts (snd (gantt_tick g u w h d)) = {}" for c u w h d
    by (simp_all add: gantt_tick_def Let_def)
  have "\<exists>w h ds. f = Shape ''g'' [] [] [] [] (map fst (map (gantt_tick g (totalTime stages) w h) ds)) \<or>
      f = Shape ''g'' [] [] [] [] (map snd (map (gantt_tick g (totalTime stages) w h) ds)) \<or>
      (\<exists>u w i s. f \<in> set (gantt_row g width u w i s))"
    using assms unfolding gantt_picture_def Let_def set_simps set_append set_concat set_map
    by (elim insertE UnE UnionE imageE) (auto simp del: map_map, blast)
  then show ?thesis using row tick by (elim exE disjE) (auto simp: tick)
qed

interpretation flow_nodes: chart "\<lambda>s. given (fp_stages s) \<noteq> [] \<and> fp_viewMode s = Nodes"
  "\<lambda>s. (fp_stages s, fp_selected s)"
  "\<lambda>s. flow_picture width (given (fp_stages s)) (fp_selected s)" for width
  by unfold_locales auto

text \<open>The rows of the Gantt chart can only be looked at.\<close>

definition flow_good :: "rat \<Rightarrow> flow_page \<Rightarrow> bool" where
  "flow_good width s \<longleftrightarrow> flow_nodes.settled width s (fp_canvas s) \<and>
     (\<forall>f\<in>set (fp_gantt s). flat_figure False f \<and> figure_acts f = {})"

lemma flow_commit_fields [simp]:
  "fp_stages (flow_commit width g s) = fp_stages s" "fp_viewMode (flow_commit width g s) = fp_viewMode s"
  "fp_selected (flow_commit width g s) = fp_selected s" "fp_type (flow_commit width g s) = fp_type s"
  by (simp_all add: flow_commit_def Let_def)

lemma flow_good_commit:
  assumes "fp_canvas s = blank \<or> (\<exists>r :: flow_page. flow_nodes.settled width r (fp_canvas s))"
    "\<forall>f\<in>set (fp_gantt s). flat_figure False f \<and> figure_acts f = {}"
  shows "flow_good width (flow_commit width g s)"
proof -
  have "flow_nodes.settled width (flow_commit width g s) (fp_canvas (flow_commit width g s))"
    using flow_nodes.settled_cong [of "flow_commit width g s" s width] flow_nodes.settled_blank [of width s]
      flow_nodes.settled_commit [of width _ "fp_canvas s" s] assms(1)
    by (auto simp: flow_commit_def Let_def)
  moreover have "\<forall>f\<in>set (fp_gantt (flow_commit width g s)). flat_figure False f \<and> figure_acts f = {}"
    using assms(2) gantt_picture_figures by (simp add: flow_commit_def Let_def)
  ultimately show ?thesis by (simp add: flow_good_def)
qed

lemma flow_good_init: "flow_good width (init_flow_page width g t d)"
  by (simp add: init_flow_page_def flow_good_commit)

lemma flow_good_step: "flow_good width s \<Longrightarrow> flow_good width (flow_step width g a s)"
proof -
  assume s: "flow_good width s"
  have "fp_canvas (flow_update a s) = fp_canvas s" "fp_gantt (flow_update a s) = fp_gantt s"
    by (cases a; simp add: flow_update_def)+
  with s show ?thesis unfolding flow_step_def by (intro flow_good_commit) (auto simp: flow_good_def)
qed

interpretation flow: page_contract "\<lambda>s. Some (flow_view now s)" "\<lambda>_. range NewStages"
  "local_perform (flow_step width g)" FlowOpened "init_flow_page width g t d" "flow_good width" "\<lambda>_. False"
  for now width g t d
  by unfold_locales (simp_all add: flow_good_init local_sound flow_good_step)

text \<open>What a click on a node of the pipeline can do: select its stage or clear the selection.\<close>

lemma stage_shapes_figures:
  assumes "f \<in> set (stage_shapes width n sel i s)"
  shows "flat_figure False f" "figure_acts f \<subseteq> {SelectStage (click_stage s sel)}"
  using assms by (auto simp: stage_shapes_def Let_def)

lemma connector_figures:
  "f \<in> set (connector width n i) \<Longrightarrow> flat_figure False f \<and> figure_acts f = {}"
  by (auto simp: connector_def Let_def)

lemma flow_picture_figures:
  assumes "f \<in> set (flow_picture width stages sel)"
  shows "flat_figure False f" "figure_acts f \<subseteq> (\<lambda>s. SelectStage (click_stage s sel)) ` set stages"
proof -
  have m: "s \<in> set stages" if "(i, s) \<in> set (enumerate 0 stages)" for i s
    using that by (auto simp: in_set_enumerate_eq)
  from assms consider i where "f \<in> set (connector width (length stages) i)"
    | i s where "(i, s) \<in> set (enumerate 0 stages)" "f \<in> set (stage_shapes width (length stages) sel i s)"
    unfolding flow_picture_def Let_def set_append set_concat set_map by (elim UnE UnionE imageE) auto
  then have "flat_figure False f \<and> figure_acts f \<subseteq> (\<lambda>s. SelectStage (click_stage s sel)) ` set stages"
  proof cases
    case 1
    then show ?thesis using connector_figures by simp
  next
    case (2 i s)
    then show ?thesis using stage_shapes_figures [OF 2(2)] m [OF 2(1)] by blast
  qed
  then show "flat_figure False f" "figure_acts f \<subseteq> (\<lambda>s. SelectStage (click_stage s sel)) ` set stages"
    by simp_all
qed

text \<open>
  C20. The nodes of a pipeline react to clicks as they look: on every page that can be reached the
  only stages that can be selected are those of the pipeline shown, by a click on their node that
  selects a stage which is not selected and clears a selection that is.
\<close>

theorem pipeline_selects_shown_stages:
  assumes "flow_reach width g now t d c" "SelectStage x \<in> acts (flow_view now (pg_state c))"
  shows "\<exists>s\<in>set (given (fp_stages (pg_state c))). x = click_stage s (fp_selected (pg_state c))"
proof -
  let ?s = "pg_state c"
  have good: "flow_good width ?s" by (rule flow.reachable_state(1) [OF assms(1)])
  have panel: "acts (stage_panel p) = {}" for p by (auto simp: stage_panel_def)
  have "SelectStage x \<in> (\<Union>f\<in>set (drawn (fp_canvas ?s)). figure_acts f) \<union> (\<Union>f\<in>set (fp_gantt ?s). figure_acts f)"
    using assms(2) by (auto simp: flow_view_def panel Let_def split: option.splits if_splits)
  then obtain f where "f \<in> set (drawn (fp_canvas ?s))" "SelectStage x \<in> figure_acts f"
    using good by (auto simp: flow_good_def)
  moreover from this have "drawn (fp_canvas ?s) = flow_picture width (given (fp_stages ?s)) (fp_selected ?s)"
    using flow_nodes.settled_drawn [of width ?s "fp_canvas ?s"] good by (auto simp: flow_good_def)
  ultimately show ?thesis using flow_picture_figures(2) by fastforce
qed

lemma flow_nodes_offered:
  assumes "flow_reach width g now t d c" "drawn (fp_canvas (pg_state c)) \<noteq> []"
    "s \<in> set (given (fp_stages (pg_state c)))"
  shows "SelectStage (click_stage s (fp_selected (pg_state c))) \<in> acts (flow_view now (pg_state c))"
proof -
  let ?s = "pg_state c"
  have good: "flow_good width ?s" by (rule flow.reachable_state(1) [OF assms(1)])
  then have d: "given (fp_stages ?s) \<noteq> []" "fp_viewMode ?s = Nodes"
    "drawn (fp_canvas ?s) = flow_picture width (given (fp_stages ?s)) (fp_selected ?s)"
    using flow_nodes.settled_drawn [of width ?s "fp_canvas ?s"] assms(2) by (auto simp: flow_good_def)
  obtain i where i: "i < length (given (fp_stages ?s))" "given (fp_stages ?s) ! i = s"
    using assms(3) by (metis in_set_conv_nth)
  then have m: "(i, s) \<in> set (enumerate 0 (given (fp_stages ?s)))" by (auto simp: in_set_enumerate_eq)
  let ?shapes = "stage_shapes width (length (given (fp_stages ?s))) (fp_selected ?s) i s"
  have "set ?shapes \<subseteq> set (drawn (fp_canvas ?s))"
    using m unfolding d(3) flow_picture_def Let_def set_append set_concat set_map by fastforce
  moreover have "SelectStage (click_stage s (fp_selected ?s)) \<in> (\<Union>f\<in>set ?shapes. figure_acts f)"
    by (simp add: stage_shapes_def Let_def)
  ultimately have "SelectStage (click_stage s (fp_selected ?s)) \<in> acts (svg_of (fp_canvas ?s))" by auto
  with d show ?thesis by (simp add: flow_view_def Let_def)
qed

lemma flow_view_plain:
  assumes "flow_good width s"
  shows "plain_page (flow_view now s)"
proof -
  have "\<forall>f\<in>set (drawn (fp_canvas s)). flat_figure False f"
    using assms flow_nodes.settled_drawn [of width s "fp_canvas s"] flow_picture_figures(1)
    by (auto simp: flow_good_def)
  then have "plain_page (svg_of (fp_canvas s))" by (rule plain_svg)
  moreover have "plain_page (stage_panel x)" for x by (auto simp: stage_panel_def)
  ultimately show ?thesis using assms
    by (auto simp: flow_view_def flow_good_def Let_def split: option.split)
qed

text \<open>
  A selected stage stays on the page as it was when it was selected, whatever arrives afterwards,
  also after the last stage is gone.
\<close>

definition flow_do ::
  "rat \<Rightarrow> gantt_scale \<Rightarrow> flow_action \<Rightarrow> (flow_page, flow_action, unit, host_call, reply) page \<Rightarrow>
   (flow_page, flow_action, unit, host_call, reply) page"
where
  "flow_do width g a c = proceed () a (local_perform (flow_step width g) a (pg_state c)) c"

lemma state_flow_do [simp]: "pg_state (flow_do width g a c) = flow_step width g a (pg_state c)"
  by (simp add: flow_do_def local_perform_def proceed_def)

definition sample_stage :: "stage_status \<Rightarrow> pipeline_stage" where
  "sample_stage st = (pending_stage (str ''wal_insert'') (str ''XLogInsert'') (str ''WAL'') [])\<lparr>st_status := st\<rparr>"

definition selecting :: "rat \<Rightarrow> gantt_scale \<Rightarrow> (flow_page, flow_action, unit, host_call, reply) page" where
  "selecting width g = flow_do width g (SelectStage (Some (sample_stage Pending)))
     (opened (local_perform (flow_step width g)) () FlowOpened
       (init_flow_page width g WritePipeline (1, Some [sample_stage Pending])))"

lemma flow_step_fields [simp]:
  "fp_stages (flow_step width g a s) = fp_stages (flow_update a s)"
  "fp_selected (flow_step width g a s) = fp_selected (flow_update a s)"
  "fp_viewMode (flow_step width g a s) = fp_viewMode (flow_update a s)"
  by (simp_all add: flow_step_def)

lemma init_flow_fields [simp]:
  "fp_stages (init_flow_page width g t d) = d" "fp_selected (init_flow_page width g t d) = None"
  "fp_viewMode (init_flow_page width g t d) = Nodes"
  by (simp_all add: init_flow_page_def)

lemma given_Some [simp]: "given (n, Some xs) = xs"
  by (simp add: given_def)

lemma flow_opened_drawn:
  "given d \<noteq> [] \<Longrightarrow> drawn (fp_canvas (flow_step width g FlowOpened (init_flow_page width g t d))) =
     flow_picture width (given d) None"
  by (simp add: flow_step_def flow_commit_def flow_update_def init_flow_page_def drawn_commit Let_def)

lemma flow_picture_nonempty: "stages \<noteq> [] \<Longrightarrow> flow_picture width stages sel \<noteq> []"
  by (cases stages) (simp_all add: flow_picture_def stage_shapes_def Let_def)

lemma selecting_reach: "flow_reach width g now WritePipeline (1, Some [sample_stage Pending]) (selecting width g)"
proof -
  let ?d = "(1, Some [sample_stage Pending]) :: pipeline_stage given_data"
  let ?c = "opened (local_perform (flow_step width g)) () FlowOpened (init_flow_page width g WritePipeline ?d)"
  have r: "flow_reach width g now WritePipeline ?d ?c" by (rule reach_start)
  have s: "given (fp_stages (pg_state ?c)) = [sample_stage Pending]" "fp_selected (pg_state ?c) = None"
    by (simp_all add: flow_update_def)
  have "drawn (fp_canvas (pg_state ?c)) \<noteq> []" by (simp add: flow_opened_drawn flow_picture_nonempty)
  from flow_nodes_offered [OF r this, of "sample_stage Pending"] s
  have "SelectStage (Some (sample_stage Pending)) \<in> acts (flow_view now (pg_state ?c))"
    by (simp add: click_stage_def)
  from reach_act [OF r refl flow_view_plain [OF flow.reachable_state(1) [OF r]] this] show ?thesis
    by (simp add: selecting_def flow_do_def)
qed

lemma selected_stage_is_a_snapshot:
  "fp_selected (pg_state (flow_do width g (NewStages (2, Some [sample_stage stage_status.Done])) (selecting width g))) =
     Some (sample_stage Pending)"
  by (simp add: selecting_def flow_update_def)

theorem pipeline_selects_shown_stages_witness:
  "\<exists>s\<in>{sample_stage Pending}. None = click_stage s (Some (sample_stage Pending))"
proof -
  let ?c = "selecting 800 \<lparr>gs_scale = (\<lambda>_ _ v. v), gs_ticks = (\<lambda>_ _. []), gs_number = (\<lambda>_. [])\<rparr>"
  have s: "given (fp_stages (pg_state ?c)) = [sample_stage Pending]"
    "fp_selected (pg_state ?c) = Some (sample_stage Pending)"
    by (simp_all add: selecting_def flow_update_def)
  have "drawn (fp_canvas (pg_state ?c)) \<noteq> []"
    by (simp add: selecting_def flow_step_def flow_commit_def flow_update_def init_flow_page_def drawn_commit
        flow_picture_nonempty Let_def)
  from flow_nodes_offered [OF selecting_reach [of "[]"] this, of "sample_stage Pending"] s
  have "SelectStage None \<in> acts (flow_view [] (pg_state ?c))" by (simp add: click_stage_def)
  from pipeline_selects_shown_stages [OF selecting_reach this] s show ?thesis by simp
qed

end
