(* ===== verification/TableViews.thy ===== *)
theory TableViews
  imports ChartViews MemoryStructs
begin

text \<open>
  What \<^verbatim>\<open>MemoryStructView.tsx\<close> renders: the three tables of theory \<open>MemoryStructs\<close> behind their tabs.
\<close>

datatype memory_tab = ProcTab | XactTab | BufferTab

datatype memory_action = MemoryOpened | MemoryBack | ShowTable memory_tab | NewBackends "row list option"
  | NewEvents "probe_event list"

record memory_page =
  mp_backends :: "row list option"
  mp_events :: "probe_event list"
  mp_tab :: memory_tab

definition cell_table :: "ustr list \<Rightarrow> 'a element list list \<Rightarrow> 'a element" where
  "cell_table heads rows = box [El ''table'' []
     [El ''thead'' [] [El ''tr'' [] (map (\<lambda>t. El ''th'' [] [Text t]) heads)],
      El ''tbody'' [] (map (El ''tr'' []) rows)]]"

definition td :: "ustr \<Rightarrow> 'a element" where
  "td t = El ''td'' [] [Text t]"

definition stateBadge :: "xact_status \<Rightarrow> 'a element" where
  "stateBadge t = (case t of
     Idle \<Rightarrow> El ''span'' [Attr ''color'' (str ''#7d8590'')] [Text (str ''idle'')]
   | Started \<Rightarrow> El ''span'' [Attr ''color'' (str ''#58a6ff'')] [Text (str ''started'')]
   | In_progress \<Rightarrow> El ''span'' [Attr ''color'' (str ''#d29922'')] [Text (str ''in_progress'')]
   | Commit \<Rightarrow> El ''span'' [Attr ''color'' (str ''#3fb950'')] [Text (str ''commit'')]
   | Abort \<Rightarrow> El ''span'' [Attr ''color'' (str ''#f85149'')] [Text (str ''abort'')])"

definition proc_heads :: "ustr list" where
  "proc_heads = [str ''PID'', str ''XID'', str ''VXID'', [0x72B6, 0x6001], [0x6570, 0x636E, 0x5E93], [0x7B49, 0x5F85, 0x4E8B, 0x4EF6]]"

definition proc_cells :: "pgproc_entry \<Rightarrow> 'a element list" where
  "proc_cells p =
     [td (num_str (pe_pid p)), td (num_or_dash (pe_xid p)), td (text_or_dash (pe_vxid p)),
      El ''td'' [] [stateBadge (pe_state p)], td (num_or_dash (pe_database p)), td (text_or_dash (pe_waitEvent p))]"

definition xact_table_heads :: "ustr list" where
  "xact_table_heads = [str ''XID'', [0x72B6, 0x6001], str ''XMIN'', str ''CommitTs'']"

definition xact_cells :: "pgxact_entry \<Rightarrow> 'a element list" where
  "xact_cells x =
     [td (num_str (xe_xid x)), El ''td'' [] [stateBadge (xe_state x)], td (num_or_dash (xe_xmin x)),
      td (num_or_dash (xe_commitTs x))]"

definition buffer_heads :: "ustr list" where
  "buffer_heads = [str ''BufferID'', str ''RelFileNode'', str ''Block'', [0x810F, 0x9875], str ''Pinned'', [0x547D, 0x4E2D]]"

definition flag_cell :: "ustr \<Rightarrow> bool \<Rightarrow> 'a element" where
  "flag_cell c b = El ''td'' [Attr ''color'' (if b then c else str ''var(--text-muted)'')]
     [Text (if b then str ''Y'' else str ''N'')]"

definition buffer_cells :: "buffer_desc_entry \<Rightarrow> 'a element list" where
  "buffer_cells b =
     [td (num_str (bd_bufferId b)), td (num_or_dash (bd_relfilenode b)), td (num_or_dash (bd_blockNum b)),
      flag_cell (str ''#f85149'') (bd_isDirty b), flag_cell (str ''#58a6ff'') (bd_isPinned b),
      td (nat_str (bd_hitCount b))]"

definition counted :: "string \<Rightarrow> nat \<Rightarrow> ustr" where
  "counted l n = str l @ str '' ('' @ nat_str n @ str '')''"

definition table_tabs :: "memory_view \<Rightarrow> (memory_tab \<times> ustr) list" where
  "table_tabs v =
     [(ProcTab, counted ''PGPROC'' (length (mv_procs v))), (XactTab, counted ''PGXACT'' (length (mv_xacts v))),
      (BufferTab, counted ''BufferDesc'' (length (mv_bufs v)))]"

definition table_of :: "memory_tab \<Rightarrow> memory_view \<Rightarrow> 'a element" where
  "table_of t v = (case t of
     ProcTab \<Rightarrow> cell_table proc_heads (map proc_cells (mv_procs v))
   | XactTab \<Rightarrow> cell_table xact_table_heads (map xact_cells (mv_xacts v))
   | BufferTab \<Rightarrow> cell_table buffer_heads (map buffer_cells (mv_bufs v)))"

definition table_tab :: "memory_tab \<Rightarrow> memory_tab \<times> ustr \<Rightarrow> memory_action element" where
  "table_tab current t = El ''button''
     [OnClick (ShowTable (fst t)),
      Attr ''background'' (if current = fst t then str ''var(--accent)'' else str ''var(--bg-tertiary)'')]
     [Text (snd t)]"

definition memory_page_view :: "ustr \<Rightarrow> memory_page \<Rightarrow> memory_action element" where
  "memory_page_view now s =
     (let v = memoryStructView (mp_backends s) (mp_events s)
      in box
        ([node_header [0x8FD0, 0x884C, 0x65F6, 0x5185, 0x5B58, 0x7ED3, 0x6784] (Some (str ''/api/snapshot + xact_state/buffer_pin '' @ [0x4E8B, 0x4EF6])) (Some now)
            [span_of (nat_str (length (mp_events s)) @ str '' events'')] (Some MemoryBack)] @
         shown_if (\<not> mv_hasData v)
           [notice ([0x6682, 0x65E0, 0x771F, 0x5B9E, 0x5185, 0x5B58, 0x89C2, 0x6D4B, 0x6570, 0x636E, 0x3002, 0x8BF7, 0x5148, 0x8FDE, 0x63A5, 0x8282, 0x70B9, 0x5E76, 0x4EA7, 0x751F, 0x4E8B, 0x52A1, 0x6216] @ str '' Buffer '' @ [0x76F8, 0x5173, 0x4E8B, 0x4EF6, 0x3002])] @
         shown_if (mv_hasData v)
           [box (map (table_tab (mp_tab s)) (table_tabs v)), table_of (mp_tab s) v]))"

definition memory_update :: "memory_action \<Rightarrow> memory_page \<Rightarrow> memory_page" where
  "memory_update a s = (case a of
     ShowTable t \<Rightarrow> s\<lparr>mp_tab := t\<rparr>
   | NewBackends b \<Rightarrow> s\<lparr>mp_backends := b\<rparr>
   | NewEvents es \<Rightarrow> s\<lparr>mp_events := es\<rparr>
   | _ \<Rightarrow> s)"

lemma badge_inert: "acts (stateBadge t) = {}" "unnested c d (stateBadge t)"
  by (cases t; simp add: stateBadge_def)+

lemma cell_table_inert:
  assumes "\<forall>r\<in>set rows. \<forall>x\<in>set r. acts x = {} \<and> unnested c d x"
  shows "acts (cell_table heads rows) = {} \<and> unnested c d (cell_table heads rows)"
  using assms by (auto simp: cell_table_def)

lemma row_cells_inert:
  "x \<in> set (proc_cells p) \<Longrightarrow> acts x = {} \<and> unnested c d x"
  "x \<in> set (xact_cells y) \<Longrightarrow> acts x = {} \<and> unnested c d x"
  "x \<in> set (buffer_cells b) \<Longrightarrow> acts x = {} \<and> unnested c d x"
  by (auto simp: proc_cells_def xact_cells_def buffer_cells_def td_def flag_cell_def badge_inert)

lemma table_of_inert: "acts (table_of t v :: 'a element) = {} \<and> unnested c d (table_of t v :: 'a element)"
proof (cases t)
  case ProcTab
  have "acts (cell_table proc_heads (map proc_cells (mv_procs v)) :: 'a element) = {} \<and>
      unnested c d (cell_table proc_heads (map proc_cells (mv_procs v)) :: 'a element)"
    by (rule cell_table_inert) (use row_cells_inert(1) in auto)
  with ProcTab show ?thesis by (simp add: table_of_def)
next
  case XactTab
  have "acts (cell_table xact_table_heads (map xact_cells (mv_xacts v)) :: 'a element) = {} \<and>
      unnested c d (cell_table xact_table_heads (map xact_cells (mv_xacts v)) :: 'a element)"
    by (rule cell_table_inert) (use row_cells_inert(2) in auto)
  with XactTab show ?thesis by (simp add: table_of_def)
next
  case BufferTab
  have "acts (cell_table buffer_heads (map buffer_cells (mv_bufs v)) :: 'a element) = {} \<and>
      unnested c d (cell_table buffer_heads (map buffer_cells (mv_bufs v)) :: 'a element)"
    by (rule cell_table_inert) (use row_cells_inert(3) in auto)
  with BufferTab show ?thesis by (simp add: table_of_def)
qed

lemma acts_memory_page:
  "acts (memory_page_view now s) =
     {MemoryBack} \<union> (if mv_hasData (memoryStructView (mp_backends s) (mp_events s))
        then {ShowTable ProcTab, ShowTable XactTab, ShowTable BufferTab} else {})"
  by (auto simp: memory_page_view_def table_tabs_def table_tab_def table_of_inert Let_def)

lemma plain_memory_page: "plain_page (memory_page_view now s)"
  by (auto simp: memory_page_view_def table_tabs_def table_tab_def table_of_inert Let_def)

text \<open>The table that is open need not be one with rows.\<close>

lemma open_table_can_be_empty:
  "mv_hasData (memoryStructView None [\<lparr>ev_type = str ''buffer_pin'', ev_timestamp = Fin 0, ev_pid = Fin 3,
     ev_seq = Fin 0, ev_data = [(str ''buffer_id'', JNum (Fin 5))]\<rparr>]) \<and>
   mv_procs (memoryStructView None [\<lparr>ev_type = str ''buffer_pin'', ev_timestamp = Fin 0, ev_pid = Fin 3,
     ev_seq = Fin 0, ev_data = [(str ''buffer_id'', JNum (Fin 5))]\<rparr>]) = []"
  by (simp add: memoryStructView_def buildProcFromSnapshot_def buildProcFromEvents_def proc_step_def
      buildBufferDescEntries_def desc_step_def sort_by_num_def num_or_0_def field_def str_def num_truthy_def Let_def)

end
