(* ===== verification/GraphViews.thy ===== *)
theory GraphViews
  imports ChartViews ClusterView LockGraph
begin

text \<open>
  The pages \<^verbatim>\<open>LockGraphView.tsx\<close> and \<^verbatim>\<open>PlanTreeView.tsx\<close>. The effect of the lock page sets state of
  its own, so that a render may ask for another one: the theory models the renders one by one and
  says when they come to an end. Where d3 places the nodes (forces, tree layout) is left out or an
  argument.
\<close>

section \<open>The lock page\<close>

datatype lock_action = LockBack | SelectLockNode lock_node

text \<open>
  \<^verbatim>\<open>nodes ?? []\<close>: the list given with its identity, or a new list at every render.
\<close>

datatype list_identity = GivenList nat | FreshList nat

type_synonym 'x maybe_list = "(nat \<times> 'x list) option"

definition identity_at :: "nat \<Rightarrow> 'x maybe_list \<Rightarrow> list_identity" where
  "identity_at n p = (case p of None \<Rightarrow> FreshList n | Some (i, xs) \<Rightarrow> GivenList i)"

definition display_list :: "'x maybe_list \<Rightarrow> 'x list" where
  "display_list p = (case p of None \<Rightarrow> [] | Some (i, xs) \<Rightarrow> xs)"

record lock_page =
  kp_nodes :: "lock_node maybe_list"
  kp_edges :: "lock_edge maybe_list"
  kp_selected :: "lock_node option"
  kp_cycles :: "ustr list list"
  kp_renders :: nat
  kp_deps :: "(list_identity \<times> list_identity) option"
  kp_drawn :: "lock_action figure list"

definition on_common_cycle :: "ustr list list \<Rightarrow> ustr \<Rightarrow> ustr \<Rightarrow> bool" where
  "on_common_cycle cycles a b \<longleftrightarrow> list_ex (\<lambda>c. a \<in> set c \<and> b \<in> set c) cycles"

definition lock_line :: "ustr list list \<Rightarrow> lock_edge \<Rightarrow> lock_action figure" where
  "lock_line cycles e = Shape ''line''
     [(''stroke-width'', min 3 (of_int (le_wait_time_us e) / 50000 + 1))]
     ((''stroke'', if on_common_cycle cycles (le_source e) (le_target e) then str ''#f85149'' else str ''#7d8590'') #
      (if le_mode e = str ''waiting'' then [(''stroke-dasharray'', str ''5,3'')] else []))
     [] [] []"

definition lock_figure :: "ustr list list \<Rightarrow> lock_node \<Rightarrow> lock_action figure" where
  "lock_figure cycles n =
     (let isLock = ln_type n = Lock; inCycle = on_common_cycle cycles (ln_id n) (ln_id n)
      in Shape ''g'' [] [] [(''click'', SelectLockNode n)] []
        [Shape ''circle'' [(''r'', if isLock then 24 else 20), (''stroke-width'', if inCycle then 3 else 1)]
           [(''fill'', if isLock then str ''#d29922'' else str ''#58a6ff''),
            (''stroke'', if inCycle then str ''#f85149'' else str ''#30363d'')] [] [] [],
         Shape ''text'' [] [] []
           (if 10 < length (ln_label n) then take 8 (ln_label n) @ str ''..'' else ln_label n) [],
         Shape ''text'' [] [] [] (if isLock then str ''LOCK'' else str ''PID '' @ num_str (ln_pid n)) []])"

definition lock_picture :: "ustr list list \<Rightarrow> lock_node list \<Rightarrow> lock_edge list \<Rightarrow> lock_action figure list" where
  "lock_picture cycles nodes edges =
     [Shape ''g'' [] [] [] [] (map (lock_line cycles) edges @
        map (\<lambda>e. Shape ''text'' [] [] [] (le_mode e) []) edges),
      Shape ''g'' [] [] [] [] (map (lock_figure cycles) nodes)]"

text \<open>
  One render and its effect. The effect runs if one of its two lists is another one than before; it
  stores the cycles in a new list, which React takes for a change and renders again.
\<close>

definition lock_render :: "lock_page \<Rightarrow> lock_page \<times> bool" where
  "lock_render s0 =
     (let s = s0\<lparr>kp_renders := Suc (kp_renders s0)\<rparr>;
          deps = (identity_at (kp_renders s) (kp_nodes s), identity_at (kp_renders s) (kp_edges s));
          nodes = display_list (kp_nodes s); edges = display_list (kp_edges s)
      in if kp_deps s = Some deps then (s, False)
         else if nodes = [] then (s\<lparr>kp_deps := Some deps, kp_drawn := [], kp_cycles := []\<rparr>, True)
         else
           (let detected = detectCycle (map ln_id nodes) (map (\<lambda>e. (le_source e, le_target e)) edges)
            in (s\<lparr>kp_deps := Some deps, kp_cycles := detected, kp_drawn := lock_picture detected nodes edges\<rparr>,
                True)))"

text \<open>Renders until none is asked for; \<open>None\<close> if there is always another one.\<close>

partial_function (option) lock_settle :: "lock_page \<Rightarrow> lock_page option" where
  "lock_settle s =
     (case lock_render s of (s', again) \<Rightarrow> if again then lock_settle s' else Some s')"

definition lock_update :: "lock_action \<Rightarrow> lock_page \<Rightarrow> lock_page" where
  "lock_update a s = (case a of SelectLockNode n \<Rightarrow> s\<lparr>kp_selected := Some n\<rparr> | LockBack \<Rightarrow> s)"

definition init_lock_page :: "lock_node maybe_list \<Rightarrow> lock_edge maybe_list \<Rightarrow> lock_page" where
  "init_lock_page nodes edges = \<lparr>kp_nodes = nodes, kp_edges = edges, kp_selected = None, kp_cycles = [],
     kp_renders = 0, kp_deps = None, kp_drawn = []\<rparr>"

text \<open>What the application hands to the page: a list only if it is not empty.\<close>

definition unless_empty :: "nat \<Rightarrow> 'x list \<Rightarrow> 'x maybe_list" where
  "unless_empty i xs = (if xs = [] then None else Some (i, xs))"

definition lock_page_of :: "nat \<Rightarrow> nat \<Rightarrow> lock_graph \<Rightarrow> lock_page" where
  "lock_page_of i j g = init_lock_page (unless_empty i (lg_nodes g)) (unless_empty j (lg_edges g))"

definition lock_type_name :: "lock_node_type \<Rightarrow> ustr" where
  "lock_type_name t = (case t of Backend \<Rightarrow> str ''backend'' | Lock \<Rightarrow> str ''lock'')"

definition lock_view :: "ustr \<Rightarrow> lock_page \<Rightarrow> lock_action element" where
  "lock_view now s = box
     ([node_header [0x9501, 0x7B49, 0x5F85, 0x56FE] (Some (str ''/api/snapshot'' @ [0xFF08] @ str ''backends + locks'' @ [0xFF09])) (Some now)
         (shown_if (kp_cycles s \<noteq> [])
            [span_of ([0x68C0, 0x6D4B, 0x5230, 0x20] @ nat_str (length (kp_cycles s)) @ [0x20, 0x4E2A, 0x6B7B, 0x9501, 0x73AF])])
         (Some LockBack),
       box (shown_if (display_list (kp_nodes s) = []) [notice [0x6682, 0x65E0, 0x9501, 0x7B49, 0x5F85, 0x56FE, 0x6570, 0x636E, 0xFF0C, 0x8BF7, 0x5148, 0x89E6, 0x53D1, 0x5E76, 0x53D1, 0x8BBF, 0x95EE, 0x3002]] @
         [El ''svg'' [] (map figure_element (kp_drawn s))])] @
      (case kp_selected s of None \<Rightarrow> [] | Some n \<Rightarrow>
         [box [box [Text (ln_label n)],
            box [Text ([0x7C7B, 0x578B, 0xFF1A] @ lock_type_name (ln_type n) @ (str '' | PID'' @ [0xFF1A]) @ num_or_dash (ln_pid n))]]]))"

text \<open>A list that is missing is never the one of the last render.\<close>

definition fresh_bounded :: "lock_page \<Rightarrow> bool" where
  "fresh_bounded s \<longleftrightarrow> (\<forall>a b. kp_deps s = Some (a, b) \<longrightarrow>
     (\<forall>n. a = FreshList n \<or> b = FreshList n \<longrightarrow> n \<le> kp_renders s))"

lemma identity_at_fresh: "identity_at n p = FreshList m \<longleftrightarrow> p = None \<and> m = n"
  by (cases p) (auto simp: identity_at_def)

lemma lock_render_fields:
  "kp_nodes (fst (lock_render s)) = kp_nodes s" "kp_edges (fst (lock_render s)) = kp_edges s"
  "kp_renders (fst (lock_render s)) = Suc (kp_renders s)"
  by (simp_all add: lock_render_def Let_def)

lemma lock_render_deps:
  "kp_deps (fst (lock_render s)) =
     Some (identity_at (Suc (kp_renders s)) (kp_nodes s), identity_at (Suc (kp_renders s)) (kp_edges s))"
  by (simp add: lock_render_def Let_def)

lemma lock_render_again:
  "snd (lock_render s) \<longleftrightarrow> kp_deps s \<noteq>
     Some (identity_at (Suc (kp_renders s)) (kp_nodes s), identity_at (Suc (kp_renders s)) (kp_edges s))"
  by (simp add: lock_render_def Let_def)

lemma fresh_bounded_render: "fresh_bounded (fst (lock_render s))"
  by (auto simp: fresh_bounded_def lock_render_deps lock_render_fields identity_at_fresh)

lemma missing_list_renders_again:
  "fresh_bounded s \<Longrightarrow> kp_nodes s = None \<or> kp_edges s = None \<Longrightarrow> snd (lock_render s)"
  by (force simp: lock_render_again fresh_bounded_def identity_at_def)

lemma settled_lists:
  assumes "lock_settle s = Some t"
  shows "fresh_bounded s \<longrightarrow> kp_nodes s \<noteq> None \<and> kp_edges s \<noteq> None"
proof (rule lock_settle.raw_induct
    [where P = "\<lambda>s t. fresh_bounded s \<longrightarrow> kp_nodes s \<noteq> None \<and> kp_edges s \<noteq> None", OF _ assms])
  fix settle s t
  assume ih: "\<And>s t. settle s = Some t \<Longrightarrow> fresh_bounded s \<longrightarrow> kp_nodes s \<noteq> None \<and> kp_edges s \<noteq> None"
    and eq: "(case lock_render s of (s', again) \<Rightarrow> if again then settle s' else Some s') = Some t"
  show "fresh_bounded s \<longrightarrow> kp_nodes s \<noteq> None \<and> kp_edges s \<noteq> None"
  proof
    assume "fresh_bounded s"
    show "kp_nodes s \<noteq> None \<and> kp_edges s \<noteq> None"
    proof (cases "snd (lock_render s)")
      case True
      with eq have "settle (fst (lock_render s)) = Some t" by (simp add: case_prod_beta)
      from ih [OF this] fresh_bounded_render show ?thesis by (simp add: lock_render_fields)
    next
      case False
      have "kp_nodes s = None \<or> kp_edges s = None \<longrightarrow> snd (lock_render s)"
        using missing_list_renders_again [OF \<open>fresh_bounded s\<close>] by (rule impI)
      with False show ?thesis by auto
    qed
  qed
qed

lemma given_lists_settle:
  assumes "kp_deps s = None" "kp_nodes s = Some (i, xs)" "kp_edges s = Some (j, ys)"
  shows "lock_settle s = Some ((fst (lock_render s))\<lparr>kp_renders := Suc (Suc (kp_renders s))\<rparr>)"
proof -
  let ?t = "fst (lock_render s)"
  have a: "snd (lock_render s)" using assms by (simp add: lock_render_again)
  have "lock_render ?t = (?t\<lparr>kp_renders := Suc (kp_renders ?t)\<rparr>, False)"
    using assms by (simp add: lock_render_def [of ?t] lock_render_deps lock_render_fields identity_at_def Let_def)
  then have "lock_settle ?t = Some (?t\<lparr>kp_renders := Suc (Suc (kp_renders s))\<rparr>)"
    by (subst lock_settle.simps) (simp add: lock_render_fields)
  with a show ?thesis by (subst lock_settle.simps) (simp add: case_prod_beta)
qed

text \<open>
  C9. The lock page comes to rest if and only if the snapshot has both a node and an edge. Then it is
  rendered twice, shows the cycles of the graph and has drawn the graph; otherwise it renders
  without end.
\<close>

theorem lock_page_settles:
  "(case lock_settle (lock_page_of i j g) of
      None \<Rightarrow> lg_nodes g = [] \<or> lg_edges g = []
    | Some s \<Rightarrow> lg_nodes g \<noteq> [] \<and> lg_edges g \<noteq> [] \<and> kp_renders s = 2 \<and>
        kp_cycles s = lockGraphCycles g \<and>
        kp_drawn s = lock_picture (lockGraphCycles g) (lg_nodes g) (lg_edges g))"
proof (cases "lg_nodes g = [] \<or> lg_edges g = []")
  case True
  let ?s = "lock_page_of i j g"
  have "fresh_bounded ?s" by (simp add: fresh_bounded_def lock_page_of_def init_lock_page_def)
  moreover have "kp_nodes ?s = None \<or> kp_edges ?s = None"
    using True by (auto simp: lock_page_of_def init_lock_page_def unless_empty_def)
  ultimately have "lock_settle ?s = None" using settled_lists [of ?s] by (cases "lock_settle ?s") auto
  with True show ?thesis by simp
next
  case False
  let ?s = "lock_page_of i j g"
  have "lock_settle ?s = Some ((fst (lock_render ?s))\<lparr>kp_renders := Suc (Suc (kp_renders ?s))\<rparr>)"
    using False by (intro given_lists_settle [of _ i "lg_nodes g" j "lg_edges g"])
      (simp_all add: lock_page_of_def init_lock_page_def unless_empty_def)
  with False show ?thesis
    by (simp add: lock_page_of_def init_lock_page_def unless_empty_def lock_render_def display_list_def
        lockGraphCycles_def Let_def)
qed

section \<open>The plan tree\<close>

text \<open>A node with its children, under the identity by which React compares it.\<close>

datatype plan_node = PlanNode (pn_id: ustr) (pn_name: ustr) (pn_label: ustr) (pn_cost: rat) (pn_totalCost: rat)
  (pn_rows: int) (pn_children: "plan_node list")

text \<open>
  The tree layout of d3: the position of the root, those of the other nodes, and the ends of the
  links. It gets the children of a node as the program hands them over.
\<close>

record tree_layout =
  tl_root :: "plan_node \<Rightarrow> rat \<times> rat"
  tl_rest :: "plan_node \<Rightarrow> (plan_node \<times> rat \<times> rat) list"
  tl_links :: "plan_node \<Rightarrow> ((rat \<times> rat) \<times> (rat \<times> rat)) list"
  tl_blues :: "rat \<Rightarrow> ustr"

datatype plan_action = PlanOpened | PlanBack | SelectPlanNode plan_node | NewPlan "(nat \<times> plan_node) option"

record plan_page =
  pl_plan :: "(nat \<times> plan_node) option"
  pl_selected :: "plan_node option"
  pl_canvas :: "((nat \<times> plan_node) option \<times> plan_node option, plan_action) canvas"

definition plan_positions :: "tree_layout \<Rightarrow> plan_node \<Rightarrow> (plan_node \<times> rat \<times> rat) list" where
  "plan_positions lay p = (p, tl_root lay p) # tl_rest lay p"

definition least :: "rat \<Rightarrow> rat list \<Rightarrow> rat" where
  "least x xs = fold (\<lambda>y m. if y < m then y else m) xs x"

definition greatest :: "rat \<Rightarrow> rat list \<Rightarrow> rat" where
  "greatest x xs = fold (\<lambda>y m. if m < y then y else m) xs x"

definition plan_origin :: "tree_layout \<Rightarrow> plan_node \<Rightarrow> rat \<times> rat" where
  "plan_origin lay p =
     (- least (fst (tl_root lay p)) (map (fst \<circ> snd) (tl_rest lay p)) + 40,
      - least (snd (tl_root lay p)) (map (snd \<circ> snd) (tl_rest lay p)) + 40)"

definition plan_size :: "tree_layout \<Rightarrow> plan_node \<Rightarrow> rat \<times> rat" where
  "plan_size lay p =
     (let x0 = fst (tl_root lay p); y0 = snd (tl_root lay p); xs = map (fst \<circ> snd) (tl_rest lay p);
          ys = map (snd \<circ> snd) (tl_rest lay p)
      in (greatest x0 xs - least x0 xs + 180 + 80, greatest y0 ys - least y0 ys + 52 + 80))"

definition max_cost :: "plan_node \<Rightarrow> rat" where
  "max_cost p = max (pn_totalCost p) (max (pn_cost p) 1)"

definition plan_link :: "(rat \<times> rat) \<times> (rat \<times> rat) \<Rightarrow> plan_action figure" where
  "plan_link l =
     (let sx = fst (fst l) + 90; sy = snd (fst l) + 52; tx = fst (snd l) + 90; ty = snd (snd l); midY = (sy + ty) / 2
      in Shape ''path''
        [(''M.x'', sx), (''M.y'', sy), (''C.x1'', sx), (''C.y1'', midY), (''C.x2'', tx), (''C.y2'', midY), (''C.x'', tx),
         (''C.y'', ty), (''stroke-width'', 7 / 5)]
        [(''fill'', str ''none''), (''stroke'', str ''#30363d'')] [] [] [])"

definition plan_figure ::
  "tree_layout \<Rightarrow> plan_node \<Rightarrow> plan_node option \<Rightarrow> plan_node \<times> rat \<times> rat \<Rightarrow> plan_action figure"
where
  "plan_figure lay plan selected d =
     (let n = fst d; isSelected = map_option pn_id selected = Some (pn_id n)
      in Shape ''g'' [(''translate.x'', fst (snd d)), (''translate.y'', snd (snd d))] []
        [(''click'', SelectPlanNode n)] []
        [Shape ''rect'' [(''width'', 180), (''height'', 52), (''stroke-width'', if isSelected then 3 else 1)]
           [(''fill'', tl_blues lay (pn_cost n / max_cost plan)),
            (''stroke'', if isSelected then str ''#58a6ff'' else str ''#30363d'')] [] [] [],
         Shape ''text'' [(''x'', 90), (''y'', 22)] [] []
           (if 22 < length (pn_name n) then take 20 (pn_name n) @ str ''..'' else pn_name n) [],
         Shape ''text'' [(''x'', 8), (''y'', 42)] [] [] (str ''rows='' @ int_str (pn_rows n)) [],
         Shape ''text'' [(''x'', 172), (''y'', 42)] [] [] (str ''cost='' @ to_fixed1 (pn_cost n)) []])"

definition plan_picture :: "tree_layout \<Rightarrow> plan_node option \<Rightarrow> plan_node option \<Rightarrow> plan_action figure list" where
  "plan_picture lay plan selected = (case plan of
     None \<Rightarrow> []
   | Some p \<Rightarrow>
       [Shape ''g''
          [(''translate.x'', fst (plan_origin lay p)), (''translate.y'', snd (plan_origin lay p))] [] [] []
          (map plan_link (tl_links lay p) @ map (plan_figure lay p selected) (plan_positions lay p))])"

definition plan_commit :: "tree_layout \<Rightarrow> plan_page \<Rightarrow> plan_page" where
  "plan_commit lay s = s\<lparr>pl_canvas := commit (pl_plan s \<noteq> None) (pl_plan s, pl_selected s)
     (plan_picture lay (map_option snd (pl_plan s)) (pl_selected s)) (pl_canvas s)\<rparr>"

definition plan_update :: "plan_action \<Rightarrow> plan_page \<Rightarrow> plan_page" where
  "plan_update a s = (case a of
     SelectPlanNode n \<Rightarrow> s\<lparr>pl_selected := Some n\<rparr>
   | NewPlan p \<Rightarrow> s\<lparr>pl_plan := p\<rparr>
   | _ \<Rightarrow> s)"

definition plan_step :: "tree_layout \<Rightarrow> plan_action \<Rightarrow> plan_page \<Rightarrow> plan_page" where
  "plan_step lay a s = plan_commit lay (plan_update a s)"

definition plan_panel :: "plan_node \<Rightarrow> plan_action element" where
  "plan_panel n = box [box
     [label_value [0x8282, 0x70B9, 0x3A] (pn_name n), label_value (str ''Cost:'') (to_fixed2 (pn_cost n)),
      label_value (str ''Total Cost:'') (to_fixed2 (pn_totalCost n)), label_value (str ''Rows:'') (int_str (pn_rows n)),
      label_value (str ''Label:'') (pn_label n)]]"

definition plan_view :: "ustr \<Rightarrow> plan_page \<Rightarrow> plan_action element" where
  "plan_view now s = box
     ([node_header [0x6267, 0x884C, 0x8BA1, 0x5212, 0x6811] (Some (str ''EXPLAIN (FORMAT JSON) '' @ [0x8BA1, 0x5212, 0x6570, 0x636E])) (Some now)
         [notice ([0x989C, 0x8272, 0x6DF1, 0x6D45, 0x8868, 0x793A] @ str '' cost'' @ [0xFF0C, 0x9AD8, 0x4EAE, 0x8282, 0x70B9, 0x53EF, 0x67E5, 0x770B, 0x8BE6, 0x60C5])] (Some PlanBack)] @
      (case pl_plan s of
         None \<Rightarrow> [notice ([0x6682, 0x65E0, 0x771F, 0x5B9E, 0x6267, 0x884C, 0x8BA1, 0x5212, 0x6570, 0x636E, 0x3002, 0x8BF7, 0x5148, 0x6267, 0x884C, 0x5E26] @ str '' `EXPLAIN (FORMAT JSON)` '' @ [0x7684, 0x67E5, 0x8BE2, 0x5E76, 0x63A5, 0x5165, 0x8BA1, 0x5212, 0x7ED3, 0x679C, 0x3002])]
       | Some p \<Rightarrow> [box [svg_of (pl_canvas s)]]) @
      (case pl_selected s of None \<Rightarrow> [] | Some n \<Rightarrow> [plan_panel n]))"

definition init_plan_page :: "tree_layout \<Rightarrow> (nat \<times> plan_node) option \<Rightarrow> plan_page" where
  "init_plan_page lay p = plan_commit lay \<lparr>pl_plan = p, pl_selected = None, pl_canvas = blank\<rparr>"

abbreviation plan_reach ::
  "tree_layout \<Rightarrow> ustr \<Rightarrow> (nat \<times> plan_node) option set \<Rightarrow> (nat \<times> plan_node) option \<Rightarrow>
   (plan_page, plan_action, unit, host_call, reply) page \<Rightarrow> bool"
where
  "plan_reach lay now plans p \<equiv> page_reach (\<lambda>s. Some (plan_view now s)) (\<lambda>_. NewPlan ` plans)
     (local_perform (plan_step lay))
     (opened (local_perform (plan_step lay)) () PlanOpened (init_plan_page lay p))"

interpretation tree: steady_chart "\<lambda>s. pl_plan s \<noteq> None" "\<lambda>s. (pl_plan s, pl_selected s)"
  "\<lambda>s. plan_picture lay (map_option snd (pl_plan s)) (pl_selected s)" for lay
  by unfold_locales auto

text \<open>The layout is drawn within its frame: moved by the origin, every node keeps a margin of 40.\<close>

lemma least_le: "least x xs \<le> x \<and> (\<forall>y\<in>set xs. least x xs \<le> y)"
  unfolding least_def by (induction xs arbitrary: x) force+

lemma greatest_ge: "x \<le> greatest x xs \<and> (\<forall>y\<in>set xs. y \<le> greatest x xs)"
  unfolding greatest_def by (induction xs arbitrary: x) force+

lemma plan_nodes_in_frame:
  assumes "(n, x, y) \<in> set (plan_positions lay p)"
  shows "40 \<le> x + fst (plan_origin lay p)" "x + fst (plan_origin lay p) + 180 \<le> fst (plan_size lay p) - 40"
    "40 \<le> y + snd (plan_origin lay p)" "y + snd (plan_origin lay p) + 52 \<le> snd (plan_size lay p) - 40"
proof -
  let ?x0 = "fst (tl_root lay p)" and ?y0 = "snd (tl_root lay p)"
  let ?xs = "map (fst \<circ> snd) (tl_rest lay p)" and ?ys = "map (snd \<circ> snd) (tl_rest lay p)"
  have "x = ?x0 \<or> x \<in> set ?xs" "y = ?y0 \<or> y \<in> set ?ys"
    using assms by (cases "tl_root lay p"; auto simp: plan_positions_def image_iff intro: bexI [of _ "(n, x, y)"])+
  then have "least ?x0 ?xs \<le> x" "x \<le> greatest ?x0 ?xs" "least ?y0 ?ys \<le> y" "y \<le> greatest ?y0 ?ys"
    using least_le [of ?x0 ?xs] greatest_ge [of ?x0 ?xs] least_le [of ?y0 ?ys] greatest_ge [of ?y0 ?ys] by auto
  then show "40 \<le> x + fst (plan_origin lay p)" "x + fst (plan_origin lay p) + 180 \<le> fst (plan_size lay p) - 40"
    "40 \<le> y + snd (plan_origin lay p)" "y + snd (plan_origin lay p) + 52 \<le> snd (plan_size lay p) - 40"
    by (simp_all add: plan_origin_def plan_size_def Let_def)
qed

text \<open>As the application uses it, without a plan, the page has nothing to select.\<close>

lemma plan_good_init: "tree.complete lay (init_plan_page lay p) (pl_canvas (init_plan_page lay p))"
  using tree.complete_blank [of lay "init_plan_page lay p"]
  by (simp add: init_plan_page_def plan_commit_def tree.complete_def)

interpretation unused_plan: page_contract "\<lambda>s. Some (plan_view now s)" "\<lambda>_. NewPlan ` {}"
  "local_perform (plan_step lay)" PlanOpened "init_plan_page lay None" "\<lambda>s. pl_plan s = None \<and> pl_selected s = None"
  "\<lambda>_. False" for now lay
  by unfold_locales
    (auto simp: init_plan_page_def plan_commit_def plan_step_def plan_update_def plan_view_def local_perform_def)

lemma plan_page_stays_empty:
  "plan_reach lay now {} None c \<Longrightarrow> acts (plan_view now (pg_state c)) = {PlanBack}"
  using unused_plan.reachable_state(1) [of now lay "()" c] by (simp add: plan_view_def)

end
