(* ===== verification/Embedding.thy ===== *)
theory Embedding
  imports Handlers
begin

text \<open>
  A page inside another one: the elements of a part offer their actions under a name of the whole, and
  the handlers of a part run on the state of the whole.
\<close>

section \<open>Elements under another name\<close>

abbreviation as_part :: "('a \<Rightarrow> 'b) \<Rightarrow> 'a element \<Rightarrow> 'b element" where
  "as_part \<equiv> map_element"

declare disabled_map_attribute [simp] acts_map_element [simp]

lemma clicks_of_map [simp]:
  "own_clicks (map (map_attribute f) ps) = map f (own_clicks ps)"
  "self_clicks (map (map_attribute f) ps) = map f (self_clicks ps)"
  "own_doubles (map (map_attribute f) ps) = map f (own_doubles ps)"
  "stops (map (map_attribute f) ps) = stops ps"
proof -
  show "own_clicks (map (map_attribute f) ps) = map f (own_clicks ps)"
    by (induction ps rule: own_clicks.induct) simp_all
  show "self_clicks (map (map_attribute f) ps) = map f (self_clicks ps)"
    by (induction ps rule: self_clicks.induct) simp_all
  show "own_doubles (map (map_attribute f) ps) = map f (own_doubles ps)"
    by (induction ps rule: own_doubles.induct) simp_all
  show "stops (map (map_attribute f) ps) = stops ps"
    by (induction ps rule: stops.induct) simp_all
qed

lemma plain_part [simp]: "unnested c d (as_part f e) = unnested c d e"
  by (induction e arbitrary: c d) simp_all

section \<open>Handlers of a part\<close>

text \<open>
  \<open>u\<close> makes an update of the part one of the whole, \<open>h\<close> finds the part's environment in that of the
  whole.
\<close>

primrec part_job ::
  "(('x \<Rightarrow> 'x) \<Rightarrow> 's \<Rightarrow> 's) \<Rightarrow> ('f \<Rightarrow> 'e) \<Rightarrow> ('x, 'e, 'q, 'r) job \<Rightarrow> ('s, 'f, 'q, 'r) job"
where
  "part_job u h Done = Done"
| "part_job u h (Do f j) = Do (u f) (part_job u h j)"
| "part_job u h (Sample g) = Sample (\<lambda>e. part_job u h (g (h e)))"
| "part_job u h (Await q k) = Await q (\<lambda>r. part_job u h (k r))"

lemma sound_part:
  assumes "sound good allowed j"
    and "\<And>f. (\<forall>x. good x \<longrightarrow> good (f x)) \<Longrightarrow> \<forall>s. Good s \<longrightarrow> Good (u f s)"
    and "\<And>q. allowed q \<Longrightarrow> Allowed q"
  shows "sound Good Allowed (part_job u h j)"
  using assms(1)
proof (induction j)
  case (Do f j)
  then show ?case using assms(2) [of f] by simp
qed (simp_all add: assms(3))

text \<open>What a handler leads to when it runs undisturbed inside the whole.\<close>

lemma advance_part:
  assumes "\<And>f s. view_of (u f s) = f (view_of s)"
  shows "map_prod view_of (map_option fst) (advance e (part_job u h j) s) =
     map_prod id (map_option fst) (advance (h e) j (view_of s))"
  by (induction j arbitrary: s) (simp_all add: assms)

end
