(* ===== verification/AppView.thy ===== *)
theory AppView
  imports Embedding ProjectView ClusterActions ComponentView NodeHomeView NodeViews DialogView FrameView
    FlowViews TableViews GraphViews Snapshots
begin

text \<open>
  The page of \<^verbatim>\<open>App.tsx\<close> as a whole: the view it mounts for its navigation state, with the frame
  around it and the dialog over it, and every action that is offered anywhere on it. The views are
  those of the other theories; here they are mounted and unmounted, and their handlers go on when
  their view is gone: what they do to the application counts, what they do to the view does not.
\<close>

section \<open>State\<close>

text \<open>The component that is mounted, with its state.\<close>

datatype screen =
    ProjectScreen project_page
  | ClusterScreen cluster_page
  | ComponentScreen component_board
  | NodeScreen node_page
  | HostScreen host_page
  | ConsoleScreen sql_console
  | WalScreen wal_viewer
  | ClogScreen clog_viewer
  | FlowScreen flow_page
  | XactScreen xact_page
  | HeatScreen heat_page
  | LockScreen lock_page
  | MemoryScreen memory_page
  | PlanScreen plan_page
  | NoNodeScreen

text \<open>
  The number of the mounting tells the present view from one that is gone; \<open>sp_fresh\<close> until the
  effects of the mounting have run. The views are given data derived from the event store and the
  snapshot; the numbers of renders and of snapshots stand for the identities of the lists made in
  them. \<^verbatim>\<open>useDeferredValue\<close> only delays a render and is left out.
\<close>

record shell_page =
  sp_screen :: screen
  sp_mount :: nat
  sp_fresh :: bool
  sp_dialog :: "template_dialog option"
  sp_version :: ustr
  sp_events :: "probe_event event_store"
  sp_snap :: snapshot
  sp_wsConnected :: bool
  sp_renders :: nat
  sp_snapshots :: nat

type_synonym shell = "shell_page site"

text \<open>What d3 and the browser contribute, and the base of the requests.\<close>

record setting =
  se_palette :: palette
  se_width :: rat
  se_gantt :: gantt_scale
  se_tree :: tree_layout
  se_base :: ustr
  se_now :: ustr
  se_clock :: int
  se_time :: "int \<Rightarrow> ustr"

section \<open>What the views are given\<close>

definition buffers_given :: "shell_page \<Rightarrow> buffer_cell given_data" where
  "buffers_given p = (let bs = vd_buffers (useVisualizationData (sp_events p))
     in if bs = [] then (0, None) else (sp_renders p, Some bs))"

definition stages_given :: "pipeline_type \<Rightarrow> shell_page \<Rightarrow> pipeline_stage given_data" where
  "stages_given t p =
     (if t = WritePipeline then
        (case vd_writeStages (useVisualizationData (sp_events p)) of
           None \<Rightarrow> (0, None) | Some ss \<Rightarrow> (sp_renders p, Some ss))
      else (0, None))"

definition xacts_given :: "shell_page \<Rightarrow> transaction_state list option" where
  "xacts_given p =
     (let ts = vd_transactions (useVisualizationData (sp_events p))
      in if sn_transactions (sp_snap p) \<noteq> [] then Some (sn_transactions (sp_snap p))
         else if ts \<noteq> [] then Some ts else None)"

definition locks_given :: "shell_page \<Rightarrow> lock_page \<Rightarrow> lock_page" where
  "locks_given p l =
     l\<lparr>kp_nodes := unless_empty (sp_snapshots p) (lg_nodes (sn_locks (sp_snap p))),
       kp_edges := unless_empty (sp_snapshots p) (lg_edges (sn_locks (sp_snap p)))\<rparr>"

section \<open>Mounting\<close>

definition flow_screen :: "setting \<Rightarrow> shell_page \<Rightarrow> pipeline_type \<Rightarrow> screen" where
  "flow_screen z p t = FlowScreen (init_flow_page (se_width z) (se_gantt z) t (stages_given t p))"

text \<open>\<^verbatim>\<open>renderView\<close>: the component for the navigation state, as it is when it is mounted.\<close>

definition new_screen :: "setting \<Rightarrow> shell_page \<Rightarrow> view option \<Rightarrow> screen" where
  "new_screen z p v = (case v of
     None \<Rightarrow> NoNodeScreen
   | Some ProjectHome \<Rightarrow> ProjectScreen init_project_page
   | Some ClusterHome \<Rightarrow> ClusterScreen init_cluster_page
   | Some ComponentHome \<Rightarrow> ComponentScreen init_component_board
   | Some HostManagement \<Rightarrow> HostScreen init_host_page
   | Some NodeHome \<Rightarrow> NodeScreen init_node_page
   | Some SqlView \<Rightarrow> ConsoleScreen init_sql_console
   | Some WalView \<Rightarrow> WalScreen init_wal_viewer
   | Some ClogView \<Rightarrow> ClogScreen init_clog_viewer
   | Some WriteView \<Rightarrow> flow_screen z p WritePipeline
   | Some ReadView \<Rightarrow> flow_screen z p ReadPipeline
   | Some TransactionView \<Rightarrow> flow_screen z p TransactionPipeline
   | Some XactStateView \<Rightarrow> XactScreen (init_xact_page (se_width z) (xacts_given p))
   | Some BufferView \<Rightarrow> HeatScreen (init_heat_page (se_palette z) (buffers_given p))
   | Some LockView \<Rightarrow> LockScreen (fst (lock_render (locks_given p (init_lock_page None None))))
   | Some MemoryView \<Rightarrow> MemoryScreen \<lparr>mp_backends = Some (sn_backends (sp_snap p)),
       mp_events = events (sp_events p), mp_tab = ProcTab\<rparr>
   | Some PlanView \<Rightarrow> PlanScreen (init_plan_page (se_tree z) None))"

text \<open>
  React keeps a component that is still of the same type: it is mounted anew only if the type
  changes.
\<close>

datatype mounted_component = ProjectHomeView | ClusterHomeView | ComponentHomeView | NodeHomeView
  | HostManagementView | SQLConsole | WALViewer | CLOGViewer | PipelineView | TransactionStateView
  | BufferHeatmapView | LockGraphView | MemoryStructView | PlanTreeView | NoNodeNotice

definition type_of :: "screen \<Rightarrow> mounted_component" where
  "type_of x = (case x of
     ProjectScreen _ \<Rightarrow> ProjectHomeView | ClusterScreen _ \<Rightarrow> ClusterHomeView
   | ComponentScreen _ \<Rightarrow> ComponentHomeView | NodeScreen _ \<Rightarrow> NodeHomeView
   | HostScreen _ \<Rightarrow> HostManagementView | ConsoleScreen _ \<Rightarrow> SQLConsole | WalScreen _ \<Rightarrow> WALViewer
   | ClogScreen _ \<Rightarrow> CLOGViewer | FlowScreen _ \<Rightarrow> PipelineView | XactScreen _ \<Rightarrow> TransactionStateView
   | HeatScreen _ \<Rightarrow> BufferHeatmapView | LockScreen _ \<Rightarrow> LockGraphView | MemoryScreen _ \<Rightarrow> MemoryStructView
   | PlanScreen _ \<Rightarrow> PlanTreeView | NoNodeScreen \<Rightarrow> NoNodeNotice)"

text \<open>
  The properties a mounted view gets in every render; the effect of the component page may run.
\<close>

definition pipeline_of :: "view \<Rightarrow> pipeline_type" where
  "pipeline_of v = (if v = ReadView then ReadPipeline else if v = TransactionView then TransactionPipeline
     else WritePipeline)"

definition with_properties :: "setting \<Rightarrow> shell \<Rightarrow> screen" where
  "with_properties z s = (let d = cs_page s in case sp_screen d of
     ComponentScreen b \<Rightarrow>
       ComponentScreen (cs_page (board_effect \<lparr>cs_app = cs_app s, cs_store = cs_store s, cs_page = b\<rparr>))
   | FlowScreen p \<Rightarrow>
       (let t = pipeline_of (ap_currentView (cs_app s))
        in FlowScreen (flow_step (se_width z) (se_gantt z) (NewStages (stages_given t d)) (p\<lparr>fp_type := t\<rparr>)))
   | XactScreen p \<Rightarrow> XactScreen (xact_page_step (se_width z) (NewXacts (xacts_given d)) p)
   | HeatScreen p \<Rightarrow> HeatScreen (heat_step (se_palette z) (NewBuffers (buffers_given d)) p)
   | LockScreen p \<Rightarrow> LockScreen (fst (lock_render (locks_given d p)))
   | MemoryScreen p \<Rightarrow> MemoryScreen (memory_update (NewEvents (events (sp_events d)))
       (memory_update (NewBackends (Some (sn_backends (sp_snap d)))) p))
   | x \<Rightarrow> x)"

text \<open>
  A render with its effects: those of the application, then the dialog and the view, a new one or
  the old one with its properties. The version in the header is the last one that was not empty.
\<close>

definition refreshed :: "app_state \<Rightarrow> pg_state \<Rightarrow> shell_page \<Rightarrow> shell_page" where
  "refreshed a st p = p\<lparr>sp_renders := Suc (sp_renders p),
     sp_version := (if pg_version st \<noteq> [] then pg_version st else sp_version p),
     sp_dialog := (if ap_showTemplateDialog a then Some (case sp_dialog p of Some d \<Rightarrow> d | None \<Rightarrow> init_dialog)
       else None)\<rparr>"

definition rendered :: "setting \<Rightarrow> shell \<Rightarrow> shell" where
  "rendered z s0 =
     (let a = app_effects (cs_store s0) (cs_app s0); p = refreshed a (cs_store s0) (cs_page s0);
          s = s0\<lparr>cs_app := a, cs_page := p\<rparr>; x = new_screen z p (shown_view a)
      in if type_of x = type_of (sp_screen p) then s\<lparr>cs_page := p\<lparr>sp_screen := with_properties z s\<rparr>\<rparr>
         else s\<lparr>cs_page := p\<lparr>sp_screen := x, sp_mount := Suc (sp_mount p), sp_fresh := True\<rparr>\<rparr>)"

section \<open>Rendering\<close>

datatype shell_action =
    OnProject project_action
  | OnCluster cluster_action
  | OnComponent component_action
  | OnNode node_action
  | OnHost host_action
  | OnConsole console_action
  | OnWal wal_action
  | OnClog clog_action
  | OnFlow flow_action
  | OnXact xact_action
  | OnHeat heat_action
  | OnLock lock_action
  | OnMemory memory_action
  | OnPlan plan_action
  | OnFrame frame_action
  | OnDialog dialog_action
  | MountEffects
  | AppEvent app_event
  | EventArrived probe_event
  | SnapshotTaken snapshot
  | SocketChanged bool

abbreviation part_site :: "shell \<Rightarrow> 'p \<Rightarrow> 'p site" where
  "part_site s p \<equiv> \<lparr>cs_app = cs_app s, cs_store = cs_store s, cs_page = p\<rparr>"

definition screen_view :: "setting \<Rightarrow> shell \<Rightarrow> shell_action element option" where
  "screen_view z s = (let now = se_now z in case sp_screen (cs_page s) of
     ProjectScreen p \<Rightarrow> Some (as_part OnProject (project_view (part_site s p)))
   | ClusterScreen p \<Rightarrow> map_option (as_part OnCluster) (cluster_view (se_time z) (part_site s p))
   | ComponentScreen p \<Rightarrow> Some (as_part OnComponent (component_view (part_site s p)))
   | NodeScreen p \<Rightarrow> Some (as_part OnNode (node_home_view [] (part_site s p)))
   | HostScreen p \<Rightarrow> map_option (as_part OnHost) (host_view p)
   | ConsoleScreen p \<Rightarrow>
       Some (as_part OnConsole (console_view now \<lparr>cn_store = cs_store s, cn_console = p\<rparr>))
   | WalScreen p \<Rightarrow> map_option (as_part OnWal) (wal_view now p)
   | ClogScreen p \<Rightarrow> map_option (as_part OnClog) (clog_view now p)
   | FlowScreen p \<Rightarrow> Some (as_part OnFlow (flow_view now p))
   | XactScreen p \<Rightarrow> Some (as_part OnXact (xact_view now p))
   | HeatScreen p \<Rightarrow> Some (as_part OnHeat (heat_view now p))
   | LockScreen p \<Rightarrow> Some (as_part OnLock (lock_view now p))
   | MemoryScreen p \<Rightarrow> Some (as_part OnMemory (memory_page_view now p))
   | PlanScreen p \<Rightarrow> Some (as_part OnPlan (plan_view now p))
   | NoNodeScreen \<Rightarrow> Some (as_part OnFrame no_node_page))"

text \<open>
  The toast offers nothing but to dismiss the task, which is an event from outside here (theory
  \<open>TaskPanel\<close> holds its timers, \<open>FrameView\<close> its elements).
\<close>

definition shell_view :: "setting \<Rightarrow> shell \<Rightarrow> shell_action element option" where
  "shell_view z s =
     (let a = cs_app s; p = cs_page s; d = useVisualizationData (sp_events p)
      in do {
        frame \<leftarrow> above_page (se_clock z) (pg_conf (cs_store s)) a;
        body \<leftarrow> screen_view z s;
        Some (box
          ([header_view (ap_connected a) (sp_version p) (sp_wsConnected p),
            El ''main'' [] (map (as_part OnFrame) frame @ [body, as_part OnFrame (panel_button a)]),
            footer_view (ap_connected a) (sp_wsConnected p) (vd_eventCount d) (vd_collectorMode d)
              (vd_lastEventType d)] @
           (case sp_dialog p of None \<Rightarrow> [] | Some x \<Rightarrow> [as_part OnDialog (dialog_view x)]))) })"

section \<open>Handlers\<close>

record shell_env =
  sn_page :: page_env
  sn_exc :: "reply \<Rightarrow> ustr"

type_synonym shell_job = "(shell, shell_env, host_call, reply) job"

text \<open>
  What a handler of the view mounted as number \<open>n\<close> does to the whole. If the view is gone, its state
  is the one it had when the handler was called, and the change of it is lost.
\<close>

definition at_screen ::
  "setting \<Rightarrow> nat \<Rightarrow> (screen \<Rightarrow> 'p option) \<Rightarrow> ('p \<Rightarrow> screen) \<Rightarrow> 'p \<Rightarrow> ('p site \<Rightarrow> 'p site) \<Rightarrow> shell \<Rightarrow> shell"
where
  "at_screen z n get put p0 f s =
     (let here = (if sp_mount (cs_page s) = n then get (sp_screen (cs_page s)) else None);
          x = f (part_site s (case here of Some p \<Rightarrow> p | None \<Rightarrow> p0))
      in rendered z (s\<lparr>cs_app := cs_app x, cs_store := cs_store x,
           cs_page := (case here of None \<Rightarrow> cs_page s | Some _ \<Rightarrow> (cs_page s)\<lparr>sp_screen := put (cs_page x)\<rparr>)\<rparr>))"

definition in_app :: "setting \<Rightarrow> (app_state \<Rightarrow> app_state) \<Rightarrow> shell \<Rightarrow> shell" where
  "in_app z f s =
     (let a = f (cs_app s)
      in rendered z (s\<lparr>cs_app := if ap_provisionTask a = ap_provisionTask (cs_app s) then a else task_effects a\<rparr>))"

definition in_shell :: "setting \<Rightarrow> (shell_page \<Rightarrow> shell_page) \<Rightarrow> shell \<Rightarrow> shell" where
  "in_shell z f s = rendered z (on_page f s)"

definition leave_for :: "setting \<Rightarrow> view \<Rightarrow> shell_job" where
  "leave_for z v = Do (in_app z (\<lambda>a. a\<lparr>ap_currentView := v\<rparr>)) job.Done"

text \<open>The handlers of the frame. What the panel asks for itself is the subject of theory \<open>TaskPanel\<close>.\<close>

definition frame_perform :: "setting \<Rightarrow> frame_action \<Rightarrow> shell \<Rightarrow> shell_job" where
  "frame_perform z a s0 = (case a of
     RefreshTask \<Rightarrow> (case ap_provisionTask (cs_app s0) of
       None \<Rightarrow> job.Done
     | Some t \<Rightarrow>
         if \<not> truthy (pv_taskId t) then job.Done
         else Await \<lparr>hc_method = GET, hc_url = str ''/api/provision/tasks/'' @ to_str (pv_taskId t),
             hc_body = JUndef\<rparr> (\<lambda>r. Do (in_app z (poll_answered r)) job.Done))
   | FlipPanel \<Rightarrow> Do (in_app z (\<lambda>a. a\<lparr>ap_showRecentTasks := \<not> ap_showRecentTasks a\<rparr>)) job.Done
   | CloseTask \<Rightarrow> Do (in_app z dismiss_task) job.Done
   | ChooseTasks f \<Rightarrow> Do (in_app z (\<lambda>a. a\<lparr>ap_recentTaskFilter := f\<rparr>)) job.Done
   | LeaveForClusters \<Rightarrow> leave_for z ClusterHome)"

text \<open>\<^verbatim>\<open>handleTemplateConfirm\<close> with its exchanges: seed, provisioning and reload.\<close>

definition provisioned_job :: "setting \<Rightarrow> ustr \<Rightarrow> provision_result \<Rightarrow> shell_job" where
  "provisioned_job z i pr = Sample (\<lambda>e.
     Do (in_app z (\<lambda>a. fst (create_provisioned i pr (en_now (sn_page e)) a)))
     (if \<not> pr_ok pr then job.Done
      else Await \<lparr>hc_method = GET, hc_url = str ''/api/workspace/projects'', hc_body = JUndef\<rparr> (\<lambda>r.
        Do (in_app z (create_reloaded i r)) job.Done)))"

definition create_job :: "setting \<Rightarrow> replication_template \<Rightarrow> ustr \<Rightarrow> shell \<Rightarrow> shell_job" where
  "create_job z t name s0 = Sample (\<lambda>e.
     let i = en_id (sn_page e) 0; base = base_project i name (cs_app s0);
         call = provision_call t i (pj_name base @ str ''-'' @ template_text t)
     in Do (in_app z (handleTemplateConfirm_create i name))
       (Await \<lparr>hc_method = PUT, hc_url = str ''/api/workspace/projects'',
           hc_body = saveProjects_body (ap_projects (cs_app s0) @ [base])\<rparr> (\<lambda>r.
        if saveProjectsToBackend r then
          Await \<lparr>hc_method = POST, hc_url = pq_endpoint call, hc_body = pq_body call\<rparr> (\<lambda>r2.
            provisioned_job z i (provisionClusterByTemplate r2))
        else provisioned_job z i \<lparr>pr_ok = False, pr_taskId = JUndef, pr_error = None\<rparr>)))"

definition dialog_perform :: "setting \<Rightarrow> dialog_action \<Rightarrow> shell \<Rightarrow> shell_job" where
  "dialog_perform z a s0 = (case (a, sp_dialog (cs_page s0)) of
     (CancelDialog, _) \<Rightarrow> Do (in_app z (\<lambda>a. a\<lparr>ap_showTemplateDialog := False\<rparr>)) job.Done
   | (ConfirmDialog, Some d) \<Rightarrow>
       (case dialog_confirm d of (t, name, params, mode) \<Rightarrow>
          (case mode of
             PreviewMode \<Rightarrow> Sample (\<lambda>e. Do (in_app z (handleTemplateConfirm_preview (pg_conf (cs_store s0))
               (en_id (sn_page e) 0) (\<lambda>k. en_id (sn_page e) (Suc k)) t name params)) job.Done)
           | CreateMode \<Rightarrow> create_job z t name s0))
   | _ \<Rightarrow> Do (in_shell z (\<lambda>p. p\<lparr>sp_dialog := map_option (dialog_input a) (sp_dialog p)\<rparr>)) job.Done)"

text \<open>
  The handlers of the views. The callback \<^verbatim>\<open>onGoBack\<close> of a view is the page's; the other views find
  theirs among the properties.
\<close>

definition site_job ::
  "setting \<Rightarrow> shell \<Rightarrow> (screen \<Rightarrow> 'p option) \<Rightarrow> ('p \<Rightarrow> screen) \<Rightarrow> 'p \<Rightarrow>
   ('p site, page_env, host_call, reply) job \<Rightarrow> shell_job"
where
  "site_job z s0 get put p j = part_job (at_screen z (sp_mount (cs_page s0)) get put p) sn_page j"

definition local_job ::
  "setting \<Rightarrow> shell \<Rightarrow> (screen \<Rightarrow> 'p option) \<Rightarrow> ('p \<Rightarrow> screen) \<Rightarrow> 'p \<Rightarrow>
   ('p, unit, host_call, reply) job \<Rightarrow> shell_job"
where
  "local_job z s0 get put p j =
     part_job (\<lambda>f. at_screen z (sp_mount (cs_page s0)) get put p (on_page f)) (\<lambda>_. ()) j"

definition console_in_site :: "(console_site \<Rightarrow> console_site) \<Rightarrow> sql_console site \<Rightarrow> sql_console site" where
  "console_in_site f x = x\<lparr>cs_page := cn_console (f \<lparr>cn_store = cs_store x, cn_console = cs_page x\<rparr>)\<rparr>"

definition screen_perform :: "setting \<Rightarrow> shell_action \<Rightarrow> shell \<Rightarrow> shell_job" where
  "screen_perform z a s0 = (case (a, sp_screen (cs_page s0)) of
     (OnProject x, ProjectScreen p) \<Rightarrow>
       site_job z s0 (\<lambda>x. case x of ProjectScreen p \<Rightarrow> Some p | _ \<Rightarrow> None) ProjectScreen p
         (project_perform x (part_site s0 p))
   | (OnCluster x, ClusterScreen p) \<Rightarrow>
       site_job z s0 (\<lambda>x. case x of ClusterScreen p \<Rightarrow> Some p | _ \<Rightarrow> None) ClusterScreen p
         (cluster_perform x (part_site s0 p))
   | (OnComponent x, ComponentScreen p) \<Rightarrow>
       site_job z s0 (\<lambda>x. case x of ComponentScreen p \<Rightarrow> Some p | _ \<Rightarrow> None) ComponentScreen p
         (component_perform x (part_site s0 p))
   | (OnNode x, NodeScreen p) \<Rightarrow>
       site_job z s0 (\<lambda>x. case x of NodeScreen p \<Rightarrow> Some p | _ \<Rightarrow> None) NodeScreen p
         (node_home_perform x (part_site s0 p))
   | (OnHost x, HostScreen p) \<Rightarrow> if x = GoBack then leave_for z ProjectHome else
       local_job z s0 (\<lambda>x. case x of HostScreen p \<Rightarrow> Some p | _ \<Rightarrow> None) HostScreen p (host_perform x p)
   | (OnConsole x, ConsoleScreen p) \<Rightarrow> if x = ConsoleBack then leave_for z NodeHome else
       part_job (\<lambda>f. at_screen z (sp_mount (cs_page s0)) (\<lambda>x. case x of ConsoleScreen p \<Rightarrow> Some p | _ \<Rightarrow> None)
           ConsoleScreen p (console_in_site f))
         sn_exc (console_perform (se_base z) x \<lparr>cn_store = cs_store s0, cn_console = p\<rparr>)
   | (OnWal x, WalScreen p) \<Rightarrow> if x = WalBack then leave_for z NodeHome else
       local_job z s0 (\<lambda>x. case x of WalScreen p \<Rightarrow> Some p | _ \<Rightarrow> None) WalScreen p
         (wal_perform (se_base z) x p)
   | (OnClog x, ClogScreen p) \<Rightarrow> if x = ClogBack then leave_for z NodeHome else
       local_job z s0 (\<lambda>x. case x of ClogScreen p \<Rightarrow> Some p | _ \<Rightarrow> None) ClogScreen p
         (clog_perform (se_base z) x p)
   | (OnFlow x, FlowScreen p) \<Rightarrow> if x = FlowBack then leave_for z NodeHome else
       local_job z s0 (\<lambda>x. case x of FlowScreen p \<Rightarrow> Some p | _ \<Rightarrow> None) FlowScreen p
         (local_perform (flow_step (se_width z) (se_gantt z)) x p)
   | (OnXact x, XactScreen p) \<Rightarrow> if x = XactBack then leave_for z NodeHome else
       local_job z s0 (\<lambda>x. case x of XactScreen p \<Rightarrow> Some p | _ \<Rightarrow> None) XactScreen p
         (local_perform (xact_page_step (se_width z)) x p)
   | (OnHeat x, HeatScreen p) \<Rightarrow> if x = HeatBack then leave_for z NodeHome else
       local_job z s0 (\<lambda>x. case x of HeatScreen p \<Rightarrow> Some p | _ \<Rightarrow> None) HeatScreen p
         (local_perform (heat_step (se_palette z)) x p)
   | (OnLock x, LockScreen p) \<Rightarrow> if x = LockBack then leave_for z NodeHome else
       local_job z s0 (\<lambda>x. case x of LockScreen p \<Rightarrow> Some p | _ \<Rightarrow> None) LockScreen p
         (local_perform lock_update x p)
   | (OnMemory x, MemoryScreen p) \<Rightarrow> if x = MemoryBack then leave_for z NodeHome else
       local_job z s0 (\<lambda>x. case x of MemoryScreen p \<Rightarrow> Some p | _ \<Rightarrow> None) MemoryScreen p
         (local_perform memory_update x p)
   | (OnPlan x, PlanScreen p) \<Rightarrow> if x = PlanBack then leave_for z NodeHome else
       local_job z s0 (\<lambda>x. case x of PlanScreen p \<Rightarrow> Some p | _ \<Rightarrow> None) PlanScreen p
         (local_perform (plan_step (se_tree z)) x p)
   | _ \<Rightarrow> job.Done)"

text \<open>The effects of a mounting: what the view asks for when it appears.\<close>

definition mount_action :: "screen \<Rightarrow> shell_action option" where
  "mount_action x = (case x of
     ClusterScreen _ \<Rightarrow> Some (OnCluster ClusterOpened)
   | ComponentScreen _ \<Rightarrow> Some (OnComponent BoardOpened)
   | HostScreen _ \<Rightarrow> Some (OnHost PageOpened)
   | WalScreen _ \<Rightarrow> Some (OnWal WalOpened)
   | ClogScreen _ \<Rightarrow> Some (OnClog ClogTick)
   | _ \<Rightarrow> None)"

definition shell_perform :: "setting \<Rightarrow> shell_action \<Rightarrow> shell \<Rightarrow> shell_job" where
  "shell_perform z a s0 = (case a of
     OnFrame x \<Rightarrow> frame_perform z x s0
   | OnDialog x \<Rightarrow> dialog_perform z x s0
   | MountEffects \<Rightarrow> Do (on_page (\<lambda>p. p\<lparr>sp_fresh := False\<rparr>))
       (case mount_action (sp_screen (cs_page s0)) of None \<Rightarrow> job.Done | Some b \<Rightarrow> screen_perform z b s0)
   | AppEvent e \<Rightarrow> Do (in_app z (app_handle e)) job.Done
   | EventArrived e \<Rightarrow> Do (in_shell z (\<lambda>p. p\<lparr>sp_events := add_event e (sp_events p)\<rparr>)) job.Done
   | SnapshotTaken x \<Rightarrow>
       Do (in_shell z (\<lambda>p. p\<lparr>sp_snap := x, sp_snapshots := Suc (sp_snapshots p)\<rparr>)) job.Done
   | SocketChanged b \<Rightarrow> Do (in_shell z (\<lambda>p. p\<lparr>sp_wsConnected := b\<rparr>)) job.Done
   | _ \<Rightarrow> screen_perform z a s0)"

text \<open>
  What happens without the user: frames of the socket, snapshots, the timers and exchanges of the
  application and of the mounted view, and the effects of a mounting.
\<close>

definition app_outside :: "app_event set" where
  "app_outside = range Bootstrapped \<union> {SaveTimerFired, TaskDismissed} \<union> range SaveAnswered \<union> range PollAnswered \<union>
     range RecentAnswered \<union> range ResumeAnswered \<union> range SuccessReloaded"

definition shell_outside :: "shell \<Rightarrow> shell_action set" where
  "shell_outside s =
     AppEvent ` app_outside \<union> range EventArrived \<union> range SnapshotTaken \<union> range SocketChanged \<union>
     (if sp_fresh (cs_page s) then {MountEffects} else {}) \<union>
     (case sp_screen (cs_page s) of
        ClusterScreen p \<Rightarrow> OnCluster ` cluster_outside (part_site s p)
      | ClogScreen p \<Rightarrow> {OnClog ClogTick}
      | _ \<Rightarrow> {})"

definition init_shell :: "setting \<Rightarrow> ustr option \<Rightarrow> shell" where
  "init_shell z storage = rendered z \<lparr>cs_app = init_app storage, cs_store = init_pg_state,
     cs_page = \<lparr>sp_screen = ProjectScreen init_project_page, sp_mount = 0, sp_fresh = True, sp_dialog = None,
       sp_version = [], sp_events = empty_event_store, sp_snap = no_snapshot, sp_wsConnected = False,
       sp_renders = 0, sp_snapshots = 0\<rparr>\<rparr>"

text \<open>The page is opened with the effects of the first mounting.\<close>

abbreviation app_reach ::
  "setting \<Rightarrow> ustr option \<Rightarrow> shell_env \<Rightarrow> (shell, shell_action, shell_env, host_call, reply) page \<Rightarrow> bool"
where
  "app_reach z storage e \<equiv> page_reach (shell_view z) shell_outside (shell_perform z)
     (opened (shell_perform z) e MountEffects (init_shell z storage))"

end
