(* ===== verification/AppRun.thy ===== *)
theory AppRun
  imports AppView
begin

text \<open>
  What holds of the whole page of theory \<open>AppView\<close> however it is used: the view that is mounted is the one
  the navigation asks for, nothing of the workspace is forgotten, the selection is coherent, and the
  drawings are those of the event store and the snapshot.
\<close>

section \<open>The contract of the application\<close>

text \<open>
  Of the application: what is shown is saved or about to be saved, and the page of the hosts is not
  asked for.
\<close>

definition app_good :: "app_state \<Rightarrow> bool" where
  "app_good a \<longleftrightarrow> saved_or_pending a \<and> ap_currentView a \<noteq> HostManagement"

lemma selection_view [simp]: "ap_currentView (selection_effect a) = ap_currentView a"
  by (simp add: selection_effect_def Let_def split: option.split)

lemma setProjects_view [simp]: "ap_currentView (setProjects ps a) = ap_currentView a"
  by (simp add: setProjects_def autosave_effect_def)

lemma task_effects_view [simp]: "ap_currentView (task_effects a) = ap_currentView a"
  by (simp add: task_effects_def Let_def split: option.split)

lemma saved_connected [simp]: "saved_or_pending (a\<lparr>ap_connected := b\<rparr>) = saved_or_pending a"
  by (simp add: saved_or_pending_def)

lemma app_good_effects [simp]: "app_good (app_effects st a) = app_good a"
  by (simp add: app_good_def app_effects_def)

lemma app_good_task_effects [simp]: "app_good (task_effects a) = app_good a"
  by (simp add: app_good_def)

lemma app_op_view: "ap_currentView (app_op cfg x a) = ap_currentView a"
  by (simp add: app_op_def Let_def split: workspace_op.split)

lemma app_good_op: "app_good a \<Longrightarrow> app_good (app_op cfg x a)"
  by (simp add: app_good_def app_op_view saved_op)

lemma app_good_reload: "app_good a \<Longrightarrow> app_good (reloadWorkspaceFromBackend r a)"
  by (simp add: app_good_def saved_reload reloadWorkspaceFromBackend_def Let_def split: option.split)

lemma app_good_update [simp]:
  "app_good (a\<lparr>ap_selectedProjectId := i\<rparr>) = app_good a" "app_good (a\<lparr>ap_selectedClusterId := i\<rparr>) = app_good a"
  "app_good (a\<lparr>ap_selectedNodeId := i\<rparr>) = app_good a" "app_good (a\<lparr>ap_showTemplateDialog := b\<rparr>) = app_good a"
  "app_good (a\<lparr>ap_showRecentTasks := b\<rparr>) = app_good a" "app_good (a\<lparr>ap_recentTaskFilter := f\<rparr>) = app_good a"
  "app_good (a\<lparr>ap_recentTasks := ts\<rparr>) = app_good a" "app_good (a\<lparr>ap_provisionTask := t\<rparr>) = app_good a"
  "app_good (a\<lparr>ap_highlightedComponentIds := l\<rparr>) = app_good a" "app_good (a\<lparr>ap_workspaceSyncError := e\<rparr>) = app_good a"
  by (simp_all add: app_good_def)

lemma app_good_view: "app_good a \<Longrightarrow> v \<noteq> HostManagement \<Longrightarrow> app_good (a\<lparr>ap_currentView := v\<rparr>)"
  by (simp add: app_good_def)

lemma app_good_setProjects: "app_good a \<Longrightarrow> app_good (setProjects ps a)"
  by (simp add: app_good_def)

lemma app_good_create_in:
  "app_good a \<Longrightarrow> app_good (create_cluster_in cfg i n p a)" "app_good a \<Longrightarrow> app_good (create_component_in i p a)"
  by (simp_all add: create_cluster_in_def create_component_in_def app_good_setProjects app_good_view
      split: option.split)

lemma app_good_dialog:
  "app_good a \<Longrightarrow> app_good (handleTemplateConfirm_preview cfg i g t n u a)"
  "app_good a \<Longrightarrow> app_good (handleTemplateConfirm_create i n a)"
  "app_good a \<Longrightarrow> app_good (fst (create_provisioned i pr now a))"
  "app_good a \<Longrightarrow> app_good (create_reloaded i r a)"
  using saved_create [of a i n]
  by (simp_all add: handleTemplateConfirm_preview_def create_provisioned_def create_reloaded_def set_task_def
      app_good_setProjects app_good_view Let_def split: option.split)
    (simp add: app_good_def handleTemplateConfirm_create_def Let_def)

lemma app_good_event: "e \<in> app_outside \<Longrightarrow> app_good a \<Longrightarrow> app_good (app_handle e a)"
proof -
  assume e: "e \<in> app_outside" and a: "app_good a"
  have "ap_currentView (app_handle e a) = ap_currentView a"
    using e by (auto simp: app_outside_def app_handle_def bootstrap_def autosave_effect_def save_timer_fires_def
        save_answered_def poll_answered_def refreshRecentTasks_def resume_task_def success_effect_def
        dismiss_task_def set_task_def reloadWorkspaceFromBackend_def Let_def split: option.split list.split)
  with a show ?thesis by (simp add: app_good_def saved_handle)
qed

section \<open>The contract of the views that act on the application\<close>

abbreviation site_good :: "'p site \<Rightarrow> bool" where
  "site_good s \<equiv> app_good (cs_app s)"

abbreviation keeps_app :: "('p site, 'e, 'q, 'r) job \<Rightarrow> bool" where
  "keeps_app \<equiv> sound site_good (\<lambda>_. True)"

lemma site_good_simps [simp]:
  "site_good (on_app f s) = app_good (f (cs_app s))" "site_good (on_page g s) = site_good s"
  "site_good (site_op x s) = app_good (app_op (pg_conf (cs_store s)) x (cs_app s))"
  "site_good (go v s) = app_good ((cs_app s)\<lparr>ap_currentView := v\<rparr>)"
  by (simp_all add: on_app_def site_op_def go_def on_page_def)

lemma project_keeps: "keeps_app (project_perform a s)"
  by (cases a)
    (simp_all add: project_perform_def app_good_op app_good_create_in project_saved_def handleClusterClick_def
      navigate_to_cluster_def app_good_view split: prod.split option.split)

lemma activate_keeps_app: "v \<noteq> HostManagement \<Longrightarrow> keeps_app (activate_job n v)"
  by (auto simp: activate_job_def app_good_view split: sum.split)

lemma logged_keeps [simp]: "keeps_app (logged l m j) = keeps_app j"
  by (simp add: logged_def)

lemma reload_keeps_app [simp]: "keeps_app j \<Longrightarrow> keeps_app (reload_then i j)"
  by (simp add: reload_then_def app_good_reload)

lemma cluster_input_keeps: "keeps_app (cluster_input a)"
  by (cases a) (simp_all add: type_node_data_def)

lemma cluster_saved_keeps: "site_good s \<Longrightarrow> site_good (cluster_saved f s)"
  by (simp add: cluster_saved_def app_good_op split: prod.split option.split)

lemma cluster_exchanges_keep:
  "keeps_app (host_scan_job s)" "keeps_app (import_job i s)" "keeps_app (dsn_job s)"
  by (auto simp: host_scan_job_def import_job_def dsn_job_def dsn_import_job_def dsn_failed_def Let_def
      split: sum.split option.split)

lemma cluster_keeps:
  assumes "\<And>n. a \<noteq> Activate n HostManagement"
  shows "keeps_app (cluster_perform a s)"
proof (cases a)
  case (Activate n v)
  with assms have "v \<noteq> HostManagement" by blast
  with Activate show ?thesis by (simp add: cluster_perform_def activate_keeps_app)
qed (simp_all add: cluster_perform_def app_good_view app_good_op cluster_saved_keeps cluster_exchanges_keep
    cluster_input_keeps double_click_job_def activate_keeps_app type_node_data_def split: option.split)

lemma activations_offered:
  assumes "cluster_view time s = Some e" "Activate n v \<in> acts e"
  shows "v \<in> {NodeHome, SqlView}"
proof -
  from assms(1) obtain overview ins where
    a: "acts e \<subseteq> {BackToProjects, NewCluster} \<union>
       (\<Union>q\<in>set_option (site_project s). \<Union>k\<in>set (pj_clusters q). acts (cluster_card (cv_home (cs_page s)) overview (site_cluster s) k)) \<union>
       (\<Union>k\<in>set_option (site_cluster s). acts (cluster_detail time (cs_page s) k overview ins))"
    by (rule acts_cluster_view)
  have card: "Activate n v \<notin> acts (cluster_card h w c k)" for h w c k by auto
  have top: "Activate n v \<notin> acts (topology_tab h c w)" for h c w
    using acts_topology_tab [of h c w] by auto
  have nodes: "Activate n v \<in> acts (nodes_tab h c w) \<Longrightarrow> v \<in> {NodeHome, SqlView}" for h c w
    by (auto simp: acts_nodes_tab split: if_splits)
  have add: "Activate n v \<notin> acts (add_tab time h c i)" for h c i
    unfolding acts_add_tab acts_scan_option acts_dsn_option by (auto split: if_splits)
  have "Activate n v \<in> acts (cluster_detail time h c w i) \<Longrightarrow> v \<in> {NodeHome, SqlView}" for h c w i
    using top nodes add unfolding acts_cluster_detail by (cases "cv_activeTab h") auto
  with a card assms(2) show ?thesis by blast
qed

lemma with_effect_keeps:
  "keeps_app j \<Longrightarrow> (\<And>s. site_good (f s) = site_good s) \<Longrightarrow> keeps_app (with_effect f j)"
  by (induction j) auto

lemma board_effect_good: "site_good (board_effect s) = site_good s"
  by (simp add: board_effect_def Let_def)

lemma component_keeps: "keeps_app (component_perform a s)"
proof -
  have "keeps_app (board_perform a s)"
    by (cases a)
      (simp_all add: board_perform_def app_good_op on_form_def form_saved_def activate_in_tree_def
        map_cluster_clicked_def app_good_view split: prod.split option.split)
  then show ?thesis by (simp add: component_perform_def with_effect_keeps board_effect_good)
qed

lemma node_keeps:
  assumes "a \<noteq> OpenModule HostManagement"
  shows "keeps_app (node_home_perform a s)"
  using assms
  by (cases a)
    (simp_all add: node_home_perform_def app_good_view node_form_saved_def node_saved_def app_good_op
      split: prod.split option.split)

section \<open>The contract of what is mounted\<close>

definition screen_good :: "setting \<Rightarrow> screen \<Rightarrow> bool" where
  "screen_good z x = (case x of
     HostScreen _ \<Rightarrow> False
   | ClogScreen p \<Rightarrow> clog_consistent p
   | FlowScreen p \<Rightarrow> flow_good (se_width z) p
   | XactScreen p \<Rightarrow> xact_good (se_width z) p
   | HeatScreen p \<Rightarrow> heat_good (se_palette z) p
   | _ \<Rightarrow> True)"

text \<open>The view is the one asked for, and it has been given what there is.\<close>

definition given_live :: "shell \<Rightarrow> bool" where
  "given_live s = (let q = cs_page s in case sp_screen q of
     FlowScreen p \<Rightarrow> fp_type p = pipeline_of (ap_currentView (cs_app s)) \<and> fp_stages p = stages_given (fp_type p) q
   | XactScreen p \<Rightarrow> xp_transactions p = xacts_given q
   | HeatScreen p \<Rightarrow> hm_buffers p = buffers_given q
   | MemoryScreen p \<Rightarrow> mp_backends p = Some (sn_backends (sp_snap q)) \<and> mp_events p = events (sp_events q)
   | _ \<Rightarrow> True)"

definition follows :: "setting \<Rightarrow> shell \<Rightarrow> bool" where
  "follows z s \<longleftrightarrow>
     type_of (sp_screen (cs_page s)) = type_of (new_screen z (cs_page s) (shown_view (cs_app s))) \<and>
     given_live s \<and> selection_effect (cs_app s) = cs_app s"

definition shell_good :: "setting \<Rightarrow> shell \<Rightarrow> bool" where
  "shell_good z s \<longleftrightarrow> app_good (cs_app s) \<and> screen_good z (sp_screen (cs_page s)) \<and> follows z s"

lemma clog_init_consistent [simp]: "clog_consistent init_clog_viewer"
  by (simp add: clog_consistent_def init_clog_viewer_def no_clog_stats_def)

lemma new_screen_good: "v \<noteq> Some HostManagement \<Longrightarrow> screen_good z (new_screen z p v)"
  by (simp add: new_screen_def screen_good_def flow_screen_def flow_good_init xact_good_init heat_good_init
      split: option.split view.split)

lemma flow_good_type [simp]: "flow_good w (p\<lparr>fp_type := t\<rparr>) = flow_good w p"
  using flow_nodes.settled_cong [of "p\<lparr>fp_type := t\<rparr>" p w] by (simp add: flow_good_def)

lemma with_properties_good:
  "screen_good z (sp_screen (cs_page s)) \<Longrightarrow> screen_good z (with_properties z s)"
  by (simp add: screen_good_def with_properties_def flow_good_step xact_good_step heat_good_commit Let_def
      split: screen.splits)

lemma with_properties_type [simp]: "type_of (with_properties z s) = type_of (sp_screen (cs_page s))"
  by (simp add: with_properties_def type_of_def Let_def split: screen.split)

text \<open>What a view is given depends on neither itself nor the mounting.\<close>

lemma given_frame [simp]:
  "buffers_given (p\<lparr>sp_screen := x\<rparr>) = buffers_given p" "stages_given t (p\<lparr>sp_screen := x\<rparr>) = stages_given t p"
  "xacts_given (p\<lparr>sp_screen := x\<rparr>) = xacts_given p" "locks_given (p\<lparr>sp_screen := x\<rparr>) l = locks_given p l"
  "buffers_given (p\<lparr>sp_mount := n\<rparr>) = buffers_given p" "stages_given t (p\<lparr>sp_mount := n\<rparr>) = stages_given t p"
  "xacts_given (p\<lparr>sp_mount := n\<rparr>) = xacts_given p" "locks_given (p\<lparr>sp_mount := n\<rparr>) l = locks_given p l"
  "buffers_given (p\<lparr>sp_fresh := b\<rparr>) = buffers_given p" "stages_given t (p\<lparr>sp_fresh := b\<rparr>) = stages_given t p"
  "xacts_given (p\<lparr>sp_fresh := b\<rparr>) = xacts_given p" "locks_given (p\<lparr>sp_fresh := b\<rparr>) l = locks_given p l"
  by (simp_all add: buffers_given_def stages_given_def xacts_given_def locks_given_def Let_def cong: option.case_cong)

lemma new_screen_frame [simp]:
  "new_screen z (p\<lparr>sp_screen := x\<rparr>) v = new_screen z p v" "new_screen z (p\<lparr>sp_mount := n\<rparr>) v = new_screen z p v"
  "new_screen z (p\<lparr>sp_fresh := b\<rparr>) v = new_screen z p v"
  by (simp_all add: new_screen_def flow_screen_def split: option.split view.split)

lemma given_new: "given_live (s\<lparr>cs_page := p\<lparr>sp_screen := new_screen z p (shown_view (cs_app s)), sp_mount := n, sp_fresh := b\<rparr>\<rparr>)"
  by (simp add: given_live_def new_screen_def flow_screen_def init_flow_page_def init_xact_page_def
      init_heat_page_def heat_commit_def xact_commit_def shown_view_def pipeline_of_def Let_def
      split: option.split view.split)

lemma given_with_properties: "given_live (s\<lparr>cs_page := (cs_page s)\<lparr>sp_screen := with_properties z s\<rparr>\<rparr>)"
  by (simp add: given_live_def with_properties_def flow_step_def flow_update_def heat_update_def
      xact_page_step_def xact_update_def xact_commit_def memory_update_def Let_def split: screen.split)

lemma shown_view_effects [simp]: "shown_view (selection_effect a) = shown_view a"
proof -
  have "ap_connected (selection_effect a) = ap_connected a"
    by (simp add: selection_effect_def Let_def split: option.split)
  then show ?thesis by (simp add: shown_view_def)
qed

text \<open>However the state came about, after the render the view follows the navigation again.\<close>

lemma refreshed_screen [simp]: "sp_screen (refreshed a st p) = sp_screen p"
  by (simp add: refreshed_def)

lemma rendered_good:
  assumes "app_good (cs_app s)" "screen_good z (sp_screen (cs_page s))"
  shows "shell_good z (rendered z s)"
proof -
  let ?a = "app_effects (cs_store s) (cs_app s)"
  let ?p = "refreshed ?a (cs_store s) (cs_page s)"
  let ?t = "s\<lparr>cs_app := ?a, cs_page := ?p\<rparr>"
  have a: "app_good ?a" using assms(1) by simp
  have sel: "selection_effect ?a = ?a" by (simp add: app_effects_def selection_effect_settles)
  have v: "shown_view ?a \<noteq> Some HostManagement" using a by (auto simp: app_good_def shown_view_def split: if_splits)
  show ?thesis
  proof (cases "type_of (new_screen z ?p (shown_view ?a)) = type_of (sp_screen ?p)")
    case True
    have "screen_good z (with_properties z ?t)" by (rule with_properties_good) (simp add: assms(2))
    with True a sel given_with_properties [where s = ?t and z = z] show ?thesis
      by (simp add: rendered_def shell_good_def follows_def Let_def)
  next
    case False
    with a sel new_screen_good [OF v, of z ?p] given_new [where s = ?t and p = ?p and z = z and n = "Suc (sp_mount ?p)" and b = True] show ?thesis
      by (simp add: rendered_def shell_good_def follows_def Let_def)
  qed
qed

section \<open>The contract of every handler\<close>

abbreviation keeps_all :: "setting \<Rightarrow> shell_job \<Rightarrow> bool" where
  "keeps_all z \<equiv> sound (shell_good z) (\<lambda>_. True)"

lemma in_app_good: "(\<And>a. app_good a \<Longrightarrow> app_good (f a)) \<Longrightarrow> shell_good z s \<Longrightarrow> shell_good z (in_app z f s)"
  unfolding in_app_def Let_def by (rule rendered_good) (simp_all add: shell_good_def)

lemma in_shell_good:
  "(\<And>p. sp_screen (f p) = sp_screen p) \<Longrightarrow> shell_good z s \<Longrightarrow> shell_good z (in_shell z f s)"
  unfolding in_shell_def by (rule rendered_good) (simp_all add: shell_good_def on_page_def)

lemma leave_keeps: "v \<noteq> HostManagement \<Longrightarrow> keeps_all z (leave_for z v)"
  by (simp add: leave_for_def in_app_good app_good_view)

lemma frame_keeps: "keeps_all z (frame_perform z a s)"
proof -
  have poll: "app_good b \<Longrightarrow> app_good (poll_answered r b)" for r b
    using app_good_event [of "PollAnswered r" b] by (simp add: app_outside_def app_handle_def)
  then show ?thesis
    by (cases a)
      (simp_all add: frame_perform_def leave_keeps in_app_good dismiss_task_def set_task_def split: option.split)
qed

lemma dialog_keeps: "keeps_all z (dialog_perform z a s)"
proof -
  have "keeps_all z (provisioned_job z i pr)" for i pr
    by (simp add: provisioned_job_def in_app_good app_good_dialog)
  then have "keeps_all z (create_job z t n s)" for t n
    by (simp add: create_job_def in_app_good app_good_dialog Let_def)
  then show ?thesis
    by (cases a; cases "sp_dialog (cs_page s)")
      (simp_all add: dialog_perform_def in_app_good in_shell_good app_good_dialog split: prod.split create_mode.split)
qed

text \<open>
  A handler of a view that keeps the application good and its own state good keeps the whole good,
  whether its view is still there or not.
\<close>

lemma at_screen_good:
  assumes "\<And>x. app_good (cs_app x) \<Longrightarrow> screen_good z (put (cs_page x)) \<Longrightarrow>
      app_good (cs_app (f x)) \<and> screen_good z (put (cs_page (f x)))"
    "screen_good z (put p0)" "\<And>y p. get y = Some p \<Longrightarrow> y = put p" "shell_good z s"
  shows "shell_good z (at_screen z n get put p0 f s)"
proof -
  let ?here = "if sp_mount (cs_page s) = n then get (sp_screen (cs_page s)) else None"
  let ?x = "part_site s (case ?here of Some p \<Rightarrow> p | None \<Rightarrow> p0)"
  have "screen_good z (put (cs_page ?x))"
    using assms(2,4) assms(3) [of "sp_screen (cs_page s)"] by (auto simp: shell_good_def split: option.split if_splits)
  with assms(1) [of ?x] assms(4) show ?thesis
    unfolding at_screen_def Let_def
    by (intro rendered_good) (auto simp: shell_good_def split: option.split)
qed

lemma site_job_keeps:
  assumes "keeps_app j" "\<And>p. screen_good z (put p)" "\<And>y p. get y = Some p \<Longrightarrow> y = put p"
  shows "keeps_all z (site_job z s0 get put p j)"
  unfolding site_job_def
  by (rule sound_part [OF assms(1)]) (use assms(2,3) in \<open>auto intro!: at_screen_good\<close>)

lemma local_job_keeps:
  assumes "sound (\<lambda>p. screen_good z (put p)) (\<lambda>_. True) j" "screen_good z (put p)" "\<And>y p. get y = Some p \<Longrightarrow> y = put p"
  shows "keeps_all z (local_job z s0 get put p j)"
  unfolding local_job_def
  by (rule sound_part [OF assms(1)])
    (use assms(2,3) in \<open>auto intro!: at_screen_good simp: on_page_def\<close>)

lemma console_job_keeps: "keeps_all z (part_job (\<lambda>f. at_screen z n (\<lambda>x. case x of ConsoleScreen p \<Rightarrow> Some p | _ \<Rightarrow> None)
    ConsoleScreen p (console_in_site f)) h (console_perform base a s))"
proof (rule sound_part)
  show "sound (\<lambda>_. True) (statement_call base) (console_perform base a s)"
    by (cases a) (simp_all add: console_perform_def execute_sound)
qed (auto intro!: at_screen_good simp: console_in_site_def screen_good_def split: screen.splits)

lemma trivially_sound: "(\<And>p. good p) \<Longrightarrow> sound good (\<lambda>_. True) j"
  by (induction j) auto

lemma local_job_free:
  assumes "\<And>p. screen_good z (put p)" "\<And>y p. get y = Some p \<Longrightarrow> y = put p"
  shows "keeps_all z (local_job z s0 get put p j)"
  by (rule local_job_keeps) (use assms in \<open>auto intro: trivially_sound\<close>)

lemma clog_keeps: "sound clog_consistent (\<lambda>_. True) (clog_perform base a s)"
  by (cases a) (auto simp: clog_perform_def clog_stats_job_def clog_answered_consistent,
      auto simp: clog_consistent_def)

lemma screen_keeps:
  assumes "shell_good z s" "\<And>n. a \<noteq> OnCluster (Activate n HostManagement)" "a \<noteq> OnNode (OpenModule HostManagement)"
  shows "keeps_all z (screen_perform z a s)"
proof -
  have good: "screen_good z (sp_screen (cs_page s))" using assms(1) by (simp add: shell_good_def)
  note get = screen.splits option.splits
  show ?thesis
  proof (cases "sp_screen (cs_page s)")
    case (ProjectScreen p)
    then show ?thesis
      by (cases a) (auto simp: screen_perform_def screen_good_def project_keeps intro!: site_job_keeps split: get)
  next
    case (ClusterScreen p)
    with assms(2) show ?thesis
      by (cases a) (auto simp: screen_perform_def screen_good_def intro!: site_job_keeps cluster_keeps split: get)
  next
    case (ComponentScreen p)
    then show ?thesis
      by (cases a) (auto simp: screen_perform_def screen_good_def component_keeps intro!: site_job_keeps split: get)
  next
    case (NodeScreen p)
    with assms(3) show ?thesis
      by (cases a) (auto simp: screen_perform_def screen_good_def intro!: site_job_keeps node_keeps split: get)
  next
    case (HostScreen p)
    with good show ?thesis by (simp add: screen_good_def)
  next
    case (ConsoleScreen p)
    then show ?thesis by (cases a) (auto simp: screen_perform_def leave_keeps console_job_keeps)
  next
    case (ClogScreen p)
    with good show ?thesis
      by (cases a) (auto simp: screen_perform_def screen_good_def leave_keeps clog_keeps intro!: local_job_keeps split: get)
  next
    case (FlowScreen p)
    with good show ?thesis
      by (cases a) (auto simp: screen_perform_def screen_good_def leave_keeps flow_good_step
          intro!: local_job_keeps local_sound split: get)
  next
    case (XactScreen p)
    with good show ?thesis
      by (cases a) (auto simp: screen_perform_def screen_good_def leave_keeps xact_good_step
          intro!: local_job_keeps local_sound split: get)
  next
    case (HeatScreen p)
    with good show ?thesis
      by (cases a) (auto simp: screen_perform_def screen_good_def leave_keeps heat_good_commit
          intro!: local_job_keeps local_sound split: get)
  next
    case (WalScreen p)
    then show ?thesis
      by (cases a) (auto simp: screen_perform_def screen_good_def leave_keeps intro!: local_job_free split: get)
  next
    case (LockScreen p)
    then show ?thesis
      by (cases a) (auto simp: screen_perform_def screen_good_def leave_keeps intro!: local_job_free split: get)
  next
    case (MemoryScreen p)
    then show ?thesis
      by (cases a) (auto simp: screen_perform_def screen_good_def leave_keeps intro!: local_job_free split: get)
  next
    case (PlanScreen p)
    then show ?thesis
      by (cases a) (auto simp: screen_perform_def screen_good_def leave_keeps intro!: local_job_free split: get)
  next
    case NoNodeScreen
    then show ?thesis by (cases a) (simp_all add: screen_perform_def)
  qed
qed

section \<open>What is offered\<close>

lemma frame_inert [simp]: "acts (header_view c v w) = {}" "acts (footer_view c w n m l) = {}"
  by (simp_all add: header_view_def footer_view_def)

text \<open>The actions of the views come from the mounted view; nobody offers to go to the page of the hosts.\<close>

lemma shell_view_parts:
  assumes "shell_view z s = Some e" "a \<in> acts e" "\<And>x. a \<noteq> OnFrame x" "\<And>x. a \<noteq> OnDialog x"
  obtains b where "screen_view z s = Some b" "a \<in> acts b"
  using assms
  by (auto simp: shell_view_def Let_def image_iff split: option.splits bind_splits)

lemma no_hosts_offered:
  assumes "shell_view z s = Some e" "a \<in> acts e"
  shows "a \<noteq> OnCluster (Activate n HostManagement)" "a \<noteq> OnNode (OpenModule HostManagement)"
proof -
  show "a \<noteq> OnCluster (Activate n HostManagement)"
  proof
    assume a: "a = OnCluster (Activate n HostManagement)"
    with shell_view_parts [OF assms] obtain b where b: "screen_view z s = Some b" "a \<in> acts b" by blast
    with a obtain p c where "cluster_view (se_time z) (part_site s p) = Some c" "Activate n HostManagement \<in> acts c"
      by (auto simp: screen_view_def Let_def split: screen.splits)
    then show False using activations_offered by fastforce
  qed
  show "a \<noteq> OnNode (OpenModule HostManagement)"
  proof
    assume a: "a = OnNode (OpenModule HostManagement)"
    with shell_view_parts [OF assms] obtain b where b: "screen_view z s = Some b" "a \<in> acts b" by blast
    with a obtain p where "OpenModule HostManagement \<in> acts (node_home_view [] (part_site s p))"
      by (auto simp: screen_view_def Let_def split: screen.splits)
    then show False by (auto simp: acts_node_home_view node_modules_def node_form_box_def split: if_splits)
  qed
qed

section \<open>The page keeps its contract\<close>

lemma shell_keeps:
  assumes "shell_good z s" "\<And>n. a \<noteq> OnCluster (Activate n HostManagement)" "a \<noteq> OnNode (OpenModule HostManagement)"
    "\<And>e. a = AppEvent e \<Longrightarrow> e \<in> app_outside"
  shows "keeps_all z (shell_perform z a s)"
proof (cases a)
  case MountEffects
  have "keeps_all z (screen_perform z b s)" if "mount_action (sp_screen (cs_page s)) = Some b" for b
    using that by (intro screen_keeps [OF assms(1)]) (auto simp: mount_action_def split: screen.splits)
  moreover have "shell_good z x \<Longrightarrow> shell_good z (on_page (\<lambda>p. p\<lparr>sp_fresh := False\<rparr>) x)" for x
    by (simp add: shell_good_def follows_def given_live_def on_page_def Let_def cong: screen.case_cong)
  ultimately show ?thesis using MountEffects by (simp add: shell_perform_def split: option.split)
next
  case (AppEvent e)
  with assms(4) show ?thesis by (simp add: shell_perform_def in_app_good app_good_event)
qed (use assms in \<open>simp_all add: shell_perform_def frame_keeps dialog_keeps in_shell_good screen_keeps\<close>)

lemma init_shell_good: "shell_good z (init_shell z storage)"
  unfolding init_shell_def by (rule rendered_good) (simp_all add: app_good_def screen_good_def saved_or_pending_def init_app_def)

interpretation whole: page_contract "shell_view z" shell_outside "shell_perform z" MountEffects
  "init_shell z storage" "shell_good z" "\<lambda>_. True" for z storage
proof unfold_locales
  fix a s and e :: "shell_action element"
  assume "shell_good z s" "a \<in> shell_outside s"
  then show "keeps_all z (shell_perform z a s)"
    by (intro shell_keeps)
      (auto simp: shell_outside_def cluster_outside_def split: if_splits screen.splits)
next
  fix a s e
  assume g: "shell_good z s" and e: "shell_view z s = Some e" "a \<in> acts e"
  have "a \<noteq> AppEvent x" for x
  proof
    assume a: "a = AppEvent x"
    with shell_view_parts [OF e] obtain b where "screen_view z s = Some b" "a \<in> acts b" by blast
    with a show False by (auto simp: screen_view_def Let_def split: screen.splits)
  qed
  then show "keeps_all z (shell_perform z a s)" by (intro shell_keeps [OF g no_hosts_offered [OF e]]) blast
qed (auto intro!: shell_keeps simp: init_shell_good)

end
