(* ===== verification/AppWhole.thy ===== *)
theory AppWhole
  imports AppRun
begin

text \<open>
  The properties of the whole page, from its start on, through every order of clicks, frames of the
  socket, timers and answers; and a run of it, from the first load to the heat map.
\<close>

section \<open>A run of the page\<close>

text \<open>
  The page is opened, the workspace arrives, the user goes to the cluster and its nodes, activates
  a node, is told that it is connected, and opens the heat map; then the collector reports a pinned
  buffer.
\<close>

type_synonym whole_page = "(shell, shell_action, shell_env, host_call, reply) page"

definition sample_setting :: setting where
  "sample_setting = \<lparr>se_palette = two_colours, se_width = 800,
     se_gantt = \<lparr>gs_scale = (\<lambda>_ _ v. v), gs_ticks = (\<lambda>_ _. []), gs_number = (\<lambda>_. [])\<rparr>,
     se_tree = \<lparr>tl_root = (\<lambda>_. (0, 0)), tl_rest = (\<lambda>_. []), tl_links = (\<lambda>_. []), tl_blues = (\<lambda>_. [])\<rparr>,
     se_base = [], se_now = [], se_clock = 0, se_time = (\<lambda>_. [])\<rparr>"

definition sample_env :: shell_env where
  "sample_env = \<lparr>sn_page = scan_env, sn_exc = (\<lambda>_. [])\<rparr>"

definition sample_cluster :: workspace_cluster where
  "sample_cluster = hd (pj_clusters sample_project)"

definition sample_node :: cluster_node where
  "sample_node = hd (cl_nodes sample_cluster)"

definition pin_event :: probe_event where
  "pin_event = \<lparr>ev_type = str ''buffer_pin'', ev_timestamp = Fin 0, ev_pid = Fin 1, ev_seq = Fin 1,
     ev_data = [(str ''buffer_id'', JNum (jsint 3)), (str ''relfilenode'', JNum (jsint 7))]\<rparr>"

definition connected_answer :: reply where
  "connected_answer = Responded 200 (json_stringify (JObj [(str ''success'', JBool True)])) []"

definition act :: "shell_action \<Rightarrow> whole_page \<Rightarrow> whole_page" where
  "act a c = proceed sample_env a (shell_perform sample_setting a (pg_state c)) c"

definition first_page :: whole_page where
  "first_page = opened (shell_perform sample_setting) sample_env MountEffects (init_shell sample_setting None)"

definition loaded_page :: whole_page where
  "loaded_page = act (AppEvent (Bootstrapped (stored_answer [sample_project] []))) first_page"

definition at_cluster :: whole_page where
  "at_cluster = act (OnProject (ProjectView.OpenCluster (str ''p'') (str ''c''))) loaded_page"

definition at_nodes :: whole_page where
  "at_nodes = act (OnCluster (ShowTab NodesTab)) at_cluster"

definition activating :: whole_page where
  "activating = act (OnCluster (Activate sample_node NodeHome)) at_nodes"

definition at_node :: whole_page where
  "at_node = answered sample_env 0 connected_answer activating"

definition at_heat_map :: whole_page where
  "at_heat_map = act (OnNode (OpenModule BufferView)) at_node"

definition pin_shown :: whole_page where
  "pin_shown = act (EventArrived pin_event) at_heat_map"

text \<open>What a render changes, for a view that stays and for a new one.\<close>

lemma rendered_simps [simp]:
  "cs_app (rendered z s) = app_effects (cs_store s) (cs_app s)" "cs_store (rendered z s) = cs_store s"
  "sp_events (cs_page (rendered z s)) = sp_events (cs_page s)" "sp_snap (cs_page (rendered z s)) = sp_snap (cs_page s)"
  by (simp_all add: rendered_def refreshed_def Let_def)

lemma rendered_dialog [simp]:
  "\<not> ap_showTemplateDialog (cs_app s) \<Longrightarrow> sp_dialog (cs_page (rendered z s)) = None"
proof -
  assume "\<not> ap_showTemplateDialog (cs_app s)"
  then have "\<not> ap_showTemplateDialog (app_effects (cs_store s) (cs_app s))"
    by (simp add: app_effects_def selection_effect_def Let_def split: option.split)
  then show ?thesis by (simp add: rendered_def refreshed_def Let_def)
qed

text \<open>The component for a place of the navigation.\<close>

definition component_for :: "view option \<Rightarrow> mounted_component" where
  "component_for v = (case v of
     None \<Rightarrow> NoNodeNotice
   | Some w \<Rightarrow> (case w of
       ProjectHome \<Rightarrow> ProjectHomeView | ClusterHome \<Rightarrow> ClusterHomeView | ComponentHome \<Rightarrow> ComponentHomeView
     | HostManagement \<Rightarrow> HostManagementView | NodeHome \<Rightarrow> NodeHomeView | SqlView \<Rightarrow> SQLConsole
     | WalView \<Rightarrow> WALViewer | ClogView \<Rightarrow> CLOGViewer | WriteView \<Rightarrow> PipelineView
     | ReadView \<Rightarrow> PipelineView | TransactionView \<Rightarrow> PipelineView | XactStateView \<Rightarrow> TransactionStateView
     | BufferView \<Rightarrow> BufferHeatmapView | LockView \<Rightarrow> LockGraphView | MemoryView \<Rightarrow> MemoryStructView
     | PlanView \<Rightarrow> PlanTreeView))"

lemma type_new_screen [simp]: "type_of (new_screen z p v) = component_for v"
  by (simp add: new_screen_def type_of_def component_for_def flow_screen_def split: option.split view.split)

lemma rendered_kept:
  assumes "component_for (shown_view (app_effects (cs_store s) (cs_app s))) = type_of (sp_screen (cs_page s))"
  shows "sp_screen (cs_page (rendered z s)) = with_properties z (s\<lparr>cs_app := app_effects (cs_store s) (cs_app s),
      cs_page := refreshed (app_effects (cs_store s) (cs_app s)) (cs_store s) (cs_page s)\<rparr>)"
    "sp_mount (cs_page (rendered z s)) = sp_mount (cs_page s)"
  using assms by (simp_all add: rendered_def Let_def) (simp add: refreshed_def)

lemma rendered_new:
  assumes "component_for (shown_view (app_effects (cs_store s) (cs_app s))) \<noteq> type_of (sp_screen (cs_page s))"
  shows "sp_screen (cs_page (rendered z s)) = new_screen z
      (refreshed (app_effects (cs_store s) (cs_app s)) (cs_store s) (cs_page s))
      (shown_view (app_effects (cs_store s) (cs_app s)))"
  using assms by (simp add: rendered_def Let_def)

lemma effects_simps:
  "app_effects st a = selection_effect (if pg_connected st then a\<lparr>ap_connected := True\<rparr> else a)"
  by (simp add: app_effects_def)

text \<open>The application once the workspace has arrived; the steps of the run.\<close>

definition loaded_app :: app_state where
  "loaded_app = (init_app None)\<lparr>ap_projects := [sample_project], ap_selectedProjectId := str ''p'',
     ap_selectedClusterId := str ''c'', ap_selectedNodeId := str ''n'', ap_workspaceBootstrapped := True,
     ap_saveTimer := Some [sample_project]\<rparr>"

lemma stored_sample_loads: "loadProjectsFromBackend (stored_answer [sample_project] []) = Some [sample_project]"
  by (rule stored_answer_loads)
    (simp_all add: sample_project_def printable_def printable_cluster_def threshold_ok_def)

lemma loaded_selected [simp]:
  "selection_effect (loaded_app\<lparr>ap_currentView := v, ap_connected := b\<rparr>) = loaded_app\<lparr>ap_currentView := v, ap_connected := b\<rparr>"
  "selection_effect (loaded_app\<lparr>ap_currentView := v\<rparr>) = loaded_app\<lparr>ap_currentView := v\<rparr>"
  "selection_effect (loaded_app\<lparr>ap_connected := b, ap_currentView := v\<rparr>) = loaded_app\<lparr>ap_connected := b, ap_currentView := v\<rparr>"
  "selection_effect loaded_app = loaded_app"
  by (simp_all add: loaded_app_def selection_effect_def selectedProject_def find_first_def or_else_def
      sample_project_def str_def)

lemma first_facts:
  "cs_app (pg_state first_page) = init_app None" "cs_store (pg_state first_page) = init_pg_state"
  "sp_screen (cs_page (pg_state first_page)) = ProjectScreen init_project_page" "pg_waiting first_page = []"
  "sp_events (cs_page (pg_state first_page)) = empty_event_store"
proof -
  have e: "app_effects init_pg_state (init_app None) = init_app None"
    by (simp add: effects_simps init_pg_state_def init_app_def selection_effect_def selectedProject_def
        find_first_def or_else_def head_opt_def)
  have k: "component_for (shown_view (init_app None)) = ProjectHomeView"
    by (simp add: component_for_def shown_view_def init_app_def)
  have s: "sp_screen (cs_page (init_shell sample_setting None)) = ProjectScreen init_project_page"
    unfolding init_shell_def
    by (subst rendered_kept(1)) (simp_all add: e k type_of_def with_properties_def refreshed_def)
  from s show "sp_screen (cs_page (pg_state first_page)) = ProjectScreen init_project_page" "pg_waiting first_page = []"
    by (simp_all add: first_page_def opened_def proceed_def shell_perform_def mount_action_def on_page_def)
  from s show "cs_app (pg_state first_page) = init_app None" "cs_store (pg_state first_page) = init_pg_state"
    "sp_events (cs_page (pg_state first_page)) = empty_event_store"
    by (simp_all add: first_page_def opened_def proceed_def shell_perform_def mount_action_def)
      (simp_all add: init_shell_def e on_page_def)
qed

lemma act_simp:
  "advance sample_env (shell_perform sample_setting a (pg_state c)) (pg_state c) = (s, None) \<Longrightarrow>
     act a c = c\<lparr>pg_state := s\<rparr>"
  by (simp add: act_def proceed_def)

text \<open>A handler of the present view, which is still there.\<close>

lemma at_screen_here:
  "get (sp_screen (cs_page s)) = Some p \<Longrightarrow> n = sp_mount (cs_page s) \<Longrightarrow>
     at_screen z n get put p0 f s = (let x = f (part_site s p)
       in rendered z (s\<lparr>cs_app := cs_app x, cs_store := cs_store x,
            cs_page := (cs_page s)\<lparr>sp_screen := put (cs_page x)\<rparr>\<rparr>))"
  by (simp add: at_screen_def Let_def)

lemma loaded_facts:
  "cs_app (pg_state loaded_page) = loaded_app" "cs_store (pg_state loaded_page) = init_pg_state"
  "sp_screen (cs_page (pg_state loaded_page)) = ProjectScreen init_project_page" "pg_waiting loaded_page = []"
  "sp_events (cs_page (pg_state loaded_page)) = empty_event_store"
proof -
  let ?b = "bootstrap (stored_answer [sample_project] []) (init_app None)"
  have b: "?b = (init_app None)\<lparr>ap_projects := [sample_project], ap_workspaceSyncError := [],
      ap_selectedProjectId := pj_id sample_project, ap_selectedClusterId := first_cluster_id (Some sample_project),
      ap_workspaceBootstrapped := True, ap_saveTimer := Some [sample_project]\<rparr>"
    by (simp add: bootstrap_def stored_sample_loads autosave_effect_def)
  have e: "app_effects init_pg_state ?b = loaded_app"
    unfolding b
    by (simp add: effects_simps init_pg_state_def init_app_def selection_effect_def selectedProject_def find_first_def
        or_else_def head_opt_def first_cluster_id_def first_node_id_def sample_project_def loaded_app_def str_def)
  have t: "ap_provisionTask ?b = ap_provisionTask (init_app None)"
    by (simp add: bootstrap_def stored_sample_loads autosave_effect_def)
  have k: "component_for (shown_view loaded_app) = ProjectHomeView"
    by (simp add: component_for_def shown_view_def loaded_app_def init_app_def)
  have a: "loaded_page = first_page\<lparr>pg_state := rendered sample_setting ((pg_state first_page)\<lparr>cs_app := ?b\<rparr>)\<rparr>"
    unfolding loaded_page_def
    by (rule act_simp) (simp add: shell_perform_def in_app_def app_handle_def first_facts t)
  show "cs_app (pg_state loaded_page) = loaded_app" "cs_store (pg_state loaded_page) = init_pg_state"
    "pg_waiting loaded_page = []"
    "sp_events (cs_page (pg_state loaded_page)) = empty_event_store"
    by (simp_all add: a e first_facts)
  show "sp_screen (cs_page (pg_state loaded_page)) = ProjectScreen init_project_page"
    unfolding a by (simp, subst rendered_kept(1))
      (simp_all add: e k first_facts type_of_def with_properties_def)
qed

lemma cluster_facts:
  "cs_app (pg_state at_cluster) = loaded_app\<lparr>ap_currentView := ClusterHome\<rparr>" "cs_store (pg_state at_cluster) = init_pg_state"
  "sp_screen (cs_page (pg_state at_cluster)) = ClusterScreen init_cluster_page" "pg_waiting at_cluster = []"
  "sp_events (cs_page (pg_state at_cluster)) = empty_event_store"
proof -
  let ?a = "loaded_app\<lparr>ap_currentView := ClusterHome\<rparr>"
  have h: "handleClusterClick (str ''p'') (str ''c'') loaded_app = ?a"
    by (simp add: handleClusterClick_def navigate_to_cluster_def loaded_app_def)
  have e: "app_effects init_pg_state ?a = ?a" by (simp add: effects_simps init_pg_state_def)
  have k: "component_for (shown_view ?a) = ClusterHomeView"
    by (simp add: component_for_def shown_view_def)
  have a: "at_cluster = loaded_page\<lparr>pg_state := rendered sample_setting ((pg_state loaded_page)\<lparr>cs_app := ?a,
      cs_store := init_pg_state,
      cs_page := (cs_page (pg_state loaded_page))\<lparr>sp_screen := ProjectScreen init_project_page\<rparr>\<rparr>)\<rparr>"
    unfolding at_cluster_def
    by (rule act_simp) (simp add: shell_perform_def screen_perform_def loaded_facts site_job_def project_perform_def
      at_screen_here on_app_def h e del: app_effects_def)
  show "cs_app (pg_state at_cluster) = ?a" "cs_store (pg_state at_cluster) = init_pg_state"
    "pg_waiting at_cluster = []"
    "sp_events (cs_page (pg_state at_cluster)) = empty_event_store"
    by (simp_all add: a e loaded_facts)
  show "sp_screen (cs_page (pg_state at_cluster)) = ClusterScreen init_cluster_page"
    unfolding a by (simp, subst rendered_new) (simp_all add: e k loaded_facts type_of_def new_screen_def shown_view_def component_for_def)
qed

abbreviation nodes_shown :: cluster_page where
  "nodes_shown \<equiv> init_cluster_page\<lparr>cv_activeTab := NodesTab\<rparr>"

lemma nodes_facts:
  "cs_app (pg_state at_nodes) = loaded_app\<lparr>ap_currentView := ClusterHome\<rparr>" "cs_store (pg_state at_nodes) = init_pg_state"
  "sp_screen (cs_page (pg_state at_nodes)) = ClusterScreen nodes_shown" "pg_waiting at_nodes = []"
  "sp_events (cs_page (pg_state at_nodes)) = empty_event_store"
proof -
  let ?a = "loaded_app\<lparr>ap_currentView := ClusterHome\<rparr>"
  have e: "app_effects init_pg_state ?a = ?a" by (simp add: effects_simps init_pg_state_def)
  have k: "component_for (shown_view ?a) = ClusterHomeView"
    by (simp add: component_for_def shown_view_def)
  have a: "at_nodes = at_cluster\<lparr>pg_state := rendered sample_setting ((pg_state at_cluster)\<lparr>cs_app := ?a,
      cs_store := init_pg_state, cs_page := (cs_page (pg_state at_cluster))\<lparr>sp_screen := ClusterScreen nodes_shown\<rparr>\<rparr>)\<rparr>"
    unfolding at_nodes_def
    by (rule act_simp) (simp add: shell_perform_def screen_perform_def cluster_facts site_job_def cluster_perform_def
      at_screen_here on_page_def)
  show "cs_app (pg_state at_nodes) = ?a" "cs_store (pg_state at_nodes) = init_pg_state" "pg_waiting at_nodes = []"
    "sp_events (cs_page (pg_state at_nodes)) = empty_event_store"
    by (simp_all add: a e cluster_facts)
  show "sp_screen (cs_page (pg_state at_nodes)) = ClusterScreen nodes_shown"
    unfolding a
    by (simp, subst rendered_kept(1)) (simp_all add: e k with_properties_def type_of_def)
qed

definition activation :: host_call where
  "activation = \<lparr>hc_method = POST, hc_url = str ''/api/nodes/'' @ nd_id sample_node @ str ''/activate'', hc_body = JUndef\<rparr>"

lemma connected_answer_read: "answer txt connected_answer = Inr (200, [(str ''success'', JBool True)])"
  by (simp add: answer_def connected_answer_def del: json_stringify.simps)

definition connected_store :: pg_state where
  "connected_store = fst (activateNode sample_node NodeHome [(str ''success'', JBool True)] init_pg_state)"

lemma connected_store [simp]: "pg_connected connected_store"
  by (simp add: connected_store_def activateNode_def field_def setConnected_def setVersion_def setDataDir_def)

lemma at_node_facts:
  "cs_app (pg_state at_node) = loaded_app\<lparr>ap_connected := True, ap_currentView := NodeHome\<rparr>"
  "cs_store (pg_state at_node) = connected_store"
  "sp_screen (cs_page (pg_state at_node)) = NodeScreen init_node_page"
  "sp_events (cs_page (pg_state at_node)) = empty_event_store"
proof -
  let ?s = "pg_state at_nodes" and ?z = sample_setting
  let ?a = "loaded_app\<lparr>ap_currentView := ClusterHome, ap_connected := True\<rparr>"
  let ?b = "loaded_app\<lparr>ap_connected := True, ap_currentView := NodeHome\<rparr>"
  let ?at = "at_screen ?z (sp_mount (cs_page ?s)) (\<lambda>x. case x of ClusterScreen p \<Rightarrow> Some p | _ \<Rightarrow> None) ClusterScreen nodes_shown"
  let ?f = "\<lambda>s. s\<lparr>cs_store := fst (activateNode sample_node NodeHome [(str ''success'', JBool True)] (cs_store s))\<rparr>"
  have "advance sample_env (shell_perform ?z (OnCluster (Activate sample_node NodeHome)) ?s) ?s =
      (?s, Some (activation, \<lambda>r. part_job ?at sn_page (Sample (\<lambda>e. case answer (en_texts e) r of
          Inl _ \<Rightarrow> job.Done
        | Inr (_, fs) \<Rightarrow> Do (\<lambda>s. s\<lparr>cs_store := fst (activateNode sample_node NodeHome fs (cs_store s))\<rparr>) (Do (go NodeHome) job.Done)))))"
    by (simp add: shell_perform_def screen_perform_def nodes_facts site_job_def cluster_perform_def activate_job_def
        activation_def)
  then have w: "at_node = proceed sample_env (OnCluster (Activate sample_node NodeHome))
      (Do (?at ?f) (Do (?at (go NodeHome)) job.Done)) (activating\<lparr>pg_waiting := []\<rparr>)"
    and act: "pg_state activating = ?s"
    by (simp_all add: at_node_def answered_def activating_def act_def proceed_def nodes_facts drop_nth_def
        connected_answer_read)
  have e: "app_effects connected_store (loaded_app\<lparr>ap_currentView := ClusterHome\<rparr>) = ?a"
    "app_effects connected_store ?b = ?b"
    by (simp_all add: effects_simps)
  have k: "component_for (shown_view ?a) = ClusterHomeView"
    by (simp add: component_for_def shown_view_def)
  let ?t = "?at ?f ?s"
  have t: "?t = rendered ?z (?s\<lparr>cs_app := loaded_app\<lparr>ap_currentView := ClusterHome\<rparr>, cs_store := connected_store,
      cs_page := (cs_page ?s)\<lparr>sp_screen := ClusterScreen nodes_shown\<rparr>\<rparr>)"
    by (simp add: at_screen_here nodes_facts connected_store_def)
  have f: "cs_app ?t = ?a" "cs_store ?t = connected_store" by (simp_all add: t e)
  have g: "sp_screen (cs_page ?t) = ClusterScreen nodes_shown" "sp_mount (cs_page ?t) = sp_mount (cs_page ?s)"
    unfolding t by (subst rendered_kept; simp add: e k with_properties_def type_of_def)+
  let ?u = "?at (go NodeHome) ?t"
  have u: "?u = rendered ?z (?t\<lparr>cs_app := ?b, cs_store := connected_store,
      cs_page := (cs_page ?t)\<lparr>sp_screen := ClusterScreen nodes_shown\<rparr>\<rparr>)"
    by (simp add: at_screen_here f g go_def on_app_def e del: app_effects_def)
  have s: "pg_state at_node = ?u" by (simp add: w act proceed_def)
  show "cs_app (pg_state at_node) = ?b" "cs_store (pg_state at_node) = connected_store"
    "sp_events (cs_page (pg_state at_node)) = empty_event_store"
    by (simp_all add: s u e) (simp add: t nodes_facts)
  show "sp_screen (cs_page (pg_state at_node)) = NodeScreen init_node_page"
    unfolding s u
    by (subst rendered_new) (simp_all add: e type_of_def new_screen_def shown_view_def component_for_def)
qed

lemma heat_map_facts:
  "cs_app (pg_state at_heat_map) = loaded_app\<lparr>ap_connected := True, ap_currentView := BufferView\<rparr>"
  "cs_store (pg_state at_heat_map) = connected_store"
  "sp_screen (cs_page (pg_state at_heat_map)) = HeatScreen (init_heat_page two_colours (0, None))"
  "sp_events (cs_page (pg_state at_heat_map)) = empty_event_store"
proof -
  let ?a = "loaded_app\<lparr>ap_connected := True, ap_currentView := BufferView\<rparr>"
  have e: "app_effects connected_store ?a = ?a" by (simp add: effects_simps)
  have a: "at_heat_map = at_node\<lparr>pg_state := rendered sample_setting ((pg_state at_node)\<lparr>cs_app := ?a,
      cs_store := connected_store, cs_page := (cs_page (pg_state at_node))\<lparr>sp_screen := NodeScreen init_node_page\<rparr>\<rparr>)\<rparr>"
    unfolding at_heat_map_def
    by (rule act_simp) (simp add: shell_perform_def screen_perform_def at_node_facts site_job_def node_home_perform_def
      at_screen_here on_app_def go_def e del: app_effects_def)
  show "cs_app (pg_state at_heat_map) = ?a" "cs_store (pg_state at_heat_map) = connected_store"
    "sp_events (cs_page (pg_state at_heat_map)) = empty_event_store"
    by (simp_all add: a e at_node_facts)
  have "buffers_given (refreshed ?a connected_store ((cs_page (pg_state at_node))\<lparr>sp_screen := NodeScreen init_node_page\<rparr>)) = (0, None)"
    by (simp add: buffers_given_def refreshed_def at_node_facts useVisualizationData_def empty_event_store_def
        buildBufferCells_def sort_by_num_def)
  then show "sp_screen (cs_page (pg_state at_heat_map)) = HeatScreen (init_heat_page two_colours (0, None))"
    unfolding a
    by (simp, subst rendered_new)
      (simp_all add: e type_of_def new_screen_def shown_view_def component_for_def sample_setting_def)
qed

lemma pin_facts:
  "events (sp_events (cs_page (pg_state pin_shown))) = [pin_event]"
  "\<exists>p. sp_screen (cs_page (pg_state pin_shown)) = HeatScreen p \<and> hm_showDirty p"
proof -
  let ?a = "loaded_app\<lparr>ap_connected := True, ap_currentView := BufferView\<rparr>"
  let ?f = "\<lambda>p. p\<lparr>sp_events := add_event pin_event (sp_events p)\<rparr>"
  have e: "app_effects connected_store ?a = ?a" by (simp add: effects_simps)
  have k: "component_for (shown_view ?a) = BufferHeatmapView"
    by (simp add: component_for_def shown_view_def)
  have a: "pin_shown = at_heat_map\<lparr>pg_state := rendered sample_setting (on_page ?f (pg_state at_heat_map))\<rparr>"
    unfolding pin_shown_def by (rule act_simp) (simp add: shell_perform_def in_shell_def)
  show "events (sp_events (cs_page (pg_state pin_shown))) = [pin_event]"
    by (simp add: a on_page_def heat_map_facts empty_event_store_def add_event_def MAX_EVENTS_def
        slice_from_def)
  show "\<exists>p. sp_screen (cs_page (pg_state pin_shown)) = HeatScreen p \<and> hm_showDirty p"
    unfolding a
    by (simp, subst rendered_kept(1))
      (simp_all add: e k on_page_def heat_map_facts type_of_def with_properties_def heat_step_def heat_update_def
        heat_commit_def init_heat_page_def Let_def)
qed

text \<open>Every step of the run is offered.\<close>

abbreviation sample_reach :: "whole_page \<Rightarrow> bool" where
  "sample_reach \<equiv> app_reach sample_setting None sample_env"

lemma frame_plain [simp]:
  "plain_page (header_view c v w)" "plain_page (footer_view c w n m l)" "plain_page (panel_button a)"
  by (simp_all add: header_view_def footer_view_def panel_button_def Let_def)

lemma act_reach:
  assumes "sample_reach c" "screen_view sample_setting (pg_state c) = Some b" "plain_page b" "a \<in> acts b"
    "ap_provisionTask (cs_app (pg_state c)) = None"
  shows "sample_reach (act a c)"
proof -
  obtain es where es: "above_page (se_clock sample_setting) (pg_conf (cs_store (pg_state c))) (cs_app (pg_state c)) = Some es"
    using assms(5) by (simp add: above_page_def)
  then obtain el where el: "shell_view sample_setting (pg_state c) = Some el"
    using assms(2) by (simp add: shell_view_def Let_def)
  have "plain_page el" "a \<in> acts el"
    using el es assms(2-4) above_page_acts(2) [OF es]
    by (auto simp: shell_view_def Let_def split: option.splits)
  then show ?thesis unfolding act_def by (rule reach_act [OF assms(1) el])
qed

lemma no_task [simp]: "ap_provisionTask loaded_app = None"
  by (simp add: loaded_app_def init_app_def loadProvisionTaskCache_def)

lemma sample_selected:
  "selectedProject (loaded_app\<lparr>ap_currentView := v\<rparr>) = Some sample_project"
  "home_cluster (Some sample_project) (ap_selectedClusterId loaded_app) = Some sample_cluster"
  by (simp_all add: loaded_app_def selectedProject_def home_cluster_def sample_cluster_def find_first_def or_else_def
      sample_project_def str_def)

lemma sample_nodes [simp]:
  "sample_node \<in> set (shown_nodes nodes_shown sample_cluster)"
  "nd_id sample_node \<noteq> ch_editingNodeId (cv_home init_cluster_page)"
  by (simp_all add: shown_nodes_def filteredNodes_def init_cluster_page_def empty_home_def sample_node_def
      sample_cluster_def sample_project_def str_def)

lemma sample_clusters: "pj_clusters sample_project \<noteq> []"
  by (simp add: sample_project_def)

lemma pin_shown_reach: "sample_reach pin_shown"
proof -
  have "sample_reach first_page" unfolding first_page_def by (rule reach_start)
  then have "sample_reach loaded_page"
    unfolding loaded_page_def act_def
    by (rule reach_outside) (simp add: shell_outside_def app_outside_def)
  then have "sample_reach at_cluster"
    unfolding at_cluster_def
    by (rule act_reach [where b = "as_part OnProject (project_view (part_site (pg_state loaded_page) init_project_page))"])
      (simp_all add: screen_view_def loaded_facts acts_project_view acts_project_card,
        simp add: loaded_app_def sample_project_def init_project_page_def str_def)
  moreover have "shown_view (loaded_app\<lparr>ap_currentView := ClusterHome\<rparr>) = Some ClusterHome" by (simp add: shown_view_def)
  then obtain x y where x: "cluster_view (se_time sample_setting) (part_site (pg_state at_cluster) init_cluster_page) = Some x"
    and y: "cluster_view (se_time sample_setting) (part_site (pg_state at_nodes) nodes_shown) = Some y"
    by (simp add: cluster_view_def cluster_facts nodes_facts init_cluster_page_def empty_home_def)
  have "OnCluster (ShowTab NodesTab) \<in> acts (as_part OnCluster x)"
    by (simp, rule detail_offered [OF x, of sample_project sample_cluster])
      (auto simp: cluster_facts sample_selected site_cluster_def sample_clusters)
  ultimately have "sample_reach at_nodes"
    unfolding at_nodes_def
    by (intro act_reach [where b = "as_part OnCluster x"])
      (simp_all add: screen_view_def cluster_facts x [simplified cluster_facts] plain_cluster_view [OF x])
  moreover have "OnCluster (Activate sample_node NodeHome) \<in> acts (as_part OnCluster y)"
    using activation_offered [OF y, of sample_project sample_cluster sample_node]
    by (simp add: nodes_facts sample_selected site_cluster_def sample_clusters)
  ultimately have "sample_reach activating"
    unfolding activating_def
    by (intro act_reach [where b = "as_part OnCluster y"])
      (simp_all add: screen_view_def nodes_facts y [simplified nodes_facts] plain_cluster_view [OF y])
  then have "sample_reach at_node"
    unfolding at_node_def
    by (rule reach_answer) (simp add: activating_def act_def proceed_def nodes_facts shell_perform_def
        screen_perform_def site_job_def cluster_perform_def activate_job_def)
  then have "sample_reach at_heat_map"
    unfolding at_heat_map_def
    by (rule act_reach [where b = "as_part OnNode (node_home_view [] (part_site (pg_state at_node) init_node_page))"])
      (simp_all add: screen_view_def at_node_facts acts_node_home_view node_modules_def sample_setting_def)
  then show ?thesis
    unfolding pin_shown_def act_def by (rule reach_outside) (simp add: shell_outside_def)
qed

section \<open>Properties\<close>



text \<open>
  C2. From the socket to the screen: whenever the heat map is mounted and the event store holds pinned
  buffers, the cells drawn are those of the buffers of the event store, whatever the user did on the page and however
  the events arrived.
\<close>

theorem heat_map_shows_event_store:
  assumes "app_reach z storage e c" "sp_screen (cs_page (pg_state c)) = HeatScreen p"
    "buildBufferCells (events (sp_events (cs_page (pg_state c)))) \<noteq> []"
  shows "drawn (hm_grid p) =
    heat_picture (se_palette z) (buildBufferCells (events (sp_events (cs_page (pg_state c))))) (hm_showDirty p)"
proof -
  have g: "shell_good z (pg_state c)" by (rule whole.reachable_state(1) [OF assms(1)])
  then have "heat_good (se_palette z) p" "hm_buffers p = buffers_given (cs_page (pg_state c))"
    by (simp_all add: shell_good_def screen_good_def follows_def given_live_def assms(2))
  moreover from this(2) have "given (hm_buffers p) = buildBufferCells (events (sp_events (cs_page (pg_state c))))"
    using assms(3) by (simp add: buffers_given_def given_def useVisualizationData_def Let_def)
  ultimately show ?thesis
    using grid.complete_drawn [of "se_palette z" p "hm_grid p"] assms(3) by (simp add: heat_good_def)
qed

lemma pinned_cell:
  "buildBufferCells [pin_event] = [\<lparr>bc_id = jsint 3, bc_hit_count = 1, bc_is_dirty = False, bc_is_pinned = True,
     bc_relfilenode = jsint 7\<rparr>]"
  by code_simp

theorem heat_map_shows_event_store_witness:
  "\<exists>p. sp_screen (cs_page (pg_state pin_shown)) = HeatScreen p \<and>
     drawn (hm_grid p) = heat_picture two_colours (buildBufferCells [pin_event]) True \<and>
     length (heat_picture two_colours (buildBufferCells [pin_event]) True) = 2"
proof -
  obtain p where p: "sp_screen (cs_page (pg_state pin_shown)) = HeatScreen p" "hm_showDirty p"
    using pin_facts(2) by blast
  from heat_map_shows_event_store [OF pin_shown_reach p(1)] p pin_facts(1) show ?thesis
    by (simp add: pinned_cell heat_picture_def sample_setting_def)
qed

section \<open>What goes wrong\<close>

text \<open>
  An activation navigates whatever the answer says: one that the backend refuses leads to the notice
  that there is no active node.
\<close>

lemma refused_activation_shows_notice:
  assumes "answer (en_texts e) r = Inr (code, fs)" "\<not> truthy (field fs ''success'')"
    "\<not> ap_connected (cs_app s)" "\<not> pg_connected (cs_store s)"
  shows "shown_view (cs_app (fst (undisturbed e (activate_job n NodeHome) [r] s))) = None"
  using assms
  by (simp add: activate_job_def activateNode_def go_def on_app_def shown_view_def effects_simps
      selection_effect_def Let_def split: option.split)

text \<open>It navigates, too, if the user has left the cluster page meanwhile.\<close>

lemma late_activation_moves_user:
  assumes "sp_mount (cs_page s) \<noteq> n"
  shows "ap_currentView (cs_app (at_screen z n get put p (go v) s)) = v"
  using assms by (simp add: at_screen_def go_def on_app_def effects_simps Let_def)

end
