(* ===== verification/RootView.thy ===== *)
theory RootView
  imports AppWhole ErrorBoundary
begin

text \<open>
  What stands around the page of the application, \<^verbatim>\<open>main.tsx\<close> and \<^verbatim>\<open>ErrorBoundary.tsx\<close>: the boundary with its recovery
  panel, which takes the place of a page whose rendering fails. And two components that
  nothing mounts: the side bar of \<^verbatim>\<open>Sidebar.tsx\<close> and the notice of \<^verbatim>\<open>ClusterView.tsx\<close>.
\<close>

section \<open>The side bar\<close>

definition nav_button_style :: "bool \<Rightarrow> bool \<Rightarrow> (string \<times> ustr) list" where
  "nav_button_style active disabled =
     [(''background'', if active then str ''var(--bg-tertiary)'' else str ''transparent''),
      (''color'', if disabled then str ''var(--text-muted)'' else if active then str ''var(--accent)'' else str ''var(--text)''),
      (''cursor'', if disabled then str ''not-allowed'' else str ''pointer''),
      (''borderLeft'', if active then str ''2px solid var(--accent)'' else str ''2px solid transparent''),
      (''opacity'', if disabled then str ''0.6'' else str ''1'')]"

definition nav_button :: "view \<Rightarrow> bool \<Rightarrow> view \<Rightarrow> ustr \<Rightarrow> view element" where
  "nav_button current disabled v l =
     El ''button'' ([OnClick v, Disabled disabled] @
       map (\<lambda>(k, x). Attr k x) (nav_button_style (current = v) disabled)) [Text l]"

definition section_of :: "ustr \<Rightarrow> 'a element list \<Rightarrow> 'a element" where
  "section_of t cs = box (box [Text t] # cs)"

definition node_links :: "(view \<times> ustr) list" where
  "node_links =
     [(NodeHome, [0x8282, 0x70B9, 0x4E3B, 0x9875]), (SqlView, (str ''SQL '' @ [0x63A7, 0x5236, 0x53F0])), (WalView, (str ''WAL '' @ [0x67E5, 0x770B])), (ClogView, (str ''CLOG '' @ [0x67E5, 0x770B])),
      (WriteView, [0x5199, 0x5165, 0x94FE, 0x8DEF]), (ReadView, [0x8BFB, 0x53D6, 0x94FE, 0x8DEF]), (TransactionView, [0x4E8B, 0x52A1, 0x94FE, 0x8DEF]),
      (BufferView, (str ''Buffer '' @ [0x70ED, 0x56FE])), (LockView, [0x9501, 0x7B49, 0x5F85, 0x56FE]), (XactStateView, [0x4E8B, 0x52A1, 0x72B6, 0x6001, 0x673A]),
      (MemoryView, [0x5185, 0x5B58, 0x7ED3, 0x6784]), (PlanView, [0x6267, 0x884C, 0x8BA1, 0x5212, 0x6811])]"

definition sidebar_view :: "view \<Rightarrow> bool \<Rightarrow> bool \<Rightarrow> ustr \<Rightarrow> view element" where
  "sidebar_view current projectActive nodeActive node_label = El ''aside'' []
     [section_of [0x9879, 0x76EE, 0x5C42]
        [nav_button current False ProjectHome [0x9879, 0x76EE, 0x4E3B, 0x9875],
         nav_button current (\<not> projectActive) ClusterHome [0x96C6, 0x7FA4, 0x4E3B, 0x9875],
         nav_button current (\<not> projectActive) ComponentHome [0x7EC4, 0x4EF6, 0x4E3B, 0x9875],
         nav_button current False HostManagement [0x4E3B, 0x673A, 0x7BA1, 0x7406]],
      box [box [Text [0x5F53, 0x524D, 0x8282, 0x70B9]],
        El ''div'' [Attr ''color'' (if nodeActive then str ''var(--green)'' else str ''var(--text-muted)'')]
          [Text (if nodeActive then node_label else [0x672A, 0x6FC0, 0x6D3B])]],
      section_of [0x8282, 0x70B9, 0x5C42] (map (\<lambda>(v, l). nav_button current (\<not> nodeActive) v l) node_links)]"

definition cluster_notice :: "'a element" where
  "cluster_notice = box
     [El ''h2'' [] [Text [0x96C6, 0x7FA4, 0x9875, 0x5DF2, 0x8FC1, 0x79FB]],
      box [Text ([0x8BF7, 0x4F7F, 0x7528, 0x65B0, 0x7684, 0x201C, 0x9879, 0x76EE, 0x4E3B, 0x9875] @ str '' / '' @ [0x96C6, 0x7FA4, 0x4E3B, 0x9875] @ str '' / '' @ [0x7EC4, 0x4EF6, 0x4E3B, 0x9875, 0x201D, 0x5165, 0x53E3, 0x8FDB, 0x884C, 0x591A, 0x96C6, 0x7FA4, 0x7BA1, 0x7406, 0x4E0E, 0x62D3, 0x6251, 0x89C2, 0x6D4B, 0x3002])]]"

lemma acts_nav_button [simp]: "acts (nav_button c d v l) = (if d then {} else {v})"
  by (simp add: nav_button_def nav_button_style_def)

text \<open>
  The side bar offers every page, those of a node only with an active node, and never leads to the
  notice that there is none, except by the page of the hosts, which has no need of one.
\<close>

lemma sidebar_acts:
  "acts (sidebar_view c p n l) = {ProjectHome, HostManagement} \<union> (if p then {ClusterHome, ComponentHome} else {}) \<union>
     (if n then fst ` set node_links else {})"
  by (auto simp: sidebar_view_def section_of_def case_prod_beta)

lemma sidebar_leads_to_pages:
  assumes "v \<in> acts (sidebar_view (ap_currentView a) p (ap_connected a) l)"
  shows "v = HostManagement \<and> \<not> ap_connected a \<or> shown_view (a\<lparr>ap_currentView := v\<rparr>) = Some v"
  using assms by (auto simp: sidebar_acts shown_view_def node_links_def split: if_splits)

section \<open>The recovery panel\<close>

text \<open>
  \<^verbatim>\<open>Date.prototype.toISOString\<close> of a time in milliseconds whose year has four digits: the days since
  1970 are counted in eras of 400 years that begin with a first of March.
\<close>

definition padded :: "nat \<Rightarrow> int \<Rightarrow> ustr" where
  "padded n i = (let d = nat_str (nat i) in replicate (n - length d) 48 @ d)"

definition civil_date :: "int \<Rightarrow> int \<times> int \<times> int" where
  "civil_date days =
     (let z = days + 719468; era = z div 146097; doe = z mod 146097;
          yoe = (doe - doe div 1460 + doe div 36524 - doe div 146096) div 365;
          doy = doe - (365 * yoe + yoe div 4 - yoe div 100);
          mp = (5 * doy + 2) div 153; d = doy - (153 * mp + 2) div 5 + 1;
          m = (if mp < 10 then mp + 3 else mp - 9)
      in (yoe + era * 400 + (if m \<le> 2 then 1 else 0), m, d))"

definition toISOString :: "int \<Rightarrow> ustr" where
  "toISOString t =
     (let (y, m, d) = civil_date (t div 86400000); r = t mod 86400000
      in padded 4 y @ str ''-'' @ padded 2 m @ str ''-'' @ padded 2 d @ str ''T'' @
         padded 2 (r div 3600000) @ str '':'' @ padded 2 (r div 60000 mod 60) @ str '':'' @
         padded 2 (r div 1000 mod 60) @ str ''.'' @ padded 3 (r mod 1000) @ str ''Z'')"

lemma iso_texts:
  "toISOString 0 = str ''1970-01-01T00:00:00.000Z''"
  "toISOString 1709208000123 = str ''2024-02-29T12:00:00.123Z''"
  by code_simp+

datatype panel_action = ResetBoundary | ReloadPage

definition fallback_view :: "ustr \<Rightarrow> error_info_view \<Rightarrow> panel_action element" where
  "fallback_view caption i = El ''div'' [Attr ''role'' (str ''alert'')]
     [El ''h1'' [] [Text (caption @ str '' encountered an unrecoverable error'')],
      El ''p'' [] [Text (str ''Something broke while rendering this view. You can try to recover without losing your session, or reload the page if that doesn'' @ [39] @ str ''t help.'')],
      box ([box [Text (ce_name (ei_error i) @ str '': '' @ ce_message (ei_error i))]] @
        shown_if (ei_stack i \<noteq> [])
          [El ''details'' [] [El ''summary'' [] [Text (str ''Stack trace'')], El ''pre'' [] [Text (ei_stack i)]]] @
        shown_if (ei_componentStack i \<noteq> [])
          [El ''details'' [] [El ''summary'' [] [Text (str ''Component tree'')], El ''pre'' [] [Text (ei_componentStack i)]]] @
        [box [Text (str ''Caught at '' @ toISOString (ei_timestamp i))]]),
      box [button ResetBoundary (str ''Try to recover''), button ReloadPage (str ''Reload page'')]]"

lemma fallback_simps [simp]:
  "acts (fallback_view l i) = {ResetBoundary, ReloadPage}" "plain_page (fallback_view l i)"
  by (auto simp: fallback_view_def shown_if_def)

section \<open>The page in its boundary\<close>

text \<open>
  What is mounted: the boundary and, unless it holds an error, the page. A page whose rendering
  fails is unmounted.
\<close>

record root =
  rt_boundary :: boundary
  rt_shell :: shell

definition root_view :: "setting \<Rightarrow> root \<Rightarrow> (shell_action + panel_action) element option" where
  "root_view z r = (case bd_info (rt_boundary r) of
     None \<Rightarrow> map_option (as_part Inl) (shell_view z (rt_shell r))
   | Some i \<Rightarrow> Some (as_part Inr (fallback_view (str ''learn_pg'') i)))"

text \<open>
  The button \<^verbatim>\<open>Try to recover\<close>: the children are rendered from scratch. The stores and the storage of the
  browser are outside the page and remain.
\<close>

definition recovered :: "setting \<Rightarrow> root \<Rightarrow> root" where
  "recovered z r =
     (let s = rt_shell r; p = cs_page s
      in \<lparr>rt_boundary = reset_boundary (rt_boundary r),
          rt_shell = rendered z \<lparr>cs_app = init_app (ap_storage (cs_app s)), cs_store = cs_store s,
            cs_page = \<lparr>sp_screen = ProjectScreen init_project_page, sp_mount = Suc (sp_mount p), sp_fresh = True,
              sp_dialog = None, sp_version = [], sp_events = sp_events p, sp_snap = no_snapshot,
              sp_wsConnected = False, sp_renders = sp_renders p, sp_snapshots = 0\<rparr>\<rparr>\<rparr>)"

lemma selection_projects [simp]:
  "ap_projects (selection_effect a) = ap_projects a" "ap_saveTimer (selection_effect a) = ap_saveTimer a"
  "ap_puts (selection_effect a) = ap_puts a" "ap_connected (selection_effect a) = ap_connected a"
  by (simp_all add: selection_effect_def Let_def split: option.split)

text \<open>
  Recovery shows a page again whose state is good, whatever the page was when it failed. Connection and events
  are kept; navigation, selection, the workspace on show and an autosave that was pending are not.
\<close>

lemma recovery_starts_anew:
  "shell_good z (rt_shell (recovered z r))" "bd_info (rt_boundary (recovered z r)) = None"
  "cs_store (rt_shell (recovered z r)) = cs_store (rt_shell r)"
  "sp_events (cs_page (rt_shell (recovered z r))) = sp_events (cs_page (rt_shell r))"
  "ap_currentView (cs_app (rt_shell (recovered z r))) = ProjectHome"
  "ap_projects (cs_app (rt_shell (recovered z r))) = []" "ap_saveTimer (cs_app (rt_shell (recovered z r))) = None"
proof -
  show "shell_good z (rt_shell (recovered z r))"
    unfolding recovered_def Let_def
    by (simp, rule rendered_good) (simp_all add: app_good_def saved_or_pending_def init_app_def screen_good_def)
qed (simp_all add: recovered_def Let_def reset_boundary_def effects_simps init_app_def)

text \<open>
  A failed rendering leads to the panel, with the error reported; the panel can always be used, and
  recovery makes the page usable again unless a running task from the storage cannot be shown.
\<close>

lemma failure_shows_panel:
  "root_view z (r\<lparr>rt_boundary := fst (caught now e cs (rt_boundary r))\<rparr>) =
     Some (as_part Inr (fallback_view (str ''learn_pg'')
       \<lparr>ei_error = e, ei_stack = trimStack (stack_text (ce_stack e)) STACK_LIMIT_BYTES,
        ei_componentStack = trimStack (stack_text cs) STACK_LIMIT_BYTES, ei_timestamp = now\<rparr>))"
  by (simp add: root_view_def caught_def componentDidCatch_def getDerivedStateFromError_def)

lemma recovery_shows_page:
  assumes "ap_storage (cs_app (rt_shell r)) = None"
  shows "root_view z (recovered z r) \<noteq> None"
proof -
  let ?s = "rt_shell (recovered z r)"
  have "sp_screen (cs_page ?s) = ProjectScreen init_project_page"
  proof -
    have "component_for (shown_view (app_effects st (init_app x))) = ProjectHomeView" for st x
      by (simp add: effects_simps shown_view_def component_for_def init_app_def)
    then show ?thesis
      by (simp add: recovered_def Let_def, subst rendered_kept(1))
        (simp_all add: type_of_def with_properties_def refreshed_def)
  qed
  moreover have "ap_provisionTask (cs_app ?s) = None"
    using assms by (simp add: recovered_def Let_def effects_simps init_app_def loadProvisionTaskCache_def selection_effect_def
        split: option.split)
  ultimately show ?thesis
    using recovery_starts_anew(2) [of z r]
    by (simp add: root_view_def shell_view_def screen_view_def above_page_def Let_def)
qed

end
