(* ===== verification/Spec2Isabelle.thy ===== *)
theory Spec2Isabelle
  imports VisualizationData MemoryStructs LockGraph WebVitals WebSocketHook ErrorBoundary ClusterHome
    HostManagement JsonText NodePages Charts Connections TaskPanel
    ProjectPage Dialog ComponentPage NodePage Snapshots Topology Overview ClusterActions ManagerView ProjectView
    ComponentView NodeHomeView DialogView FrameView FlowViews TableViews GraphViews RootView
begin

text \<open>
  A verification library for the frontend of the PostgreSQL kernel visualizer
  (\<^verbatim>\<open>src/frontend/src\<close>, TypeScript and React).

  \<^bold>\<open>The program.\<close> The frontend is one page that keeps a workspace of projects, clusters, nodes and
  components, saves it to a backend, connects to a node and shows what a probe reports of it. It
  talks to the backend by \<^verbatim>\<open>fetch\<close>, partly through an API client with retries, and receives probe
  events over a WebSocket into a store; hooks derive the visualisations from the store, and errors
  and web vitals are reported in batches. The parts meet in three places: the connection and event
  stores (\<open>Stores\<close>), the list of projects of the page (\<open>Workspace\<close>, \<open>App\<close>), and the callbacks the
  views call, which are composed with the page's own handlers where a view is modelled.

  \<^bold>\<open>Foundations.\<close>
  \<^item> \<open>JsPrelude\<close>: strings as lists of UTF-16 units, slices, and the locales of the interfaces that
    several components share: bounded logs (\<open>bounded_log\<close>), insertion-ordered maps (\<open>ordered_map\<close>
    and its extension \<open>keyed_fold\<close>) and batching reporters (\<open>batch_reporter\<close>).
  \<^item> \<open>JsValues\<close>: JavaScript values and their conversions. Numbers are exact rationals with infinities
    and NaN where the program has doubles; -0 is 0.
  \<^item> \<open>JsJson\<close>, \<open>JsonText\<close>: \<^verbatim>\<open>JSON.parse\<close> and \<^verbatim>\<open>JSON.stringify\<close>, and the round trip between them. The
    parser takes the length of its input as fuel, which is enough since every call consumes a unit
    (\<open>json_parse_fuel\<close>). Members keep the order they are added in; the different order JavaScript
    gives to keys that look like array indices is not modelled.
  \<^item> \<open>EditForms\<close>: the contract of the edit forms, the locales \<open>edit_form\<close> and \<open>targeted_form\<close>;
    \<open>Polling\<close>: that of an effect that polls and drops late answers, the locale \<open>polled_effect\<close>.
  \<^item> \<open>Pages\<close>: rendered elements. An element has a tag, its text, its children and those of its
    properties that depend on the state or make it act; fixed classes, styles, placeholders and icons
    are left out. What can be done on an element is computed from it (\<open>acts\<close>): disabled buttons and
    what they hide do nothing, and clicks rise through the elements around them.
  \<^item> \<open>Handlers\<close>: page machines. A handler is a \<open>job\<close>: it changes the state, looks at the clock or
    sends a request and goes on with the answer. A page performs the actions it renders, and those of
    its surroundings (timers, new data), and the answers come in any order; \<open>page_reach\<close> holds of
    the pages that can be reached. The locale \<open>page_contract\<close> proves an invariant and a property of
    every request handler by handler, the locale \<open>busy_guard\<close> that a flag which disables a control
    keeps a second run of its handler from starting.
  \<^item> \<open>Drawings\<close>: what effects draw into an \<^verbatim>\<open>svg\<close> element through d3, as figures, and when they draw
    (\<open>commit\<close>): when the element is new or a dependency has changed. The locales \<open>chart\<close> and
    \<open>steady_chart\<close> tell which picture an element holds.
  \<^item> \<open>Site\<close>: a view together with the state of the page of the application and the connection store,
    which its handlers change through callbacks.

  \<^bold>\<open>Library code.\<close>
  \<^item> \<open>Stores\<close>: \<^verbatim>\<open>stores/eventStore.ts\<close> and \<^verbatim>\<open>stores/pgStore.ts\<close>.
  \<^item> \<open>ApiClient\<close>: \<^verbatim>\<open>lib/api.ts\<close>. The browser is the record \<open>world\<close> of a run: what each fetch answers,
    random numbers, request ids and the caller's signal. The retry loop is a recursive function; the
    number of attempts left decreases, so it ends.
  \<^item> \<open>ErrorReporter\<close>, \<open>WebVitals\<close>: \<^verbatim>\<open>lib/errorReporter.ts\<close> and \<^verbatim>\<open>lib/webVitals.ts\<close>, both instances of
    \<open>batch_reporter\<close>.
  \<^item> \<open>WebSocketHook\<close>: \<^verbatim>\<open>hooks/useWebSocket.ts\<close> with all its refs, sockets and timers; events of
    sockets the hook has given up are included. It refines a small phase machine.

  \<^bold>\<open>The workspace and its page.\<close>
  \<^item> \<open>Workspace\<close>: \<^verbatim>\<open>types/workspace.ts\<close>, \<^verbatim>\<open>types/cluster.ts\<close>, the migration, the JSON form and the
    operations on the list of projects of \<^verbatim>\<open>App.tsx\<close>. Fresh ids are arguments.
  \<^item> \<open>Templates\<close>: \<^verbatim>\<open>types/template.ts\<close>.
  \<^item> \<open>App\<close>: loading, autosave, selection, template creation and provisioning tasks of \<^verbatim>\<open>App.tsx\<close>;
    \<open>TaskPanel\<close>: its panel of recent tasks and \<^verbatim>\<open>ToastNotification.tsx\<close>; \<open>Snapshots\<close>: its polling of
    the snapshot of the connected node.

  \<^bold>\<open>The views\<close> (theory, file).
  \<^item> \<open>ProjectPage\<close>: \<^verbatim>\<open>ProjectHomeView.tsx\<close>; \<open>Dialog\<close>: \<^verbatim>\<open>TemplateDialog.tsx\<close>.
  \<^item> \<open>ClusterHome\<close>, \<open>Overview\<close>, \<open>Topology\<close>: \<^verbatim>\<open>ClusterHomeView.tsx\<close>; \<open>ComponentPage\<close>: \<^verbatim>\<open>ComponentHomeView.tsx\<close>;
    \<open>HostManagement\<close>: \<^verbatim>\<open>HostManagementView.tsx\<close>; \<open>Connections\<close>: \<^verbatim>\<open>ConnectionManager.tsx\<close>.
  \<^item> \<open>NodePage\<close>: \<^verbatim>\<open>NodeHomeView.tsx\<close> and the texts of the frame; \<open>NodePages\<close>: \<^verbatim>\<open>SQLConsole.tsx\<close>,
    \<^verbatim>\<open>WALViewer.tsx\<close> and \<^verbatim>\<open>CLOGViewer.tsx\<close>.
  \<^item> \<open>VisualizationData\<close>: \<^verbatim>\<open>hooks/useVisualizationData.ts\<close>; \<open>Charts\<close>: \<^verbatim>\<open>BufferHeatmapView.tsx\<close>,
    \<^verbatim>\<open>PipelineView.tsx\<close> and \<^verbatim>\<open>TransactionStateView.tsx\<close>; \<open>MemoryStructs\<close>: \<^verbatim>\<open>MemoryStructView.tsx\<close>;
    \<open>LockGraph\<close>: \<^verbatim>\<open>LockGraphView.tsx\<close> and the lock graph of a snapshot.
  \<^item> \<open>ErrorBoundary\<close>: \<^verbatim>\<open>ErrorBoundary.tsx\<close>.

  \<^bold>\<open>The rendered pages.\<close> The theories above hold the states and the handlers of the views; these hold
  what the same files render, and the views as page machines.
  \<^item> \<open>ProjectView\<close>, \<open>ClusterView\<close> with \<open>ClusterActions\<close>, \<open>ComponentView\<close>, \<open>HostView\<close>,
    \<open>NodeHomeView\<close>, \<open>ManagerView\<close>, \<open>DialogView\<close>: the files of \<open>ProjectPage\<close>, \<open>ClusterHome\<close>,
    \<open>ComponentPage\<close>, \<open>HostManagement\<close>, \<open>NodePage\<close>, \<open>Connections\<close> and \<open>Dialog\<close>.
  \<^item> \<open>NodeViews\<close>: the files of \<open>NodePages\<close> and \<^verbatim>\<open>NodePageHeader.tsx\<close>.
  \<^item> \<open>ChartViews\<close>: \<^verbatim>\<open>BufferHeatmapView.tsx\<close>; \<open>FlowViews\<close>: \<^verbatim>\<open>TransactionStateView.tsx\<close> and
    \<^verbatim>\<open>PipelineView.tsx\<close>; \<open>TableViews\<close>: \<^verbatim>\<open>MemoryStructView.tsx\<close>; \<open>GraphViews\<close>: \<^verbatim>\<open>LockGraphView.tsx\<close> and
    \<^verbatim>\<open>PlanTreeView.tsx\<close>. The widths of containers, the scales, tick marks, colour interpolators and
    layouts of d3 are arguments. The lock page may render without end, so its renders are a
    \<open>partial_function\<close> into \<open>option\<close>, and that it settles is proved where it does.
  \<^item> \<open>FrameView\<close>: \<^verbatim>\<open>Header.tsx\<close>, \<^verbatim>\<open>StatusBar.tsx\<close>, \<^verbatim>\<open>ToastNotification.tsx\<close> and the frame of
    \<^verbatim>\<open>App.tsx\<close> around the views: task bar, panel of recent tasks, notices.

  \<^bold>\<open>The whole page.\<close>
  \<^item> \<open>Embedding\<close>: a page inside another one: its actions under a name of the whole, its handlers on
    the state of the whole.
  \<^item> \<open>AppView\<close>: all of \<^verbatim>\<open>App.tsx\<close> as one page machine: the view that is mounted for the navigation
    state, with the properties it is given, the frame around it and the dialog over it, and every
    action offered anywhere. A view is mounted anew if its component changes; a number tells the
    mountings apart, so that a handler whose view is gone still changes the application but no view.
    \<^verbatim>\<open>useDeferredValue\<close>, which only delays, is left out; numbers of renders and of snapshots stand
    for the identities of the lists made in them. The answers to the page's own polling, the timers
    of autosave and toast, the frames of the socket and the snapshots are events from outside here;
    when they are asked for is the subject of \<open>App\<close>, \<open>TaskPanel\<close>, \<open>WebSocketHook\<close> and \<open>Snapshots\<close>.
  \<^item> \<open>AppRun\<close>: every handler of every view keeps the invariant of the whole page. \<open>AppWhole\<close>: what
    follows for all reachable states, and a run from the first load to a drawn heat map.
  \<^item> \<open>RootView\<close>: the boundary of \<^verbatim>\<open>main.tsx\<close> around the page with its recovery panel, and the components
    that nothing mounts, \<^verbatim>\<open>Sidebar.tsx\<close> and \<^verbatim>\<open>ClusterView.tsx\<close>.

  \<^bold>\<open>How code is modelled.\<close> The state of a component is a record; a handler is a function on it that
  returns the new state, with the requests or callbacks it makes where they matter. An exchange with
  the backend takes the \<open>reply\<close> as an argument and, in the theories of the states and handlers, is one
  step from the request to the last state change. In the page machines the same exchange is a job
  that other actions interleave with, and lemmas of both state that a job which runs undisturbed does
  what the handler does. Polling, timers and effects are separate steps of a transition relation
  (\<open>WebSocketHook\<close>, \<open>TaskPanel\<close>, \<open>Snapshots\<close>, \<open>Overview\<close>, \<open>App\<close>). React's batching is modelled as one new state per
  event, followed by the effects whose dependencies changed. Exceptions are \<open>None\<close> or values of a sum
  type; the texts an engine gives to its own exceptions are arguments.

  \<^bold>\<open>What is shown.\<close>
  \<^item> Delivery: reports and vitals are sent exactly once and in order; frames reach the event store;
    every change of the workspace is saved or about to be; what is saved is what is loaded.
  \<^item> Invariants: one live socket, reconnection never stranded and bounded; ids unique, clusters never
    empty; profiles well-formed; the task panel asks only while it is open; no snapshot is shown
    without a connection; the host list is the backend's last word.
  \<^item> Function: the deadlock search is exact on the graph it is given; the retry loop behaves as its
    first final attempt; the edit forms store what they hold and nothing else; the tables and
    statistics are what the event stream says; the drawings show what the data says.
  \<^item> Interaction: a control whose handler must not run twice at once is disabled while it runs; what a
    page sends is well-formed however it is used; no picture outlives its data; the page as a whole
    shows the view that is navigated to, and the data of the event store.
  \<^item> Faults: lemmas without a number show behaviour the program does not intend; \<^verbatim>\<open>PROJECT.json\<close> lists
    them with their places.

  \<^bold>\<open>Not modelled.\<close> Fixed styles, classes, placeholders and icons; what d3, a package outside the
  repository's sources, computes, and its zooming; the focus and the scrolling of elements;
  \<^verbatim>\<open>types/task.ts\<close>, which nothing imports; the Go backend, the Rust and C collector and the
  deployment, which are other programs. The payloads of probe
  events are unconstrained JavaScript values.
\<close>

end
